(* ===== verification/Prelude.thy ===== *)
theory Prelude
  imports Main "HOL-Library.Word"
begin

text \<open>
  Shared vocabulary of the development: the machine integer types of the Rust
  sources, results (\<open>Result<T, E>\<close> is the sum type \<open>'e + 'a\<close>, \<open>Err\<close> on the left),
  the sequencing operator that stands for the question mark operator of Rust,
  big-endian integer encodings (\<open>to_be_bytes\<close> and \<open>from_be_bytes\<close> of the Rust
  standard library), saturating arithmetic, decimal printing for error details,
  and the facts on them that every component uses.
\<close>

unbundle bit_operations_syntax

section \<open>Types\<close>

type_synonym u8 = "8 word"
type_synonym u16 = "16 word"
type_synonym u32 = "32 word"
type_synonym u64 = "64 word"
type_synonym bytes = "8 word list"

named_theorems wire_write "definitions of the writer operations"
named_theorems reader_eval "evaluation of reader operations on a reader with known remaining bytes"
named_theorems reader_inv "inversion of successful reader operations"
named_theorems limit_defs "the constants of the two bounds catalogues"

section \<open>Results\<close>

abbreviation Ok :: "'a \<Rightarrow> 'e + 'a" where
  "Ok x \<equiv> Inr x"

abbreviation Err :: "'e \<Rightarrow> 'e + 'a" where
  "Err e \<equiv> Inl e"

definition rbind :: "'e + 'a \<Rightarrow> ('a \<Rightarrow> 'e + 'b) \<Rightarrow> 'e + 'b" where
  "rbind m f = (case m of Inl e \<Rightarrow> Inl e | Inr x \<Rightarrow> f x)"

definition map_err :: "('e \<Rightarrow> 'f) \<Rightarrow> 'e + 'a \<Rightarrow> 'f + 'a" where
  "map_err g m = (case m of Inl e \<Rightarrow> Inl (g e) | Inr x \<Rightarrow> Inr x)"

definition result_ok :: "'e + 'a \<Rightarrow> 'a option" where
  "result_ok m = (case m of Inl e \<Rightarrow> None | Inr x \<Rightarrow> Some x)"

lemma rbind_simps [simp]:
  "rbind (Inl e) f = Inl e"
  "rbind (Inr x) f = f x"
  by (simp_all add: rbind_def)

lemma rbind_Inr_iff: "rbind m f = Inr y \<longleftrightarrow> (\<exists>x. m = Inr x \<and> f x = Inr y)"
  by (cases m) auto

lemma rbind_Inl_iff: "rbind m f = Inl e \<longleftrightarrow> m = Inl e \<or> (\<exists>x. m = Inr x \<and> f x = Inl e)"
  by (cases m) auto

lemma rbind_assoc: "rbind (rbind m f) g = rbind m (\<lambda>x. rbind (f x) g)"
  by (cases m) auto

text \<open>The continuation is only simplified once the first computation is known to succeed.\<close>

lemma rbind_weak_cong [cong]: "m = m' \<Longrightarrow> rbind m f = rbind m' f"
  by simp

lemma rbind_cong: "m = m' \<Longrightarrow> (\<And>x. m' = Inr x \<Longrightarrow> f x = f' x) \<Longrightarrow> rbind m f = rbind m' f'"
  by (cases m') auto

lemma map_err_simps [simp]:
  "map_err g (Inl e) = Inl (g e)"
  "map_err g (Inr x) = Inr x"
  "map_err g m = Inr y \<longleftrightarrow> m = Inr y"
  by (auto simp: map_err_def split: sum.splits)

lemma result_ok_simps [simp]:
  "result_ok (Inl e) = None"
  "result_ok (Inr x) = Some x"
  "result_ok m = Some y \<longleftrightarrow> m = Inr y"
  "result_ok m = None \<longleftrightarrow> (\<exists>e. m = Inl e)"
  by (auto simp: result_ok_def split: sum.splits)

section \<open>Decimal printing\<close>

fun show_nat :: "nat \<Rightarrow> string" where
  "show_nat n =
     (if n < 10 then [char_of (48 + n)] else show_nat (n div 10) @ [char_of (48 + n mod 10)])"

declare show_nat.simps [simp del]

section \<open>Saturating arithmetic\<close>

definition saturating_sub :: "'a::len word \<Rightarrow> 'a word \<Rightarrow> 'a word" where
  "saturating_sub a b = (if a < b then 0 else a - b)"

definition saturating_add :: "'a::len word \<Rightarrow> 'a word \<Rightarrow> 'a word" where
  "saturating_add a b =
     (if unat a + unat b < 2 ^ LENGTH('a) then a + b else - 1)"

definition saturating_mul :: "'a::len word \<Rightarrow> 'a word \<Rightarrow> 'a word" where
  "saturating_mul a b =
     (if unat a * unat b < 2 ^ LENGTH('a) then a * b else - 1)"

lemma unat_saturating_sub: "unat (saturating_sub a b) = unat a - unat b"
  by (auto simp: saturating_sub_def word_less_nat_alt unat_sub word_le_nat_alt)

lemma unat_saturating_add:
  "unat (saturating_add a b) = min (unat a + unat b) (2 ^ LENGTH('a) - 1)"
  for a b :: "'a::len word"
  by (auto simp: saturating_add_def unat_word_ariths unsigned_minus_1_eq_mask mask_eq_exp_minus_1)

lemma unat_saturating_mul:
  "unat (saturating_mul a b) = min (unat a * unat b) (2 ^ LENGTH('a) - 1)"
  for a b :: "'a::len word"
  by (auto simp: saturating_mul_def unat_word_ariths unsigned_minus_1_eq_mask mask_eq_exp_minus_1)

lemma unat_inc: "v \<noteq> - 1 \<Longrightarrow> unat (v + 1) = unat v + 1"
  for v :: "'a::len word"
proof -
  assume "v \<noteq> - 1"
  then have "unat v \<noteq> 2 ^ LENGTH('a) - 1"
    by (metis mask_eq_exp_minus_1 unsigned_minus_1_eq_mask word_unat_eq_iff)
  then have "unat v + 1 < 2 ^ LENGTH('a)"
    using unsigned_less [of v, where 'a = nat] by linarith
  then show ?thesis by (simp add: unat_word_ariths)
qed

section \<open>Flag words\<close>

lemma flag_and: "(if c then x OR f else x) AND g = (x AND g) OR (if c then f AND g else 0)"
  for x f g :: "'a::len word"
  by (simp add: bit.conj_disj_distrib2)

section \<open>Big-endian integers\<close>

fun be_bytes :: "nat \<Rightarrow> nat \<Rightarrow> bytes" where
  "be_bytes 0 v = []"
| "be_bytes (Suc n) v = be_bytes n (v div 256) @ [of_nat v]"

definition of_be :: "bytes \<Rightarrow> nat" where
  "of_be bs = foldl (\<lambda>a b. a * 256 + unat b) 0 bs"

definition be16 :: "u16 \<Rightarrow> bytes" where
  "be16 v = be_bytes 2 (unat v)"

definition be32 :: "u32 \<Rightarrow> bytes" where
  "be32 v = be_bytes 4 (unat v)"

definition be64 :: "u64 \<Rightarrow> bytes" where
  "be64 v = be_bytes 8 (unat v)"

lemma length_be_bytes [simp]: "length (be_bytes n v) = n"
  by (induction n arbitrary: v) auto

lemma of_be_Nil [simp]: "of_be [] = 0"
  by (simp add: of_be_def)

lemma of_be_snoc [simp]: "of_be (bs @ [b]) = of_be bs * 256 + unat b"
  by (simp add: of_be_def)

lemma unat_of_nat_byte [simp]: "unat (of_nat v :: u8) = v mod 256"
  by (simp add: unat_of_nat)

lemma of_be_be_bytes: "of_be (be_bytes n v) = v mod 256 ^ n"
proof (induction n arbitrary: v)
  case 0
  then show ?case by simp
next
  case (Suc n)
  have "v mod (256 * 256 ^ n) = 256 * (v div 256 mod 256 ^ n) + v mod 256"
    by (rule mod_mult2_eq)
  with Suc show ?case by simp
qed

lemma of_be_less: "of_be bs < 256 ^ length bs"
proof (induction bs rule: rev_induct)
  case Nil
  then show ?case by simp
next
  case (snoc b bs)
  have "unat b < 256" using unsigned_less [of b, where 'a = nat] by simp
  with snoc have "of_be bs * 256 + unat b < (of_be bs + 1) * 256" by simp
  also have "\<dots> \<le> 256 ^ length bs * 256" using snoc by (intro mult_right_mono) auto
  finally show ?case by (simp add: mult.commute)
qed

lemma be_bytes_of_be: "be_bytes (length bs) (of_be bs) = bs"
proof (induction bs rule: rev_induct)
  case Nil
  then show ?case by simp
next
  case (snoc b bs)
  have "unat b < 256" using unsigned_less [of b, where 'a = nat] by simp
  then have "(of_be bs * 256 + unat b) div 256 = of_be bs" by simp
  moreover have "(of_nat (of_be bs * 256 + unat b) :: u8) = b"
    by (rule word_unat_eq_iff [THEN iffD2]) (simp only: unat_of_nat_byte, simp add: \<open>unat b < 256\<close>)
  ultimately show ?case using snoc by simp
qed

lemma length_be [simp]:
  "length (be16 v) = 2" "length (be32 w) = 4" "length (be64 x) = 8"
  by (simp_all add: be16_def be32_def be64_def)

lemma unat_u8_less [simp]: "unat (v :: u8) < 256"
  using unsigned_less [of v, where 'a = nat] by simp

lemma unat_u16_less [simp]: "unat (v :: u16) < 65536"
  using unsigned_less [of v, where 'a = nat] by simp

lemma unat_u32_less [simp]: "unat (v :: u32) < 4294967296"
  using unsigned_less [of v, where 'a = nat] by simp

lemma unat_u64_less [simp]: "unat (v :: u64) < 18446744073709551616"
  using unsigned_less [of v, where 'a = nat] by simp

lemma be16_of_be [simp]: "of_nat (of_be (be16 v)) = v"
  by (simp add: be16_def of_be_be_bytes word_unat_eq_iff unat_of_nat)

lemma be32_of_be [simp]: "of_nat (of_be (be32 v)) = v"
  by (simp add: be32_def of_be_be_bytes word_unat_eq_iff unat_of_nat)

lemma be64_of_be [simp]: "of_nat (of_be (be64 v)) = v"
  by (simp add: be64_def of_be_be_bytes word_unat_eq_iff unat_of_nat)

lemma be16_of_bytes: "length bs = 2 \<Longrightarrow> be16 (of_nat (of_be bs)) = bs"
  using of_be_less [of bs] be_bytes_of_be [of bs] by (simp add: be16_def unat_of_nat)

lemma be32_of_bytes: "length bs = 4 \<Longrightarrow> be32 (of_nat (of_be bs)) = bs"
  using of_be_less [of bs] be_bytes_of_be [of bs] by (simp add: be32_def unat_of_nat)

lemma be64_of_bytes: "length bs = 8 \<Longrightarrow> be64 (of_nat (of_be bs)) = bs"
  using of_be_less [of bs] be_bytes_of_be [of bs] by (simp add: be64_def unat_of_nat)

lemma be16_inject [simp]: "be16 v = be16 w \<longleftrightarrow> v = w"
  by (metis be16_of_be)

lemma be32_inject [simp]: "be32 v = be32 w \<longleftrightarrow> v = w"
  by (metis be32_of_be)

lemma be64_inject [simp]: "be64 v = be64 w \<longleftrightarrow> v = w"
  by (metis be64_of_be)

lemma unat_of_nat_u32: "n < 4294967296 \<Longrightarrow> unat (of_nat n :: u32) = n"
  by (simp add: unat_of_nat)

lemma unat_of_nat_u16: "n < 65536 \<Longrightarrow> unat (of_nat n :: u16) = n"
  by (simp add: unat_of_nat)

lemma unat_of_nat_u64: "n < 18446744073709551616 \<Longrightarrow> unat (of_nat n :: u64) = n"
  by (simp add: unat_of_nat)

end
