(* ===== verification/Wire_Bin.thy ===== *)
theory Wire_Bin
  imports Prelude
begin

text \<open>
  The binary codec primitives of \<^verbatim>\<open>crates/wire-types/src/bin.rs\<close> and the error
  taxonomy of \<^verbatim>\<open>error.rs\<close>. A \<open>writer\<close> is an append-only byte buffer and every
  writer method is a function on it; \<open>wseq\<close> runs a sequence of method calls and
  \<open>writes\<close> runs one on a fresh writer and takes its bytes. A \<open>reader\<close> is a buffer with a cursor and every reader method
  returns the value with the advanced reader, or the error.

  Proofs use the view \<open>rd pre post\<close> of a reader: \<open>pre\<close> has been consumed and
  \<open>post\<close> is left. The collection \<open>reader_eval\<close> runs a reader over known bytes, and
  \<open>reader_inv\<close> recovers the bytes from a successful read.
\<close>

section \<open>Errors\<close>

datatype wire_error =
    Truncated string
  | BadLength string nat nat
  | BadVersion string u8
  | BadField string string
  | Trailing string nat
  | TooLarge string nat nat
  | UnknownType u8 bytes u64

section \<open>Writer\<close>

record writer =
  wbuf :: bytes

definition Writer_new :: writer where
  "Writer_new = \<lparr>wbuf = []\<rparr>"

definition Writer_u8 :: "u8 \<Rightarrow> writer \<Rightarrow> writer" where
  "Writer_u8 v w = w\<lparr>wbuf := wbuf w @ [v]\<rparr>"

definition Writer_u16be :: "u16 \<Rightarrow> writer \<Rightarrow> writer" where
  "Writer_u16be v w = w\<lparr>wbuf := wbuf w @ be16 v\<rparr>"

definition Writer_u32be :: "u32 \<Rightarrow> writer \<Rightarrow> writer" where
  "Writer_u32be v w = w\<lparr>wbuf := wbuf w @ be32 v\<rparr>"

definition Writer_u64be :: "u64 \<Rightarrow> writer \<Rightarrow> writer" where
  "Writer_u64be v w = w\<lparr>wbuf := wbuf w @ be64 v\<rparr>"

definition Writer_raw :: "bytes \<Rightarrow> writer \<Rightarrow> writer" where
  "Writer_raw v w = w\<lparr>wbuf := wbuf w @ v\<rparr>"

definition Writer_lp :: "bytes \<Rightarrow> writer \<Rightarrow> writer" where
  "Writer_lp v w = Writer_raw v (Writer_u32be (of_nat (length v)) w)"

definition Writer_finish :: "writer \<Rightarrow> bytes" where
  "Writer_finish w = wbuf w"

definition wseq :: "(writer \<Rightarrow> writer) list \<Rightarrow> writer \<Rightarrow> writer" where
  "wseq ops w = fold (\<lambda>f w. f w) ops w"

definition writes :: "(writer \<Rightarrow> writer) list \<Rightarrow> bytes" where
  "writes ops = Writer_finish (wseq ops Writer_new)"

section \<open>Reader\<close>

record reader =
  rbuf :: bytes
  rpos :: nat

definition Reader_new :: "bytes \<Rightarrow> reader" where
  "Reader_new buf = \<lparr>rbuf = buf, rpos = 0\<rparr>"

definition Reader_remaining :: "reader \<Rightarrow> nat" where
  "Reader_remaining r = length (rbuf r) - rpos r"

definition Reader_position :: "reader \<Rightarrow> nat" where
  "Reader_position r = rpos r"

definition Reader_take :: "nat \<Rightarrow> string \<Rightarrow> reader \<Rightarrow> wire_error + (bytes \<times> reader)" where
  "Reader_take n at r =
     (if Reader_remaining r < n then Err (Truncated at)
      else Ok (take n (drop (rpos r) (rbuf r)), r\<lparr>rpos := rpos r + n\<rparr>))"

definition Reader_u8 :: "string \<Rightarrow> reader \<Rightarrow> wire_error + (u8 \<times> reader)" where
  "Reader_u8 at r = rbind (Reader_take 1 at r) (\<lambda>(bs, r). Ok (hd bs, r))"

definition Reader_u16be :: "string \<Rightarrow> reader \<Rightarrow> wire_error + (u16 \<times> reader)" where
  "Reader_u16be at r = rbind (Reader_take 2 at r) (\<lambda>(bs, r). Ok (of_nat (of_be bs), r))"

definition Reader_u32be :: "string \<Rightarrow> reader \<Rightarrow> wire_error + (u32 \<times> reader)" where
  "Reader_u32be at r = rbind (Reader_take 4 at r) (\<lambda>(bs, r). Ok (of_nat (of_be bs), r))"

definition Reader_u64be :: "string \<Rightarrow> reader \<Rightarrow> wire_error + (u64 \<times> reader)" where
  "Reader_u64be at r = rbind (Reader_take 8 at r) (\<lambda>(bs, r). Ok (of_nat (of_be bs), r))"

definition Reader_lp :: "nat \<Rightarrow> string \<Rightarrow> reader \<Rightarrow> wire_error + (bytes \<times> reader)" where
  "Reader_lp mx at r =
     rbind (Reader_u32be at r) (\<lambda>(len, r).
       if unat len > mx then Err (BadLength at (unat len) mx)
       else Reader_take (unat len) at r)"

definition Reader_peek_u32be :: "string \<Rightarrow> reader \<Rightarrow> wire_error + u32" where
  "Reader_peek_u32be at r =
     (if Reader_remaining r < 4 then Err (Truncated at)
      else Ok (of_nat (of_be (take 4 (drop (rpos r) (rbuf r))))))"

definition Reader_expect_end :: "string \<Rightarrow> reader \<Rightarrow> wire_error + unit" where
  "Reader_expect_end at r =
     (if Reader_remaining r \<noteq> 0 then Err (Trailing at (Reader_remaining r)) else Ok ())"

section \<open>Writer facts\<close>

lemmas writer_defs [wire_write] =
  Writer_new_def Writer_u8_def Writer_u16be_def Writer_u32be_def Writer_u64be_def
  Writer_raw_def Writer_lp_def Writer_finish_def wseq_def writes_def

section \<open>The reader view\<close>

definition rd :: "bytes \<Rightarrow> bytes \<Rightarrow> reader" where
  "rd pre post = \<lparr>rbuf = pre @ post, rpos = length pre\<rparr>"

lemma Reader_new_rd: "Reader_new bs = rd [] bs"
  by (simp add: Reader_new_def rd_def)

lemma remaining_rd [simp]: "Reader_remaining (rd pre post) = length post"
  by (simp add: Reader_remaining_def rd_def)

lemma position_rd [simp]: "Reader_position (rd pre post) = length pre"
  by (simp add: Reader_position_def rd_def)

lemma Reader_take_rd:
  "Reader_take n at (rd pre post) =
     (if length post < n then Err (Truncated at)
      else Ok (take n post, rd (pre @ take n post) (drop n post)))"
  by (auto simp: Reader_take_def rd_def Reader_remaining_def)

lemma Reader_take_eval [reader_eval]:
  "length xs = n \<Longrightarrow> Reader_take n at (rd pre (xs @ post)) = Ok (xs, rd (pre @ xs) post)"
  "length xs = n \<Longrightarrow> Reader_take n at (rd pre xs) = Ok (xs, rd (pre @ xs) [])"
  by (simp_all add: Reader_take_rd)

lemma Reader_take_inv [reader_inv]:
  "Reader_take n at (rd pre post) = Ok (x, r') \<longleftrightarrow>
     length x = n \<and> (\<exists>post'. post = x @ post' \<and> r' = rd (pre @ x) post')"
  by (auto simp: Reader_take_rd intro!: exI [of _ "drop n post"])

lemma Reader_take_length: "Reader_take n at r = Ok (x, r') \<Longrightarrow> length x = n"
  by (auto simp: Reader_take_def Reader_remaining_def split: if_splits)

lemma Reader_u8_eval [reader_eval]:
  "Reader_u8 at (rd pre (x # post)) = Ok (x, rd (pre @ [x]) post)"
  by (simp add: Reader_u8_def Reader_take_rd)

lemma Reader_u8_inv [reader_inv]:
  "Reader_u8 at (rd pre post) = Ok (x, r') \<longleftrightarrow>
     (\<exists>post'. post = x # post' \<and> r' = rd (pre @ [x]) post')"
  by (cases post) (auto simp: Reader_u8_def Reader_take_rd)

lemma Reader_u16be_eval [reader_eval]:
  "Reader_u16be at (rd pre (be16 v @ post)) = Ok (v, rd (pre @ be16 v) post)"
  "Reader_u16be at (rd pre (be16 v)) = Ok (v, rd (pre @ be16 v) [])"
  by (simp_all add: Reader_u16be_def Reader_take_rd)

lemma Reader_u16be_inv [reader_inv]:
  "Reader_u16be at (rd pre post) = Ok (v, r') \<longleftrightarrow>
     (\<exists>post'. post = be16 v @ post' \<and> r' = rd (pre @ be16 v) post')"
proof
  assume "Reader_u16be at (rd pre post) = Ok (v, r')"
  then show "\<exists>post'. post = be16 v @ post' \<and> r' = rd (pre @ be16 v) post'"
    by (auto simp: Reader_u16be_def rbind_Inr_iff Reader_take_inv be16_of_bytes)
qed (auto simp: Reader_u16be_eval)

lemma Reader_u32be_eval [reader_eval]:
  "Reader_u32be at (rd pre (be32 v @ post)) = Ok (v, rd (pre @ be32 v) post)"
  "Reader_u32be at (rd pre (be32 v)) = Ok (v, rd (pre @ be32 v) [])"
  by (simp_all add: Reader_u32be_def Reader_take_rd)

lemma Reader_u32be_inv [reader_inv]:
  "Reader_u32be at (rd pre post) = Ok (v, r') \<longleftrightarrow>
     (\<exists>post'. post = be32 v @ post' \<and> r' = rd (pre @ be32 v) post')"
proof
  assume "Reader_u32be at (rd pre post) = Ok (v, r')"
  then show "\<exists>post'. post = be32 v @ post' \<and> r' = rd (pre @ be32 v) post'"
    by (auto simp: Reader_u32be_def rbind_Inr_iff Reader_take_inv be32_of_bytes)
qed (auto simp: Reader_u32be_eval)

lemma Reader_u64be_eval [reader_eval]:
  "Reader_u64be at (rd pre (be64 v @ post)) = Ok (v, rd (pre @ be64 v) post)"
  "Reader_u64be at (rd pre (be64 v)) = Ok (v, rd (pre @ be64 v) [])"
  by (simp_all add: Reader_u64be_def Reader_take_rd)

lemma Reader_u64be_inv [reader_inv]:
  "Reader_u64be at (rd pre post) = Ok (v, r') \<longleftrightarrow>
     (\<exists>post'. post = be64 v @ post' \<and> r' = rd (pre @ be64 v) post')"
proof
  assume "Reader_u64be at (rd pre post) = Ok (v, r')"
  then show "\<exists>post'. post = be64 v @ post' \<and> r' = rd (pre @ be64 v) post'"
    by (auto simp: Reader_u64be_def rbind_Inr_iff Reader_take_inv be64_of_bytes)
qed (auto simp: Reader_u64be_eval)

lemma Reader_lp_eval [reader_eval]:
  "length x \<le> mx \<Longrightarrow> length x < 4294967296 \<Longrightarrow>
     Reader_lp mx at (rd pre (be32 (of_nat (length x)) @ x @ post)) =
       Ok (x, rd (pre @ be32 (of_nat (length x)) @ x) post)"
  "length x \<le> mx \<Longrightarrow> length x < 4294967296 \<Longrightarrow>
     Reader_lp mx at (rd pre (be32 (of_nat (length x)) @ x)) =
       Ok (x, rd (pre @ be32 (of_nat (length x)) @ x) [])"
  by (simp_all add: Reader_lp_def reader_eval unat_of_nat_u32)

lemma Reader_lp_empty [reader_eval]:
  "Reader_lp mx at (rd pre (be32 0 @ post)) = Ok ([], rd (pre @ be32 0) post)"
  "Reader_lp mx at (rd pre (be32 0)) = Ok ([], rd (pre @ be32 0) [])"
  using Reader_lp_eval [of "[]"] by simp_all

lemma Reader_lp_inv [reader_inv]:
  "Reader_lp mx at (rd pre post) = Ok (x, r') \<longleftrightarrow>
     length x \<le> mx \<and> length x < 4294967296 \<and>
     (\<exists>post'. post = be32 (of_nat (length x)) @ x @ post' \<and>
              r' = rd (pre @ be32 (of_nat (length x)) @ x) post')"
proof (intro iffI)
  assume "Reader_lp mx at (rd pre post) = Ok (x, r')"
  then obtain len post' where l: "post = be32 len @ x @ post'" "unat len \<le> mx"
      "length x = unat len" "r' = rd (pre @ be32 len @ x) post'"
    by (auto simp: Reader_lp_def rbind_Inr_iff reader_inv split: if_splits)
  moreover have "unat len < 4294967296" by simp
  ultimately show "length x \<le> mx \<and> length x < 4294967296 \<and>
     (\<exists>post'. post = be32 (of_nat (length x)) @ x @ post' \<and>
              r' = rd (pre @ be32 (of_nat (length x)) @ x) post')"
    by auto
next
  assume "length x \<le> mx \<and> length x < 4294967296 \<and>
     (\<exists>post'. post = be32 (of_nat (length x)) @ x @ post' \<and>
              r' = rd (pre @ be32 (of_nat (length x)) @ x) post')"
  then show "Reader_lp mx at (rd pre post) = Ok (x, r')"
    by (auto simp: Reader_lp_eval)
qed

lemma Reader_peek_rd:
  "Reader_peek_u32be at (rd pre post) =
     (if length post < 4 then Err (Truncated at) else Ok (of_nat (of_be (take 4 post))))"
  by (simp add: Reader_peek_u32be_def rd_def Reader_remaining_def)

lemma Reader_peek_eval [reader_eval]:
  "Reader_peek_u32be at (rd pre (be32 v @ post)) = Ok v"
  "Reader_peek_u32be at (rd pre (be32 v)) = Ok v"
  by (simp_all add: Reader_peek_u32be_def rd_def Reader_remaining_def)

lemma Reader_expect_end_eval [reader_eval]:
  "Reader_expect_end at (rd pre []) = Ok ()"
  by (simp add: Reader_expect_end_def)

lemma Reader_expect_end_inv [reader_inv]:
  "Reader_expect_end at (rd pre post) = Ok u \<longleftrightarrow> post = []"
  by (auto simp: Reader_expect_end_def)

section \<open>Bounds\<close>

text \<open>The cursor stays inside the buffer: no slice of a reader method can be out of range.\<close>

definition reader_ok :: "reader \<Rightarrow> bool" where
  "reader_ok r \<longleftrightarrow> rpos r \<le> length (rbuf r)"

lemma reader_ok_rd: "reader_ok r \<longleftrightarrow> (\<exists>pre post. r = rd pre post)"
proof
  assume "reader_ok r"
  then have "r = rd (take (rpos r) (rbuf r)) (drop (rpos r) (rbuf r))"
    by (simp add: rd_def reader_ok_def)
  then show "\<exists>pre post. r = rd pre post" by blast
qed (auto simp: reader_ok_def rd_def)

end
