(* ===== verification/Core_Limits.thy ===== *)
theory Core_Limits
  imports Prelude
begin

text \<open>
  The operational bounds of the core, \<^verbatim>\<open>crates/core/src/limits.rs\<close>. Counts and byte
  sizes are natural numbers; rates are the \<open>u32\<close> parameters of the token buckets.
\<close>

section \<open>Transport\<close>

definition MAX_INTRO_BYTES :: nat where [limit_defs]: "MAX_INTRO_BYTES = 8192"

definition MAX_CONN_PACKETS :: nat where [limit_defs]: "MAX_CONN_PACKETS = 1025"

definition MAX_CONN_BYTES :: nat where
  [limit_defs]: "MAX_CONN_BYTES = 44 * 1024 * 1024 + MAX_INTRO_BYTES"

section \<open>Store, attachments, orphans, pairing, drain\<close>

definition TOMBSTONE_CAP :: nat where [limit_defs]: "TOMBSTONE_CAP = 4096"

definition INLINE_MAX :: nat where [limit_defs]: "INLINE_MAX = 27000"

definition BUCKET_GRANULARITY :: nat where [limit_defs]: "BUCKET_GRANULARITY = 8"

definition VIEW_SCAN_LIMIT :: nat where [limit_defs]: "VIEW_SCAN_LIMIT = 65536"

definition INBOUND_FRAME_TTL_SECS :: int where
  [limit_defs]: "INBOUND_FRAME_TTL_SECS = 24 * 3600"

definition MAX_ORPHAN_CHUNKS_PER_HEAD :: nat where
  [limit_defs]: "MAX_ORPHAN_CHUNKS_PER_HEAD = 1024"

definition MAX_ORPHAN_BYTES_PER_HEAD :: nat where
  [limit_defs]: "MAX_ORPHAN_BYTES_PER_HEAD = 25 * 1024 * 1024"

definition MAX_ORPHAN_CHUNKS_PER_REL :: nat where
  [limit_defs]: "MAX_ORPHAN_CHUNKS_PER_REL = 4096"

definition MAX_ORPHAN_BYTES_PER_REL :: nat where
  [limit_defs]: "MAX_ORPHAN_BYTES_PER_REL = 64 * 1024 * 1024"

definition ORPHAN_TTL_SECS :: int where [limit_defs]: "ORPHAN_TTL_SECS = 24 * 3600"

definition MAX_QR_PAYLOAD_BYTES :: nat where [limit_defs]: "MAX_QR_PAYLOAD_BYTES = 8192"

definition MAX_PENDING_REQUESTS :: nat where [limit_defs]: "MAX_PENDING_REQUESTS = 256"

definition MAX_RELATIONSHIPS :: nat where [limit_defs]: "MAX_RELATIONSHIPS = 1024"

definition MAX_THREAD_PAGE :: nat where [limit_defs]: "MAX_THREAD_PAGE = 200"

definition clamp_thread_page :: "nat \<Rightarrow> nat" where
  "clamp_thread_page limit = min limit MAX_THREAD_PAGE"

definition DRAIN_BATCH :: nat where [limit_defs]: "DRAIN_BATCH = 64"

section \<open>Rates\<close>

definition INTRO_MIN_INTERVAL_SECS :: u64 where [limit_defs]: "INTRO_MIN_INTERVAL_SECS = 1"

definition INBOUND_FRAME_PER_SEC :: u32 where [limit_defs]: "INBOUND_FRAME_PER_SEC = 256"

definition INBOUND_FRAME_BURST :: u32 where [limit_defs]: "INBOUND_FRAME_BURST = 4096"

definition RESYNC_REQ_PER_SEC :: u32 where [limit_defs]: "RESYNC_REQ_PER_SEC = 1"

definition RESYNC_REQ_BURST :: u32 where [limit_defs]: "RESYNC_REQ_BURST = 8"

definition EPHEMERAL_PER_SEC :: u32 where [limit_defs]: "EPHEMERAL_PER_SEC = 4"

definition EPHEMERAL_BURST :: u32 where [limit_defs]: "EPHEMERAL_BURST = 16"

definition CONTROL_CMD_PER_SEC :: u32 where [limit_defs]: "CONTROL_CMD_PER_SEC = 8"

definition CONTROL_CMD_BURST :: u32 where [limit_defs]: "CONTROL_CMD_BURST = 64"

definition STICKER_FETCH_PER_SEC :: u32 where [limit_defs]: "STICKER_FETCH_PER_SEC = 8"

definition STICKER_FETCH_BURST :: u32 where [limit_defs]: "STICKER_FETCH_BURST = 32"

definition STICKER_SERVE_PER_SEC :: u32 where [limit_defs]: "STICKER_SERVE_PER_SEC = 16"

definition STICKER_SERVE_BURST :: u32 where [limit_defs]: "STICKER_SERVE_BURST = 128"

end
