(* ===== verification/Frame.thy ===== *)
theory Frame
  imports Wire_Bin Core_Limits
begin

text \<open>
  The outer wire: bucket-sized padded records (\<^verbatim>\<open>crates/core/src/wire/frame.rs\<close>) and
  the flag-prefixed framing of records on a stream
  (\<^verbatim>\<open>crates/core/src/transport/framing.rs\<close>). The padding drawn from the random number
  generator is a parameter \<open>pad\<close>, the byte at each padding position. A stream is the
  list of the bytes still to arrive before the peer closes it.
\<close>

section \<open>Records\<close>

definition VERSION_V2 :: u8 where "VERSION_V2 = 2"

definition RECORD_BUCKETS :: "nat list" where
  "RECORD_BUCKETS = [256, 512, 1024, 4096, 16384, 32768]"

definition MAX_RECORD_BYTES :: nat where "MAX_RECORD_BYTES = 32768"

definition RECORD_HEADER_BYTES :: nat where "RECORD_HEADER_BYTES = 3"

definition is_bucket :: "nat \<Rightarrow> bool" where
  "is_bucket len \<longleftrightarrow> len \<in> set RECORD_BUCKETS"

definition bucket_for :: "nat \<Rightarrow> nat option" where
  "bucket_for payload_len =
     (let inner = RECORD_HEADER_BYTES + payload_len
      in find (\<lambda>b. inner \<le> b) RECORD_BUCKETS)"

definition starts_v2 :: "bytes \<Rightarrow> bool" where
  "starts_v2 rec = (case rec of [] \<Rightarrow> False | v # _ \<Rightarrow> v = VERSION_V2)"

definition build_record :: "(nat \<Rightarrow> u8) \<Rightarrow> bytes \<Rightarrow> wire_error + bytes" where
  "build_record pad payload =
     (case bucket_for (length payload) of
        None \<Rightarrow> Err (TooLarge ''record'' (length payload) (MAX_RECORD_BYTES - RECORD_HEADER_BYTES))
      | Some bucket \<Rightarrow>
          Ok ([VERSION_V2] @ be16 (of_nat (length payload)) @ payload @
              map pad [0..<bucket - (3 + length payload)]))"

definition parse_record :: "bytes \<Rightarrow> wire_error + bytes" where
  "parse_record rec =
     (if \<not> starts_v2 rec
      then Err (BadVersion ''record'' (case rec of [] \<Rightarrow> 0 | v # _ \<Rightarrow> v))
      else if \<not> is_bucket (length rec)
      then Err (BadLength ''record'' (length rec) MAX_RECORD_BYTES)
      else
        let len = unat (of_nat (of_be (take 2 (drop 1 rec))) :: u16) in
        if RECORD_HEADER_BYTES + len > length rec
        then Err (BadLength ''record.payload'' len (length rec - RECORD_HEADER_BYTES))
        else Ok (take len (drop 3 rec)))"

section \<open>Framing\<close>

definition FLAG_SIZED_QUIET :: u8 where "FLAG_SIZED_QUIET = 0x05"

definition FLAG_SIZED_ALERT :: u8 where "FLAG_SIZED_ALERT = 0x06"

definition INTRO_SIZED_QUIET :: u8 where "INTRO_SIZED_QUIET = 0xFC"

definition INTRO_SIZED_ALERT :: u8 where "INTRO_SIZED_ALERT = 0xFD"

lemmas frame_flags = FLAG_SIZED_QUIET_def FLAG_SIZED_ALERT_def INTRO_SIZED_QUIET_def
  INTRO_SIZED_ALERT_def

text \<open>Of the failures of the operating system only the end of the stream is told apart.\<close>

datatype io_error = UnexpectedEof | OtherIo string

datatype transport_error =
    TransportIo io_error
  | Control string
  | ControlReply u16 string
  | ControlClosed
  | Socks string
  | ConnectFailed string u32 string
  | KillSwitch
  | DaemonDead string
  | Offline
  | Timeout string
  | InvalidOnion string
  | KeyStore string
  | MalformedFrame string

record opaque_frame =
  of_intro :: "bytes option"
  of_frame :: bytes
  of_alert :: bool

definition show_hex_digit :: "nat \<Rightarrow> char" where
  "show_hex_digit d = (if d < 10 then char_of (48 + d) else char_of (87 + d))"

definition show_hex_byte :: "u8 \<Rightarrow> string" where
  "show_hex_byte b = [show_hex_digit (unat b div 16), show_hex_digit (unat b mod 16)]"

definition pack :: "bytes option \<Rightarrow> bytes \<Rightarrow> bool \<Rightarrow> transport_error + bytes" where
  "pack intro frame alert =
     (if \<not> is_bucket (length frame)
      then Err (MalformedFrame (''frame length '' @ show_nat (length frame) @
                                '' is not a record bucket''))
      else if \<not> starts_v2 frame
      then Err (MalformedFrame ''frame does not start with VERSION_V2'')
      else
        rbind
          (case intro of
             None \<Rightarrow>
               Ok ([if alert then FLAG_SIZED_ALERT else FLAG_SIZED_QUIET] @
                   be16 (of_nat (length frame)))
           | Some intro \<Rightarrow>
               if intro = [] \<or> length intro > MAX_INTRO_BYTES
               then Err (MalformedFrame (''intro length '' @ show_nat (length intro) @
                                         '' out of range''))
               else Ok ([if alert then INTRO_SIZED_ALERT else INTRO_SIZED_QUIET] @
                        be16 (of_nat (length intro)) @ intro @ be16 (of_nat (length frame))))
          (\<lambda>out. Ok (out @ frame)))"

definition read_exact :: "nat \<Rightarrow> bytes \<Rightarrow> transport_error + (bytes \<times> bytes)" where
  "read_exact n s = (if length s < n then Err (TransportIo UnexpectedEof) else Ok (take n s, drop n s))"

definition read_u16 :: "bytes \<Rightarrow> transport_error + (u16 \<times> bytes)" where
  "read_u16 s = rbind (read_exact 2 s) (\<lambda>(b, s). Ok (of_nat (of_be b), s))"

definition frame_flag :: "u8 \<Rightarrow> transport_error + (bool \<times> bool)" where
  "frame_flag flag =
     (if flag = FLAG_SIZED_QUIET then Ok (False, False)
      else if flag = FLAG_SIZED_ALERT then Ok (True, False)
      else if flag = INTRO_SIZED_QUIET then Ok (False, True)
      else if flag = INTRO_SIZED_ALERT then Ok (True, True)
      else Err (MalformedFrame (''unknown frame flag 0x'' @ show_hex_byte flag @
                                '' (legacy flags are dropped)'')))"

definition read_frame :: "bytes \<Rightarrow> transport_error + (opaque_frame \<times> bytes) option" where
  "read_frame s =
     (case s of
        [] \<Rightarrow> Ok None
      | flag # s \<Rightarrow>
          rbind (frame_flag flag) (\<lambda>(alert, has_intro).
          rbind
            (if has_intro then
               rbind (read_u16 s) (\<lambda>(intro_len, s).
               if unat intro_len = 0 \<or> unat intro_len > MAX_INTRO_BYTES
               then Err (MalformedFrame (''intro length '' @ show_nat (unat intro_len) @
                                         '' out of range''))
               else rbind (read_exact (unat intro_len) s) (\<lambda>(intro, s). Ok (Some intro, s)))
             else Ok (None, s)) (\<lambda>(intro, s).
          rbind (read_u16 s) (\<lambda>(frame_len, s).
          if \<not> is_bucket (unat frame_len)
          then Err (MalformedFrame (''record length '' @ show_nat (unat frame_len) @
                                    '' is not a bucket''))
          else
          rbind (read_exact (unat frame_len) s) (\<lambda>(frame, s).
          if \<not> starts_v2 frame
          then Err (MalformedFrame ''record version byte is not VERSION_V2'')
          else Ok (Some (\<lparr>of_intro = intro, of_frame = frame, of_alert = alert\<rparr>, s)))))))"

section \<open>Record facts\<close>

lemma starts_v2_Cons [simp]: "starts_v2 (v # t) \<longleftrightarrow> v = VERSION_V2" "\<not> starts_v2 []"
  by (simp_all add: starts_v2_def)

lemma is_bucket_simps:
  "is_bucket n \<longleftrightarrow> n = 256 \<or> n = 512 \<or> n = 1024 \<or> n = 4096 \<or> n = 16384 \<or> n = 32768"
  by (simp add: is_bucket_def RECORD_BUCKETS_def)

lemma bucket_for_Some:
  "bucket_for n = Some b \<Longrightarrow> is_bucket b \<and> 3 + n \<le> b \<and> (\<forall>b'. is_bucket b' \<and> 3 + n \<le> b' \<longrightarrow> b \<le> b')"
  by (auto simp: bucket_for_def RECORD_BUCKETS_def RECORD_HEADER_BYTES_def is_bucket_simps
      split: if_splits)

lemma bucket_for_None: "bucket_for n = None \<longleftrightarrow> n > 32765"
  by (simp add: bucket_for_def RECORD_BUCKETS_def RECORD_HEADER_BYTES_def)

lemma build_record_Ok:
  "build_record pad p = Ok r \<longleftrightarrow>
     (\<exists>b. bucket_for (length p) = Some b \<and>
        r = [VERSION_V2] @ be16 (of_nat (length p)) @ p @ map pad [0..<b - (3 + length p)])"
  by (auto simp: build_record_def split: option.splits)

lemma build_record_length:
  "build_record pad p = Ok r \<Longrightarrow> bucket_for (length p) = Some (length r)"
  using bucket_for_Some [of "length p"] by (fastforce simp: build_record_Ok)

lemma parse_build_record:
  assumes "build_record pad p = Ok r"
  shows "parse_record r = Ok p"
proof -
  from assms obtain b where b: "bucket_for (length p) = Some b"
    and r: "r = [VERSION_V2] @ be16 (of_nat (length p)) @ p @ map pad [0..<b - (3 + length p)]"
    by (auto simp: build_record_Ok)
  from b have "is_bucket b" "3 + length p \<le> b" by (auto dest: bucket_for_Some)
  moreover from this have "length p < 65536" by (auto simp: is_bucket_simps)
  moreover from calculation have "length r = b" by (simp add: r)
  ultimately show ?thesis
    by (simp add: parse_record_def r RECORD_HEADER_BYTES_def unat_of_nat_u16)
qed

lemma parse_record_bounds:
  "parse_record r = Ok p \<Longrightarrow> is_bucket (length r) \<and> 3 + length p \<le> length r"
  by (auto simp: parse_record_def Let_def RECORD_HEADER_BYTES_def split: if_splits)

section \<open>Framing facts\<close>

lemma read_exact_eval: "length x = n \<Longrightarrow> read_exact n (x @ s) = Ok (x, s)"
  by (simp add: read_exact_def)

lemma read_u16_eval: "read_u16 (be16 v @ s) = Ok (v, s)"
  by (simp add: read_u16_def read_exact_def)

lemma read_exact_inv: "read_exact n s = Ok (x, s') \<longleftrightarrow> length x = n \<and> s = x @ s'"
  by (auto simp: read_exact_def)

lemma read_u16_inv: "read_u16 s = Ok (v, s') \<longleftrightarrow> s = be16 v @ s'"
  by (auto simp: read_u16_def rbind_Inr_iff read_exact_inv be16_of_bytes)

lemma frame_flag_Ok:
  "frame_flag flag = Ok (alert, intro) \<longleftrightarrow>
     flag = (if intro then if alert then INTRO_SIZED_ALERT else INTRO_SIZED_QUIET
             else if alert then FLAG_SIZED_ALERT else FLAG_SIZED_QUIET)"
  by (auto simp: frame_flag_def frame_flags)

lemma pack_Ok:
  "pack intro frame alert = Ok out \<longleftrightarrow>
     is_bucket (length frame) \<and> starts_v2 frame \<and>
     (case intro of
        None \<Rightarrow> out = [if alert then FLAG_SIZED_ALERT else FLAG_SIZED_QUIET] @
          be16 (of_nat (length frame)) @ frame
      | Some i \<Rightarrow> i \<noteq> [] \<and> length i \<le> MAX_INTRO_BYTES \<and>
          out = [if alert then INTRO_SIZED_ALERT else INTRO_SIZED_QUIET] @
            be16 (of_nat (length i)) @ i @ be16 (of_nat (length frame)) @ frame)"
  by (auto simp: pack_def rbind_Inr_iff split: option.splits if_splits)

lemma bucket_u16: "is_bucket n \<Longrightarrow> unat (of_nat n :: u16) = n"
  by (auto simp: is_bucket_simps unat_of_nat_u16)

lemma intro_u16: "n \<le> MAX_INTRO_BYTES \<Longrightarrow> unat (of_nat n :: u16) = n"
  by (simp add: limit_defs unat_of_nat_u16)

text \<open>
  A packed frame is read back from the head of any stream, and the rest of the stream
  is left untouched.
\<close>

lemma read_frame_pack:
  assumes "pack intro frame alert = Ok out"
  shows "read_frame (out @ s) = Ok (Some (\<lparr>of_intro = intro, of_frame = frame, of_alert = alert\<rparr>, s))"
proof (cases intro)
  case None
  then have "frame_flag (hd out) = Ok (alert, False)"
    using assms by (auto simp: pack_Ok frame_flag_Ok)
  with assms None show ?thesis
    by (simp add: pack_Ok read_frame_def bucket_u16 read_exact_eval read_u16_eval)
next
  case (Some i)
  then have "frame_flag (hd out) = Ok (alert, True)"
    using assms by (auto simp: pack_Ok frame_flag_Ok)
  with assms Some show ?thesis
    by (simp add: pack_Ok read_frame_def bucket_u16 intro_u16 read_exact_eval read_u16_eval)
qed

text \<open>
  Conversely only packed frames are accepted: what \<open>read_frame\<close> consumes is the
  encoding of the frame it returns.
\<close>

lemma read_frame_inv:
  assumes "read_frame s = Ok (Some (f, s'))"
  shows "\<exists>out. s = out @ s' \<and> pack (of_intro f) (of_frame f) (of_alert f) = Ok out"
  using assms
  by (cases s) (auto simp: read_frame_def frame_flag_Ok rbind_Inr_iff read_exact_inv read_u16_inv
      pack_Ok split: if_splits)

lemma read_frame_None: "read_frame s = Ok None \<longleftrightarrow> s = []"
  by (auto simp: read_frame_def rbind_Inr_iff split: list.splits if_splits)

section \<open>Properties\<close>

text \<open>
  C37: a record is always padded to the smallest fitting bucket size, whatever the padding
  bytes are, and parsing recovers the payload exactly; a payload has no record only when
  it is longer than the largest bucket allows.
\<close>

theorem record_roundtrip:
  "case build_record pad p of
     Inr r \<Rightarrow> parse_record r = Ok p \<and> is_bucket (length r) \<and>
       (\<nexists>b. is_bucket b \<and> 3 + length p \<le> b \<and> b < length r)
   | Inl _ \<Rightarrow> length p > MAX_RECORD_BYTES - RECORD_HEADER_BYTES"
proof (cases "build_record pad p")
  case (Inl e)
  then have "bucket_for (length p) = None" by (auto simp: build_record_def split: option.splits)
  with Inl show ?thesis
    by (simp add: bucket_for_None MAX_RECORD_BYTES_def RECORD_HEADER_BYTES_def)
next
  case (Inr r)
  with bucket_for_Some [OF build_record_length [OF Inr]] parse_build_record [OF Inr]
  show ?thesis by fastforce
qed

text \<open>
  C15: framing is exact on a byte stream: reading a stream that starts with a packed frame
  returns that frame and leaves the rest, and whenever a frame is read, the consumed bytes
  are precisely the packing of that frame; no other byte sequence is accepted as a frame.
\<close>

theorem framing_exact:
  "read_frame s = Ok (Some (f, rest)) \<longleftrightarrow>
     (\<exists>out. pack (of_intro f) (of_frame f) (of_alert f) = Ok out \<and> s = out @ rest)"
  using read_frame_pack [of "of_intro f" "of_frame f" "of_alert f"] read_frame_inv by fastforce

end
