(* ===== verification/Rate_Limit.thy ===== *)
theory Rate_Limit
  imports Core_Limits
begin

text \<open>
  The anti-flood limits of \<^verbatim>\<open>crates/core/src/ratelimit.rs\<close>: the lazily refilled token
  bucket, the per-key tables of the engine and the drop counters. Capacities and rates
  are \<open>u32\<close> and clocks are \<open>u64\<close> words, with the saturating arithmetic of the source.
  The central fact reads the word arithmetic of a refill as exact arithmetic on natural
  numbers; the flood bound is an accounting argument over it.
\<close>

section \<open>Surfaces and counters\<close>

datatype surface =
    InboundFrame
  | ResyncReqs
  | Ephemeral
  | Intro
  | ControlCmd
  | StickerFetch
  | StickerServe

text \<open>\<open>bucket_params\<close> is not defined on the intro surface: the source panics there.\<close>

fun bucket_params :: "surface \<Rightarrow> (u32 \<times> u32) option" where
  "bucket_params InboundFrame = Some (INBOUND_FRAME_BURST, INBOUND_FRAME_PER_SEC)"
| "bucket_params ResyncReqs = Some (RESYNC_REQ_BURST, RESYNC_REQ_PER_SEC)"
| "bucket_params Ephemeral = Some (EPHEMERAL_BURST, EPHEMERAL_PER_SEC)"
| "bucket_params ControlCmd = Some (CONTROL_CMD_BURST, CONTROL_CMD_PER_SEC)"
| "bucket_params StickerFetch = Some (STICKER_FETCH_BURST, STICKER_FETCH_PER_SEC)"
| "bucket_params StickerServe = Some (STICKER_SERVE_BURST, STICKER_SERVE_PER_SEC)"
| "bucket_params Intro = None"

type_synonym rate_counters = "surface \<Rightarrow> u64"

definition note_limited :: "surface \<Rightarrow> rate_counters \<Rightarrow> rate_counters" where
  "note_limited s c = c(s := c s + 1)"

definition limited :: "surface \<Rightarrow> rate_counters \<Rightarrow> u64" where
  "limited s c = c s"

definition rate_limited :: "rate_counters \<Rightarrow> u64" where
  "rate_limited c =
     sum_list (map (\<lambda>s. limited s c)
       [InboundFrame, ResyncReqs, Ephemeral, Intro, ControlCmd, StickerFetch, StickerServe])"

section \<open>Token buckets\<close>

record token_bucket =
  capacity :: u32
  tokens :: u32
  refill_per_sec :: u32
  last_refill :: u64

definition TokenBucket_new :: "u32 \<Rightarrow> u32 \<Rightarrow> u64 \<Rightarrow> token_bucket" where
  "TokenBucket_new cap refill now =
     \<lparr>capacity = cap, tokens = cap, refill_per_sec = refill, last_refill = now\<rparr>"

definition TokenBucket_refill :: "u64 \<Rightarrow> token_bucket \<Rightarrow> token_bucket" where
  "TokenBucket_refill now b =
     (let elapsed = saturating_sub now (last_refill b) in
      if elapsed > 0 then
        let add = saturating_mul elapsed (ucast (refill_per_sec b)) in
        b\<lparr>tokens := min (saturating_add (tokens b) (ucast (min add (ucast (capacity b))))) (capacity b),
          last_refill := now\<rparr>
      else b)"

definition TokenBucket_check :: "u64 \<Rightarrow> token_bucket \<Rightarrow> bool \<times> token_bucket" where
  "TokenBucket_check now b =
     (let b = TokenBucket_refill now b in
      if tokens b > 0 then (True, b\<lparr>tokens := tokens b - 1\<rparr>) else (False, b))"

section \<open>Rate tables\<close>

record rate_tables =
  buckets :: "surface \<times> string \<rightharpoonup> token_bucket"

definition RateTables_new :: rate_tables where
  "RateTables_new = \<lparr>buckets = Map.empty\<rparr>"

definition RateTables_check ::
    "surface \<Rightarrow> string \<Rightarrow> u64 \<Rightarrow> rate_tables \<Rightarrow> rate_counters \<Rightarrow>
     (bool \<times> rate_tables \<times> rate_counters) option" where
  "RateTables_check s key now t c =
     (case bucket_params s of
        None \<Rightarrow> None
      | Some (cap, refill) \<Rightarrow>
          let bucket = (case buckets t (s, key) of
                          Some b \<Rightarrow> b
                        | None \<Rightarrow> TokenBucket_new cap refill now);
              (ok, bucket) = TokenBucket_check now bucket;
              t = t\<lparr>buckets := (buckets t)((s, key) \<mapsto> bucket)\<rparr>
          in Some (ok, t, if ok then c else note_limited s c))"

section \<open>Exact accounting\<close>

definition bucket_ok :: "token_bucket \<Rightarrow> bool" where
  "bucket_ok b \<longleftrightarrow> tokens b \<le> capacity b"

lemma unat_min: "unat (min a b) = min (unat a) (unat b)" for a b :: "'a::len word"
  by (simp add: min_def word_le_nat_alt)

lemma unat_ucast_u64 [simp]: "unat (ucast (v :: u32) :: u64) = unat v"
  by (simp add: unsigned_ucast_eq take_bit_nat_eq_self less_trans [OF unat_u32_less])

lemma unat_ucast_u32: "unat (v :: u64) < 4294967296 \<Longrightarrow> unat (ucast v :: u32) = unat v"
  by (simp add: unsigned_ucast_eq take_bit_nat_eq_self)

lemma capped_add: "c < 4294967296 \<Longrightarrow> min (min (t + min x c) 4294967295) c = min c (t + x)" for c :: nat
  by (simp add: min_def)

lemma refill_tokens:
  assumes "bucket_ok b"
  shows "unat (tokens (TokenBucket_refill now b)) =
      min (unat (capacity b))
        (unat (tokens b) + (unat now - unat (last_refill b)) * unat (refill_per_sec b))"
proof (cases "saturating_sub now (last_refill b) > 0")
  case True
  let ?add = "saturating_mul (saturating_sub now (last_refill b)) (ucast (refill_per_sec b))"
  let ?el = "unat now - unat (last_refill b)" and ?r = "unat (refill_per_sec b)"
  have cap: "unat (capacity b) < 4294967296" and tok: "unat (tokens b) \<le> unat (capacity b)"
    using assms by (simp_all add: bucket_ok_def word_le_nat_alt)
  from cap have big: "min 18446744073709551615 (unat (capacity b)) = unat (capacity b)"
    by linarith
  have "unat (min ?add (ucast (capacity b))) = min (?el * ?r) (unat (capacity b))"
    by (simp add: unat_min unat_saturating_mul unat_saturating_sub min.assoc big)
  then have "unat (ucast (min ?add (ucast (capacity b))) :: u32) = min (?el * ?r) (unat (capacity b))"
    using cap by (subst unat_ucast_u32) (simp_all del: unat_u32_less)
  then have "unat (min (saturating_add (tokens b) (ucast (min ?add (ucast (capacity b)))))
      (capacity b)) = min (unat (capacity b)) (unat (tokens b) + ?el * ?r)"
    using cap by (simp add: unat_min unat_saturating_add capped_add del: unat_u32_less)
  with True show ?thesis by (simp add: TokenBucket_refill_def Let_def)
next
  case False
  then have "unat now - unat (last_refill b) = 0"
    by (simp add: word_less_nat_alt unat_saturating_sub)
  with False assms show ?thesis
    by (simp add: TokenBucket_refill_def bucket_ok_def word_le_nat_alt)
qed

lemma refill_fields [simp]:
  "capacity (TokenBucket_refill now b) = capacity b"
  "refill_per_sec (TokenBucket_refill now b) = refill_per_sec b"
  "last_refill (TokenBucket_refill now b) = max now (last_refill b)"
  by (auto simp: TokenBucket_refill_def Let_def word_less_nat_alt unat_saturating_sub max_def
      word_le_nat_alt)

lemma refill_ok: "bucket_ok b \<Longrightarrow> bucket_ok (TokenBucket_refill now b)"
  using refill_tokens [of b now] by (simp add: bucket_ok_def word_le_nat_alt)

lemma check_fields [simp]:
  "capacity (snd (TokenBucket_check now b)) = capacity b"
  "refill_per_sec (snd (TokenBucket_check now b)) = refill_per_sec b"
  "last_refill (snd (TokenBucket_check now b)) = max now (last_refill b)"
  by (simp_all add: TokenBucket_check_def Let_def)

text \<open>One check: a token is spent exactly when the check succeeds, and it fails only at zero.\<close>

lemma check_tokens:
  assumes "bucket_ok b"
  shows "unat (tokens (snd (TokenBucket_check now b))) + (if fst (TokenBucket_check now b) then 1 else 0)
      = min (unat (capacity b))
          (unat (tokens b) + (unat now - unat (last_refill b)) * unat (refill_per_sec b))"
proof -
  let ?t = "tokens (TokenBucket_refill now b)"
  have "?t > 0 \<Longrightarrow> unat (?t - 1) + 1 = unat ?t"
    by (simp add: unat_sub word_le_nat_alt word_less_nat_alt Suc_le_eq)
  moreover have "\<not> ?t > 0 \<Longrightarrow> unat ?t = 0" by (simp add: word_less_nat_alt)
  ultimately show ?thesis
    using refill_tokens [OF assms, of now] by (auto simp: TokenBucket_check_def Let_def)
qed

lemma check_ok: "bucket_ok b \<Longrightarrow> bucket_ok (snd (TokenBucket_check now b))"
  using check_tokens [of b now] by (auto simp: bucket_ok_def word_le_nat_alt split: if_splits)

lemma new_ok: "bucket_ok (TokenBucket_new cap refill now)"
  by (simp add: bucket_ok_def TokenBucket_new_def)

section \<open>Sequences of checks\<close>

text \<open>The verdicts of a sequence of checks, and how many of them let work through.\<close>

fun check_all :: "u64 list \<Rightarrow> token_bucket \<Rightarrow> bool list \<times> token_bucket" where
  "check_all [] b = ([], b)"
| "check_all (now # ts) b =
     (let (ok, b) = TokenBucket_check now b; (oks, b) = check_all ts b in (ok # oks, b))"

definition allowed :: "bool list \<Rightarrow> nat" where
  "allowed oks = length (filter (\<lambda>ok. ok) oks)"

lemma check_all_Cons:
  "check_all (now # ts) b =
     (fst (TokenBucket_check now b) # fst (check_all ts (snd (TokenBucket_check now b))),
      snd (check_all ts (snd (TokenBucket_check now b))))"
  by (simp add: case_prod_beta Let_def)

declare check_all.simps(2) [simp del]

lemma check_all_last: "last_refill (snd (check_all ts b)) = fold max ts (last_refill b)"
  by (induction ts arbitrary: b) (simp_all add: check_all_Cons)

lemma allowed_bound:
  assumes "bucket_ok b"
  shows "allowed (fst (check_all ts b)) + unat (tokens (snd (check_all ts b))) \<le>
      unat (tokens b) +
      (unat (fold max ts (last_refill b)) - unat (last_refill b)) * unat (refill_per_sec b)"
  using assms
proof (induction ts arbitrary: b)
  case Nil
  then show ?case by (simp add: allowed_def)
next
  case (Cons now ts)
  let ?b = "snd (TokenBucket_check now b)"
  let ?l = "unat (last_refill b)" and ?m = "unat (max now (last_refill b))"
  let ?e = "unat (fold max ts (max now (last_refill b)))" and ?r = "unat (refill_per_sec b)"
  have mono: "unat x \<le> unat (fold max ts x)" for x :: u64
  proof (induction ts arbitrary: x)
    case (Cons y ys)
    have "unat x \<le> unat (max y x)" by (simp add: max_def word_le_nat_alt)
    with Cons [of "max y x"] show ?case by simp
  qed simp
  have m: "?m = max (unat now) ?l" by (simp add: max_def word_le_nat_alt)
  have "allowed (fst (check_all (now # ts) b)) + unat (tokens (snd (check_all (now # ts) b))) =
      (if fst (TokenBucket_check now b) then 1 else 0) +
      (allowed (fst (check_all ts ?b)) + unat (tokens (snd (check_all ts ?b))))"
    by (simp add: check_all_Cons allowed_def)
  also have "\<dots> \<le> (if fst (TokenBucket_check now b) then 1 else 0) + (unat (tokens ?b) + (?e - ?m) * ?r)"
    using Cons.IH [OF check_ok [OF Cons.prems, of now]] by simp
  also have "\<dots> \<le> unat (tokens b) + (unat now - ?l) * ?r + (?e - ?m) * ?r"
    using check_tokens [OF Cons.prems, of now] by simp
  also have "\<dots> = unat (tokens b) + (unat now - ?l + (?e - ?m)) * ?r"
    by (simp add: add_mult_distrib)
  also have "unat now - ?l + (?e - ?m) = ?e - ?l"
    using mono [of "max now (last_refill b)"] m by linarith
  finally show ?case by simp
qed

lemma check_verdict:
  assumes "bucket_ok b"
  shows "fst (TokenBucket_check now b) \<longleftrightarrow>
      0 < min (unat (capacity b))
            (unat (tokens b) + (unat now - unat (last_refill b)) * unat (refill_per_sec b))"
  unfolding refill_tokens [OF assms, symmetric]
  by (simp add: TokenBucket_check_def Let_def word_less_nat_alt)

text \<open>Work within the tokens at hand always passes, whatever the clock does.\<close>

lemma burst_passes:
  "bucket_ok b \<Longrightarrow> length ts \<le> unat (tokens b) \<Longrightarrow> \<forall>ok \<in> set (fst (check_all ts b)). ok"
proof (induction ts arbitrary: b)
  case (Cons now ts)
  have le: "unat (tokens b) \<le> unat (capacity b)"
    using Cons.prems(1) by (simp add: bucket_ok_def word_le_nat_alt)
  then have ok: "fst (TokenBucket_check now b)"
    using Cons.prems by (simp add: check_verdict)
  then have "length ts \<le> unat (tokens (snd (TokenBucket_check now b)))"
    using check_tokens [OF Cons.prems(1), of now] Cons.prems(2) le by simp
  with ok Cons.IH [OF check_ok [OF Cons.prems(1)]] show ?case
    by (simp add: check_all_Cons)
qed simp

section \<open>Tables\<close>

definition tables_ok :: "rate_tables \<Rightarrow> bool" where
  "tables_ok t \<longleftrightarrow>
     (\<forall>s key b. buckets t (s, key) = Some b \<longrightarrow>
        bucket_ok b \<and> bucket_params s = Some (capacity b, refill_per_sec b))"

lemma tables_new_ok: "tables_ok RateTables_new"
  by (simp add: tables_ok_def RateTables_new_def)

lemma RateTables_check_Some:
  assumes "RateTables_check s key now t c = Some (ok, t', c')"
  obtains cap refill b where "bucket_params s = Some (cap, refill)"
    "b = (case buckets t (s, key) of Some b \<Rightarrow> b | None \<Rightarrow> TokenBucket_new cap refill now)"
    "ok = fst (TokenBucket_check now b)"
    "buckets t' = (buckets t)((s, key) \<mapsto> snd (TokenBucket_check now b))"
    "c' = (if ok then c else note_limited s c)"
  using assms
  by (auto simp: RateTables_check_def Let_def case_prod_beta split: option.splits)

lemma tables_check_ok:
  assumes "tables_ok t" "RateTables_check s key now t c = Some (ok, t', c')"
  shows "tables_ok t'"
proof -
  from assms(2) obtain cap refill b where b: "bucket_params s = Some (cap, refill)"
      "b = (case buckets t (s, key) of Some b \<Rightarrow> b | None \<Rightarrow> TokenBucket_new cap refill now)"
      "buckets t' = (buckets t)((s, key) \<mapsto> snd (TokenBucket_check now b))"
    by (elim RateTables_check_Some)
  have "bucket_ok b \<and> bucket_params s = Some (capacity b, refill_per_sec b)"
    using assms(1) b(1,2) new_ok
    by (auto simp: tables_ok_def TokenBucket_new_def split: option.splits)
  with assms(1) b(3) show ?thesis
    by (auto simp: tables_ok_def check_ok)
qed

section \<open>Properties\<close>

lemma flood_bound:
  "allowed (fst (check_all ts (TokenBucket_new cap rate t0))) \<le>
     unat cap + (unat (fold max ts t0) - unat t0) * unat rate"
  using allowed_bound [OF new_ok, of ts cap rate t0] by (simp add: TokenBucket_new_def)

text \<open>A run of checks over many keys, as the engine and the transport issue them.\<close>

fun run_checks ::
    "(surface \<times> string \<times> u64) list \<Rightarrow> rate_tables \<Rightarrow> rate_counters \<Rightarrow>
     (bool list \<times> rate_tables \<times> rate_counters) option" where
  "run_checks [] t c = Some ([], t, c)"
| "run_checks ((s, key, now) # rs) t c =
     (case RateTables_check s key now t c of
        None \<Rightarrow> None
      | Some (ok, t, c) \<Rightarrow> map_option (\<lambda>(oks, tc). (ok # oks, tc)) (run_checks rs t c))"

fun verdicts_for ::
    "surface \<Rightarrow> string \<Rightarrow> (surface \<times> string \<times> u64) list \<Rightarrow> bool list \<Rightarrow> bool list" where
  "verdicts_for s key ((s', key', now) # rs) (ok # oks) =
     (if s' = s \<and> key' = key then [ok] else []) @ verdicts_for s key rs oks"
| "verdicts_for s key _ _ = []"

fun times_for :: "surface \<Rightarrow> string \<Rightarrow> (surface \<times> string \<times> u64) list \<Rightarrow> u64 list" where
  "times_for s key [] = []"
| "times_for s key ((s', key', now) # rs) =
     (if s' = s \<and> key' = key then [now] else []) @ times_for s key rs"

definition bucket_at :: "surface \<Rightarrow> string \<Rightarrow> rate_tables \<Rightarrow> u32 \<times> u32 \<Rightarrow> u64 list \<Rightarrow> token_bucket" where
  "bucket_at s key t params ts =
     (case buckets t (s, key) of
        Some b \<Rightarrow> b
      | None \<Rightarrow> TokenBucket_new (fst params) (snd params) (hd ts))"

lemma run_checks_project:
  assumes "bucket_params s = Some params" "run_checks rs t c = Some (oks, t', c')"
  shows "verdicts_for s key rs oks =
    fst (check_all (times_for s key rs) (bucket_at s key t params (times_for s key rs)))"
  using assms(2)
proof (induction rs arbitrary: t c oks)
  case Nil
  then show ?case by simp
next
  case (Cons r rs)
  obtain s' key' now where r: "r = (s', key', now)" by (cases r)
  from Cons.prems obtain ok t1 c1 oks1 where
    step: "RateTables_check s' key' now t c = Some (ok, t1, c1)"
    and rest: "run_checks rs t1 c1 = Some (oks1, t', c')" and oks: "oks = ok # oks1"
    by (auto simp: r split: option.splits)
  from step obtain cap refill b where b: "bucket_params s' = Some (cap, refill)"
      "b = (case buckets t (s', key') of Some b \<Rightarrow> b | None \<Rightarrow> TokenBucket_new cap refill now)"
      "ok = fst (TokenBucket_check now b)"
      "buckets t1 = (buckets t)((s', key') \<mapsto> snd (TokenBucket_check now b))"
    by (elim RateTables_check_Some)
  show ?case
  proof (cases "s' = s \<and> key' = key")
    case True
    with b assms(1) have "bucket_at s key t params (now # times_for s key rs) = b"
        "bucket_at s key t1 params (times_for s key rs) = snd (TokenBucket_check now b)"
      by (auto simp: bucket_at_def split: option.splits)
    with True b(3) Cons.IH [OF rest] show ?thesis
      by (simp add: r oks check_all_Cons)
  next
    case False
    then have "buckets t1 (s, key) = buckets t (s, key)" using b(4) by auto
    then have "bucket_at s key t1 params ts = bucket_at s key t params ts" for ts
      by (simp add: bucket_at_def)
    with False Cons.IH [OF rest] show ?thesis
      by (auto simp: r oks)
  qed
qed

text \<open>
  C14: rate limiting isolates peers. In any interleaving of checks over any keys that
  starts from empty tables, the verdicts one key sees are those of a private bucket fed
  with that key's own checks only, so they do not depend on what other keys do, and the
  work let through for the key is at most its burst plus its rate times the seconds
  between its first and its latest check.
\<close>

theorem peer_isolation:
  assumes "bucket_params s = Some (cap, rate)" "run_checks rs RateTables_new c = Some (oks, t', c')"
  shows "verdicts_for s key rs oks =
      fst (check_all (times_for s key rs) (TokenBucket_new cap rate (hd (times_for s key rs)))) \<and>
    allowed (verdicts_for s key rs oks) \<le>
      unat cap + (unat (fold max (times_for s key rs) (hd (times_for s key rs))) -
                  unat (hd (times_for s key rs))) * unat rate"
  using run_checks_project [OF assms, of key] flood_bound
  by (simp add: bucket_at_def RateTables_new_def)
theorem peer_isolation_witness:
  "\<exists>oks t c. run_checks [(ResyncReqs, ''a'', 10), (ResyncReqs, ''b'', 10), (ResyncReqs, ''a'', 11)]
       RateTables_new (\<lambda>_. 0) = Some (oks, t, c) \<and>
     allowed (verdicts_for ResyncReqs ''a''
       [(ResyncReqs, ''a'', 10), (ResyncReqs, ''b'', 10), (ResyncReqs, ''a'', 11)] oks) \<le>
     unat RESYNC_REQ_BURST + unat RESYNC_REQ_PER_SEC"
proof -
  let ?rs = "[(ResyncReqs, ''a'', 10), (ResyncReqs, ''b'', 10), (ResyncReqs, ''a'', 11)]"
  obtain oks t c where r: "run_checks ?rs RateTables_new (\<lambda>_. 0) = Some (oks, t, c)"
    by (simp add: RateTables_check_def Let_def case_prod_beta)
  have ts: "times_for ResyncReqs ''a'' ?rs = [10, 11]" by simp
  have "unat (fold max [10, 11] (10 :: u64)) - unat (10 :: u64) = 1" by code_simp
  with conjunct2 [OF peer_isolation [OF bucket_params.simps(2) r, of "''a''"]]
  have "allowed (verdicts_for ResyncReqs ''a'' ?rs oks) \<le>
      unat RESYNC_REQ_BURST + unat RESYNC_REQ_PER_SEC"
    unfolding ts list.sel by simp
  with r show ?thesis by blast
qed

end
