(* ===== verification/Wire_Text.thy ===== *)
theory Wire_Text
  imports Wire_Bin
begin

text \<open>
  Rust strings. A \<open>String\<close> is its UTF-8 byte sequence, and its validity is the
  type's invariant: \<open>utf8_valid\<close> is the check of \<open>String::from_utf8\<close> (well-formed
  byte sequences of the Unicode standard, no overlong forms, no surrogates,
  nothing above U+10FFFF), \<open>chars_count\<close> is \<open>chars().count()\<close> and \<open>has_control\<close> is
  \<open>chars().any(char::is_control)\<close> (U+0000 to U+001F and U+007F to U+009F).
\<close>

definition utf8_cont :: "u8 \<Rightarrow> bool" where
  "utf8_cont b \<longleftrightarrow> 0x80 \<le> b \<and> b \<le> 0xBF"

definition utf8_second3 :: "u8 \<Rightarrow> u8 \<Rightarrow> bool" where
  "utf8_second3 b c \<longleftrightarrow>
     (if b = 0xE0 then 0xA0 \<le> c \<and> c \<le> 0xBF
      else if b = 0xED then 0x80 \<le> c \<and> c \<le> 0x9F
      else utf8_cont c)"

definition utf8_second4 :: "u8 \<Rightarrow> u8 \<Rightarrow> bool" where
  "utf8_second4 b c \<longleftrightarrow>
     (if b = 0xF0 then 0x90 \<le> c \<and> c \<le> 0xBF
      else if b = 0xF4 then 0x80 \<le> c \<and> c \<le> 0x8F
      else utf8_cont c)"

fun utf8_valid :: "bytes \<Rightarrow> bool" where
  "utf8_valid [] = True"
| "utf8_valid (b # bs) =
     (if b < 0x80 then utf8_valid bs
      else if 0xC2 \<le> b \<and> b \<le> 0xDF then
        (case bs of c1 # r \<Rightarrow> utf8_cont c1 \<and> utf8_valid r | _ \<Rightarrow> False)
      else if 0xE0 \<le> b \<and> b \<le> 0xEF then
        (case bs of c1 # c2 # r \<Rightarrow> utf8_second3 b c1 \<and> utf8_cont c2 \<and> utf8_valid r
         | _ \<Rightarrow> False)
      else if 0xF0 \<le> b \<and> b \<le> 0xF4 then
        (case bs of c1 # c2 # c3 # r \<Rightarrow>
           utf8_second4 b c1 \<and> utf8_cont c2 \<and> utf8_cont c3 \<and> utf8_valid r
         | _ \<Rightarrow> False)
      else False)"

definition from_utf8 :: "wire_error \<Rightarrow> bytes \<Rightarrow> wire_error + bytes" where
  "from_utf8 e bs = (if utf8_valid bs then Ok bs else Err e)"

definition chars_count :: "bytes \<Rightarrow> nat" where
  "chars_count s = length (filter (\<lambda>b. \<not> utf8_cont b) s)"

fun has_control :: "bytes \<Rightarrow> bool" where
  "has_control [] = False"
| "has_control (b # bs) =
     (b < 0x20 \<or> b = 0x7F \<or>
      (b = 0xC2 \<and> (case bs of c # r \<Rightarrow> 0x80 \<le> c \<and> c \<le> 0x9F | [] \<Rightarrow> False)) \<or>
      has_control bs)"

definition is_ascii :: "bytes \<Rightarrow> bool" where
  "is_ascii s \<longleftrightarrow> (\<forall>b \<in> set s. b < 0x80)"

text \<open>\<open>str::trim\<close> removes characters with the White\_Space property; these are their encodings.\<close>

definition white_space :: "bytes list" where
  "white_space =
     [[0x09], [0x0A], [0x0B], [0x0C], [0x0D], [0x20], [0xC2, 0x85], [0xC2, 0xA0], [0xE1, 0x9A, 0x80]] @
     map (\<lambda>i. [0xE2, 0x80, 0x80 + of_nat i]) [0..<11] @
     [[0xE2, 0x80, 0xA8], [0xE2, 0x80, 0xA9], [0xE2, 0x80, 0xAF], [0xE2, 0x81, 0x9F], [0xE3, 0x80, 0x80]]"

fun trim_start :: "nat \<Rightarrow> bytes list \<Rightarrow> bytes \<Rightarrow> bytes" where
  "trim_start 0 ws bs = bs"
| "trim_start (Suc n) ws bs =
     (case find (\<lambda>w. take (length w) bs = w) ws of
        None \<Rightarrow> bs
      | Some w \<Rightarrow> trim_start n ws (drop (length w) bs))"

text \<open>Every step removes a byte, so the length bounds the steps; the end is trimmed on the reversed bytes.\<close>

definition trim :: "bytes \<Rightarrow> bytes" where
  "trim bs =
     (let bs = trim_start (length bs) white_space bs
      in rev (trim_start (length bs) (map rev white_space) (rev bs)))"

text \<open>Texts that are kept as strings, one character for each byte.\<close>

definition byte_str :: "string \<Rightarrow> bytes" where
  "byte_str s = map of_char s"

definition text_of :: "bytes \<Rightarrow> string" where
  "text_of bs = map (\<lambda>b. char_of (unat b)) bs"

lemma utf8_valid_ascii: "is_ascii s \<Longrightarrow> utf8_valid s"
  unfolding is_ascii_def by (induction s) auto

lemma from_utf8_Ok [simp]: "from_utf8 e bs = Ok s \<longleftrightarrow> utf8_valid bs \<and> s = bs"
  by (auto simp: from_utf8_def)

lemma from_utf8_valid [simp]: "utf8_valid bs \<Longrightarrow> from_utf8 e bs = Ok bs"
  by simp

lemma chars_count_le: "chars_count s \<le> length s"
  by (simp add: chars_count_def)

end
