(* ===== verification/Wire_Limits.thy ===== *)
theory Wire_Limits
  imports Prelude
begin

text \<open>
  The bounds catalogue of the wire protocol, \<^verbatim>\<open>crates/wire-types/src/limits.rs\<close>,
  with the item predicates it declares for stickers. Byte counts are natural
  numbers, kind and visibility codes are bytes.
\<close>

section \<open>Message, profile, attachment, envelope, resync and preference caps\<close>

definition MAX_BODY_BYTES :: nat where [limit_defs]: "MAX_BODY_BYTES = 16 * 1024"

definition MAX_NAME_BYTES :: nat where [limit_defs]: "MAX_NAME_BYTES = 32"

definition MAX_JPEG :: nat where [limit_defs]: "MAX_JPEG = 24 * 1024"

definition MAX_ATTACH :: nat where [limit_defs]: "MAX_ATTACH = 25 * 1024 * 1024"

definition CHUNK_DATA_MAX :: nat where [limit_defs]: "CHUNK_DATA_MAX = 27900"

definition MAX_MIME :: nat where [limit_defs]: "MAX_MIME = 64"

definition MAX_EXT :: nat where [limit_defs]: "MAX_EXT = 8"

definition MAX_CAPTION :: nat where [limit_defs]: "MAX_CAPTION = 16 * 1024"

definition MAX_CHUNKS :: nat where [limit_defs]: "MAX_CHUNKS = 1024"

definition MAX_ENVELOPE_BYTES :: nat where [limit_defs]: "MAX_ENVELOPE_BYTES = 27996"

definition MAX_BITMAP_BYTES :: nat where [limit_defs]: "MAX_BITMAP_BYTES = 512"

definition BITMAP_BITS :: nat where [limit_defs]: "BITMAP_BITS = MAX_BITMAP_BYTES * 8"

definition DEEP_WINDOW :: u64 where [limit_defs]: "DEEP_WINDOW = 4096"

definition MAX_ERASE_HOURS :: nat where [limit_defs]: "MAX_ERASE_HOURS = 24 * 365"

section \<open>Sticker caps\<close>

definition KIND_EMOJI :: u8 where [limit_defs]: "KIND_EMOJI = 1"

definition KIND_STICKER :: u8 where [limit_defs]: "KIND_STICKER = 2"

definition VISIBILITY_PUBLIC :: u8 where [limit_defs]: "VISIBILITY_PUBLIC = 1"

definition VISIBILITY_PRIVATE :: u8 where [limit_defs]: "VISIBILITY_PRIVATE = 2"

definition MAX_ITEMS_EMOJI :: nat where [limit_defs]: "MAX_ITEMS_EMOJI = 64"

definition MAX_ITEMS_STICKER :: nat where [limit_defs]: "MAX_ITEMS_STICKER = 50"

definition MAX_EDGE_EMOJI :: nat where [limit_defs]: "MAX_EDGE_EMOJI = 160"

definition MAX_EDGE_STICKER :: nat where [limit_defs]: "MAX_EDGE_STICKER = 512"

definition MAX_BYTES_EMOJI :: nat where [limit_defs]: "MAX_BYTES_EMOJI = 64 * 1024"

definition MAX_BYTES_STICKER :: nat where [limit_defs]: "MAX_BYTES_STICKER = 512 * 1024"

definition STICKER_ASPECT_NUM :: nat where [limit_defs]: "STICKER_ASPECT_NUM = 3"

definition MAX_TITLE_CHARS :: nat where [limit_defs]: "MAX_TITLE_CHARS = 32"

definition ITEM_CHUNK_MAX :: nat where [limit_defs]: "ITEM_CHUNK_MAX = 27500"

definition MAX_ITEM_CHUNKS :: nat where [limit_defs]: "MAX_ITEM_CHUNKS = 24"

definition PACK_CHUNK_MAX :: nat where [limit_defs]: "PACK_CHUNK_MAX = 27500"

definition MAX_PACK_CHUNKS :: nat where [limit_defs]: "MAX_PACK_CHUNKS = 1280"

definition MAX_THUMB_BYTES :: nat where [limit_defs]: "MAX_THUMB_BYTES = 8 * 1024"

definition MAX_THUMBS_DOC_BYTES :: nat where [limit_defs]: "MAX_THUMBS_DOC_BYTES = 512 * 1024"

definition MAX_THUMBS_CHUNKS :: nat where [limit_defs]: "MAX_THUMBS_CHUNKS = 24"

definition MAX_PACK_DOC_BYTES :: nat where [limit_defs]: "MAX_PACK_DOC_BYTES = 28 * 1024 * 1024"

section \<open>Sticker predicates\<close>

definition max_items :: "u8 \<Rightarrow> nat" where
  "max_items kind =
     (if kind = KIND_EMOJI then MAX_ITEMS_EMOJI
      else if kind = KIND_STICKER then MAX_ITEMS_STICKER else 0)"

definition max_edge :: "u8 \<Rightarrow> nat" where
  "max_edge kind =
     (if kind = KIND_EMOJI then MAX_EDGE_EMOJI
      else if kind = KIND_STICKER then MAX_EDGE_STICKER else 0)"

definition max_bytes :: "u8 \<Rightarrow> nat" where
  "max_bytes kind =
     (if kind = KIND_EMOJI then MAX_BYTES_EMOJI
      else if kind = KIND_STICKER then MAX_BYTES_STICKER else 0)"

definition valid_kind :: "u8 \<Rightarrow> bool" where
  "valid_kind kind \<longleftrightarrow> kind = KIND_EMOJI \<or> kind = KIND_STICKER"

definition valid_visibility :: "u8 \<Rightarrow> bool" where
  "valid_visibility visibility \<longleftrightarrow>
     visibility = VISIBILITY_PUBLIC \<or> visibility = VISIBILITY_PRIVATE"

definition aspect_ok :: "u8 \<Rightarrow> u32 \<Rightarrow> u32 \<Rightarrow> bool" where
  "aspect_ok kind w h =
     (if w = 0 \<or> h = 0 then False
      else if kind = KIND_EMOJI then w = h
      else if kind = KIND_STICKER then
        unat w \<le> unat h * STICKER_ASPECT_NUM \<and> unat h \<le> unat w * STICKER_ASPECT_NUM
      else False)"

definition item_ok :: "u8 \<Rightarrow> u32 \<Rightarrow> u32 \<Rightarrow> nat \<Rightarrow> bool" where
  "item_ok kind w h byte_len \<longleftrightarrow>
     valid_kind kind \<and> byte_len > 0 \<and> byte_len \<le> max_bytes kind \<and>
     aspect_ok kind w h \<and> unat (max w h) \<le> max_edge kind"

lemma max_bytes_le: "max_bytes kind \<le> MAX_BYTES_STICKER"
  by (simp add: max_bytes_def limit_defs)

lemma max_items_le: "max_items kind \<le> 64"
  by (simp add: max_items_def limit_defs)

end
