(* ===== verification/Wire_Payload.thy ===== *)
theory Wire_Payload
  imports Wire_Text Wire_Limits
begin

text \<open>
  The contract of the \<open>WirePayload\<close> trait of \<^verbatim>\<open>crates/wire-types/src/lib.rs\<close>, as two
  locales over the pair of trait methods and the invariant of the Rust type.

  \<open>wire_payload\<close> is what every implementation keeps: an encoding decodes to the
  value it came from, decoding only produces well-formed values, and a decoded
  value encodes again, to no more bytes than it came in. The last law is what the engine's inbound path relies on: it
  stores \<open>payload.encode()?\<close> of an envelope it has just decoded.

  \<open>canonical_payload\<close> is the stronger contract of the payloads without ignored bits
  or optional tails: exactly one byte string decodes to a value.
\<close>

locale wire_payload =
  fixes encode :: "'p \<Rightarrow> 'e + bytes"
    and decode :: "bytes \<Rightarrow> 'e + 'p"
    and wf :: "'p \<Rightarrow> bool"
  assumes decode_encode: "wf p \<Longrightarrow> encode p = Ok b \<Longrightarrow> decode b = Ok p"
    and decode_wf: "decode b = Ok p \<Longrightarrow> wf p"
    and decode_encodable: "decode b = Ok p \<Longrightarrow> \<exists>b'. encode p = Ok b' \<and> length b' \<le> length b"
begin

lemma encode_inject:
  assumes "wf p" "wf q" "encode p = Ok b" "encode q = Ok b"
  shows "p = q"
proof -
  from assms have "decode b = Ok p" "decode b = Ok q"
    by (auto intro: decode_encode)
  then show ?thesis by simp
qed

lemma reencode:
  "decode b = Ok p \<Longrightarrow> \<exists>b'. encode p = Ok b' \<and> length b' \<le> length b \<and> decode b' = Ok p"
  using decode_encodable decode_encode decode_wf by blast

end

locale canonical_payload =
  fixes encode :: "'p \<Rightarrow> 'e + bytes"
    and decode :: "bytes \<Rightarrow> 'e + 'p"
    and wf :: "'p \<Rightarrow> bool"
  assumes decode_iff: "decode b = Ok p \<longleftrightarrow> wf p \<and> encode p = Ok b"
begin

lemma decode_inject: "decode b = Ok p \<Longrightarrow> decode c = Ok p \<Longrightarrow> b = c"
  by (simp add: decode_iff)

lemma encode_decode: "decode b = Ok p \<Longrightarrow> encode p = Ok b"
  by (simp add: decode_iff)

end

sublocale canonical_payload \<subseteq> wire_payload
  by unfold_locales (auto simp: decode_iff)

end
