(* ===== verification/Wire_Basic.thy ===== *)
theory Wire_Basic
  imports Wire_Payload
begin

text \<open>
  The small payload types of \<^verbatim>\<open>crates/wire-types/src\<close>: \<^verbatim>\<open>msg.rs\<close>, \<^verbatim>\<open>edit.rs\<close>,
  \<^verbatim>\<open>delete.rs\<close>, \<^verbatim>\<open>contact.rs\<close>, \<^verbatim>\<open>read.rs\<close>, \<^verbatim>\<open>typing.rs\<close>, \<^verbatim>\<open>presence.rs\<close>, \<^verbatim>\<open>pref.rs\<close>,
  \<^verbatim>\<open>profile.rs\<close>, \<^verbatim>\<open>resync.rs\<close> and \<^verbatim>\<open>policy.rs\<close>, each with its encoder, its strict
  decoder, the invariant of its Rust type and the interpretation of the payload
  contract. Unicode normalisation (the crate \<open>unicode_normalization\<close>) and SHA-256
  (the crate \<open>sha2\<close>) are parameters \<open>nfc\<close> and \<open>sha256\<close> of the definitions that
  use them.
\<close>

section \<open>MSG and EDIT\<close>

record msg =
  msg_body :: bytes

definition Msg_new :: "bytes \<Rightarrow> wire_error + msg" where
  "Msg_new body =
     (if length body > MAX_BODY_BYTES
      then Err (TooLarge ''msg.body'' (length body) MAX_BODY_BYTES)
      else Ok \<lparr>msg_body = body\<rparr>)"

definition Msg_encode_payload :: "msg \<Rightarrow> wire_error + bytes" where
  "Msg_encode_payload p =
     (if length (msg_body p) > MAX_BODY_BYTES
      then Err (TooLarge ''msg.body'' (length (msg_body p)) MAX_BODY_BYTES)
      else Ok (msg_body p))"

definition Msg_decode_payload :: "bytes \<Rightarrow> wire_error + msg" where
  "Msg_decode_payload bs =
     (if length bs > MAX_BODY_BYTES
      then Err (TooLarge ''msg.body'' (length bs) MAX_BODY_BYTES)
      else rbind (from_utf8 (BadField ''msg.body'' ''invalid utf-8'') bs)
             (\<lambda>body. Ok \<lparr>msg_body = body\<rparr>))"

record edit =
  edit_body :: bytes

definition Edit_new :: "bytes \<Rightarrow> wire_error + edit" where
  "Edit_new body =
     (if length body > MAX_BODY_BYTES
      then Err (TooLarge ''edit.body'' (length body) MAX_BODY_BYTES)
      else Ok \<lparr>edit_body = body\<rparr>)"

definition Edit_encode_payload :: "edit \<Rightarrow> wire_error + bytes" where
  "Edit_encode_payload p =
     (if length (edit_body p) > MAX_BODY_BYTES
      then Err (TooLarge ''edit.body'' (length (edit_body p)) MAX_BODY_BYTES)
      else Ok (edit_body p))"

definition Edit_decode_payload :: "bytes \<Rightarrow> wire_error + edit" where
  "Edit_decode_payload bs =
     (if length bs > MAX_BODY_BYTES
      then Err (TooLarge ''edit.body'' (length bs) MAX_BODY_BYTES)
      else rbind (from_utf8 (BadField ''edit.body'' ''invalid utf-8'') bs)
             (\<lambda>body. Ok \<lparr>edit_body = body\<rparr>))"

section \<open>Payloads without content\<close>

definition decode_empty :: "string \<Rightarrow> bytes \<Rightarrow> wire_error + unit" where
  "decode_empty at bs = (if bs \<noteq> [] then Err (TooLarge at (length bs) 0) else Ok ())"

datatype delete = Delete

definition Delete_encode_payload :: "delete \<Rightarrow> wire_error + bytes" where
  "Delete_encode_payload p = Ok []"

definition Delete_decode_payload :: "bytes \<Rightarrow> wire_error + delete" where
  "Delete_decode_payload bs = rbind (decode_empty ''delete'' bs) (\<lambda>_. Ok Delete)"

datatype delete_all = DeleteAll

definition DeleteAll_encode_payload :: "delete_all \<Rightarrow> wire_error + bytes" where
  "DeleteAll_encode_payload p = Ok []"

definition DeleteAll_decode_payload :: "bytes \<Rightarrow> wire_error + delete_all" where
  "DeleteAll_decode_payload bs = rbind (decode_empty ''delete_all'' bs) (\<lambda>_. Ok DeleteAll)"

datatype contact_close = ContactClose

definition ContactClose_encode_payload :: "contact_close \<Rightarrow> wire_error + bytes" where
  "ContactClose_encode_payload p = Ok []"

definition ContactClose_decode_payload :: "bytes \<Rightarrow> wire_error + contact_close" where
  "ContactClose_decode_payload bs =
     rbind (decode_empty ''contact_close'' bs) (\<lambda>_. Ok ContactClose)"

datatype profile_req = ProfileReq

definition ProfileReq_encode_payload :: "profile_req \<Rightarrow> wire_error + bytes" where
  "ProfileReq_encode_payload p = Ok []"

definition ProfileReq_decode_payload :: "bytes \<Rightarrow> wire_error + profile_req" where
  "ProfileReq_decode_payload bs = rbind (decode_empty ''profile_req'' bs) (\<lambda>_. Ok ProfileReq)"

datatype read_receipt = Read

definition Read_encode_payload :: "read_receipt \<Rightarrow> wire_error + bytes" where
  "Read_encode_payload p = Ok []"

definition Read_decode_payload :: "bytes \<Rightarrow> wire_error + read_receipt" where
  "Read_decode_payload bs = rbind (decode_empty ''read'' bs) (\<lambda>_. Ok Read)"

section \<open>TYPING and PRESENCE\<close>

definition TYPING_VERSION :: u8 where "TYPING_VERSION = 1"

definition FLAG_TYPING :: u8 where "FLAG_TYPING = 1"

record typing =
  typing_on :: bool

definition Typing_encode_payload :: "typing \<Rightarrow> wire_error + bytes" where
  "Typing_encode_payload p =
     Ok (writes [Writer_u8 TYPING_VERSION,
                 Writer_u8 (if typing_on p then FLAG_TYPING else 0)])"

definition Typing_decode_payload :: "bytes \<Rightarrow> wire_error + typing" where
  "Typing_decode_payload bs =
     (let r = Reader_new bs in
      rbind (Reader_u8 ''typing.version'' r) (\<lambda>(version, r).
      if version \<noteq> TYPING_VERSION then Err (BadVersion ''typing'' version) else
      rbind (Reader_u8 ''typing.flags'' r) (\<lambda>(flags, r).
      rbind (Reader_expect_end ''typing'' r) (\<lambda>_.
      Ok \<lparr>typing_on = (flags AND FLAG_TYPING \<noteq> 0)\<rparr>))))"

definition PRESENCE_VERSION :: u8 where "PRESENCE_VERSION = 1"

definition FLAG_IN_APP :: u8 where "FLAG_IN_APP = 1"

definition FLAG_DND :: u8 where "FLAG_DND = 2"

record presence =
  in_app :: bool
  do_not_disturb :: bool

definition Presence_encode_payload :: "presence \<Rightarrow> wire_error + bytes" where
  "Presence_encode_payload p =
     (let flags = 0;
          flags = (if in_app p then flags OR FLAG_IN_APP else flags);
          flags = (if do_not_disturb p then flags OR FLAG_DND else flags)
      in Ok (writes [Writer_u8 PRESENCE_VERSION, Writer_u8 flags]))"

definition Presence_decode_payload :: "bytes \<Rightarrow> wire_error + presence" where
  "Presence_decode_payload bs =
     (let r = Reader_new bs in
      rbind (Reader_u8 ''presence.version'' r) (\<lambda>(version, r).
      if version \<noteq> PRESENCE_VERSION then Err (BadVersion ''presence'' version) else
      rbind (Reader_u8 ''presence.flags'' r) (\<lambda>(flags, r).
      rbind (Reader_expect_end ''presence'' r) (\<lambda>_.
      Ok \<lparr>in_app = (flags AND FLAG_IN_APP \<noteq> 0),
          do_not_disturb = (flags AND FLAG_DND \<noteq> 0)\<rparr>))))"

section \<open>PREF\<close>

definition PREF_VERSION :: u8 where "PREF_VERSION = 1"

definition FLAG_RECEIVE_MEDIA :: u32 where "FLAG_RECEIVE_MEDIA = 1"

definition FLAG_LISTEN_SAVER :: u32 where "FLAG_LISTEN_SAVER = 2"

record pref =
  receive_media :: bool
  listen_saver :: bool
  inactivity_erase_hours :: u32

definition pref_hours_error :: "u32 \<Rightarrow> wire_error" where
  "pref_hours_error hours =
     BadField ''pref.inactivity_erase_hours''
       (show_nat (unat hours) @ '' exceeds '' @ show_nat MAX_ERASE_HOURS)"

definition Pref_encode_payload :: "pref \<Rightarrow> wire_error + bytes" where
  "Pref_encode_payload p =
     (if unat (inactivity_erase_hours p) > MAX_ERASE_HOURS
      then Err (pref_hours_error (inactivity_erase_hours p))
      else
        (let flags = 0;
             flags = (if receive_media p then flags OR FLAG_RECEIVE_MEDIA else flags);
             flags = (if listen_saver p then flags OR FLAG_LISTEN_SAVER else flags)
         in Ok (writes [Writer_u8 PREF_VERSION, Writer_u32be flags,
                        Writer_u32be (inactivity_erase_hours p)])))"

definition Pref_decode_payload :: "bytes \<Rightarrow> wire_error + pref" where
  "Pref_decode_payload bs =
     (let r = Reader_new bs in
      rbind (Reader_u8 ''pref.version'' r) (\<lambda>(version, r).
      if version \<noteq> PREF_VERSION then Err (BadVersion ''pref'' version) else
      rbind (Reader_u32be ''pref.flags'' r) (\<lambda>(flags, r).
      rbind (Reader_u32be ''pref.erase_hours'' r) (\<lambda>(hours, r).
      rbind (Reader_expect_end ''pref'' r) (\<lambda>_.
      if unat hours > MAX_ERASE_HOURS then Err (pref_hours_error hours) else
      Ok \<lparr>receive_media = (flags AND FLAG_RECEIVE_MEDIA \<noteq> 0),
          listen_saver = (flags AND FLAG_LISTEN_SAVER \<noteq> 0),
          inactivity_erase_hours = hours\<rparr>)))))"

section \<open>PROFILE\<close>

definition PROFILE_VERSION :: u8 where "PROFILE_VERSION = 1"

definition name_ok :: "(bytes \<Rightarrow> bytes) \<Rightarrow> bytes \<Rightarrow> bool" where
  "name_ok nfc raw =
     (if nfc raw \<noteq> raw then False
      else if raw = [] \<or> length raw > MAX_NAME_BYTES then False
      else \<not> has_control raw)"

definition jpeg_ok :: "bytes \<Rightarrow> bool" where
  "jpeg_ok jpeg \<longleftrightarrow>
     jpeg = [] \<or> (length jpeg \<ge> 3 \<and> jpeg ! 0 = 0xff \<and> jpeg ! 1 = 0xd8)"

record profile =
  profile_name :: bytes
  profile_jpeg :: bytes

definition Profile_encode_payload :: "(bytes \<Rightarrow> bytes) \<Rightarrow> profile \<Rightarrow> wire_error + bytes" where
  "Profile_encode_payload nfc p =
     (if \<not> name_ok nfc (profile_name p)
      then Err (BadField ''profile.name'' ''name fails nfc/length/control rules'')
      else if length (profile_jpeg p) > MAX_JPEG
      then Err (TooLarge ''profile.jpeg'' (length (profile_jpeg p)) MAX_JPEG)
      else if \<not> jpeg_ok (profile_jpeg p)
      then Err (BadField ''profile.jpeg'' ''bad jpeg magic'')
      else Ok (writes [Writer_u8 PROFILE_VERSION, Writer_lp (profile_name p),
                       Writer_lp (profile_jpeg p)]))"

definition Profile_decode_payload :: "(bytes \<Rightarrow> bytes) \<Rightarrow> bytes \<Rightarrow> wire_error + profile" where
  "Profile_decode_payload nfc bs =
     (let r = Reader_new bs in
      rbind (Reader_u8 ''profile.version'' r) (\<lambda>(version, r).
      if version \<noteq> PROFILE_VERSION then Err (BadVersion ''profile'' version) else
      rbind (Reader_lp MAX_NAME_BYTES ''profile.name'' r) (\<lambda>(name_bytes, r).
      rbind (from_utf8 (BadField ''profile.name'' ''invalid utf-8'') name_bytes) (\<lambda>name.
      if \<not> name_ok nfc name
      then Err (BadField ''profile.name'' ''name fails nfc/length/control rules'') else
      rbind (Reader_lp MAX_JPEG ''profile.jpeg'' r) (\<lambda>(jpeg, r).
      rbind (Reader_expect_end ''profile'' r) (\<lambda>_.
      if \<not> jpeg_ok jpeg then Err (BadField ''profile.jpeg'' ''bad jpeg magic'') else
      Ok \<lparr>profile_name = name, profile_jpeg = jpeg\<rparr>))))))"

section \<open>RESYNC_REQ\<close>

definition HASH_BYTES :: nat where "HASH_BYTES = 32"

definition HASH_DOMAIN :: bytes where
  "HASH_DOMAIN = map (\<lambda>c. of_nat (of_char c)) ''S7HIST1''"

record resync_req =
  max_contiguous_seq :: u64
  received_seq_bitmap :: bytes
  req_caps :: u32
  req_history_hash :: bytes

definition deep_base :: "u64 \<Rightarrow> u64" where
  "deep_base mx = max (saturating_add (saturating_sub mx DEEP_WINDOW) 1) 1"

definition history_hash :: "(bytes \<Rightarrow> bytes) \<Rightarrow> u64 \<Rightarrow> bytes \<Rightarrow> u64 list \<Rightarrow> bytes" where
  "history_hash sha256 mx bitmap deep_seqs =
     (let deep_digest = sha256 (concat (map be64 deep_seqs))
      in sha256 (HASH_DOMAIN @ be64 mx @ be32 (of_nat (length bitmap)) @ bitmap @ deep_digest))"

text \<open>
  The loop of \<open>hash_contiguous\<close>. Its counter is a \<open>u64\<close>: incrementing the largest
  value panics in a build with overflow checks and wraps to 0, without end, in one without
  them; the result \<open>None\<close> stands for both.
\<close>

function contiguous_feed :: "u64 \<Rightarrow> u64 \<Rightarrow> bytes option" where
  "contiguous_feed seq mx =
     (if seq \<le> mx then
        (if seq = - 1 then None
         else map_option (\<lambda>rest. be64 seq @ rest) (contiguous_feed (seq + 1) mx))
      else Some [])"
  by pat_completeness auto
termination
proof (relation "measure (\<lambda>(seq, mx). 2 ^ 64 - unat seq)")
  fix seq mx :: u64
  assume "seq \<le> mx" "seq \<noteq> - 1"
  then have "unat (seq + 1) = unat seq + 1"
    by (intro unat_inc)
  then show "((seq + 1, mx), (seq, mx)) \<in> measure (\<lambda>(seq, mx). 2 ^ 64 - unat seq)"
    using unat_u64_less [of seq] by (simp del: unat_u64_less)
qed simp

declare contiguous_feed.simps [simp del]

definition hash_contiguous :: "(bytes \<Rightarrow> bytes) \<Rightarrow> u64 \<Rightarrow> bytes \<Rightarrow> bytes option" where
  "hash_contiguous sha256 mx bitmap =
     map_option (\<lambda>deep.
       sha256 (HASH_DOMAIN @ be64 mx @ be32 (of_nat (length bitmap)) @ bitmap @ sha256 deep))
       (contiguous_feed (deep_base mx) mx)"

definition ResyncReq_encode_payload :: "resync_req \<Rightarrow> wire_error + bytes" where
  "ResyncReq_encode_payload p =
     (if length (received_seq_bitmap p) > MAX_BITMAP_BYTES
      then Err (TooLarge ''resync.bitmap'' (length (received_seq_bitmap p)) MAX_BITMAP_BYTES)
      else Ok (writes [Writer_u64be (max_contiguous_seq p), Writer_lp (received_seq_bitmap p),
                       Writer_u32be (req_caps p), Writer_raw (req_history_hash p)]))"

definition ResyncReq_decode_payload :: "bytes \<Rightarrow> wire_error + resync_req" where
  "ResyncReq_decode_payload bs =
     (let r = Reader_new bs in
      rbind (Reader_u64be ''resync.max_seq'' r) (\<lambda>(mx, r).
      rbind (Reader_lp MAX_BITMAP_BYTES ''resync.bitmap'' r) (\<lambda>(bitmap, r).
      rbind (Reader_u32be ''resync.caps'' r) (\<lambda>(caps, r).
      rbind (Reader_take HASH_BYTES ''resync.history_hash'' r) (\<lambda>(hash, r).
      rbind (Reader_expect_end ''resync'' r) (\<lambda>_.
      Ok \<lparr>max_contiguous_seq = mx, received_seq_bitmap = bitmap,
          req_caps = caps, req_history_hash = hash\<rparr>))))))"

section \<open>CHAT_POLICY\<close>

definition POLICY_VERSION :: u8 where "POLICY_VERSION = 1"

definition OP_RULE_PROPOSE :: u8 where "OP_RULE_PROPOSE = 1"

definition OP_RULE_ACCEPT :: u8 where "OP_RULE_ACCEPT = 2"

definition OP_CAP_SET :: u8 where "OP_CAP_SET = 3"

definition OP_SYNC :: u8 where "OP_SYNC = 4"

lemmas policy_ops = OP_RULE_PROPOSE_def OP_RULE_ACCEPT_def OP_CAP_SET_def OP_SYNC_def

definition FLAG_SCREENSHOT :: u32 where "FLAG_SCREENSHOT = 1"

definition FLAG_ATTACH_DL :: u32 where "FLAG_ATTACH_DL = 2"

definition FLAG_WANT_ATTACH :: u32 where "FLAG_WANT_ATTACH = 4"

definition FLAG_WANT_EMOJI :: u32 where "FLAG_WANT_EMOJI = 8"

definition FLAG_WANT_PRESENCE :: u32 where "FLAG_WANT_PRESENCE = 16"

definition FLAG_WANT_TYPING :: u32 where "FLAG_WANT_TYPING = 32"

definition FLAG_WANT_RECEIPTS :: u32 where "FLAG_WANT_RECEIPTS = 64"

lemmas policy_flags = FLAG_SCREENSHOT_def FLAG_ATTACH_DL_def FLAG_WANT_ATTACH_def
  FLAG_WANT_EMOJI_def FLAG_WANT_PRESENCE_def FLAG_WANT_TYPING_def FLAG_WANT_RECEIPTS_def

definition CAP_ID_ATTACH :: u8 where "CAP_ID_ATTACH = 0"

definition CAP_ID_EMOJI :: u8 where "CAP_ID_EMOJI = 1"

definition CAP_ID_PRESENCE :: u8 where "CAP_ID_PRESENCE = 2"

definition CAP_ID_TYPING :: u8 where "CAP_ID_TYPING = 3"

definition CAP_ID_RECEIPTS :: u8 where "CAP_ID_RECEIPTS = 4"

definition CAP_ID_MAX :: u8 where "CAP_ID_MAX = CAP_ID_RECEIPTS"

lemmas cap_ids = CAP_ID_ATTACH_def CAP_ID_EMOJI_def CAP_ID_PRESENCE_def CAP_ID_TYPING_def
  CAP_ID_RECEIPTS_def CAP_ID_MAX_def

definition TTL_NEVER :: u32 where "TTL_NEVER = 0"

definition TTL_24H :: u32 where "TTL_24H = 86400"

definition TTL_OPTIONS :: "u32 list" where
  "TTL_OPTIONS = [3600, 21600, 43200, TTL_24H, 259200, 604800, 1209600, TTL_NEVER]"

definition is_allowed_ttl :: "u32 \<Rightarrow> bool" where
  "is_allowed_ttl ttl \<longleftrightarrow> ttl \<in> set TTL_OPTIONS"

definition cap_bit :: "u8 \<Rightarrow> u32" where
  "cap_bit cap_id =
     (if cap_id = CAP_ID_ATTACH then FLAG_WANT_ATTACH
      else if cap_id = CAP_ID_EMOJI then FLAG_WANT_EMOJI
      else if cap_id = CAP_ID_PRESENCE then FLAG_WANT_PRESENCE
      else if cap_id = CAP_ID_TYPING then FLAG_WANT_TYPING
      else if cap_id = CAP_ID_RECEIPTS then FLAG_WANT_RECEIPTS
      else 0)"

definition cap_id_of :: "u32 \<Rightarrow> u8 option" where
  "cap_id_of b =
     (if b = FLAG_WANT_ATTACH then Some CAP_ID_ATTACH
      else if b = FLAG_WANT_EMOJI then Some CAP_ID_EMOJI
      else if b = FLAG_WANT_PRESENCE then Some CAP_ID_PRESENCE
      else if b = FLAG_WANT_TYPING then Some CAP_ID_TYPING
      else if b = FLAG_WANT_RECEIPTS then Some CAP_ID_RECEIPTS
      else None)"

definition POLICY_SIZE :: nat where "POLICY_SIZE = 1 + 1 + 4 + 4 + 1 + 1 + 16"

record chat_policy =
  cp_op :: u8
  cp_ttl_sec :: u32
  cp_screenshot :: bool
  cp_attach_download :: bool
  cp_want_attach :: bool
  cp_want_emoji :: bool
  cp_want_presence :: bool
  cp_want_typing :: bool
  cp_want_receipts :: bool
  cp_cap_id :: u8
  cp_cap_on :: bool
  cp_propose_id :: bytes

definition ChatPolicy_flags :: "chat_policy \<Rightarrow> u32" where
  "ChatPolicy_flags p =
     (let flags = 0;
          flags = (if cp_screenshot p then flags OR FLAG_SCREENSHOT else flags);
          flags = (if cp_attach_download p then flags OR FLAG_ATTACH_DL else flags);
          flags = (if cp_want_attach p then flags OR FLAG_WANT_ATTACH else flags);
          flags = (if cp_want_emoji p then flags OR FLAG_WANT_EMOJI else flags);
          flags = (if cp_want_presence p then flags OR FLAG_WANT_PRESENCE else flags);
          flags = (if cp_want_typing p then flags OR FLAG_WANT_TYPING else flags);
          flags = (if cp_want_receipts p then flags OR FLAG_WANT_RECEIPTS else flags)
      in flags)"

definition ChatPolicy_validate :: "chat_policy \<Rightarrow> wire_error + unit" where
  "ChatPolicy_validate p =
     (if \<not> (OP_RULE_PROPOSE \<le> cp_op p \<and> cp_op p \<le> OP_SYNC)
      then Err (BadField ''policy.op'' (''op '' @ show_nat (unat (cp_op p))))
      else if cp_op p \<noteq> OP_CAP_SET \<and> \<not> is_allowed_ttl (cp_ttl_sec p)
      then Err (BadField ''policy.ttl_sec''
                 (''ttl '' @ show_nat (unat (cp_ttl_sec p)) @ '' not in options''))
      else if cp_op p = OP_CAP_SET \<and> cp_cap_id p > CAP_ID_MAX
      then Err (BadField ''policy.cap_id'' (''cap id '' @ show_nat (unat (cp_cap_id p))))
      else Ok ())"

definition ChatPolicy_encode_payload :: "chat_policy \<Rightarrow> wire_error + bytes" where
  "ChatPolicy_encode_payload p =
     rbind (ChatPolicy_validate p) (\<lambda>_.
       Ok (writes [Writer_u8 POLICY_VERSION, Writer_u8 (cp_op p), Writer_u32be (cp_ttl_sec p),
                   Writer_u32be (ChatPolicy_flags p), Writer_u8 (cp_cap_id p),
                   Writer_u8 (if cp_cap_on p then 1 else 0), Writer_raw (cp_propose_id p)]))"

definition ChatPolicy_decode_payload :: "bytes \<Rightarrow> wire_error + chat_policy" where
  "ChatPolicy_decode_payload bs =
     (if length bs \<noteq> POLICY_SIZE then Err (BadLength ''policy'' (length bs) POLICY_SIZE) else
      let r = Reader_new bs in
      rbind (Reader_u8 ''policy.version'' r) (\<lambda>(version, r).
      if version \<noteq> POLICY_VERSION then Err (BadVersion ''policy'' version) else
      rbind (Reader_u8 ''policy.op'' r) (\<lambda>(op, r).
      rbind (Reader_u32be ''policy.ttl'' r) (\<lambda>(ttl_sec, r).
      rbind (Reader_u32be ''policy.flags'' r) (\<lambda>(flags, r).
      rbind (Reader_u8 ''policy.cap_id'' r) (\<lambda>(cap_id, r).
      rbind (Reader_u8 ''policy.cap_on'' r) (\<lambda>(cap_on, r).
      if cap_on > 1 then Err (BadField ''policy.cap_on'' (show_nat (unat cap_on))) else
      rbind (Reader_take 16 ''policy.propose_id'' r) (\<lambda>(propose_id, r).
      rbind (Reader_expect_end ''policy'' r) (\<lambda>_.
      let out = \<lparr>cp_op = op, cp_ttl_sec = ttl_sec,
                 cp_screenshot = (flags AND FLAG_SCREENSHOT \<noteq> 0),
                 cp_attach_download = (flags AND FLAG_ATTACH_DL \<noteq> 0),
                 cp_want_attach = (flags AND FLAG_WANT_ATTACH \<noteq> 0),
                 cp_want_emoji = (flags AND FLAG_WANT_EMOJI \<noteq> 0),
                 cp_want_presence = (flags AND FLAG_WANT_PRESENCE \<noteq> 0),
                 cp_want_typing = (flags AND FLAG_WANT_TYPING \<noteq> 0),
                 cp_want_receipts = (flags AND FLAG_WANT_RECEIPTS \<noteq> 0),
                 cp_cap_id = cap_id, cp_cap_on = (cap_on = 1), cp_propose_id = propose_id\<rparr>
      in rbind (ChatPolicy_validate out) (\<lambda>_. Ok out))))))))))"

section \<open>Type invariants\<close>

definition Msg_wf :: "msg \<Rightarrow> bool" where
  "Msg_wf p \<longleftrightarrow> utf8_valid (msg_body p)"

definition Edit_wf :: "edit \<Rightarrow> bool" where
  "Edit_wf p \<longleftrightarrow> utf8_valid (edit_body p)"

definition Profile_wf :: "profile \<Rightarrow> bool" where
  "Profile_wf p \<longleftrightarrow> utf8_valid (profile_name p)"

definition ResyncReq_wf :: "resync_req \<Rightarrow> bool" where
  "ResyncReq_wf p \<longleftrightarrow> length (req_history_hash p) = HASH_BYTES"

definition ChatPolicy_wf :: "chat_policy \<Rightarrow> bool" where
  "ChatPolicy_wf p \<longleftrightarrow> length (cp_propose_id p) = 16"

section \<open>The payload contract\<close>

interpretation msg: canonical_payload Msg_encode_payload Msg_decode_payload Msg_wf
  by unfold_locales
    (auto simp: Msg_encode_payload_def Msg_decode_payload_def Msg_wf_def rbind_Inr_iff)

interpretation edit: canonical_payload Edit_encode_payload Edit_decode_payload Edit_wf
  by unfold_locales
    (auto simp: Edit_encode_payload_def Edit_decode_payload_def Edit_wf_def rbind_Inr_iff)

lemma decode_empty_Ok [simp]: "decode_empty at bs = Ok u \<longleftrightarrow> bs = []"
  by (auto simp: decode_empty_def)

lemma singleton_payload [simp]:
  "Delete = p" "DeleteAll = q" "ContactClose = c" "ProfileReq = r" "Read = t"
  by (cases p, cases q, cases c, cases r, cases t, simp_all)+

interpretation delete: canonical_payload Delete_encode_payload Delete_decode_payload "\<lambda>_. True"
  by unfold_locales (auto simp: Delete_encode_payload_def Delete_decode_payload_def rbind_Inr_iff)

interpretation delete_all:
  canonical_payload DeleteAll_encode_payload DeleteAll_decode_payload "\<lambda>_. True"
  by unfold_locales
    (auto simp: DeleteAll_encode_payload_def DeleteAll_decode_payload_def rbind_Inr_iff)

interpretation contact_close:
  canonical_payload ContactClose_encode_payload ContactClose_decode_payload "\<lambda>_. True"
  by unfold_locales
    (auto simp: ContactClose_encode_payload_def ContactClose_decode_payload_def rbind_Inr_iff)

interpretation profile_req:
  canonical_payload ProfileReq_encode_payload ProfileReq_decode_payload "\<lambda>_. True"
  by unfold_locales
    (auto simp: ProfileReq_encode_payload_def ProfileReq_decode_payload_def rbind_Inr_iff)

interpretation read: canonical_payload Read_encode_payload Read_decode_payload "\<lambda>_. True"
  by unfold_locales (auto simp: Read_encode_payload_def Read_decode_payload_def rbind_Inr_iff)

interpretation typing: wire_payload Typing_encode_payload Typing_decode_payload "\<lambda>_. True"
  by unfold_locales
    (auto simp: Typing_encode_payload_def Typing_decode_payload_def TYPING_VERSION_def
      FLAG_TYPING_def wire_write reader_eval rbind_Inr_iff reader_inv Reader_new_rd split: if_splits)

interpretation presence: wire_payload Presence_encode_payload Presence_decode_payload "\<lambda>_. True"
  by unfold_locales
    (auto simp: Presence_encode_payload_def Presence_decode_payload_def PRESENCE_VERSION_def
      FLAG_IN_APP_def FLAG_DND_def Let_def wire_write reader_eval rbind_Inr_iff reader_inv Reader_new_rd
      split: if_splits)

interpretation pref: wire_payload Pref_encode_payload Pref_decode_payload "\<lambda>_. True"
proof unfold_locales
  fix p b
  assume "Pref_encode_payload p = Ok b"
  then show "Pref_decode_payload b = Ok p"
    by (auto simp: Pref_encode_payload_def Pref_decode_payload_def PREF_VERSION_def
        FLAG_RECEIVE_MEDIA_def FLAG_LISTEN_SAVER_def Let_def wire_write reader_eval Reader_new_rd
        split: if_splits)
next
  fix p b
  assume "Pref_decode_payload b = Ok p"
  then show "\<exists>b'. Pref_encode_payload p = Ok b' \<and> length b' \<le> length b"
    by (auto simp: Pref_encode_payload_def Pref_decode_payload_def rbind_Inr_iff Let_def wire_write
        reader_inv Reader_new_rd split: if_splits)
qed simp

interpretation profile:
  canonical_payload "Profile_encode_payload nfc" "Profile_decode_payload nfc" Profile_wf for nfc
proof
  fix b p
  have lims: "MAX_NAME_BYTES < 4294967296" "MAX_JPEG < 4294967296"
    by (simp_all add: limit_defs)
  show "Profile_decode_payload nfc b = Ok p \<longleftrightarrow>
      Profile_wf p \<and> Profile_encode_payload nfc p = Ok b" (is "?d \<longleftrightarrow> ?e")
  proof
    assume ?d
    then show ?e
      by (auto simp: Profile_decode_payload_def Profile_encode_payload_def Profile_wf_def
          wire_write rbind_Inr_iff reader_inv Reader_new_rd simp del: One_nat_def split: if_splits)
  next
    assume e: ?e
    then have "name_ok nfc (profile_name p)" "length (profile_jpeg p) \<le> MAX_JPEG"
        "jpeg_ok (profile_jpeg p)" "utf8_valid (profile_name p)"
      by (auto simp: Profile_encode_payload_def Profile_wf_def split: if_splits)
    moreover from this have "length (profile_name p) \<le> MAX_NAME_BYTES"
      by (auto simp: name_ok_def split: if_splits)
    ultimately show ?d
      using e lims by (auto simp: Profile_encode_payload_def Profile_decode_payload_def
        wire_write reader_eval Reader_new_rd)
  qed
qed

interpretation resync_req:
  canonical_payload ResyncReq_encode_payload ResyncReq_decode_payload ResyncReq_wf
proof
  fix b p
  have lims: "MAX_BITMAP_BYTES < 4294967296" by (simp add: limit_defs)
  show "ResyncReq_decode_payload b = Ok p \<longleftrightarrow> ResyncReq_wf p \<and> ResyncReq_encode_payload p = Ok b"
    using lims
    by (cases p) (auto simp: ResyncReq_encode_payload_def ResyncReq_decode_payload_def
        ResyncReq_wf_def wire_write reader_eval rbind_Inr_iff reader_inv Reader_new_rd
        split: if_splits)
qed

lemma ChatPolicy_flags_bits:
  "ChatPolicy_flags p AND FLAG_SCREENSHOT \<noteq> 0 \<longleftrightarrow> cp_screenshot p"
  "ChatPolicy_flags p AND FLAG_ATTACH_DL \<noteq> 0 \<longleftrightarrow> cp_attach_download p"
  "ChatPolicy_flags p AND FLAG_WANT_ATTACH \<noteq> 0 \<longleftrightarrow> cp_want_attach p"
  "ChatPolicy_flags p AND FLAG_WANT_EMOJI \<noteq> 0 \<longleftrightarrow> cp_want_emoji p"
  "ChatPolicy_flags p AND FLAG_WANT_PRESENCE \<noteq> 0 \<longleftrightarrow> cp_want_presence p"
  "ChatPolicy_flags p AND FLAG_WANT_TYPING \<noteq> 0 \<longleftrightarrow> cp_want_typing p"
  "ChatPolicy_flags p AND FLAG_WANT_RECEIPTS \<noteq> 0 \<longleftrightarrow> cp_want_receipts p"
  by (simp_all add: ChatPolicy_flags_def Let_def flag_and policy_flags)

interpretation chat_policy:
  wire_payload ChatPolicy_encode_payload ChatPolicy_decode_payload ChatPolicy_wf
proof
  fix p b
  assume wf: "ChatPolicy_wf p" and enc: "ChatPolicy_encode_payload p = Ok b"
  then have val: "ChatPolicy_validate p = Ok ()"
    by (auto simp: ChatPolicy_encode_payload_def rbind_Inr_iff)
  with enc have b: "b = [POLICY_VERSION, cp_op p] @ be32 (cp_ttl_sec p) @
      be32 (ChatPolicy_flags p) @ [cp_cap_id p, if cp_cap_on p then 1 else 0] @ cp_propose_id p"
    by (simp add: ChatPolicy_encode_payload_def wire_write)
  from wf val show "ChatPolicy_decode_payload b = Ok p"
    unfolding b
    by (cases p; cases "cp_cap_on p") (simp_all add: ChatPolicy_decode_payload_def
        ChatPolicy_wf_def POLICY_SIZE_def ChatPolicy_flags_bits reader_eval Reader_new_rd)
next
  fix b p
  assume "ChatPolicy_decode_payload b = Ok p"
  then show "ChatPolicy_wf p"
    by (auto simp: ChatPolicy_decode_payload_def ChatPolicy_wf_def Let_def rbind_Inr_iff
        reader_inv Reader_new_rd split: if_splits)
next
  fix b p
  assume "ChatPolicy_decode_payload b = Ok p"
  then have "ChatPolicy_validate p = Ok ()" "length b = POLICY_SIZE" "length (cp_propose_id p) = 16"
    by (auto simp: ChatPolicy_decode_payload_def Let_def rbind_Inr_iff reader_inv Reader_new_rd
        split: if_splits)
  then show "\<exists>b'. ChatPolicy_encode_payload p = Ok b' \<and> length b' \<le> length b"
    by (simp add: ChatPolicy_encode_payload_def wire_write POLICY_SIZE_def)
qed

section \<open>The history fingerprint\<close>

lemma contiguous_feed_upt:
  "mx \<noteq> - 1 \<Longrightarrow>
     contiguous_feed seq mx = Some (concat (map (\<lambda>n. be64 (of_nat n)) [unat seq..<Suc (unat mx)]))"
proof (induction seq mx rule: contiguous_feed.induct)
  case (1 seq mx)
  show ?case
  proof (cases "seq \<le> mx")
    case True
    with 1(2) have "seq \<noteq> - 1"
      by (metis word_order.extremum_unique)
    with True 1 show ?thesis
      by (subst contiguous_feed.simps) (simp add: unat_inc upt_conv_Cons word_le_nat_alt
        del: upt_Suc)
  next
    case False
    then show ?thesis
      by (subst contiguous_feed.simps) (simp add: word_le_nat_alt)
  qed
qed

lemma contiguous_feed_overflow: "contiguous_feed seq (- 1) = None"
proof (induction "2 ^ 64 - unat seq" arbitrary: seq rule: less_induct)
  case less
  show ?case
  proof (cases "seq = - 1")
    case False
    then have "contiguous_feed (seq + 1) (- 1) = None"
      using less unat_u64_less [of seq] by (simp add: unat_inc del: unat_u64_less)
    with False show ?thesis by (subst contiguous_feed.simps) simp
  qed (subst contiguous_feed.simps, simp)
qed

definition deep_window :: "u64 \<Rightarrow> u64 list" where
  "deep_window mx = map of_nat [unat (deep_base mx)..<Suc (unat mx)]"

lemma hash_contiguous_deep:
  "mx \<noteq> - 1 \<Longrightarrow> hash_contiguous sha256 mx bitmap =
     Some (history_hash sha256 mx bitmap (deep_window mx))"
  by (simp add: hash_contiguous_def history_hash_def deep_window_def contiguous_feed_upt comp_def
      del: upt_Suc)

section \<open>Properties\<close>

text \<open>
  C28: the loop of \<open>hash_contiguous\<close> ends for every horizon but the largest \<open>u64\<close>, where its
  counter overflows before the loop condition fails. Where it ends, its result is the one of
  \<open>history_hash\<close> on the window of sequence numbers of a hole-free history.
\<close>

theorem hash_contiguous_history:
  "hash_contiguous sha256 mx bitmap =
     (if mx = - 1 then None else Some (history_hash sha256 mx bitmap (deep_window mx)))"
  by (simp add: hash_contiguous_deep) (simp add: hash_contiguous_def contiguous_feed_overflow)

end
