(* ===== verification/Policy.thy ===== *)
theory Policy
  imports Wire_Basic
begin

text \<open>
  Per-chat rules and capability wants: the state and the pure state machine of
  \<^verbatim>\<open>crates/core/src/policy/mod.rs\<close> and \<^verbatim>\<open>policy/machine.rs\<close>, and the row codec of
  \<^verbatim>\<open>policy/store.rs\<close>. Times are \<open>u64\<close> words, SQL integers are 64-bit words (the
  two's complement bits of the \<open>i64\<close> columns). The unchecked additions of \<open>expiry_at\<close>
  and \<open>apply_rules\<close> wrap, as in a release build.
\<close>

section \<open>State\<close>

definition WANT_ALL :: u32 where
  "WANT_ALL = FLAG_WANT_ATTACH OR FLAG_WANT_EMOJI OR FLAG_WANT_PRESENCE OR FLAG_WANT_TYPING OR
     FLAG_WANT_RECEIPTS"

record pending_proposal =
  pp_ttl_sec :: u32
  pp_screenshot :: bool
  pp_attach_download :: bool
  pp_inbound :: bool
  pp_propose_id :: bytes

record policy_state =
  ps_ttl_sec :: u32
  ps_screenshot :: bool
  ps_attach_download :: bool
  local_want :: u32
  peer_want :: u32
  ps_pending :: "pending_proposal option"
  last_sync_at :: u64

definition PolicyState_default :: policy_state where
  "PolicyState_default =
     \<lparr>ps_ttl_sec = TTL_24H, ps_screenshot = True, ps_attach_download = True,
      local_want = WANT_ALL, peer_want = WANT_ALL, ps_pending = None, last_sync_at = 0\<rparr>"

definition enforced :: "policy_state \<Rightarrow> u32 \<Rightarrow> bool" where
  "enforced s b \<longleftrightarrow> local_want s AND peer_want s AND b \<noteq> 0"

definition attachments :: "policy_state \<Rightarrow> bool" where
  "attachments s = enforced s FLAG_WANT_ATTACH"

definition emoji :: "policy_state \<Rightarrow> bool" where
  "emoji s = enforced s FLAG_WANT_EMOJI"

definition presence_on :: "policy_state \<Rightarrow> bool" where
  "presence_on s = enforced s FLAG_WANT_PRESENCE"

definition typing_enabled :: "policy_state \<Rightarrow> bool" where
  "typing_enabled s = enforced s FLAG_WANT_TYPING"

definition receipts :: "policy_state \<Rightarrow> bool" where
  "receipts s = enforced s FLAG_WANT_RECEIPTS"

definition expiry_at :: "policy_state \<Rightarrow> u64 \<Rightarrow> u64 option" where
  "expiry_at s floor =
     (if ps_ttl_sec s = TTL_NEVER then None else Some (floor + ucast (ps_ttl_sec s)))"

section \<open>State machine\<close>

record apply_outcome =
  changed :: bool
  clamp_expiry_to :: "u64 option"
  erase_attachments :: bool

definition ApplyOutcome_default :: apply_outcome where
  "ApplyOutcome_default = \<lparr>changed = False, clamp_expiry_to = None, erase_attachments = False\<rparr>"

definition wants :: "chat_policy \<Rightarrow> u32" where
  "wants p =
     (let w = 0;
          w = (if cp_want_attach p then w OR FLAG_WANT_ATTACH else w);
          w = (if cp_want_emoji p then w OR FLAG_WANT_EMOJI else w);
          w = (if cp_want_presence p then w OR FLAG_WANT_PRESENCE else w);
          w = (if cp_want_typing p then w OR FLAG_WANT_TYPING else w);
          w = (if cp_want_receipts p then w OR FLAG_WANT_RECEIPTS else w)
      in w)"

definition policy_payload :: "u8 \<Rightarrow> policy_state \<Rightarrow> u8 \<Rightarrow> bool \<Rightarrow> bytes \<Rightarrow> chat_policy" where
  "policy_payload op s cap_id cap_on propose_id =
     \<lparr>cp_op = op, cp_ttl_sec = ps_ttl_sec s, cp_screenshot = ps_screenshot s,
      cp_attach_download = ps_attach_download s,
      cp_want_attach = (local_want s AND FLAG_WANT_ATTACH \<noteq> 0),
      cp_want_emoji = (local_want s AND FLAG_WANT_EMOJI \<noteq> 0),
      cp_want_presence = (local_want s AND FLAG_WANT_PRESENCE \<noteq> 0),
      cp_want_typing = (local_want s AND FLAG_WANT_TYPING \<noteq> 0),
      cp_want_receipts = (local_want s AND FLAG_WANT_RECEIPTS \<noteq> 0),
      cp_cap_id = cap_id, cp_cap_on = cap_on, cp_propose_id = propose_id\<rparr>"

definition apply_rules ::
    "policy_state \<Rightarrow> u32 \<Rightarrow> bool \<Rightarrow> bool \<Rightarrow> u64 \<Rightarrow> policy_state \<times> apply_outcome" where
  "apply_rules s ttl_sec screenshot attach_download now =
     (let prev_ttl = ps_ttl_sec s;
          s = s\<lparr>ps_ttl_sec := ttl_sec, ps_screenshot := screenshot,
                ps_attach_download := attach_download, ps_pending := None\<rparr>;
          clamp = (if ttl_sec \<noteq> TTL_NEVER \<and> (prev_ttl = TTL_NEVER \<or> ttl_sec < prev_ttl)
                   then Some (now + ucast ttl_sec) else None)
      in (s, \<lparr>changed = True, clamp_expiry_to = clamp, erase_attachments = False\<rparr>))"

definition ZERO_ID :: bytes where "ZERO_ID = replicate 16 0"

definition apply_propose :: "policy_state \<Rightarrow> chat_policy \<Rightarrow> bytes \<Rightarrow> policy_state" where
  "apply_propose s parsed msg_id =
     (let propose_id = (if cp_propose_id parsed = ZERO_ID then msg_id else cp_propose_id parsed)
      in s\<lparr>ps_pending := Some \<lparr>pp_ttl_sec = cp_ttl_sec parsed,
             pp_screenshot = cp_screenshot parsed,
             pp_attach_download = cp_attach_download parsed,
             pp_inbound = True, pp_propose_id = propose_id\<rparr>\<rparr>)"

definition apply_accept ::
    "policy_state \<Rightarrow> chat_policy \<Rightarrow> u64 \<Rightarrow> (policy_state \<times> apply_outcome) option" where
  "apply_accept s parsed now =
     (case ps_pending s of
        None \<Rightarrow> None
      | Some pending \<Rightarrow>
          if pp_inbound pending \<or> pp_propose_id pending \<noteq> cp_propose_id parsed then None
          else Some (apply_rules s (pp_ttl_sec pending) (pp_screenshot pending)
                       (pp_attach_download pending) now))"

definition apply_cap_set :: "policy_state \<Rightarrow> u8 \<Rightarrow> bool \<Rightarrow> policy_state \<times> apply_outcome" where
  "apply_cap_set s cap_id on =
     (let b = cap_bit cap_id in
      if b = 0 then (s, ApplyOutcome_default)
      else
        let before = enforced s b;
            nxt = (if on then s\<lparr>peer_want := peer_want s OR b\<rparr>
                   else s\<lparr>local_want := local_want s AND NOT b, peer_want := peer_want s AND NOT b\<rparr>);
            after = enforced nxt b
        in (nxt, \<lparr>changed = (before \<noteq> after \<or> \<not> on), clamp_expiry_to = None,
                  erase_attachments = (\<not> on \<and> b = FLAG_WANT_ATTACH \<and> before)\<rparr>))"

definition apply_sync :: "policy_state \<Rightarrow> chat_policy \<Rightarrow> policy_state \<times> apply_outcome" where
  "apply_sync s parsed =
     (let peer = wants parsed in
      if peer = peer_want s then (s, ApplyOutcome_default)
      else
        let before_attach = attachments s;
            nxt = s\<lparr>peer_want := peer\<rparr>
        in (nxt, \<lparr>changed = True, clamp_expiry_to = None,
                  erase_attachments = (before_attach \<and> \<not> attachments nxt)\<rparr>))"

definition build_propose ::
    "policy_state \<Rightarrow> u32 \<Rightarrow> bool \<Rightarrow> bool \<Rightarrow> bytes \<Rightarrow> (policy_state \<times> chat_policy) option" where
  "build_propose s ttl_sec screenshot attach_download propose_id =
     (if \<not> is_allowed_ttl ttl_sec then None
      else
        let s = s\<lparr>ps_pending := Some \<lparr>pp_ttl_sec = ttl_sec, pp_screenshot = screenshot,
                    pp_attach_download = attach_download, pp_inbound = False,
                    pp_propose_id = propose_id\<rparr>\<rparr>;
            p = policy_payload OP_RULE_PROPOSE s 0 False propose_id;
            p = p\<lparr>cp_ttl_sec := ttl_sec, cp_screenshot := screenshot,
                  cp_attach_download := attach_download\<rparr>
        in Some (s, p))"

definition build_accept ::
    "policy_state \<Rightarrow> u64 \<Rightarrow> (policy_state \<times> chat_policy \<times> apply_outcome) option" where
  "build_accept s now =
     (case ps_pending s of
        None \<Rightarrow> None
      | Some pending \<Rightarrow>
          if \<not> pp_inbound pending then None
          else
            let (nxt, outcome) = apply_rules s (pp_ttl_sec pending) (pp_screenshot pending)
                                   (pp_attach_download pending) now;
                p = policy_payload OP_RULE_ACCEPT nxt 0 False (pp_propose_id pending);
                p = p\<lparr>cp_ttl_sec := pp_ttl_sec pending, cp_screenshot := pp_screenshot pending,
                      cp_attach_download := pp_attach_download pending\<rparr>
            in Some (nxt, p, outcome))"

definition build_cap_set ::
    "policy_state \<Rightarrow> u8 \<Rightarrow> bool \<Rightarrow> (policy_state \<times> chat_policy \<times> apply_outcome) option" where
  "build_cap_set s cap_id on =
     (let b = cap_bit cap_id in
      if b = 0 then None
      else if on = (local_want s AND b \<noteq> 0) then None
      else
        let before = enforced s b;
            nxt = (if on then s\<lparr>local_want := local_want s OR b\<rparr>
                   else s\<lparr>local_want := local_want s AND NOT b, peer_want := peer_want s AND NOT b\<rparr>);
            after = enforced nxt b;
            p = policy_payload OP_CAP_SET nxt cap_id on ZERO_ID
        in Some (nxt, p, \<lparr>changed = (before \<noteq> after \<or> \<not> on), clamp_expiry_to = None,
                          erase_attachments = (\<not> on \<and> b = FLAG_WANT_ATTACH \<and> before)\<rparr>))"

definition build_sync :: "policy_state \<Rightarrow> u64 \<Rightarrow> policy_state \<times> chat_policy" where
  "build_sync s now =
     (let s = s\<lparr>last_sync_at := now\<rparr>
      in (s, policy_payload OP_SYNC s 0 False ZERO_ID))"

section \<open>Inbound dispatch\<close>

text \<open>
  The state transition of \<open>apply_chat_policy\<close> in \<^verbatim>\<open>crates/core/src/engine/inbound.rs\<close>:
  the next state that is saved, the side effects to apply, and the \<open>SYNC\<close> reply if one
  is due. \<open>None\<close> is the early return that leaves the stored state alone.
\<close>

definition SYNC_REPLY_MIN_SEC :: u64 where "SYNC_REPLY_MIN_SEC = 30"

definition sync_reply :: "policy_state \<Rightarrow> u64 \<Rightarrow> policy_state \<times> chat_policy option" where
  "sync_reply s now =
     (if now \<ge> last_sync_at s + SYNC_REPLY_MIN_SEC
      then (let (s, p) = build_sync s now in (s, Some p))
      else (s, None))"

definition policy_receive ::
    "policy_state \<Rightarrow> chat_policy \<Rightarrow> bytes \<Rightarrow> u64 \<Rightarrow>
     (policy_state \<times> apply_outcome \<times> chat_policy option) option" where
  "policy_receive s cp msg_id now =
     (if cp_op cp = OP_RULE_PROPOSE then
        Some (apply_propose s cp msg_id, ApplyOutcome_default\<lparr>changed := True\<rparr>, None)
      else if cp_op cp = OP_RULE_ACCEPT then
        (case apply_accept s cp now of
           None \<Rightarrow> None
         | Some (s, oc) \<Rightarrow> Some (s, oc, None))
      else if cp_op cp = OP_CAP_SET then
        (let (s, oc) = apply_cap_set s (cp_cap_id cp) (cp_cap_on cp) in Some (s, oc, None))
      else if cp_op cp = OP_SYNC then
        (let (s, oc) = apply_sync s cp; (s, reply) = sync_reply s now in Some (s, oc, reply))
      else None)"

section \<open>Row codec\<close>

text \<open>
  The store errors the model can raise: a violated key constraint of the database engine
  and a row that does not decode.
\<close>

datatype sqlite_error = UniqueViolation | NoRows

datatype store_error =
    Sqlite sqlite_error
  | Io string
  | TooNew u32
  | Corrupt string

definition PENDING_LEN :: nat where "PENDING_LEN = 4 + 1 + 16"

definition encode_pending :: "pending_proposal \<Rightarrow> bytes" where
  "encode_pending p =
     be32 (pp_ttl_sec p) @
     [of_bool (pp_screenshot p) OR push_bit 1 (of_bool (pp_attach_download p)) OR
      push_bit 2 (of_bool (pp_inbound p))] @
     pp_propose_id p"

definition decode_pending :: "bytes \<Rightarrow> store_error + pending_proposal" where
  "decode_pending bs =
     (if length bs \<noteq> PENDING_LEN
      then Err (Corrupt (''policy_pending: '' @ show_nat (length bs) @ '' bytes, want '' @
                         show_nat PENDING_LEN))
      else
        let ttl_sec = of_nat (of_be (take 4 bs));
            flags = bs ! 4;
            propose_id = take 16 (drop 5 bs)
        in Ok \<lparr>pp_ttl_sec = ttl_sec, pp_screenshot = (flags AND 1 \<noteq> 0),
               pp_attach_download = (flags AND 2 \<noteq> 0), pp_inbound = (flags AND 4 \<noteq> 0),
               pp_propose_id = propose_id\<rparr>)"

text \<open>The policy columns of a \<open>relationships\<close> row.\<close>

record policy_row =
  policy_ttl_sec :: u64
  policy_flags :: u64
  policy_wants :: u64
  policy_pending :: "bytes option"
  policy_last_sync_at :: u64

definition load_policy :: "(string \<rightharpoonup> 'a policy_row_scheme) \<Rightarrow> string \<Rightarrow> store_error + policy_state" where
  "load_policy db rel_id =
     (case db rel_id of
        None \<Rightarrow> Err (Corrupt (''policy for unknown rel '' @ rel_id))
      | Some row \<Rightarrow>
          rbind (case policy_pending row of
                   None \<Rightarrow> Ok None
                 | Some b \<Rightarrow> rbind (decode_pending b) (\<lambda>p. Ok (Some p))) (\<lambda>pending.
          Ok \<lparr>ps_ttl_sec = ucast (policy_ttl_sec row),
              ps_screenshot = (policy_flags row AND 1 \<noteq> 0),
              ps_attach_download = (policy_flags row AND 2 \<noteq> 0),
              local_want = ucast (policy_wants row) AND 0xff,
              peer_want = drop_bit 8 (ucast (policy_wants row)) AND 0xff,
              ps_pending = pending,
              last_sync_at = policy_last_sync_at row\<rparr>))"

definition policy_columns :: "policy_state \<Rightarrow> 'a policy_row_scheme \<Rightarrow> 'a policy_row_scheme" where
  "policy_columns s row = row\<lparr>
      policy_ttl_sec := ucast (ps_ttl_sec s),
      policy_flags := of_bool (ps_screenshot s) OR push_bit 1 (of_bool (ps_attach_download s)),
      policy_wants := ucast (push_bit 8 (peer_want s AND 0xff) OR (local_want s AND 0xff)),
      policy_pending := map_option encode_pending (ps_pending s),
      policy_last_sync_at := last_sync_at s\<rparr>"

text \<open>An \<open>UPDATE\<close> of a missing row changes nothing.\<close>

definition save_policy ::
    "(string \<rightharpoonup> 'a policy_row_scheme) \<Rightarrow> string \<Rightarrow> policy_state \<Rightarrow> (string \<rightharpoonup> 'a policy_row_scheme)" where
  "save_policy db rel_id s =
     (case db rel_id of None \<Rightarrow> db | Some row \<Rightarrow> db(rel_id \<mapsto> policy_columns s row))"

section \<open>Invariant\<close>

text \<open>
  What the machine keeps of a state: allowed rules, want words within the mask that
  the row can store, and proposals with allowed rules and full-length ids.
\<close>

definition pending_ok :: "pending_proposal \<Rightarrow> bool" where
  "pending_ok p \<longleftrightarrow> is_allowed_ttl (pp_ttl_sec p) \<and> length (pp_propose_id p) = 16"

definition policy_ok :: "policy_state \<Rightarrow> bool" where
  "policy_ok s \<longleftrightarrow>
     is_allowed_ttl (ps_ttl_sec s) \<and>
     local_want s AND WANT_ALL = local_want s \<and> peer_want s AND WANT_ALL = peer_want s \<and>
     (case ps_pending s of None \<Rightarrow> True | Some p \<Rightarrow> pending_ok p)"

lemmas policy_simps = apply_rules_def apply_propose_def apply_accept_def apply_cap_set_def
  apply_sync_def build_propose_def build_accept_def build_cap_set_def build_sync_def Let_def

lemma default_ok: "policy_ok PolicyState_default"
  by (simp add: policy_ok_def PolicyState_default_def is_allowed_ttl_def TTL_OPTIONS_def)

section \<open>Want words\<close>

lemma flag_exps:
  "FLAG_WANT_ATTACH = 2 ^ 2" "FLAG_WANT_EMOJI = 2 ^ 3" "FLAG_WANT_PRESENCE = 2 ^ 4"
  "FLAG_WANT_TYPING = 2 ^ 5" "FLAG_WANT_RECEIPTS = 2 ^ 6"
  by (simp_all add: policy_flags)

lemma bit_flags:
  "bit FLAG_WANT_ATTACH n \<longleftrightarrow> n = 2" "bit FLAG_WANT_EMOJI n \<longleftrightarrow> n = 3"
  "bit FLAG_WANT_PRESENCE n \<longleftrightarrow> n = 4" "bit FLAG_WANT_TYPING n \<longleftrightarrow> n = 5"
  "bit FLAG_WANT_RECEIPTS n \<longleftrightarrow> n = 6"
  unfolding flag_exps bit_exp_iff by auto

lemma flag_tests:
  "x AND FLAG_WANT_ATTACH \<noteq> 0 \<longleftrightarrow> bit x 2" "x AND FLAG_WANT_EMOJI \<noteq> 0 \<longleftrightarrow> bit x 3"
  "x AND FLAG_WANT_PRESENCE \<noteq> 0 \<longleftrightarrow> bit x 4" "x AND FLAG_WANT_TYPING \<noteq> 0 \<longleftrightarrow> bit x 5"
  "x AND FLAG_WANT_RECEIPTS \<noteq> 0 \<longleftrightarrow> bit x 6"
  unfolding flag_exps and_exp_eq_0_iff_not_bit by auto

lemma WANT_ALL_val: "WANT_ALL = 124"
  by (simp add: WANT_ALL_def policy_flags)

lemma bit_WANT_ALL: "bit WANT_ALL n \<longleftrightarrow> n \<in> {2, 3, 4, 5, 6}"
  unfolding WANT_ALL_def bit_or_iff bit_flags by auto

lemma bit_flag_if: "bit (if c then x OR f else x) n \<longleftrightarrow> bit x n \<or> c \<and> bit f n" for x f :: u32
  by (simp add: bit_or_iff)

lemma bit_wants:
  "bit (wants p) n \<longleftrightarrow>
     n = 2 \<and> cp_want_attach p \<or> n = 3 \<and> cp_want_emoji p \<or> n = 4 \<and> cp_want_presence p \<or>
     n = 5 \<and> cp_want_typing p \<or> n = 6 \<and> cp_want_receipts p"
  unfolding wants_def Let_def bit_flag_if bit_flags bit_0_eq by auto

lemma u32_eq_iff: "x = y \<longleftrightarrow> (\<forall>n. bit x n = bit y n)" for x y :: u32
  by (metis bit_eqI)

lemma masked_iff: "x AND WANT_ALL = x \<longleftrightarrow> (\<forall>n. bit x n \<longrightarrow> n \<in> {2, 3, 4, 5, 6})" for x :: u32
  unfolding u32_eq_iff bit_and_iff bit_WANT_ALL by blast

lemma wants_masked: "wants p AND WANT_ALL = wants p"
  unfolding masked_iff bit_wants by blast

lemma wants_payload:
  assumes "local_want s AND WANT_ALL = local_want s"
  shows "wants (policy_payload op s c on i) = local_want s"
proof (rule bit_eqI)
  fix n
  from assms have "bit (local_want s) n \<longrightarrow> n \<in> {2, 3, 4, 5, 6}"
    unfolding masked_iff by blast
  then show "bit (wants (policy_payload op s c on i)) n = bit (local_want s) n"
    unfolding bit_wants by (auto simp: policy_payload_def flag_tests)
qed

lemma cap_bit_index: "cap_bit c = 0 \<or> (\<exists>n \<in> {2, 3, 4, 5, 6}. \<forall>m. bit (cap_bit c) m \<longleftrightarrow> m = n)"
  by (auto simp: cap_bit_def bit_flags)

lemma cap_bit_masked: "cap_bit c AND WANT_ALL = cap_bit c"
  using cap_bit_index [of c] unfolding masked_iff by auto

lemma masked_ops:
  "x AND WANT_ALL = x \<Longrightarrow> y AND WANT_ALL = y \<Longrightarrow> (x OR y) AND WANT_ALL = x OR y"
  "x AND WANT_ALL = x \<Longrightarrow> (x AND NOT z) AND WANT_ALL = x AND NOT z"
  for x y z :: u32
  unfolding masked_iff bit_or_iff bit_and_iff by blast+

lemma enforced_iff: "enforced s b \<longleftrightarrow> (\<exists>n. bit (local_want s) n \<and> bit (peer_want s) n \<and> bit b n)"
  unfolding enforced_def u32_eq_iff bit_and_iff bit_0_eq by auto

section \<open>Preservation\<close>

lemma apply_rules_ok:
  "policy_ok s \<Longrightarrow> is_allowed_ttl ttl \<Longrightarrow> policy_ok (fst (apply_rules s ttl sc dl now))"
  by (simp add: policy_ok_def apply_rules_def Let_def)

lemma ChatPolicy_validate_Ok:
  "ChatPolicy_validate p = Ok u \<longleftrightarrow>
     OP_RULE_PROPOSE \<le> cp_op p \<and> cp_op p \<le> OP_SYNC \<and>
     (if cp_op p = OP_CAP_SET then cp_cap_id p \<le> CAP_ID_MAX else is_allowed_ttl (cp_ttl_sec p))"
  by (auto simp: ChatPolicy_validate_def)

lemma apply_propose_ok:
  assumes "policy_ok s" "ChatPolicy_validate p = Ok ()" "ChatPolicy_wf p"
    and "cp_op p = OP_RULE_PROPOSE" "length m = 16"
  shows "policy_ok (apply_propose s p m)"
  using assms
  by (auto simp: policy_ok_def apply_propose_def Let_def pending_ok_def ChatPolicy_wf_def
      ChatPolicy_validate_def policy_ops split: if_splits)

lemma apply_accept_ok:
  "policy_ok s \<Longrightarrow> apply_accept s p now = Some (s', oc) \<Longrightarrow> policy_ok s'"
  by (auto simp: apply_accept_def apply_rules_def policy_ok_def pending_ok_def Let_def
      split: option.splits if_splits)

lemma apply_cap_set_ok: "policy_ok s \<Longrightarrow> policy_ok (fst (apply_cap_set s c on))"
  by (auto simp: policy_ok_def apply_cap_set_def Let_def masked_ops cap_bit_masked)

lemma apply_sync_ok: "policy_ok s \<Longrightarrow> policy_ok (fst (apply_sync s p))"
  by (auto simp: policy_ok_def apply_sync_def Let_def wants_masked)

lemma build_propose_ok:
  "policy_ok s \<Longrightarrow> length i = 16 \<Longrightarrow> build_propose s ttl sc dl i = Some (s', p) \<Longrightarrow>
     policy_ok s' \<and> ChatPolicy_validate p = Ok () \<and> ChatPolicy_wf p"
  by (auto simp: policy_ok_def build_propose_def Let_def pending_ok_def policy_payload_def
      ChatPolicy_validate_def ChatPolicy_wf_def policy_ops split: if_splits)

lemma payload_accept_valid:
  assumes "is_allowed_ttl ttl" "length i = 16"
  shows "ChatPolicy_validate ((policy_payload OP_RULE_ACCEPT s 0 False i)
      \<lparr>cp_ttl_sec := ttl, cp_screenshot := sc, cp_attach_download := dl\<rparr>) = Ok ()"
    and "ChatPolicy_wf ((policy_payload OP_RULE_ACCEPT s 0 False i)
      \<lparr>cp_ttl_sec := ttl, cp_screenshot := sc, cp_attach_download := dl\<rparr>)"
  using assms by (simp_all add: ChatPolicy_validate_Ok ChatPolicy_wf_def policy_payload_def policy_ops)

lemma build_accept_Some:
  assumes "build_accept s now = Some (s', p, oc)"
  obtains pend where "ps_pending s = Some pend" "pp_inbound pend"
    "(s', oc) = apply_rules s (pp_ttl_sec pend) (pp_screenshot pend) (pp_attach_download pend) now"
    "p = (policy_payload OP_RULE_ACCEPT s' 0 False (pp_propose_id pend))
       \<lparr>cp_ttl_sec := pp_ttl_sec pend, cp_screenshot := pp_screenshot pend,
        cp_attach_download := pp_attach_download pend\<rparr>"
  using assms
  by (cases "ps_pending s")
    (auto simp: build_accept_def Let_def case_prod_beta prod_eq_iff split: if_splits)

lemma build_accept_ok:
  assumes "policy_ok s" "build_accept s now = Some (s', p, oc)"
  shows "policy_ok s' \<and> ChatPolicy_validate p = Ok () \<and> ChatPolicy_wf p"
proof -
  from assms(2) obtain pend where p: "ps_pending s = Some pend"
      "(s', oc) = apply_rules s (pp_ttl_sec pend) (pp_screenshot pend) (pp_attach_download pend) now"
      "p = (policy_payload OP_RULE_ACCEPT s' 0 False (pp_propose_id pend))
         \<lparr>cp_ttl_sec := pp_ttl_sec pend, cp_screenshot := pp_screenshot pend,
          cp_attach_download := pp_attach_download pend\<rparr>"
    by (elim build_accept_Some)
  from assms(1) p(1) have "pending_ok pend" by (simp add: policy_ok_def)
  with assms(1) p(2,3) apply_rules_ok [OF assms(1)] show ?thesis
    by (metis fst_conv payload_accept_valid pending_ok_def)
qed

lemma cap_bit_id: "cap_bit c \<noteq> 0 \<Longrightarrow> c \<le> CAP_ID_MAX"
  by (auto simp: cap_bit_def cap_ids split: if_splits)

lemma build_cap_set_ok:
  "policy_ok s \<Longrightarrow> build_cap_set s c on = Some (s', p, oc) \<Longrightarrow>
     policy_ok s' \<and> ChatPolicy_validate p = Ok () \<and> ChatPolicy_wf p"
  using cap_bit_id [of c]
  by (auto simp: policy_ok_def build_cap_set_def Let_def masked_ops cap_bit_masked policy_payload_def
      ChatPolicy_validate_def ChatPolicy_wf_def policy_ops ZERO_ID_def not_less split: if_splits)

lemma build_sync_ok:
  "policy_ok s \<Longrightarrow> policy_ok (fst (build_sync s now)) \<and>
     ChatPolicy_validate (snd (build_sync s now)) = Ok () \<and> ChatPolicy_wf (snd (build_sync s now))"
  by (auto simp: policy_ok_def build_sync_def Let_def policy_payload_def ChatPolicy_validate_def
      ChatPolicy_wf_def policy_ops ZERO_ID_def)

section \<open>Row round trip\<close>

lemma decode_encode_pending:
  "pending_ok p \<Longrightarrow> decode_pending (encode_pending p) = Ok p"
  by (cases p; cases "pp_screenshot p"; cases "pp_attach_download p"; cases "pp_inbound p")
    (auto simp: decode_pending_def encode_pending_def PENDING_LEN_def pending_ok_def Let_def nth_append)

lemma masked_byte: "w AND WANT_ALL = w \<Longrightarrow> w AND 0xff = w" for w :: u32
proof -
  assume w: "w AND WANT_ALL = w"
  have "w AND 0xff = w AND (WANT_ALL AND 0xff)" using w by (simp flip: and.assoc)
  with w show ?thesis by (simp add: WANT_ALL_val)
qed

lemma wants_column:
  fixes l p :: u32
  shows "ucast (ucast (push_bit 8 (p AND 0xff) OR (l AND 0xff)) :: u64) AND (0xff :: u32) = l AND 0xff"
    and "drop_bit 8 (ucast (ucast (push_bit 8 (p AND 0xff) OR (l AND 0xff)) :: u64)) AND (0xff :: u32) =
      p AND 0xff"
proof -
  have m: "(0xff :: u32) = mask 8" by (simp add: mask_eq_exp_minus_1)
  show "ucast (ucast (push_bit 8 (p AND 0xff) OR (l AND 0xff)) :: u64) AND (0xff :: u32) = l AND 0xff"
    unfolding m by (rule bit_eqI) (auto simp: bit_simps)
  show "drop_bit 8 (ucast (ucast (push_bit 8 (p AND 0xff) OR (l AND 0xff)) :: u64)) AND (0xff :: u32) =
      p AND 0xff"
    unfolding m by (rule bit_eqI) (auto simp: bit_simps)
qed

lemma u32_via_u64: "ucast (ucast x :: u64) = x" for x :: u32
  by (rule bit_eqI) (auto simp: bit_simps)

lemma load_save_policy:
  assumes "policy_ok s" "rel \<in> dom db"
  shows "load_policy (save_policy db rel s) rel = Ok s"
proof -
  from assms(2) obtain row where row: "db rel = Some row" by blast
  have flags: "policy_flags (policy_columns s row) AND 1 \<noteq> 0 \<longleftrightarrow> ps_screenshot s"
      "policy_flags (policy_columns s row) AND 2 \<noteq> 0 \<longleftrightarrow> ps_attach_download s"
    by (cases "ps_screenshot s"; cases "ps_attach_download s"; simp add: policy_columns_def)+
  have wants: "ucast (policy_wants (policy_columns s row)) AND 0xff = local_want s"
      "drop_bit 8 (ucast (policy_wants (policy_columns s row))) AND 0xff = peer_want s"
    using assms(1) masked_byte [of "local_want s"] masked_byte [of "peer_want s"]
      wants_column [of "peer_want s" "local_want s"]
    by (simp_all add: policy_columns_def policy_ok_def)
  have "(case policy_pending (policy_columns s row) of None \<Rightarrow> Ok None
      | Some b \<Rightarrow> rbind (decode_pending b) (\<lambda>p. Ok (Some p))) = Ok (ps_pending s)"
    using assms(1)
    by (auto simp: policy_columns_def policy_ok_def decode_encode_pending split: option.splits)
  moreover have "ucast (policy_ttl_sec (policy_columns s row)) = ps_ttl_sec s"
      "policy_last_sync_at (policy_columns s row) = last_sync_at s"
    by (simp_all add: policy_columns_def u32_via_u64)
  ultimately show ?thesis
    by (simp add: load_policy_def save_policy_def row flags wants)
qed

section \<open>Properties\<close>

lemma cap_set_bits:
  assumes "cap_bit c \<noteq> 0"
  obtains n where "\<And>m. bit (cap_bit c) m \<longleftrightarrow> m = n"
  using assms cap_bit_index [of c] by blast

lemma apply_cap_set_want:
  "cap_bit c \<noteq> 0 \<Longrightarrow> local_want (fst (apply_cap_set s c on)) =
     (if on then local_want s else local_want s AND NOT (cap_bit c))"
  "cap_bit c \<noteq> 0 \<Longrightarrow> peer_want (fst (apply_cap_set s c on)) =
     (if on then peer_want s OR cap_bit c else peer_want s AND NOT (cap_bit c))"
  by (simp_all add: apply_cap_set_def Let_def)

lemma build_cap_set_want:
  "build_cap_set s c on = Some (s', msg, oc) \<Longrightarrow> cap_bit c \<noteq> 0 \<and> 
     local_want s' = (if on then local_want s OR cap_bit c else local_want s AND NOT (cap_bit c)) \<and>
     peer_want s' = (if on then peer_want s else peer_want s AND NOT (cap_bit c))"
  by (auto simp: build_cap_set_def Let_def split: if_splits)

lemma enforced_cap:
  assumes "\<And>m. bit (cap_bit c) m \<longleftrightarrow> m = n"
  shows "enforced s (cap_bit c) \<longleftrightarrow> bit (local_want s) n \<and> bit (peer_want s) n"
    and "x AND cap_bit c \<noteq> 0 \<longleftrightarrow> bit x n"
  unfolding enforced_iff u32_eq_iff bit_and_iff bit_0_eq using assms by auto

lemma bit_not_cap:
  fixes x :: u32
  assumes "\<And>m. bit (cap_bit c) m \<longleftrightarrow> m = n"
  shows "bit (x AND NOT (cap_bit c)) m \<longleftrightarrow> bit x m \<and> m \<noteq> n"
  unfolding bit_and_iff bit_not_iff using assms bit_imp_le_length [of x m] by auto


text \<open>
  Enabling a feature takes both sides and disabling it takes one. After the peer
  switches a capability, or we do, it is enforced exactly when it was switched on and the
  other side still wants it; every other capability is enforced as before.
\<close>

lemma capability_consent:
  assumes "cap_bit c \<noteq> 0" "cap_bit c' \<noteq> 0" "cap_bit c' \<noteq> cap_bit c"
  shows "(enforced (fst (apply_cap_set s c on)) (cap_bit c) \<longleftrightarrow> on \<and> local_want s AND cap_bit c \<noteq> 0) \<and>
      (enforced (fst (apply_cap_set s c on)) (cap_bit c') \<longleftrightarrow> enforced s (cap_bit c')) \<and>
      (\<forall>s' msg oc. build_cap_set s c on = Some (s', msg, oc) \<longrightarrow>
        (enforced s' (cap_bit c) \<longleftrightarrow> on \<and> peer_want s AND cap_bit c \<noteq> 0) \<and>
        (enforced s' (cap_bit c') \<longleftrightarrow> enforced s (cap_bit c')))"
proof -
  obtain n where n: "\<And>m. bit (cap_bit c) m \<longleftrightarrow> m = n" using cap_set_bits [OF assms(1)] by blast
  obtain k where k: "\<And>m. bit (cap_bit c') m \<longleftrightarrow> m = k" using cap_set_bits [OF assms(2)] by blast
  from assms(3) have "k \<noteq> n" using n k by (metis u32_eq_iff)
  then show ?thesis
    unfolding enforced_cap [OF n] enforced_cap [OF k]
    using assms(1) build_cap_set_want
    by (auto simp: apply_cap_set_want bit_or_iff n bit_not_cap [OF n] dest!: build_cap_set_want)
qed

lemma apply_sync_want:
  "local_want (fst (apply_sync s p)) = local_want s" "peer_want (fst (apply_sync s p)) = wants p"
  by (auto simp: apply_sync_def Let_def)

lemma build_sync_want:
  "local_want (fst (build_sync s now)) = local_want s"
  "local_want s AND WANT_ALL = local_want s \<Longrightarrow> wants (snd (build_sync s now)) = local_want s"
  by (simp_all add: build_sync_def Let_def wants_payload)

text \<open>
  A pair of SYNC messages brings both sides to the same view: after each side has
  received the other's advertisement, every capability is enforced on one side exactly
  when it is enforced on the other, whatever the two sides believed before.
\<close>

lemma sync_converges:
  assumes "policy_ok s" "policy_ok t"
  shows "enforced (fst (apply_sync (fst (build_sync s now)) (snd (build_sync t now')))) b \<longleftrightarrow>
    enforced (fst (apply_sync (fst (build_sync t now')) (snd (build_sync s now)))) b"
proof -
  have "local_want s AND WANT_ALL = local_want s" "local_want t AND WANT_ALL = local_want t"
    using assms by (simp_all add: policy_ok_def)
  then show ?thesis
    by (simp add: enforced_def apply_sync_want build_sync_want and.assoc and.left_commute)
qed

text \<open>
  C39: the stored columns lose nothing: loading a policy that was saved for an existing
  relationship gives the state back, pending proposal included.
\<close>

theorem policy_row_roundtrip:
  assumes "policy_ok s" "db rel = Some row"
  shows "load_policy (save_policy db rel s) rel = Ok s"
  using assms by (intro load_save_policy) auto

theorem policy_row_roundtrip_witness:
  "let s = PolicyState_default\<lparr>ps_pending := Some \<lparr>pp_ttl_sec = TTL_NEVER, pp_screenshot = True,
             pp_attach_download = False, pp_inbound = True, pp_propose_id = replicate 16 3\<rparr>\<rparr>;
       row = \<lparr>policy_ttl_sec = 86400, policy_flags = 3, policy_wants = 31868,
              policy_pending = None, policy_last_sync_at = 0\<rparr>
   in load_policy (save_policy [''r'' \<mapsto> row] ''r'' s) ''r'' = Ok s"
  unfolding Let_def by (rule policy_row_roundtrip, code_simp, rule map_upd_Some_unfold [THEN iffD2]) simp

end
