(* ===== verification/Policy_Protocol.thy ===== *)
theory Policy_Protocol
  imports Policy
begin

text \<open>
  The two-party protocol that the policy machine runs over the encrypted channel: two
  states, the messages sent to each side, and a step relation for the client operations
  of \<^verbatim>\<open>crates/core/src/policy/engine.rs\<close> (propose, accept, decline, set a capability,
  advertise) and the delivery of a message. Delivery may lose, reorder and repeat
  messages. Two sets record, as a history, which rules were proposed under which id by
  whom and which proposals were accepted by whom.
\<close>

section \<open>The system\<close>

datatype party = Alice | Bob

fun other :: "party \<Rightarrow> party" where
  "other Alice = Bob"
| "other Bob = Alice"

type_synonym rules = "u32 \<times> bool \<times> bool"

record psys =
  pstate :: "party \<Rightarrow> policy_state"
  sent :: "(party \<times> bytes \<times> chat_policy) set"
  proposed :: "(party \<times> bytes \<times> rules) set"
  accepted :: "(party \<times> bytes \<times> rules) set"

definition rules_of :: "policy_state \<Rightarrow> rules" where
  "rules_of s = (ps_ttl_sec s, ps_screenshot s, ps_attach_download s)"

definition pending_rules :: "pending_proposal \<Rightarrow> rules" where
  "pending_rules p = (pp_ttl_sec p, pp_screenshot p, pp_attach_download p)"

definition payload_rules :: "chat_policy \<Rightarrow> rules" where
  "payload_rules p = (cp_ttl_sec p, cp_screenshot p, cp_attach_download p)"

definition psys_init :: psys where
  "psys_init = \<lparr>pstate = (\<lambda>_. PolicyState_default), sent = {}, proposed = {}, accepted = {}\<rparr>"

text \<open>
  Messages are recorded with their recipient and envelope id. A proposer draws a fresh,
  non-zero id (\<open>random_msg_id\<close>).
\<close>

inductive pstep :: "psys \<Rightarrow> psys \<Rightarrow> bool" where
  propose:
    "build_propose (pstate S p) ttl sc dl i = Some (s', msg) \<Longrightarrow>
     i \<noteq> ZERO_ID \<Longrightarrow> length i = 16 \<Longrightarrow> (\<forall>q r. (q, i, r) \<notin> proposed S) \<Longrightarrow>
     pstep S (S\<lparr>pstate := (pstate S)(p := s'),
                sent := insert (other p, m, msg) (sent S),
                proposed := insert (p, i, (ttl, sc, dl)) (proposed S)\<rparr>)"
| accept:
    "build_accept (pstate S p) now = Some (s', msg, oc) \<Longrightarrow>
     pstep S (S\<lparr>pstate := (pstate S)(p := s'),
                sent := insert (other p, m, msg) (sent S),
                accepted := insert (p, cp_propose_id msg, payload_rules msg) (accepted S)\<rparr>)"
| decline:
    "pstep S (S\<lparr>pstate := (pstate S)(p := (pstate S p)\<lparr>ps_pending := None\<rparr>)\<rparr>)"
| cap_set:
    "build_cap_set (pstate S p) c on = Some (s', msg, oc) \<Longrightarrow>
     pstep S (S\<lparr>pstate := (pstate S)(p := s'), sent := insert (other p, m, msg) (sent S)\<rparr>)"
| sync:
    "build_sync (pstate S p) now = (s', msg) \<Longrightarrow>
     pstep S (S\<lparr>pstate := (pstate S)(p := s'), sent := insert (other p, m, msg) (sent S)\<rparr>)"
| deliver:
    "(p, m, msg) \<in> sent S \<Longrightarrow> policy_receive (pstate S p) msg m now = Some (s', oc, reply) \<Longrightarrow>
     pstep S (S\<lparr>pstate := (pstate S)(p := s'),
                sent := (case reply of None \<Rightarrow> sent S
                         | Some r \<Rightarrow> insert (other p, m', r) (sent S))\<rparr>)"

inductive preachable :: "psys \<Rightarrow> bool" where
  init: "preachable psys_init"
| step: "preachable S \<Longrightarrow> pstep S S' \<Longrightarrow> preachable S'"

section \<open>Invariant\<close>

definition pending_inv :: "psys \<Rightarrow> bool" where
  "pending_inv S \<longleftrightarrow>
     (\<forall>p pend. ps_pending (pstate S p) = Some pend \<longrightarrow>
        (if pp_inbound pend then other p else p, pp_propose_id pend, pending_rules pend)
          \<in> proposed S)"

definition sent_inv :: "psys \<Rightarrow> bool" where
  "sent_inv S \<longleftrightarrow>
     (\<forall>p m msg. (p, m, msg) \<in> sent S \<longrightarrow>
        (cp_op msg = OP_RULE_PROPOSE \<longrightarrow> cp_propose_id msg \<noteq> ZERO_ID \<and>
           (other p, cp_propose_id msg, payload_rules msg) \<in> proposed S) \<and>
        (cp_op msg = OP_RULE_ACCEPT \<longrightarrow>
           (p, cp_propose_id msg, payload_rules msg) \<in> proposed S \<and>
           (other p, cp_propose_id msg, payload_rules msg) \<in> accepted S))"

definition ids_inv :: "psys \<Rightarrow> bool" where
  "ids_inv S \<longleftrightarrow>
     (\<forall>q i r q' r'. (q, i, r) \<in> proposed S \<longrightarrow> (q', i, r') \<in> proposed S \<longrightarrow> q = q' \<and> r = r')"

definition agreed :: "psys \<Rightarrow> rules \<Rightarrow> bool" where
  "agreed S r \<longleftrightarrow> (\<exists>q i. (q, i, r) \<in> proposed S \<and> (other q, i, r) \<in> accepted S)"

definition rules_inv :: "psys \<Rightarrow> bool" where
  "rules_inv S \<longleftrightarrow>
     (\<forall>p. rules_of (pstate S p) = rules_of PolicyState_default \<or> agreed S (rules_of (pstate S p)))"

lemma other_other [simp]: "other (other p) = p"
  by (cases p) simp_all

text \<open>What the builders and handlers do to the rules and the pending proposal.\<close>

lemma build_propose_Some:
  "build_propose s ttl sc dl i = Some (s', msg) \<Longrightarrow>
     rules_of s' = rules_of s \<and> cp_op msg = OP_RULE_PROPOSE \<and> cp_propose_id msg = i \<and>
     payload_rules msg = (ttl, sc, dl) \<and>
     ps_pending s' = Some \<lparr>pp_ttl_sec = ttl, pp_screenshot = sc, pp_attach_download = dl,
       pp_inbound = False, pp_propose_id = i\<rparr>"
  by (auto simp: build_propose_def Let_def rules_of_def payload_rules_def policy_payload_def
      split: if_splits)

lemma apply_rules_effect:
  "apply_rules s ttl sc dl now = (s', oc) \<Longrightarrow>
     rules_of s' = (ttl, sc, dl) \<and> ps_pending s' = None"
  by (auto simp: apply_rules_def Let_def rules_of_def)

lemma build_accept_effect:
  assumes "build_accept s now = Some (s', msg, oc)"
  obtains pend where "ps_pending s = Some pend" "pp_inbound pend" "ps_pending s' = None"
    "rules_of s' = pending_rules pend" "cp_op msg = OP_RULE_ACCEPT"
    "cp_propose_id msg = pp_propose_id pend" "payload_rules msg = pending_rules pend"
proof -
  from assms obtain pend where p: "ps_pending s = Some pend" "pp_inbound pend"
      "(s', oc) = apply_rules s (pp_ttl_sec pend) (pp_screenshot pend) (pp_attach_download pend) now"
      "msg = (policy_payload OP_RULE_ACCEPT s' 0 False (pp_propose_id pend))
         \<lparr>cp_ttl_sec := pp_ttl_sec pend, cp_screenshot := pp_screenshot pend,
          cp_attach_download := pp_attach_download pend\<rparr>"
    by (elim build_accept_Some)
  with apply_rules_effect [OF p(3) [symmetric]] show thesis
    by (intro that [of pend]) (simp_all add: pending_rules_def payload_rules_def policy_payload_def)
qed

lemma cap_set_effect:
  "build_cap_set s c on = Some (s', msg, oc) \<Longrightarrow>
     rules_of s' = rules_of s \<and> ps_pending s' = ps_pending s \<and> cp_op msg = OP_CAP_SET"
  by (auto simp: build_cap_set_def Let_def rules_of_def policy_payload_def split: if_splits)

lemma sync_effect:
  "build_sync s now = (s', msg) \<Longrightarrow>
     rules_of s' = rules_of s \<and> ps_pending s' = ps_pending s \<and> cp_op msg = OP_SYNC"
  by (auto simp: build_sync_def Let_def rules_of_def policy_payload_def)

lemma receive_propose:
  "cp_op msg = OP_RULE_PROPOSE \<Longrightarrow> policy_receive s msg m now = Some (s', oc, reply) \<Longrightarrow>
     rules_of s' = rules_of s \<and> reply = None \<and>
     (\<exists>pend. ps_pending s' = Some pend \<and> pp_inbound pend \<and> pending_rules pend = payload_rules msg \<and>
        pp_propose_id pend = (if cp_propose_id msg = ZERO_ID then m else cp_propose_id msg))"
  by (auto simp: policy_receive_def apply_propose_def Let_def rules_of_def payload_rules_def
      pending_rules_def)

lemma receive_accept:
  assumes "cp_op msg = OP_RULE_ACCEPT" "policy_receive s msg m now = Some (s', oc, reply)"
  shows "reply = None \<and> ps_pending s' = None \<and>
     (\<exists>pend. ps_pending s = Some pend \<and> \<not> pp_inbound pend \<and>
        pp_propose_id pend = cp_propose_id msg \<and> rules_of s' = pending_rules pend)"
proof -
  from assms have "apply_accept s msg now = Some (s', oc)" "reply = None"
    by (auto simp: policy_receive_def policy_ops split: option.splits)
  then show ?thesis
    using apply_rules_effect
    by (fastforce simp: apply_accept_def pending_rules_def split: option.splits if_splits)
qed

lemma apply_cap_set_effect:
  "rules_of (fst (apply_cap_set s c on)) = rules_of s"
  "ps_pending (fst (apply_cap_set s c on)) = ps_pending s"
  by (auto simp: apply_cap_set_def Let_def rules_of_def)

lemma apply_sync_effect:
  "rules_of (fst (apply_sync s msg)) = rules_of s"
  "ps_pending (fst (apply_sync s msg)) = ps_pending s"
  by (auto simp: apply_sync_def Let_def rules_of_def)

lemma sync_reply_effect:
  "rules_of (fst (sync_reply s now)) = rules_of s"
  "ps_pending (fst (sync_reply s now)) = ps_pending s"
  "snd (sync_reply s now) = Some r \<Longrightarrow> cp_op r = OP_SYNC"
  by (auto simp: sync_reply_def build_sync_def Let_def rules_of_def policy_payload_def split: if_splits)

lemma receive_other:
  assumes "cp_op msg \<noteq> OP_RULE_PROPOSE" "cp_op msg \<noteq> OP_RULE_ACCEPT"
    and "policy_receive s msg m now = Some (s', oc, reply)"
  shows "rules_of s' = rules_of s \<and> ps_pending s' = ps_pending s \<and>
     (\<forall>r. reply = Some r \<longrightarrow> cp_op r = OP_SYNC)"
  using assms apply_cap_set_effect [of s "cp_cap_id msg" "cp_cap_on msg"]
    apply_sync_effect [of s msg] sync_reply_effect [of "fst (apply_sync s msg)" now]
  by (auto simp: policy_receive_def case_prod_beta Let_def split: if_splits)

section \<open>Preservation\<close>

definition psys_inv :: "psys \<Rightarrow> bool" where
  "psys_inv S \<longleftrightarrow> pending_inv S \<and> sent_inv S \<and> ids_inv S \<and> rules_inv S"

lemma agreed_mono:
  "agreed S r \<Longrightarrow> proposed S \<subseteq> proposed S' \<Longrightarrow> accepted S \<subseteq> accepted S' \<Longrightarrow> agreed S' r"
  by (auto simp: agreed_def)

lemma rules_inv_step:
  assumes "rules_inv S" "proposed S \<subseteq> proposed S'" "accepted S \<subseteq> accepted S'"
    and "pstate S' = (pstate S)(p := s')"
    and "rules_of s' = rules_of (pstate S p) \<or> agreed S' (rules_of s')"
  shows "rules_inv S'"
  unfolding rules_inv_def
proof
  fix q
  have "rules_of (pstate S q) = rules_of PolicyState_default \<or> agreed S (rules_of (pstate S q))"
    using assms(1) by (simp add: rules_inv_def)
  then have old: "rules_of (pstate S q) = rules_of PolicyState_default \<or>
      agreed S' (rules_of (pstate S q))"
    by (elim disj_forward agreed_mono [OF _ assms(2,3)])
  show "rules_of (pstate S' q) = rules_of PolicyState_default \<or>
      agreed S' (rules_of (pstate S' q))"
    using old assms(5) by (cases "q = p") (auto simp: assms(4))
qed

text \<open>
  A step that keeps the rules and the pending proposal of the acting party, adds only
  messages that are neither proposals nor acceptances, and leaves the history alone.
\<close>

lemma quiet_step:
  assumes "psys_inv S" "rules_of s' = rules_of (pstate S p)" "ps_pending s' = ps_pending (pstate S p)"
    and "sent S' \<subseteq> insert (q, m, msg) (sent S)"
    and "cp_op msg = OP_CAP_SET \<or> cp_op msg = OP_SYNC"
    and "pstate S' = (pstate S)(p := s')" "proposed S' = proposed S" "accepted S' = accepted S"
  shows "psys_inv S'"
proof -
  have "cp_op msg \<noteq> OP_RULE_PROPOSE" "cp_op msg \<noteq> OP_RULE_ACCEPT"
    using assms(5) by (auto simp: policy_ops)
  with assms show ?thesis
    unfolding psys_inv_def pending_inv_def sent_inv_def ids_inv_def rules_inv_def agreed_def
    by (auto simp: subset_iff) metis+
qed

lemma psys_init_inv: "psys_inv psys_init"
  by (simp add: psys_inv_def psys_init_def pending_inv_def sent_inv_def ids_inv_def rules_inv_def
      PolicyState_default_def)

lemma ids_invD:
  "ids_inv S \<Longrightarrow> (q, i, r) \<in> proposed S \<Longrightarrow> (q', i, r') \<in> proposed S \<Longrightarrow> q = q' \<and> r = r'"
  unfolding ids_inv_def by blast

lemma ids_inv_cong: "ids_inv S \<Longrightarrow> proposed S' = proposed S \<Longrightarrow> ids_inv S'"
  by (simp only: ids_inv_def)

lemma sent_inv_cong:
  "sent_inv S \<Longrightarrow> sent S' = sent S \<Longrightarrow> proposed S' = proposed S \<Longrightarrow> accepted S' = accepted S \<Longrightarrow>
     sent_inv S'"
  by (simp only: sent_inv_def)

lemma ids_inv_insert:
  assumes "ids_inv S" "\<forall>q r. (q, i, r) \<notin> proposed S" "proposed S' = insert (p, i, r) (proposed S)"
  shows "ids_inv S'"
  using assms(1,2) unfolding ids_inv_def assms(3) by blast

lemma propose_inv:
  assumes "psys_inv S" "build_propose (pstate S p) ttl sc dl i = Some (s', msg)"
    and "i \<noteq> ZERO_ID" "\<forall>q r. (q, i, r) \<notin> proposed S"
  shows "psys_inv (S\<lparr>pstate := (pstate S)(p := s'), sent := insert (other p, m, msg) (sent S),
      proposed := insert (p, i, (ttl, sc, dl)) (proposed S)\<rparr>)" (is "psys_inv ?S")
proof -
  have e: "rules_of s' = rules_of (pstate S p)" "cp_op msg = OP_RULE_PROPOSE" "cp_propose_id msg = i"
      "payload_rules msg = (ttl, sc, dl)" "OP_RULE_PROPOSE \<noteq> OP_RULE_ACCEPT"
      "ps_pending s' = Some \<lparr>pp_ttl_sec = ttl, pp_screenshot = sc, pp_attach_download = dl,
         pp_inbound = False, pp_propose_id = i\<rparr>"
    using build_propose_Some [OF assms(2)] by (auto simp: policy_ops)
  have inv: "pending_inv S" "sent_inv S" "ids_inv S"
    using assms(1) by (simp_all add: psys_inv_def)
  have "pending_inv ?S"
    using inv(1) e(6) by (auto simp: pending_inv_def pending_rules_def)
  moreover have "sent_inv ?S"
    using inv(2) e(2-5) assms(3) by (simp add: sent_inv_def)
  moreover have "ids_inv ?S"
    by (rule ids_inv_insert [OF inv(3) assms(4)]) simp
  moreover have "rules_inv ?S"
    by (rule rules_inv_step [where S = S and p = p and s' = s'])
      (use assms(1) e(1) in \<open>auto simp: psys_inv_def\<close>)
  ultimately show ?thesis by (simp add: psys_inv_def)
qed

lemma accept_inv:
  assumes "psys_inv S" "build_accept (pstate S p) now = Some (s', msg, oc)"
  shows "psys_inv (S\<lparr>pstate := (pstate S)(p := s'), sent := insert (other p, m, msg) (sent S),
      accepted := insert (p, cp_propose_id msg, payload_rules msg) (accepted S)\<rparr>)"
    (is "psys_inv ?S")
proof -
  from assms(2) obtain pend where e: "ps_pending (pstate S p) = Some pend" "pp_inbound pend"
      "ps_pending s' = None" "rules_of s' = pending_rules pend" "cp_op msg = OP_RULE_ACCEPT"
      "cp_propose_id msg = pp_propose_id pend" "payload_rules msg = pending_rules pend"
    by (elim build_accept_effect)
  have pr: "(other p, pp_propose_id pend, pending_rules pend) \<in> proposed S"
    using assms(1) e(1,2) by (fastforce simp: psys_inv_def pending_inv_def)
  have inv: "pending_inv S" "sent_inv S" "ids_inv S"
    using assms(1) by (simp_all add: psys_inv_def)
  have "pending_inv ?S"
    using inv(1) e(3) by (auto simp: pending_inv_def)
  moreover have "ids_inv ?S"
    using inv(3) by (rule ids_inv_cong) simp
  moreover have "sent_inv ?S"
    using inv(2) e pr by (auto simp: sent_inv_def policy_ops)
  moreover have "rules_inv ?S"
  proof (rule rules_inv_step [where S = S and p = p and s' = s'])
    have "agreed ?S (rules_of s')"
      unfolding agreed_def using e(4,6,7) pr
      by (intro exI [of _ "other p"] exI [of _ "pp_propose_id pend"]) simp
    then show "rules_of s' = rules_of (pstate S p) \<or> agreed ?S (rules_of s')" ..
  qed (use assms(1) in \<open>auto simp: psys_inv_def\<close>)
  ultimately show ?thesis by (simp add: psys_inv_def)
qed

lemma deliver_inv:
  assumes inv: "psys_inv S" and msg: "(p, m, msg) \<in> sent S"
    and rcv: "policy_receive (pstate S p) msg m now = Some (s', oc, reply)"
  shows "psys_inv (S\<lparr>pstate := (pstate S)(p := s'),
      sent := (case reply of None \<Rightarrow> sent S | Some r \<Rightarrow> insert (other p, m', r) (sent S))\<rparr>)"
    (is "psys_inv ?S")
proof (cases "cp_op msg = OP_RULE_PROPOSE \<or> cp_op msg = OP_RULE_ACCEPT")
  case False
  with receive_other [OF _ _ rcv] have e: "rules_of s' = rules_of (pstate S p)"
      "ps_pending s' = ps_pending (pstate S p)" "\<And>r. reply = Some r \<Longrightarrow> cp_op r = OP_SYNC"
    by auto
  show ?thesis
  proof (cases reply)
    case None
    show ?thesis
      by (rule quiet_step [of S s' p _ p m "msg\<lparr>cp_op := OP_SYNC\<rparr>"])
        (use None inv e in auto)
  next
    case (Some r)
    show ?thesis
      by (rule quiet_step [of S s' p _ "other p" m' r]) (use Some inv e in auto)
  qed
next
  case True
  have parts: "pending_inv S" "sent_inv S" "ids_inv S" "rules_inv S"
    using inv by (simp_all add: psys_inv_def)
  have same: "ids_inv ?S" "reply = None \<Longrightarrow> sent_inv ?S"
    by (rule ids_inv_cong [OF parts(3)], simp) (rule sent_inv_cong [OF parts(2)], simp_all)
  from True show ?thesis
  proof
    assume op: "cp_op msg = OP_RULE_PROPOSE"
    from receive_propose [OF op rcv] obtain pend where e: "rules_of s' = rules_of (pstate S p)"
        "reply = None" "ps_pending s' = Some pend" "pp_inbound pend"
        "pending_rules pend = payload_rules msg"
        "pp_propose_id pend = (if cp_propose_id msg = ZERO_ID then m else cp_propose_id msg)"
      by auto
    have "cp_propose_id msg \<noteq> ZERO_ID"
        "(other p, cp_propose_id msg, payload_rules msg) \<in> proposed S"
      using parts(2) msg op by (auto simp: sent_inv_def)
    then have "pending_inv ?S"
      using parts(1) e(3-6) by (auto simp: pending_inv_def)
    moreover have "rules_inv ?S"
      by (rule rules_inv_step [where S = S and p = p and s' = s'])
        (use parts(4) e(1) in simp_all)
    ultimately show ?thesis
      using same e(2) by (simp add: psys_inv_def)
  next
    assume op: "cp_op msg = OP_RULE_ACCEPT"
    from receive_accept [OF op rcv] obtain pend where e: "reply = None" "ps_pending s' = None"
        "ps_pending (pstate S p) = Some pend" "\<not> pp_inbound pend"
        "pp_propose_id pend = cp_propose_id msg" "rules_of s' = pending_rules pend"
      by auto
    have a: "(p, cp_propose_id msg, payload_rules msg) \<in> proposed S"
        "(other p, cp_propose_id msg, payload_rules msg) \<in> accepted S"
      using parts(2) msg op by (auto simp: sent_inv_def)
    have "(p, cp_propose_id msg, pending_rules pend) \<in> proposed S"
      using parts(1) e(3-5) by (fastforce simp: pending_inv_def)
    with ids_invD [OF parts(3) a(1)] have "pending_rules pend = payload_rules msg"
      by simp
    with a e(6) have ag: "agreed S (rules_of s')"
      unfolding agreed_def by (intro exI [of _ p] exI [of _ "cp_propose_id msg"]) simp
    have "pending_inv ?S"
      using parts(1) e(2) by (auto simp: pending_inv_def)
    moreover have "rules_inv ?S"
      by (rule rules_inv_step [where S = S and p = p and s' = s'])
        (use parts(4) agreed_mono [OF ag, of ?S] in simp_all)
    ultimately show ?thesis
      using same e(1) by (simp add: psys_inv_def)
  qed
qed

lemma pstep_inv: "pstep S S' \<Longrightarrow> psys_inv S \<Longrightarrow> psys_inv S'"
proof (induction rule: pstep.induct)
  case (propose S p ttl sc dl i s' msg m)
  then show ?case by (intro propose_inv)
next
  case (accept S p now s' msg oc m)
  then show ?case by (intro accept_inv)
next
  case (decline S p)
  then have parts: "pending_inv S" "sent_inv S" "ids_inv S" "rules_inv S"
    by (simp_all add: psys_inv_def)
  let ?s = "(pstate S p)\<lparr>ps_pending := None\<rparr>"
  let ?S = "S\<lparr>pstate := (pstate S)(p := ?s)\<rparr>"
  have "ids_inv ?S" "sent_inv ?S"
    by (rule ids_inv_cong [OF parts(3)], simp) (rule sent_inv_cong [OF parts(2)], simp_all)
  moreover have "pending_inv ?S" "rules_inv ?S"
    using parts(1) rules_inv_step [OF parts(4), of ?S p ?s]
    by (auto simp: pending_inv_def rules_of_def)
  ultimately show ?case by (simp add: psys_inv_def)
next
  case (cap_set S p c on s' msg oc m)
  show ?case
    by (rule quiet_step [of S s' p _ "other p" m msg])
      (use cap_set cap_set_effect [OF cap_set.hyps] in auto)
next
  case (sync S p now s' msg m)
  show ?case
    by (rule quiet_step [of S s' p _ "other p" m msg])
      (use sync sync_effect [OF sync.hyps] in auto)
next
  case (deliver p m msg S now s' oc reply m')
  then show ?case by (intro deliver_inv)
qed

lemma preachable_inv: "preachable S \<Longrightarrow> psys_inv S"
  by (induction rule: preachable.induct) (auto intro: psys_init_inv pstep_inv)

section \<open>Validity\<close>

definition ok_inv :: "psys \<Rightarrow> bool" where
  "ok_inv S \<longleftrightarrow>
     (\<forall>p. policy_ok (pstate S p)) \<and>
     (\<forall>p m msg. (p, m, msg) \<in> sent S \<longrightarrow> ChatPolicy_validate msg = Ok () \<and> ChatPolicy_wf msg)"

lemma ok_inv_step:
  assumes "ok_inv S" "policy_ok s'" "pstate S' = (pstate S)(p := s')"
    and "sent S' \<subseteq> insert (q, m, msg) (sent S)" "ChatPolicy_validate msg = Ok () \<and> ChatPolicy_wf msg"
  shows "ok_inv S'"
  using assms unfolding ok_inv_def by auto

lemma sync_reply_ok:
  assumes "policy_ok s"
  shows "policy_ok (fst (sync_reply s now)) \<and>
    (\<forall>r. snd (sync_reply s now) = Some r \<longrightarrow> ChatPolicy_validate r = Ok () \<and> ChatPolicy_wf r)"
  using assms build_sync_ok [OF assms, of now] by (auto simp: sync_reply_def case_prod_beta Let_def)

lemma policy_receive_ok:
  assumes "policy_ok s" "ChatPolicy_validate cp = Ok ()" "ChatPolicy_wf cp"
    and "length m = 16 \<or> cp_propose_id cp \<noteq> ZERO_ID \<or> cp_op cp \<noteq> OP_RULE_PROPOSE"
    and "policy_receive s cp m now = Some (s', oc, reply)"
  shows "policy_ok s'" and "\<And>r. reply = Some r \<Longrightarrow> ChatPolicy_validate r = Ok () \<and> ChatPolicy_wf r"
proof -
  have "apply_propose s cp m = apply_propose s cp (cp_propose_id cp)" if "cp_propose_id cp \<noteq> ZERO_ID"
    using that by (simp add: apply_propose_def)
  with assms apply_propose_ok [OF assms(1-3)] apply_accept_ok [OF assms(1)]
    apply_cap_set_ok [OF assms(1)] sync_reply_ok [OF apply_sync_ok [OF assms(1)]]
  show "policy_ok s'" "\<And>r. reply = Some r \<Longrightarrow> ChatPolicy_validate r = Ok () \<and> ChatPolicy_wf r"
    by (auto simp: policy_receive_def case_prod_beta Let_def ChatPolicy_wf_def
        split: if_splits option.splits)
qed

lemma pstep_ok: "pstep S S' \<Longrightarrow> psys_inv S \<Longrightarrow> ok_inv S \<Longrightarrow> ok_inv S'"
proof (induction rule: pstep.induct)
  case (propose S p ttl sc dl i s' msg m)
  then have "policy_ok (pstate S p)" by (simp add: ok_inv_def)
  from build_propose_ok [OF this propose.hyps(3,1)] show ?case
    by (intro ok_inv_step [OF propose.prems(2)]) auto
next
  case (accept S p now s' msg oc m)
  then have "policy_ok (pstate S p)" by (simp add: ok_inv_def)
  from build_accept_ok [OF this accept.hyps] show ?case
    by (intro ok_inv_step [OF accept.prems(2)]) auto
next
  case (decline S p)
  then show ?case by (auto simp: ok_inv_def policy_ok_def)
next
  case (cap_set S p c on s' msg oc m)
  then have "policy_ok (pstate S p)" by (simp add: ok_inv_def)
  from build_cap_set_ok [OF this cap_set.hyps] show ?case
    by (intro ok_inv_step [OF cap_set.prems(2)]) auto
next
  case (sync S p now s' msg m)
  then have "policy_ok (pstate S p)" by (simp add: ok_inv_def)
  from build_sync_ok [OF this, of now] sync.hyps show ?case
    by (intro ok_inv_step [OF sync.prems(2)]) auto
next
  case (deliver p m msg S now s' oc reply m')
  then have ok: "policy_ok (pstate S p)" "ChatPolicy_validate msg = Ok ()" "ChatPolicy_wf msg"
    by (auto simp: ok_inv_def)
  have "cp_propose_id msg \<noteq> ZERO_ID \<or> cp_op msg \<noteq> OP_RULE_PROPOSE"
    using deliver.prems(1) deliver.hyps(1) by (auto simp: psys_inv_def sent_inv_def)
  with policy_receive_ok [OF ok _ deliver.hyps(2)] have s': "policy_ok s'"
      "\<And>r. reply = Some r \<Longrightarrow> ChatPolicy_validate r = Ok () \<and> ChatPolicy_wf r"
    by auto
  show ?case
  proof (cases reply)
    case None
    with s' ok show ?thesis
      by (intro ok_inv_step [OF deliver.prems(2), of s' _ p p m msg]) auto
  next
    case (Some r)
    with s' show ?thesis
      by (intro ok_inv_step [OF deliver.prems(2), of s' _ p "other p" m' r]) auto
  qed
qed

lemma preachable_ok: "preachable S \<Longrightarrow> ok_inv S"
proof (induction rule: preachable.induct)
  case init
  then show ?case by (simp add: ok_inv_def psys_init_def default_ok)
next
  case (step S S')
  then show ?case using pstep_ok preachable_inv by blast
qed

section \<open>Example runs\<close>

lemma reach_propose:
  assumes "preachable S" "is_allowed_ttl ttl" "i \<noteq> ZERO_ID" "length i = 16"
    and "\<forall>q r. (q, i, r) \<notin> proposed S"
  shows "\<exists>S' s' msg. preachable S' \<and>
    pstate S' = (pstate S)(p := s') \<and>
    sent S' = insert (other p, m, msg) (sent S) \<and>
    proposed S' = insert (p, i, (ttl, sc, dl)) (proposed S) \<and>
    cp_op msg = OP_RULE_PROPOSE \<and>
    payload_rules msg = (ttl, sc, dl) \<and>
    rules_of s' = rules_of (pstate S p)"
proof -
  obtain s' msg where b: "build_propose (pstate S p) ttl sc dl i = Some (s', msg)"
    using assms(2) by (simp add: build_propose_def Let_def)
  from preachable.step [OF assms(1) pstep.propose [OF b assms(3-5), of m]] build_propose_Some [OF b]
  show ?thesis
    by (intro exI [of _ "S\<lparr>pstate := (pstate S)(p := s'), sent := insert (other p, m, msg) (sent S),
        proposed := insert (p, i, (ttl, sc, dl)) (proposed S)\<rparr>"] exI [of _ s'] exI [of _ msg]) simp
qed

lemma reach_receive_proposal:
  assumes "preachable S" "(p, m, msg) \<in> sent S" "cp_op msg = OP_RULE_PROPOSE"
  shows "\<exists>S' s' pend. preachable S' \<and>
    pstate S' = (pstate S)(p := s') \<and>
    sent S' = sent S \<and>
    proposed S' = proposed S \<and>
    rules_of s' = rules_of (pstate S p) \<and>
    ps_pending s' = Some pend \<and>
    pp_inbound pend \<and>
    pending_rules pend = payload_rules msg"
proof -
  obtain s' oc reply where r: "policy_receive (pstate S p) msg m 0 = Some (s', oc, reply)"
    using assms(3) by (simp add: policy_receive_def)
  have "preachable (S\<lparr>pstate := (pstate S)(p := s'), sent := sent S\<rparr>)"
    using preachable.step [OF assms(1) pstep.deliver [OF assms(2) r, of m]]
      receive_propose [OF assms(3) r] by simp
  with receive_propose [OF assms(3) r] show ?thesis
    by (intro exI [of _ "S\<lparr>pstate := (pstate S)(p := s'), sent := sent S\<rparr>"] exI [of _ s']) auto
qed

lemma reach_accept:
  assumes "preachable S" "ps_pending (pstate S p) = Some pend" "pp_inbound pend"
  shows "\<exists>S' s' msg. preachable S' \<and>
    pstate S' = (pstate S)(p := s') \<and>
    sent S' = insert (other p, m, msg) (sent S) \<and>
    ps_pending s' = None \<and>
    rules_of s' = pending_rules pend \<and>
    cp_op msg = OP_RULE_ACCEPT"
proof -
  obtain s' msg oc where b: "build_accept (pstate S p) 0 = Some (s', msg, oc)"
    using assms(2,3) by (simp add: build_accept_def Let_def case_prod_beta)
  obtain pend' where "ps_pending (pstate S p) = Some pend'" "ps_pending s' = None"
      "rules_of s' = pending_rules pend'" "cp_op msg = OP_RULE_ACCEPT"
    using b by (rule build_accept_effect)
  with preachable.step [OF assms(1) pstep.accept [OF b, of m]] assms(2) show ?thesis
    by (intro exI [of _ "S\<lparr>pstate := (pstate S)(p := s'), sent := insert (other p, m, msg) (sent S),
        accepted := insert (p, cp_propose_id msg, payload_rules msg) (accepted S)\<rparr>"]
        exI [of _ s'] exI [of _ msg]) simp
qed

text \<open>A reachable state in which Alice has proposed new rules.\<close>

lemma reach_example:
  "\<exists>S a msg. preachable S \<and> pstate S Alice = a \<and> (Bob, [], msg) \<in> sent S \<and>
     rules_of a = rules_of PolicyState_default"
  using reach_propose [OF preachable.init, of TTL_NEVER "replicate 16 1" Alice "[]" True True]
  by (auto simp: psys_init_def ZERO_ID_def is_allowed_ttl_def TTL_OPTIONS_def)

lemma reach_agreed: "\<exists>S. preachable S \<and> rules_of (pstate S Bob) = (TTL_NEVER, True, True)"
proof -
  obtain S1 ma where 1: "preachable S1" "(Bob, [], ma) \<in> sent S1" "cp_op ma = OP_RULE_PROPOSE"
      "payload_rules ma = (TTL_NEVER, True, True)"
    using reach_propose [OF preachable.init, of TTL_NEVER "replicate 16 1" Alice "[]" True True]
    by (auto simp: psys_init_def ZERO_ID_def is_allowed_ttl_def TTL_OPTIONS_def)
  obtain S2 b pb where 2: "preachable S2" "pstate S2 = (pstate S1)(Bob := b)" "ps_pending b = Some pb"
      "pp_inbound pb" "pending_rules pb = payload_rules ma"
    using reach_receive_proposal [OF 1(1-3)] by auto
  show ?thesis
    using reach_accept [OF 2(1), of Bob pb "[]"] 2(2-5) 1(4) by auto
qed

section \<open>Crossing proposals\<close>

text \<open>A device that receives messages in turn; a message it refuses leaves it as it was.\<close>

fun receive_all :: "policy_state \<Rightarrow> (bytes \<times> chat_policy \<times> u64) list \<Rightarrow> policy_state" where
  "receive_all s [] = s"
| "receive_all s ((m, msg, now) # ms) =
     receive_all (case policy_receive s msg m now of None \<Rightarrow> s | Some (s', _, _) \<Rightarrow> s') ms"

text \<open>Without an outbound proposal no message changes the rules.\<close>

definition no_outbound :: "policy_state \<Rightarrow> bool" where
  "no_outbound s \<longleftrightarrow> (\<forall>pend. ps_pending s = Some pend \<longrightarrow> pp_inbound pend)"

lemma receive_no_outbound:
  assumes "no_outbound s" "policy_receive s msg m now = Some (s', oc, reply)"
  shows "no_outbound s' \<and> rules_of s' = rules_of s"
proof (cases "cp_op msg = OP_RULE_PROPOSE \<or> cp_op msg = OP_RULE_ACCEPT")
  case True
  then show ?thesis
    using receive_propose [OF _ assms(2)] receive_accept [OF _ assms(2)] assms(1) by (auto simp: no_outbound_def)
next
  case False
  then show ?thesis using receive_other [OF _ _ assms(2)] assms(1) by (auto simp: no_outbound_def)
qed

lemma receive_all_rules: "no_outbound s \<Longrightarrow> rules_of (receive_all s ms) = rules_of s"
  by (induction s ms rule: receive_all.induct) (auto dest: receive_no_outbound split: option.splits)

lemma accept_received:
  assumes "cp_op msg = OP_RULE_PROPOSE"
  obtains s1 oc s2 acc oc' where "policy_receive s msg m now = Some (s1, oc, None)"
    "build_accept s1 now' = Some (s2, acc, oc')" "rules_of s2 = payload_rules msg" "ps_pending s2 = None"
    "cp_op acc = OP_RULE_ACCEPT"
proof -
  obtain s1 oc reply where r: "policy_receive s msg m now = Some (s1, oc, reply)"
    using assms by (simp add: policy_receive_def)
  from receive_propose [OF assms r] obtain pend where p: "reply = None" "ps_pending s1 = Some pend" "pp_inbound pend"
      "pending_rules pend = payload_rules msg" by auto
  then obtain s2 acc oc' where b: "build_accept s1 now' = Some (s2, acc, oc')"
    by (simp add: build_accept_def Let_def case_prod_beta)
  show thesis using b by (rule build_accept_effect) (use that r b p in auto)
qed

section \<open>Properties\<close>

text \<open>
  C12: in every state two devices can reach by any sequence of proposals, acceptances,
  refusals, capability switches, advertisements and deliveries, with loss, reordering and
  replay, each device's policy stays valid (allowed lifetime, storable want words, full
  proposal ids) and every message sent is accepted by the peer's decoder unchanged.
\<close>

theorem policy_reachable_valid:
  assumes "preachable S"
  shows "policy_ok (pstate S p) \<and>
    ((q, m, msg) \<in> sent S \<longrightarrow>
      (\<exists>b. ChatPolicy_encode_payload msg = Ok b \<and> ChatPolicy_decode_payload b = Ok msg))"
proof -
  have "\<exists>b. ChatPolicy_encode_payload msg = Ok b \<and> ChatPolicy_decode_payload b = Ok msg"
    if "ChatPolicy_validate msg = Ok ()" "ChatPolicy_wf msg"
    using that chat_policy.decode_encode by (auto simp: ChatPolicy_encode_payload_def)
  with preachable_ok [OF assms] show ?thesis by (auto simp: ok_inv_def)
qed

theorem policy_reachable_valid_witness:
  "\<exists>S msg b. preachable S \<and> policy_ok (pstate S Alice) \<and> (Bob, [], msg) \<in> sent S \<and>
     ChatPolicy_encode_payload msg = Ok b \<and> ChatPolicy_decode_payload b = Ok msg"
proof -
  obtain S msg where S: "preachable S" "(Bob, [], msg) \<in> sent S" using reach_example by blast
  with policy_reachable_valid [OF S(1), of Alice Bob "[]" msg] show ?thesis by blast
qed

text \<open>
  C5: rules change only by agreement. In every reachable state the rules each device
  enforces are the initial ones or rules that one party proposed under some id and the
  other party accepted under the same id.
\<close>

theorem rules_by_agreement:
  assumes "preachable S"
  shows "rules_of (pstate S p) = rules_of PolicyState_default \<or>
    (\<exists>q i. (q, i, rules_of (pstate S p)) \<in> proposed S \<and>
           (other q, i, rules_of (pstate S p)) \<in> accepted S)"
  using preachable_inv [OF assms] by (auto simp: psys_inv_def rules_inv_def agreed_def)

theorem rules_by_agreement_witness:
  "\<exists>S q i. preachable S \<and> rules_of (pstate S Bob) = (TTL_NEVER, True, True) \<and>
     (q, i, (TTL_NEVER, True, True)) \<in> proposed S \<and> (other q, i, (TTL_NEVER, True, True)) \<in> accepted S"
proof -
  obtain S where S: "preachable S" "rules_of (pstate S Bob) = (TTL_NEVER, True, True)"
    using reach_agreed by blast
  moreover have "(TTL_NEVER, True, True) \<noteq> rules_of PolicyState_default" by code_simp
  ultimately show ?thesis
    using rules_by_agreement [OF S(1), of Bob] by auto
qed

text \<open>
  C34: crossing proposals split the rules. When two devices propose different rules, each before
  it has seen the proposal of the other, and each then receives and accepts the proposal of the
  other, each enforces the rules that the other proposed: the received proposal has overwritten
  the own one. Neither takes the acceptance of the other, and whatever messages either device
  receives afterwards, its rules stay as they are.
\<close>

theorem crossing_proposals_diverge:
  assumes "build_propose a ttl sc dl i = Some (a1, ma)" "build_propose b ttl' sc' dl' j = Some (b1, mb)"
    and "(ttl, sc, dl) \<noteq> (ttl', sc', dl')"
  shows "\<exists>a2 b2 a3 b3 acca accb oa ob oa' ob'.
    policy_receive a1 mb m now = Some (a2, oa, None) \<and> build_accept a2 now = Some (a3, acca, oa') \<and>
    policy_receive b1 ma m' now = Some (b2, ob, None) \<and> build_accept b2 now = Some (b3, accb, ob') \<and>
    policy_receive a3 accb n t = None \<and> policy_receive b3 acca n' t = None \<and>
    rules_of (receive_all a3 ms) = (ttl', sc', dl') \<and> rules_of (receive_all b3 ms') = (ttl, sc, dl) \<and>
    rules_of (receive_all a3 ms) \<noteq> rules_of (receive_all b3 ms')"
proof -
  have p: "cp_op ma = OP_RULE_PROPOSE" "payload_rules ma = (ttl, sc, dl)"
      "cp_op mb = OP_RULE_PROPOSE" "payload_rules mb = (ttl', sc', dl')"
    using build_propose_Some [OF assms(1)] build_propose_Some [OF assms(2)] by auto
  obtain a2 oa a3 acca oa' where A: "policy_receive a1 mb m now = Some (a2, oa, None)"
      "build_accept a2 now = Some (a3, acca, oa')" "rules_of a3 = payload_rules mb" "ps_pending a3 = None"
      "cp_op acca = OP_RULE_ACCEPT"
    by (rule accept_received [OF p(3)])
  obtain b2 ob b3 accb ob' where B: "policy_receive b1 ma m' now = Some (b2, ob, None)"
      "build_accept b2 now = Some (b3, accb, ob')" "rules_of b3 = payload_rules ma" "ps_pending b3 = None"
      "cp_op accb = OP_RULE_ACCEPT"
    by (rule accept_received [OF p(1)])
  have "policy_receive a3 accb n t = None" "policy_receive b3 acca n' t = None"
    using A(4,5) B(4,5) by (simp_all add: policy_receive_def apply_accept_def policy_ops)
  moreover have "rules_of (receive_all a3 ms) = (ttl', sc', dl')" "rules_of (receive_all b3 ms') = (ttl, sc, dl)"
    using receive_all_rules [of a3 ms] receive_all_rules [of b3 ms'] A(3,4) B(3,4) p
    by (simp_all add: no_outbound_def)
  ultimately show ?thesis using A(1,2) B(1,2) assms(3) by metis
qed

theorem crossing_proposals_diverge_witness:
  "\<exists>a1 ma b1 mb a2 a3 acca oa oa'.
     build_propose PolicyState_default TTL_NEVER True True (replicate 16 1) = Some (a1, ma) \<and>
     build_propose PolicyState_default TTL_24H False False (replicate 16 2) = Some (b1, mb) \<and>
     policy_receive a1 mb [] 5 = Some (a2, oa, None) \<and> build_accept a2 5 = Some (a3, acca, oa') \<and>
     rules_of (receive_all a3 [([], mb, 6)]) = (TTL_24H, False, False)"
proof -
  have ttl: "is_allowed_ttl TTL_NEVER" "is_allowed_ttl TTL_24H" by code_simp+
  obtain a1 ma where a: "build_propose PolicyState_default TTL_NEVER True True (replicate 16 1) = Some (a1, ma)"
    using ttl(1) by (simp add: build_propose_def Let_def)
  obtain b1 mb where b: "build_propose PolicyState_default TTL_24H False False (replicate 16 2) = Some (b1, mb)"
    using ttl(2) by (simp add: build_propose_def Let_def)
  show ?thesis
    using crossing_proposals_diverge [OF a b, of "[]" 5 "[]" "[]" 6 "[]" "[([], mb, 6)]" "[]"] a b by blast
qed

end
