(* ===== verification/Wire_Attach.thy ===== *)
theory Wire_Attach
  imports Wire_Payload
begin

text \<open>
  The attachment payloads of \<^verbatim>\<open>crates/wire-types/src/attach.rs\<close>: the head in its
  chunked and inline forms with the optional caption and flags tail, and the data
  chunk. The inline form is ambiguous byte by byte (caption and file are both
  length-prefixed); that the two look-ahead comparisons of \<open>decode_inline\<close> resolve
  every encoder output is part of the round-trip proof.
\<close>

section \<open>Attachment heads\<close>

definition CLASS_IMAGE :: u8 where "CLASS_IMAGE = 1"

definition CLASS_VIDEO :: u8 where "CLASS_VIDEO = 2"

definition FLAG_VIEW_ONCE :: u8 where "FLAG_VIEW_ONCE = 1"

definition ATTACH_VERSION :: u8 where "ATTACH_VERSION = 1"

definition VERSION_INLINE :: u8 where "VERSION_INLINE = 2"

record attach_head =
  media_class :: u8
  mime_hint :: bytes
  orig_ext :: bytes
  uncompressed_n :: u32
  chunk_count :: u16
  chunk_bucket :: u16
  content_sha256 :: bytes
  caption :: bytes
  head_flags :: u8

definition view_once :: "attach_head \<Rightarrow> bool" where
  "view_once h \<longleftrightarrow> head_flags h AND FLAG_VIEW_ONCE \<noteq> 0"

definition validate_common :: "attach_head \<Rightarrow> wire_error + unit" where
  "validate_common h =
     (if media_class h \<noteq> CLASS_IMAGE \<and> media_class h \<noteq> CLASS_VIDEO
      then Err (BadField ''attach_head.media_class''
                 (''class '' @ show_nat (unat (media_class h))))
      else if length (mime_hint h) > MAX_MIME
      then Err (TooLarge ''attach_head.mime'' (length (mime_hint h)) MAX_MIME)
      else if length (orig_ext h) > MAX_EXT
      then Err (TooLarge ''attach_head.ext'' (length (orig_ext h)) MAX_EXT)
      else if unat (uncompressed_n h) < 1 \<or> unat (uncompressed_n h) > MAX_ATTACH
      then Err (BadField ''attach_head.uncompressed_n''
                 (''n '' @ show_nat (unat (uncompressed_n h))))
      else if length (caption h) > MAX_CAPTION
      then Err (TooLarge ''attach_head.caption'' (length (caption h)) MAX_CAPTION)
      else Ok ())"

definition encode_caption_tail :: "writer \<Rightarrow> bytes \<Rightarrow> u8 \<Rightarrow> wire_error + writer" where
  "encode_caption_tail w cap flags =
     (if cap = [] \<and> flags = 0 then Ok w
      else if length cap > MAX_CAPTION
      then Err (TooLarge ''attach_head.caption'' (length cap) MAX_CAPTION)
      else let w = Writer_lp cap w
           in Ok (if flags \<noteq> 0 then Writer_u8 flags w else w))"

text \<open>The chunk plan check shared by the chunked encoder and decoder.\<close>

definition chunk_plan_bad :: "attach_head \<Rightarrow> bool" where
  "chunk_plan_bad h \<longleftrightarrow>
     unat (chunk_count h) < 1 \<or> unat (chunk_count h) > MAX_CHUNKS \<or>
     chunk_bucket h < chunk_count h \<or> unat (chunk_bucket h) > MAX_CHUNKS"

definition chunk_plan_error :: "attach_head \<Rightarrow> wire_error" where
  "chunk_plan_error h =
     BadField ''attach_head.chunks''
       (''count '' @ show_nat (unat (chunk_count h)) @ '' bucket '' @
        show_nat (unat (chunk_bucket h)))"

definition encode_chunked :: "attach_head \<Rightarrow> wire_error + bytes" where
  "encode_chunked h =
     rbind (validate_common h) (\<lambda>_.
       if chunk_plan_bad h then Err (chunk_plan_error h) else
       let w = wseq [Writer_u8 ATTACH_VERSION, Writer_u8 (media_class h),
                     Writer_lp (mime_hint h), Writer_lp (orig_ext h),
                     Writer_u32be (uncompressed_n h), Writer_u16be (chunk_count h),
                     Writer_u16be (chunk_bucket h), Writer_raw (content_sha256 h)] Writer_new
       in rbind (encode_caption_tail w (caption h) (head_flags h)) (\<lambda>w.
       Ok (Writer_finish w)))"

definition encode_inline :: "attach_head \<Rightarrow> bytes \<Rightarrow> wire_error + bytes" where
  "encode_inline h inline_bytes =
     rbind (validate_common h) (\<lambda>_.
       if chunk_count h \<noteq> 0 \<or> chunk_bucket h \<noteq> 0
       then Err (BadField ''attach_head.chunks'' ''inline head must have zero chunk plan'')
       else if length inline_bytes \<noteq> unat (uncompressed_n h)
       then Err (BadLength ''attach_head.inline'' (length inline_bytes)
                  (unat (uncompressed_n h)))
       else
       let w = wseq [Writer_u8 VERSION_INLINE, Writer_u8 (media_class h),
                     Writer_lp (mime_hint h), Writer_lp (orig_ext h),
                     Writer_u32be (uncompressed_n h), Writer_raw (content_sha256 h)] Writer_new
       in rbind (encode_caption_tail w (caption h) (head_flags h)) (\<lambda>w.
       Ok (Writer_finish (Writer_lp inline_bytes w))))"

definition decode_caption_tail :: "reader \<Rightarrow> nat \<Rightarrow> wire_error + ((bytes \<times> u8) \<times> reader)" where
  "decode_caption_tail r tot =
     (if Reader_remaining r = 0 then Ok (([], 0), r) else
      rbind (Reader_u32be ''attach_head.caption'' r) (\<lambda>(cap_len, r).
      if unat cap_len > MAX_CAPTION
      then Err (BadLength ''attach_head.caption'' (unat cap_len) MAX_CAPTION) else
      rbind (Reader_take (unat cap_len) ''attach_head.caption'' r) (\<lambda>(cap_bytes, r).
      let cap_end = Reader_position r in
      if cap_end = tot then
        (if unat cap_len < 1 then Err (BadLength ''attach_head.caption'' 0 MAX_CAPTION)
         else rbind (from_utf8 (BadField ''attach_head.caption'' ''invalid utf-8'') cap_bytes)
                (\<lambda>cap. Ok ((cap, 0), r)))
      else if cap_end + 1 = tot then
        rbind (if unat cap_len = 0 then Ok []
               else from_utf8 (BadField ''attach_head.caption'' ''invalid utf-8'') cap_bytes)
          (\<lambda>cap. rbind (Reader_u8 ''attach_head.flags'' r) (\<lambda>(flags, r).
            Ok ((cap, flags), r)))
      else Err (Trailing ''attach_head'' (tot - cap_end)))))"

definition read_ascii :: "nat \<Rightarrow> string \<Rightarrow> reader \<Rightarrow> wire_error + (bytes \<times> reader)" where
  "read_ascii mx at r =
     rbind (Reader_lp mx at r) (\<lambda>(bs, r).
       if \<not> is_ascii bs then Err (BadField at ''not ascii'') else Ok (bs, r))"

definition decode_chunked :: "bytes \<Rightarrow> wire_error + attach_head" where
  "decode_chunked bs =
     (let r = Reader_new bs in
      rbind (Reader_u8 ''attach_head.version'' r) (\<lambda>(version, r).
      rbind (Reader_u8 ''attach_head.class'' r) (\<lambda>(cls, r).
      rbind (read_ascii MAX_MIME ''attach_head.mime'' r) (\<lambda>(mime, r).
      rbind (read_ascii MAX_EXT ''attach_head.ext'' r) (\<lambda>(ext, r).
      rbind (Reader_u32be ''attach_head.n'' r) (\<lambda>(n, r).
      rbind (Reader_u16be ''attach_head.count'' r) (\<lambda>(count, r).
      rbind (Reader_u16be ''attach_head.bucket'' r) (\<lambda>(bucket, r).
      rbind (Reader_take 32 ''attach_head.sha256'' r) (\<lambda>(sha, r).
      rbind (decode_caption_tail r (length bs)) (\<lambda>((cap, flags), r).
      let head = \<lparr>media_class = cls, mime_hint = mime, orig_ext = ext, uncompressed_n = n,
                  chunk_count = count, chunk_bucket = bucket, content_sha256 = sha,
                  caption = cap, head_flags = flags\<rparr> in
      rbind (validate_common head) (\<lambda>_.
      if chunk_plan_bad head then Err (chunk_plan_error head) else Ok head)))))))))))"

text \<open>
  The part of \<open>decode_inline\<close> that reads the caption, the flags and the file: the
  block expression assigned to \<open>inline\<close>, with the two variables it sets.
\<close>

definition decode_inline_tail ::
    "nat \<Rightarrow> reader \<Rightarrow> wire_error + (bytes \<times> u8 \<times> bytes)" where
  "decode_inline_tail n r =
     rbind (Reader_peek_u32be ''attach_head.inline'' r) (\<lambda>peek.
     if unat peek = n \<and> Reader_remaining r = 4 + unat peek then
       rbind (Reader_u32be ''attach_head.inline'' r) (\<lambda>(_, r).
       rbind (Reader_take (unat peek) ''attach_head.inline'' r) (\<lambda>(inl, r).
       Ok ([], 0, inl)))
     else
       rbind (Reader_u32be ''attach_head.caption'' r) (\<lambda>(cap_len, r).
       if unat cap_len > MAX_CAPTION
       then Err (BadLength ''attach_head.caption'' (unat cap_len) MAX_CAPTION) else
       rbind (Reader_take (unat cap_len) ''attach_head.caption'' r) (\<lambda>(cap_bytes, r).
       rbind (from_utf8 (BadField ''attach_head.caption'' ''invalid utf-8'') cap_bytes) (\<lambda>cap.
       rbind (Reader_peek_u32be ''attach_head.inline'' r) (\<lambda>peek2.
       if unat peek2 = n \<and> Reader_remaining r = 4 + unat peek2 then
         rbind (Reader_u32be ''attach_head.inline'' r) (\<lambda>(_, r).
         rbind (Reader_take (unat peek2) ''attach_head.inline'' r) (\<lambda>(inl, r).
         Ok (cap, 0, inl)))
       else
         rbind (Reader_u8 ''attach_head.flags'' r) (\<lambda>(flags, r).
         rbind (Reader_u32be ''attach_head.inline'' r) (\<lambda>(inline_len, r).
         if unat inline_len \<noteq> n \<or> Reader_remaining r \<noteq> unat inline_len
         then Err (BadLength ''attach_head.inline'' (unat inline_len) n) else
         rbind (Reader_take (unat inline_len) ''attach_head.inline'' r) (\<lambda>(inl, r).
         Ok (cap, flags, inl)))))))))"

definition decode_inline :: "bytes \<Rightarrow> wire_error + (attach_head \<times> bytes option)" where
  "decode_inline bs =
     (let r = Reader_new bs in
      rbind (Reader_u8 ''attach_head.version'' r) (\<lambda>(version, r).
      rbind (Reader_u8 ''attach_head.class'' r) (\<lambda>(cls, r).
      rbind (read_ascii MAX_MIME ''attach_head.mime'' r) (\<lambda>(mime, r).
      rbind (read_ascii MAX_EXT ''attach_head.ext'' r) (\<lambda>(ext, r).
      rbind (Reader_u32be ''attach_head.n'' r) (\<lambda>(n, r).
      rbind (Reader_take 32 ''attach_head.sha256'' r) (\<lambda>(sha, r).
      rbind (decode_inline_tail (unat n) r) (\<lambda>(cap, flags, inl).
      let head = \<lparr>media_class = cls, mime_hint = mime, orig_ext = ext, uncompressed_n = n,
                  chunk_count = 0, chunk_bucket = 0, content_sha256 = sha,
                  caption = cap, head_flags = flags\<rparr> in
      rbind (validate_common head) (\<lambda>_. Ok (head, Some inl))))))))))"

definition decode_with_inline :: "bytes \<Rightarrow> wire_error + (attach_head \<times> bytes option)" where
  "decode_with_inline bs =
     rbind (Reader_u8 ''attach_head.version'' (Reader_new bs)) (\<lambda>(version, r).
       if version = ATTACH_VERSION then rbind (decode_chunked bs) (\<lambda>h. Ok (h, None))
       else if version = VERSION_INLINE then decode_inline bs
       else Err (BadVersion ''attach_head'' version))"

record attach_head_payload =
  ahp_head :: attach_head
  ahp_inline :: "bytes option"

definition AttachHead_encode_payload :: "attach_head_payload \<Rightarrow> wire_error + bytes" where
  "AttachHead_encode_payload p =
     (case ahp_inline p of
        Some bs \<Rightarrow> encode_inline (ahp_head p) bs
      | None \<Rightarrow> encode_chunked (ahp_head p))"

definition AttachHead_decode_payload :: "bytes \<Rightarrow> wire_error + attach_head_payload" where
  "AttachHead_decode_payload bs =
     rbind (decode_with_inline bs) (\<lambda>(h, inl). Ok \<lparr>ahp_head = h, ahp_inline = inl\<rparr>)"

section \<open>Attachment chunks\<close>

record attach_chunk =
  ac_head_id :: bytes
  ac_index :: u16
  ac_pad :: bool
  ac_data :: bytes

definition AttachChunk_encode_payload :: "attach_chunk \<Rightarrow> wire_error + bytes" where
  "AttachChunk_encode_payload p =
     (if length (ac_data p) > CHUNK_DATA_MAX
      then Err (TooLarge ''attach_chunk.data'' (length (ac_data p)) CHUNK_DATA_MAX)
      else if ac_pad p \<and> ac_data p \<noteq> []
      then Err (BadField ''attach_chunk.pad'' ''pad chunk carries data'')
      else Ok (writes [Writer_raw (ac_head_id p), Writer_u16be (ac_index p),
                       Writer_u8 (if ac_pad p then 1 else 0), Writer_lp (ac_data p)]))"

definition AttachChunk_decode_payload :: "bytes \<Rightarrow> wire_error + attach_chunk" where
  "AttachChunk_decode_payload bs =
     (let r = Reader_new bs in
      rbind (Reader_take 16 ''attach_chunk.head'' r) (\<lambda>(head_id, r).
      rbind (Reader_u16be ''attach_chunk.index'' r) (\<lambda>(index, r).
      rbind (Reader_u8 ''attach_chunk.pad'' r) (\<lambda>(pad_byte, r).
      rbind (if pad_byte = 0 then Ok False else if pad_byte = 1 then Ok True
             else Err (BadField ''attach_chunk.pad'' (show_nat (unat pad_byte)))) (\<lambda>pad.
      rbind (Reader_lp CHUNK_DATA_MAX ''attach_chunk.data'' r) (\<lambda>(data, r).
      rbind (Reader_expect_end ''attach_chunk'' r) (\<lambda>_.
      if pad \<and> data \<noteq> []
      then Err (BadField ''attach_chunk.pad'' ''pad chunk carries data'') else
      Ok \<lparr>ac_head_id = head_id, ac_index = index, ac_pad = pad, ac_data = data\<rparr>)))))))"

section \<open>Type invariants\<close>

text \<open>
  Besides the invariants of the Rust types (\<open>String\<close> and \<open>[u8; 32]\<close>) the decoder
  only accepts ASCII in the two hints, which the encoder does not check.
\<close>

definition AttachHead_wf :: "attach_head_payload \<Rightarrow> bool" where
  "AttachHead_wf p \<longleftrightarrow>
     is_ascii (mime_hint (ahp_head p)) \<and> is_ascii (orig_ext (ahp_head p)) \<and>
     utf8_valid (caption (ahp_head p)) \<and> length (content_sha256 (ahp_head p)) = 32"

definition AttachChunk_wf :: "attach_chunk \<Rightarrow> bool" where
  "AttachChunk_wf p \<longleftrightarrow> length (ac_head_id p) = 16"

section \<open>The payload contract\<close>

interpretation attach_chunk:
  canonical_payload AttachChunk_encode_payload AttachChunk_decode_payload AttachChunk_wf
proof
  fix b p
  have lims: "CHUNK_DATA_MAX < 4294967296" by (simp add: limit_defs)
  show "AttachChunk_decode_payload b = Ok p \<longleftrightarrow>
      AttachChunk_wf p \<and> AttachChunk_encode_payload p = Ok b" (is "?d \<longleftrightarrow> ?e")
  proof
    assume ?d
    then show ?e
      by (auto simp: AttachChunk_decode_payload_def AttachChunk_encode_payload_def
          AttachChunk_wf_def wire_write rbind_Inr_iff reader_inv Reader_new_rd split: if_splits)
  next
    assume ?e
    with lims show ?d
      by (cases p) (auto simp: AttachChunk_encode_payload_def AttachChunk_decode_payload_def
          AttachChunk_wf_def wire_write reader_eval Reader_new_rd split: if_splits)
  qed
qed

text \<open>The bytes of a caption tail, and that both decoders recover it.\<close>

definition caption_tail :: "bytes \<Rightarrow> u8 \<Rightarrow> bytes" where
  "caption_tail cap flags =
     (if cap = [] \<and> flags = 0 then []
      else be32 (of_nat (length cap)) @ cap @ (if flags \<noteq> 0 then [flags] else []))"

lemma encode_caption_tail_Ok:
  "length cap \<le> MAX_CAPTION \<Longrightarrow>
     encode_caption_tail w cap flags = Ok (Writer_raw (caption_tail cap flags) w)"
  by (auto simp: encode_caption_tail_def caption_tail_def wire_write Let_def)

lemma read_ascii_eval [reader_eval]:
  "is_ascii x \<Longrightarrow> length x \<le> mx \<Longrightarrow> length x < 4294967296 \<Longrightarrow>
     read_ascii mx at (rd pre (be32 (of_nat (length x)) @ x @ post)) =
       Ok (x, rd (pre @ be32 (of_nat (length x)) @ x) post)"
  by (simp add: read_ascii_def reader_eval)

lemma read_ascii_inv [reader_inv]:
  "read_ascii mx at r = Ok (x, r') \<longleftrightarrow> is_ascii x \<and> Reader_lp mx at r = Ok (x, r')"
  by (auto simp: read_ascii_def rbind_Inr_iff split: if_splits)

lemma caption_len [simp]:
  "length cap \<le> MAX_CAPTION \<Longrightarrow> unat (of_nat (length cap) :: u32) = length cap"
  by (simp add: limit_defs unat_of_nat_u32)

lemma decode_caption_tail_eval:
  assumes "utf8_valid cap" "length cap \<le> MAX_CAPTION"
    and "tot = length pre + length (caption_tail cap flags)"
  shows "decode_caption_tail (rd pre (caption_tail cap flags)) tot =
      Ok ((cap, flags), rd (pre @ caption_tail cap flags) [])"
  using assms
  by (auto simp: decode_caption_tail_def caption_tail_def reader_eval Let_def)

lemma decode_inline_tail_eval:
  assumes "utf8_valid cap" "length cap \<le> MAX_CAPTION" "length inl = unat n"
  shows "decode_inline_tail (unat n) (rd pre (caption_tail cap flags @ be32 n @ inl)) =
      Ok (cap, flags, inl)"
  using assms by (auto simp: decode_inline_tail_def caption_tail_def reader_eval Reader_peek_rd)

lemma decode_caption_tail_wf:
  "decode_caption_tail (rd pre post) tot = Ok ((cap, flags), r') \<Longrightarrow> tot = length pre + length post \<Longrightarrow>
     utf8_valid cap \<and> length (caption_tail cap flags) \<le> length post"
  by (auto simp: decode_caption_tail_def caption_tail_def Let_def rbind_Inr_iff reader_inv
      split: if_splits)

lemma decode_inline_tail_wf:
  "decode_inline_tail n (rd pre post) = Ok (cap, flags, inl) \<Longrightarrow>
     utf8_valid cap \<and> length inl = n \<and>
     length (caption_tail cap flags) + 4 + length inl \<le> length post"
  by (auto simp: decode_inline_tail_def caption_tail_def rbind_Inr_iff reader_inv split: if_splits)

lemma validate_common_Ok:
  "validate_common h = Ok u \<longleftrightarrow>
     (media_class h = CLASS_IMAGE \<or> media_class h = CLASS_VIDEO) \<and>
     length (mime_hint h) \<le> MAX_MIME \<and> length (orig_ext h) \<le> MAX_EXT \<and>
     1 \<le> unat (uncompressed_n h) \<and> unat (uncompressed_n h) \<le> MAX_ATTACH \<and>
     length (caption h) \<le> MAX_CAPTION"
  by (auto simp: validate_common_def)

lemma hint_lens:
  "length m \<le> MAX_MIME \<Longrightarrow> length m < 4294967296"
  "length m \<le> MAX_EXT \<Longrightarrow> length m < 4294967296"
  by (simp_all add: limit_defs)

lemma encode_chunked_Ok:
  "encode_chunked h = Ok b \<longleftrightarrow>
     validate_common h = Ok () \<and> \<not> chunk_plan_bad h \<and>
     b = [ATTACH_VERSION, media_class h] @ be32 (of_nat (length (mime_hint h))) @ mime_hint h @
         be32 (of_nat (length (orig_ext h))) @ orig_ext h @ be32 (uncompressed_n h) @
         be16 (chunk_count h) @ be16 (chunk_bucket h) @ content_sha256 h @
         caption_tail (caption h) (head_flags h)"
  by (auto simp: encode_chunked_def rbind_Inr_iff validate_common_Ok encode_caption_tail_Ok
      wire_write Let_def)

lemma encode_inline_Ok:
  "encode_inline h inl = Ok b \<longleftrightarrow>
     validate_common h = Ok () \<and> chunk_count h = 0 \<and> chunk_bucket h = 0 \<and>
     length inl = unat (uncompressed_n h) \<and>
     b = [VERSION_INLINE, media_class h] @ be32 (of_nat (length (mime_hint h))) @ mime_hint h @
         be32 (of_nat (length (orig_ext h))) @ orig_ext h @ be32 (uncompressed_n h) @
         content_sha256 h @ caption_tail (caption h) (head_flags h) @
         be32 (of_nat (length inl)) @ inl"
  by (auto simp: encode_inline_def rbind_Inr_iff validate_common_Ok encode_caption_tail_Ok
      wire_write Let_def)

lemma decode_chunked_encode:
  assumes "AttachHead_wf \<lparr>ahp_head = h, ahp_inline = i\<rparr>" "encode_chunked h = Ok b"
  shows "decode_chunked b = Ok h"
proof -
  have v: "validate_common h = Ok ()" and "\<not> chunk_plan_bad h"
    using assms by (auto simp: encode_chunked_Ok)
  moreover from v have "length (mime_hint h) \<le> MAX_MIME" "length (orig_ext h) \<le> MAX_EXT"
      "length (caption h) \<le> MAX_CAPTION"
    by (simp_all add: validate_common_Ok)
  ultimately show ?thesis
    using assms unfolding encode_chunked_Ok
    by (cases h) (simp add: decode_chunked_def AttachHead_wf_def Reader_new_rd reader_eval
        hint_lens decode_caption_tail_eval Let_def)
qed

lemma decode_inline_encode:
  assumes "AttachHead_wf \<lparr>ahp_head = h, ahp_inline = i\<rparr>" "encode_inline h inl = Ok b"
  shows "decode_inline b = Ok (h, Some inl)"
proof -
  have v: "validate_common h = Ok ()" using assms by (auto simp: encode_inline_Ok)
  then have "length (mime_hint h) \<le> MAX_MIME" "length (orig_ext h) \<le> MAX_EXT"
      "length (caption h) \<le> MAX_CAPTION"
    by (simp_all add: validate_common_Ok)
  with assms v show ?thesis
    unfolding encode_inline_Ok
    by (cases h) (simp add: decode_inline_def AttachHead_wf_def Reader_new_rd reader_eval
        hint_lens decode_inline_tail_eval Let_def)
qed

lemma decode_chunked_inv:
  assumes "decode_chunked b = Ok h"
  shows "AttachHead_wf \<lparr>ahp_head = h, ahp_inline = i\<rparr>"
    and "\<exists>b'. encode_chunked h = Ok b' \<and> length b' \<le> length b"
  using assms
  by (auto simp: decode_chunked_def AttachHead_wf_def encode_chunked_Ok Let_def rbind_Inr_iff
      reader_inv Reader_new_rd dest!: decode_caption_tail_wf split: if_splits)

lemma decode_inline_inv:
  assumes "decode_inline b = Ok (h, i)"
  shows "AttachHead_wf \<lparr>ahp_head = h, ahp_inline = i\<rparr>"
    and "\<exists>inl b'. i = Some inl \<and> encode_inline h inl = Ok b' \<and> length b' \<le> length b"
  using assms
  by (auto simp: decode_inline_def AttachHead_wf_def encode_inline_Ok Let_def rbind_Inr_iff
      reader_inv Reader_new_rd dest!: decode_inline_tail_wf split: if_splits)

lemma encode_head_version:
  "encode_chunked h = Ok b \<Longrightarrow> \<exists>t. b = ATTACH_VERSION # t"
  "encode_inline h inl = Ok b \<Longrightarrow> \<exists>t. b = VERSION_INLINE # t"
  by (auto simp: encode_chunked_Ok encode_inline_Ok)

interpretation attach_head:
  wire_payload AttachHead_encode_payload AttachHead_decode_payload AttachHead_wf
proof
  fix p b
  assume *: "AttachHead_wf p" "AttachHead_encode_payload p = Ok b"
  obtain h i where p: "p = \<lparr>ahp_head = h, ahp_inline = i\<rparr>" by (cases p)
  show "AttachHead_decode_payload b = Ok p"
  proof (cases i)
    case None
    with * p have "encode_chunked h = Ok b" by (simp add: AttachHead_encode_payload_def)
    with * p None encode_head_version(1) [OF this] decode_chunked_encode [OF _ this, of i]
    show ?thesis
      by (auto simp: AttachHead_decode_payload_def decode_with_inline_def Reader_new_rd reader_eval)
  next
    case (Some inl)
    with * p have "encode_inline h inl = Ok b" by (simp add: AttachHead_encode_payload_def)
    with * p Some encode_head_version(2) [OF this] decode_inline_encode [OF _ this, of i]
    show ?thesis
      by (auto simp: AttachHead_decode_payload_def decode_with_inline_def Reader_new_rd reader_eval
          ATTACH_VERSION_def VERSION_INLINE_def)
  qed
next
  fix b p
  assume "AttachHead_decode_payload b = Ok p"
  then show "AttachHead_wf p"
    by (auto simp: AttachHead_decode_payload_def decode_with_inline_def rbind_Inr_iff
        dest: decode_chunked_inv decode_inline_inv split: if_splits)
next
  fix b p
  assume "AttachHead_decode_payload b = Ok p"
  then show "\<exists>b'. AttachHead_encode_payload p = Ok b' \<and> length b' \<le> length b"
    by (fastforce simp: AttachHead_decode_payload_def AttachHead_encode_payload_def
        decode_with_inline_def rbind_Inr_iff
        dest: decode_chunked_inv decode_inline_inv split: if_splits)
qed

end
