(* ===== verification/Wire_Sticker.thy ===== *)
theory Wire_Sticker
  imports Wire_Payload
begin

text \<open>
  The sticker payloads of \<^verbatim>\<open>crates/wire-types/src/sticker.rs\<close>: \<open>STICKER\<close> (one item
  reference, with or without its bytes) and \<open>STICKER_CTRL\<close> (acknowledgements and the
  item, pack and thumbnail fetches). The pack documents are in the next theory.
\<close>

section \<open>STICKER\<close>

definition ITEM_VERSION :: u8 where "ITEM_VERSION = 1"

record sticker_item =
  si_kind :: u8
  si_visibility :: u8
  si_pack_id :: bytes
  si_pack_pk :: bytes
  si_item_id :: u16
  si_w :: u16
  si_h :: u16
  si_content_sha256 :: bytes
  si_bytes :: "bytes option"

definition bad :: "string \<Rightarrow> string \<Rightarrow> wire_error" where
  "bad at detail = BadField at detail"

definition StickerItem_validate :: "sticker_item \<Rightarrow> wire_error + unit" where
  "StickerItem_validate p =
     (if \<not> valid_kind (si_kind p) \<or> \<not> valid_visibility (si_visibility p)
      then Err (bad ''sticker.kind'' ''unknown kind/visibility'')
      else if \<not> aspect_ok (si_kind p) (ucast (si_w p)) (ucast (si_h p))
      then Err (bad ''sticker.dims'' ''aspect out of range'')
      else if unat (max (si_w p) (si_h p)) > max_edge (si_kind p)
      then Err (bad ''sticker.dims'' ''edge over cap'')
      else case si_bytes p of
        None \<Rightarrow> Ok ()
      | Some b \<Rightarrow>
          if b = [] \<or> length b > max_bytes (si_kind p)
          then Err (bad ''sticker.bytes'' ''inline bytes out of range'')
          else Ok ())"

definition StickerItem_encode_payload :: "sticker_item \<Rightarrow> wire_error + bytes" where
  "StickerItem_encode_payload p =
     rbind (StickerItem_validate p) (\<lambda>_.
       Ok (writes ([Writer_u8 ITEM_VERSION, Writer_u8 (si_kind p), Writer_u8 (si_visibility p),
                    Writer_raw (si_pack_id p), Writer_raw (si_pack_pk p),
                    Writer_u16be (si_item_id p), Writer_u16be (si_w p), Writer_u16be (si_h p),
                    Writer_raw (si_content_sha256 p)] @
                   (case si_bytes p of
                      None \<Rightarrow> [Writer_u8 0]
                    | Some b \<Rightarrow> [Writer_u8 1, Writer_lp b]))))"

definition StickerItem_decode_payload :: "bytes \<Rightarrow> wire_error + sticker_item" where
  "StickerItem_decode_payload bs =
     (let r = Reader_new bs in
      rbind (Reader_u8 ''sticker.version'' r) (\<lambda>(version, r).
      if version \<noteq> ITEM_VERSION then Err (BadVersion ''sticker'' version) else
      rbind (Reader_u8 ''sticker.kind'' r) (\<lambda>(kind, r).
      rbind (Reader_u8 ''sticker.visibility'' r) (\<lambda>(visibility, r).
      if \<not> valid_kind kind \<or> \<not> valid_visibility visibility
      then Err (bad ''sticker.kind'' ''unknown kind/visibility'') else
      rbind (Reader_take 16 ''sticker.pack_id'' r) (\<lambda>(pack_id, r).
      rbind (Reader_take 32 ''sticker.pack_pk'' r) (\<lambda>(pack_pk, r).
      rbind (Reader_u16be ''sticker.item_id'' r) (\<lambda>(item_id, r).
      rbind (Reader_u16be ''sticker.w'' r) (\<lambda>(w, r).
      rbind (Reader_u16be ''sticker.h'' r) (\<lambda>(h, r).
      if \<not> aspect_ok kind (ucast w) (ucast h)
      then Err (bad ''sticker.dims'' ''aspect out of range'') else
      if unat (max w h) > max_edge kind
      then Err (bad ''sticker.dims'' ''edge over cap'') else
      rbind (Reader_take 32 ''sticker.sha256'' r) (\<lambda>(sha, r).
      rbind (Reader_u8 ''sticker.has_bytes'' r) (\<lambda>(has_bytes, r).
      rbind
        (if has_bytes = 0 then
           rbind (Reader_expect_end ''sticker'' r) (\<lambda>_. Ok None)
         else if has_bytes = 1 then
           rbind (Reader_lp MAX_BYTES_STICKER ''sticker.bytes'' r) (\<lambda>(b, r).
           rbind (Reader_expect_end ''sticker'' r) (\<lambda>_.
           if b = [] \<or> length b > max_bytes kind
           then Err (bad ''sticker.bytes'' ''inline bytes out of range'')
           else Ok (Some b)))
         else Err (bad ''sticker.has_bytes'' (show_nat (unat has_bytes)))) (\<lambda>inl.
      Ok \<lparr>si_kind = kind, si_visibility = visibility, si_pack_id = pack_id,
          si_pack_pk = pack_pk, si_item_id = item_id, si_w = w, si_h = h,
          si_content_sha256 = sha, si_bytes = inl\<rparr>))))))))))))"

definition StickerItem_wf :: "sticker_item \<Rightarrow> bool" where
  "StickerItem_wf p \<longleftrightarrow>
     length (si_pack_id p) = 16 \<and> length (si_pack_pk p) = 32 \<and>
     length (si_content_sha256 p) = 32"

section \<open>STICKER_CTRL\<close>

definition CTRL_VERSION :: u8 where "CTRL_VERSION = 1"

definition OP_ACK :: u8 where "OP_ACK = 1"

definition OP_WANT_ITEM :: u8 where "OP_WANT_ITEM = 2"

definition OP_ITEM_BODY :: u8 where "OP_ITEM_BODY = 3"

definition OP_WANT_PACK :: u8 where "OP_WANT_PACK = 4"

definition OP_PACK_BODY :: u8 where "OP_PACK_BODY = 5"

definition OP_PACK_REFUSED :: u8 where "OP_PACK_REFUSED = 6"

definition OP_WANT_THUMBS :: u8 where "OP_WANT_THUMBS = 7"

definition OP_THUMBS_BODY :: u8 where "OP_THUMBS_BODY = 8"

lemmas ctrl_ops = OP_ACK_def OP_WANT_ITEM_def OP_ITEM_BODY_def OP_WANT_PACK_def OP_PACK_BODY_def
  OP_PACK_REFUSED_def OP_WANT_THUMBS_def OP_THUMBS_BODY_def

definition REFUSED_PRIVATE :: u8 where "REFUSED_PRIVATE = 1"

definition REFUSED_UNKNOWN :: u8 where "REFUSED_UNKNOWN = 2"

definition REFUSED_RATE_LIMITED :: u8 where "REFUSED_RATE_LIMITED = 3"

record pack_ref =
  pr_pack_id :: bytes
  pr_pack_pk :: bytes
  pr_kind :: u8
  pr_visibility :: u8
  pr_item_id :: u16
  pr_w :: u16
  pr_h :: u16

definition PACK_REF_LEN :: nat where "PACK_REF_LEN = 16 + 32 + 1 + 1 + 2 + 2 + 2"

definition PackRef_encode_to :: "pack_ref \<Rightarrow> writer \<Rightarrow> writer" where
  "PackRef_encode_to p =
     wseq [Writer_raw (pr_pack_id p), Writer_raw (pr_pack_pk p), Writer_u8 (pr_kind p),
           Writer_u8 (pr_visibility p), Writer_u16be (pr_item_id p), Writer_u16be (pr_w p),
           Writer_u16be (pr_h p)]"

definition PackRef_decode_from :: "reader \<Rightarrow> wire_error + (pack_ref \<times> reader)" where
  "PackRef_decode_from r =
     rbind (Reader_take 16 ''pack_ref.pack_id'' r) (\<lambda>(pack_id, r).
     rbind (Reader_take 32 ''pack_ref.pack_pk'' r) (\<lambda>(pack_pk, r).
     rbind (Reader_u8 ''pack_ref.kind'' r) (\<lambda>(kind, r).
     rbind (Reader_u8 ''pack_ref.visibility'' r) (\<lambda>(visibility, r).
     if \<not> valid_kind kind \<or> \<not> valid_visibility visibility
     then Err (bad ''pack_ref.kind'' ''unknown kind/visibility'') else
     rbind (Reader_u16be ''pack_ref.item_id'' r) (\<lambda>(item_id, r).
     rbind (Reader_u16be ''pack_ref.w'' r) (\<lambda>(w, r).
     rbind (Reader_u16be ''pack_ref.h'' r) (\<lambda>(h, r).
     if \<not> aspect_ok kind (ucast w) (ucast h)
     then Err (bad ''pack_ref.dims'' ''aspect out of range'') else
     Ok (\<lparr>pr_pack_id = pack_id, pr_pack_pk = pack_pk, pr_kind = kind,
          pr_visibility = visibility, pr_item_id = item_id, pr_w = w, pr_h = h\<rparr>, r))))))))"

datatype sticker_ctrl =
    Ack bytes
  | WantItem bytes
  | ItemBody bytes u16 u16 bytes "pack_ref option"
  | WantPack bytes bytes
  | PackBody bytes bytes u16 u16 bytes
  | PackRefused bytes bytes u8
  | WantThumbs bytes bytes
  | ThumbsBody bytes bytes u16 u16 bytes

definition check_chunk_plan :: "u16 \<Rightarrow> u16 \<Rightarrow> nat \<Rightarrow> string \<Rightarrow> wire_error + unit" where
  "check_chunk_plan index count max_chunks at =
     (if unat count < 1 \<or> unat count > max_chunks \<or> index \<ge> count
      then Err (bad at (''chunk '' @ show_nat (unat index) @ ''/'' @ show_nat (unat count) @
                        '' (max '' @ show_nat max_chunks @ '')''))
      else Ok ())"

definition chunk_body_check :: "u16 \<Rightarrow> u16 \<Rightarrow> nat \<Rightarrow> nat \<Rightarrow> bytes \<Rightarrow> string \<Rightarrow> wire_error + unit" where
  "chunk_body_check index count max_chunks max_data data at =
     rbind (check_chunk_plan index count max_chunks at) (\<lambda>_.
       if length data > max_data then Err (TooLarge at (length data) max_data) else Ok ())"

definition reason_ok :: "u8 \<Rightarrow> bool" where
  "reason_ok reason \<longleftrightarrow> REFUSED_PRIVATE \<le> reason \<and> reason \<le> REFUSED_RATE_LIMITED"

definition StickerCtrl_encode_payload :: "sticker_ctrl \<Rightarrow> wire_error + bytes" where
  "StickerCtrl_encode_payload p =
     (let w = Writer_u8 CTRL_VERSION Writer_new in
      map_sum id Writer_finish
      (case p of
        Ack sha \<Rightarrow> Ok (wseq [Writer_u8 OP_ACK, Writer_raw sha] w)
      | WantItem sha \<Rightarrow>
          if \<not> (4 \<le> length sha \<and> length sha \<le> 32)
          then Err (bad ''sticker_ctrl.want_item'' ''sha len 4..=32'')
          else Ok (wseq [Writer_u8 OP_WANT_ITEM, Writer_u8 (of_nat (length sha)),
                         Writer_raw sha] w)
      | ItemBody sha idx count data pack \<Rightarrow>
          rbind (chunk_body_check idx count MAX_ITEM_CHUNKS ITEM_CHUNK_MAX data
                   ''sticker_ctrl.item_body'') (\<lambda>_.
          let w = wseq [Writer_u8 OP_ITEM_BODY, Writer_raw sha, Writer_u16be idx,
                        Writer_u16be count, Writer_lp data] w in
          Ok (case pack of None \<Rightarrow> w | Some pr \<Rightarrow> PackRef_encode_to pr w))
      | WantPack pid pk \<Rightarrow> Ok (wseq [Writer_u8 OP_WANT_PACK, Writer_raw pid, Writer_raw pk] w)
      | PackBody pid pk idx count data \<Rightarrow>
          rbind (chunk_body_check idx count MAX_PACK_CHUNKS PACK_CHUNK_MAX data
                   ''sticker_ctrl.pack_body'') (\<lambda>_.
          Ok (wseq [Writer_u8 OP_PACK_BODY, Writer_raw pid, Writer_raw pk, Writer_u16be idx,
                    Writer_u16be count, Writer_lp data] w))
      | PackRefused pid pk reason \<Rightarrow>
          if \<not> reason_ok reason
          then Err (bad ''sticker_ctrl.refused'' (''reason '' @ show_nat (unat reason)))
          else Ok (wseq [Writer_u8 OP_PACK_REFUSED, Writer_raw pid, Writer_raw pk,
                         Writer_u8 reason] w)
      | WantThumbs pid pk \<Rightarrow> Ok (wseq [Writer_u8 OP_WANT_THUMBS, Writer_raw pid, Writer_raw pk] w)
      | ThumbsBody pid pk idx count data \<Rightarrow>
          rbind (chunk_body_check idx count MAX_THUMBS_CHUNKS PACK_CHUNK_MAX data
                   ''sticker_ctrl.thumbs_body'') (\<lambda>_.
          Ok (wseq [Writer_u8 OP_THUMBS_BODY, Writer_raw pid, Writer_raw pk, Writer_u16be idx,
                    Writer_u16be count, Writer_lp data] w))))"

text \<open>The decoder, one function per operation code after the shared header.\<close>

definition decode_ack :: "reader \<Rightarrow> wire_error + sticker_ctrl" where
  "decode_ack r =
     rbind (Reader_take 32 ''sticker_ctrl.ack'' r) (\<lambda>(sha, r).
     rbind (Reader_expect_end ''sticker_ctrl'' r) (\<lambda>_. Ok (Ack sha)))"

definition decode_want_item :: "reader \<Rightarrow> wire_error + sticker_ctrl" where
  "decode_want_item r =
     rbind (Reader_u8 ''sticker_ctrl.want_item.len'' r) (\<lambda>(n, r).
     if \<not> (4 \<le> unat n \<and> unat n \<le> 32)
     then Err (bad ''sticker_ctrl.want_item'' ''sha len 4..=32'') else
     rbind (Reader_take (unat n) ''sticker_ctrl.want_item'' r) (\<lambda>(sha, r).
     rbind (Reader_expect_end ''sticker_ctrl'' r) (\<lambda>_. Ok (WantItem sha))))"

definition decode_item_body :: "reader \<Rightarrow> wire_error + sticker_ctrl" where
  "decode_item_body r =
     rbind (Reader_take 32 ''sticker_ctrl.item_body.sha'' r) (\<lambda>(sha, r).
     rbind (Reader_u16be ''sticker_ctrl.item_body.idx'' r) (\<lambda>(idx, r).
     rbind (Reader_u16be ''sticker_ctrl.item_body.count'' r) (\<lambda>(count, r).
     rbind (check_chunk_plan idx count MAX_ITEM_CHUNKS ''sticker_ctrl.item_body'') (\<lambda>_.
     rbind (Reader_lp ITEM_CHUNK_MAX ''sticker_ctrl.item_body.data'' r) (\<lambda>(data, r).
     rbind
       (if Reader_remaining r = 0 then Ok (None, r)
        else if Reader_remaining r = PACK_REF_LEN then
          rbind (Reader_take PACK_REF_LEN ''sticker_ctrl.item_body.pack'' r) (\<lambda>(trailer, r).
          Ok (map_option fst (result_ok (PackRef_decode_from (Reader_new trailer))), r))
        else Err (Trailing ''sticker_ctrl.item_body'' (Reader_remaining r))) (\<lambda>(pack, r).
     rbind (Reader_expect_end ''sticker_ctrl'' r) (\<lambda>_.
     Ok (ItemBody sha idx count data pack))))))))"

definition decode_pack_key ::
    "string \<Rightarrow> string \<Rightarrow> (bytes \<Rightarrow> bytes \<Rightarrow> reader \<Rightarrow> wire_error + sticker_ctrl) \<Rightarrow>
     reader \<Rightarrow> wire_error + sticker_ctrl" where
  "decode_pack_key at_id at_pk k r =
     rbind (Reader_take 16 at_id r) (\<lambda>(pid, r).
     rbind (Reader_take 32 at_pk r) (\<lambda>(pk, r). k pid pk r))"

definition decode_pack_chunk ::
    "string \<Rightarrow> string \<Rightarrow> string \<Rightarrow> string \<Rightarrow> nat \<Rightarrow>
     (u16 \<Rightarrow> u16 \<Rightarrow> bytes \<Rightarrow> sticker_ctrl) \<Rightarrow> reader \<Rightarrow> wire_error + sticker_ctrl" where
  "decode_pack_chunk at at_idx at_count at_data max_chunks mk r =
     rbind (Reader_u16be at_idx r) (\<lambda>(idx, r).
     rbind (Reader_u16be at_count r) (\<lambda>(count, r).
     rbind (check_chunk_plan idx count max_chunks at) (\<lambda>_.
     rbind (Reader_lp PACK_CHUNK_MAX at_data r) (\<lambda>(data, r).
     rbind (Reader_expect_end ''sticker_ctrl'' r) (\<lambda>_.
     Ok (mk idx count data))))))"

definition decode_want_pack :: "reader \<Rightarrow> wire_error + sticker_ctrl" where
  "decode_want_pack =
     decode_pack_key ''sticker_ctrl.want_pack.id'' ''sticker_ctrl.want_pack.pk'' (\<lambda>pid pk r.
       rbind (Reader_expect_end ''sticker_ctrl'' r) (\<lambda>_. Ok (WantPack pid pk)))"

definition decode_pack_body :: "reader \<Rightarrow> wire_error + sticker_ctrl" where
  "decode_pack_body =
     decode_pack_key ''sticker_ctrl.pack_body.id'' ''sticker_ctrl.pack_body.pk'' (\<lambda>pid pk.
       decode_pack_chunk ''sticker_ctrl.pack_body'' ''sticker_ctrl.pack_body.idx''
         ''sticker_ctrl.pack_body.count'' ''sticker_ctrl.pack_body.data'' MAX_PACK_CHUNKS
         (PackBody pid pk))"

definition decode_pack_refused :: "reader \<Rightarrow> wire_error + sticker_ctrl" where
  "decode_pack_refused =
     decode_pack_key ''sticker_ctrl.refused.id'' ''sticker_ctrl.refused.pk'' (\<lambda>pid pk r.
       rbind (Reader_u8 ''sticker_ctrl.refused.reason'' r) (\<lambda>(reason, r).
       rbind (Reader_expect_end ''sticker_ctrl'' r) (\<lambda>_.
       if \<not> reason_ok reason
       then Err (bad ''sticker_ctrl.refused'' (''reason '' @ show_nat (unat reason)))
       else Ok (PackRefused pid pk reason))))"

definition decode_want_thumbs :: "reader \<Rightarrow> wire_error + sticker_ctrl" where
  "decode_want_thumbs =
     decode_pack_key ''sticker_ctrl.want_thumbs.id'' ''sticker_ctrl.want_thumbs.pk'' (\<lambda>pid pk r.
       rbind (Reader_expect_end ''sticker_ctrl'' r) (\<lambda>_. Ok (WantThumbs pid pk)))"

definition decode_thumbs_body :: "reader \<Rightarrow> wire_error + sticker_ctrl" where
  "decode_thumbs_body =
     decode_pack_key ''sticker_ctrl.thumbs_body.id'' ''sticker_ctrl.thumbs_body.pk'' (\<lambda>pid pk.
       decode_pack_chunk ''sticker_ctrl.thumbs_body'' ''sticker_ctrl.thumbs_body.idx''
         ''sticker_ctrl.thumbs_body.count'' ''sticker_ctrl.thumbs_body.data'' MAX_THUMBS_CHUNKS
         (ThumbsBody pid pk))"

definition StickerCtrl_decode_payload :: "bytes \<Rightarrow> wire_error + sticker_ctrl" where
  "StickerCtrl_decode_payload bs =
     (let r = Reader_new bs in
      rbind (Reader_u8 ''sticker_ctrl.version'' r) (\<lambda>(version, r).
      if version \<noteq> CTRL_VERSION then Err (BadVersion ''sticker_ctrl'' version) else
      rbind (Reader_u8 ''sticker_ctrl.op'' r) (\<lambda>(op, r).
      if op = OP_ACK then decode_ack r
      else if op = OP_WANT_ITEM then decode_want_item r
      else if op = OP_ITEM_BODY then decode_item_body r
      else if op = OP_WANT_PACK then decode_want_pack r
      else if op = OP_PACK_BODY then decode_pack_body r
      else if op = OP_PACK_REFUSED then decode_pack_refused r
      else if op = OP_WANT_THUMBS then decode_want_thumbs r
      else if op = OP_THUMBS_BODY then decode_thumbs_body r
      else Err (bad ''sticker_ctrl.op'' (show_nat (unat op))))))"

text \<open>
  The invariant: the array lengths of the Rust types, and for the pack context of an
  item body the checks its decoder makes (the encoder writes any context; the decoder
  drops one that fails them and keeps the chunk).
\<close>

definition PackRef_wf :: "pack_ref \<Rightarrow> bool" where
  "PackRef_wf p \<longleftrightarrow>
     length (pr_pack_id p) = 16 \<and> length (pr_pack_pk p) = 32 \<and>
     valid_kind (pr_kind p) \<and> valid_visibility (pr_visibility p) \<and>
     aspect_ok (pr_kind p) (ucast (pr_w p)) (ucast (pr_h p))"

definition StickerCtrl_wf :: "sticker_ctrl \<Rightarrow> bool" where
  "StickerCtrl_wf p =
     (case p of
        Ack sha \<Rightarrow> length sha = 32
      | WantItem sha \<Rightarrow> True
      | ItemBody sha _ _ _ pack \<Rightarrow> length sha = 32 \<and> (case pack of None \<Rightarrow> True | Some pr \<Rightarrow> PackRef_wf pr)
      | WantPack pid pk \<Rightarrow> length pid = 16 \<and> length pk = 32
      | PackBody pid pk _ _ _ \<Rightarrow> length pid = 16 \<and> length pk = 32
      | PackRefused pid pk _ \<Rightarrow> length pid = 16 \<and> length pk = 32
      | WantThumbs pid pk \<Rightarrow> length pid = 16 \<and> length pk = 32
      | ThumbsBody pid pk _ _ _ \<Rightarrow> length pid = 16 \<and> length pk = 32)"

section \<open>The payload contract\<close>

lemma StickerItem_validate_Ok:
  "StickerItem_validate p = Ok u \<longleftrightarrow>
     valid_kind (si_kind p) \<and> valid_visibility (si_visibility p) \<and>
     aspect_ok (si_kind p) (ucast (si_w p)) (ucast (si_h p)) \<and>
     unat (max (si_w p) (si_h p)) \<le> max_edge (si_kind p) \<and>
     (\<forall>b. si_bytes p = Some b \<longrightarrow> b \<noteq> [] \<and> length b \<le> max_bytes (si_kind p))"
  by (auto simp: StickerItem_validate_def split: option.splits)

lemma max_bytes_lens:
  "length b \<le> max_bytes kind \<Longrightarrow> length b \<le> MAX_BYTES_STICKER"
  "length b \<le> max_bytes kind \<Longrightarrow> length b < 4294967296"
  using max_bytes_le [of kind] by (simp_all add: limit_defs)

interpretation sticker_item:
  canonical_payload StickerItem_encode_payload StickerItem_decode_payload StickerItem_wf
proof
  fix b p
  show "StickerItem_decode_payload b = Ok p \<longleftrightarrow>
      StickerItem_wf p \<and> StickerItem_encode_payload p = Ok b" (is "?d \<longleftrightarrow> ?e")
  proof
    assume ?d
    then show ?e
      by (auto simp: StickerItem_decode_payload_def StickerItem_encode_payload_def
          StickerItem_validate_Ok StickerItem_wf_def wire_write rbind_Inr_iff reader_inv
          Reader_new_rd split: if_splits)
  next
    assume e: ?e
    then have "StickerItem_validate p = Ok ()"
      by (auto simp: StickerItem_encode_payload_def rbind_Inr_iff)
    with e this [unfolded StickerItem_validate_Ok] show ?d
      by (cases p; cases "si_bytes p")
        (auto simp: StickerItem_encode_payload_def StickerItem_decode_payload_def
          StickerItem_wf_def wire_write reader_eval max_bytes_lens Reader_new_rd)
  qed
qed

lemma check_chunk_plan_Ok:
  "check_chunk_plan idx count mx at = Ok u \<longleftrightarrow> 1 \<le> unat count \<and> unat count \<le> mx \<and> idx < count"
  by (auto simp: check_chunk_plan_def)

lemma chunk_body_check_Ok:
  "chunk_body_check idx count mx md data at = Ok u \<longleftrightarrow>
     check_chunk_plan idx count mx at = Ok () \<and> length data \<le> md"
  by (auto simp: chunk_body_check_def rbind_Inr_iff)

lemma chunk_plan_at:
  "check_chunk_plan idx count mx at = Ok () \<Longrightarrow> check_chunk_plan idx count mx at' = Ok ()"
  by (simp add: check_chunk_plan_Ok)

definition pack_ref_bytes :: "pack_ref \<Rightarrow> bytes" where
  "pack_ref_bytes p =
     pr_pack_id p @ pr_pack_pk p @ [pr_kind p, pr_visibility p] @
     be16 (pr_item_id p) @ be16 (pr_w p) @ be16 (pr_h p)"

lemma PackRef_encode_to_bytes: "PackRef_encode_to p w = Writer_raw (pack_ref_bytes p) w"
  by (simp add: PackRef_encode_to_def pack_ref_bytes_def wire_write)

lemma PackRef_decode_eval:
  "PackRef_wf p \<Longrightarrow> PackRef_decode_from (rd pre (pack_ref_bytes p)) =
     Ok (p, rd (pre @ pack_ref_bytes p) [])"
  by (cases p) (simp add: PackRef_decode_from_def pack_ref_bytes_def PackRef_wf_def reader_eval)

lemma PackRef_decode_wf: "PackRef_decode_from (rd pre post) = Ok (p, r) \<Longrightarrow> PackRef_wf p"
  by (auto simp: PackRef_decode_from_def PackRef_wf_def rbind_Inr_iff reader_inv split: if_splits)

lemma PackRef_len: "PackRef_wf p \<Longrightarrow> length (pack_ref_bytes p) = PACK_REF_LEN"
  by (simp add: PackRef_wf_def pack_ref_bytes_def PACK_REF_LEN_def)

lemma chunk_data_lens:
  "length d \<le> ITEM_CHUNK_MAX \<Longrightarrow> length d < 4294967296"
  "length d \<le> PACK_CHUNK_MAX \<Longrightarrow> length d < 4294967296"
  by (simp_all add: limit_defs)

lemma decode_item_body_eval:
  assumes "length sha = 32" "check_chunk_plan idx count MAX_ITEM_CHUNKS [] = Ok ()"
    and "length data \<le> ITEM_CHUNK_MAX" "case pack of None \<Rightarrow> True | Some pr \<Rightarrow> PackRef_wf pr"
  shows "decode_item_body (rd pre (sha @ be16 idx @ be16 count @ be32 (of_nat (length data)) @ data @
      (case pack of None \<Rightarrow> [] | Some pr \<Rightarrow> pack_ref_bytes pr))) = Ok (ItemBody sha idx count data pack)"
  using assms chunk_plan_at [OF assms(2), of "''sticker_ctrl.item_body''"]
  by (cases pack) (simp_all add: decode_item_body_def reader_eval chunk_data_lens PackRef_len
      PackRef_decode_eval Reader_new_rd PACK_REF_LEN_def)

lemmas pack_decode_defs = decode_pack_key_def decode_pack_chunk_def decode_want_pack_def
  decode_pack_body_def decode_pack_refused_def decode_want_thumbs_def decode_thumbs_body_def

lemma decode_pack_chunk_eval:
  assumes "check_chunk_plan idx count mx [] = Ok ()" "length data \<le> PACK_CHUNK_MAX"
  shows "decode_pack_chunk at ai ac ad mx mk
      (rd pre (be16 idx @ be16 count @ be32 (of_nat (length data)) @ data)) = Ok (mk idx count data)"
  using assms chunk_plan_at [OF assms(1), of at]
  by (simp add: decode_pack_chunk_def reader_eval chunk_data_lens)

text \<open>What the encoder accepts, and the bytes it writes.\<close>

fun ctrl_encodable :: "sticker_ctrl \<Rightarrow> bool" where
  "ctrl_encodable (Ack sha) = True"
| "ctrl_encodable (WantItem sha) = (4 \<le> length sha \<and> length sha \<le> 32)"
| "ctrl_encodable (ItemBody sha idx count data pack) =
     (check_chunk_plan idx count MAX_ITEM_CHUNKS [] = Ok () \<and> length data \<le> ITEM_CHUNK_MAX)"
| "ctrl_encodable (WantPack pid pk) = True"
| "ctrl_encodable (PackBody pid pk idx count data) =
     (check_chunk_plan idx count MAX_PACK_CHUNKS [] = Ok () \<and> length data \<le> PACK_CHUNK_MAX)"
| "ctrl_encodable (PackRefused pid pk reason) = reason_ok reason"
| "ctrl_encodable (WantThumbs pid pk) = True"
| "ctrl_encodable (ThumbsBody pid pk idx count data) =
     (check_chunk_plan idx count MAX_THUMBS_CHUNKS [] = Ok () \<and> length data \<le> PACK_CHUNK_MAX)"

fun ctrl_bytes :: "sticker_ctrl \<Rightarrow> bytes" where
  "ctrl_bytes (Ack sha) = OP_ACK # sha"
| "ctrl_bytes (WantItem sha) = OP_WANT_ITEM # of_nat (length sha) # sha"
| "ctrl_bytes (ItemBody sha idx count data pack) =
     OP_ITEM_BODY # sha @ be16 idx @ be16 count @ be32 (of_nat (length data)) @ data @
     (case pack of None \<Rightarrow> [] | Some pr \<Rightarrow> pack_ref_bytes pr)"
| "ctrl_bytes (WantPack pid pk) = OP_WANT_PACK # pid @ pk"
| "ctrl_bytes (PackBody pid pk idx count data) =
     OP_PACK_BODY # pid @ pk @ be16 idx @ be16 count @ be32 (of_nat (length data)) @ data"
| "ctrl_bytes (PackRefused pid pk reason) = OP_PACK_REFUSED # pid @ pk @ [reason]"
| "ctrl_bytes (WantThumbs pid pk) = OP_WANT_THUMBS # pid @ pk"
| "ctrl_bytes (ThumbsBody pid pk idx count data) =
     OP_THUMBS_BODY # pid @ pk @ be16 idx @ be16 count @ be32 (of_nat (length data)) @ data"

lemma map_sum_Inr_iff: "map_sum f g m = Inr y \<longleftrightarrow> (\<exists>x. m = Inr x \<and> y = g x)"
  by (cases m) auto

lemma StickerCtrl_encode_Ok:
  "StickerCtrl_encode_payload p = Ok b \<longleftrightarrow> ctrl_encodable p \<and> b = CTRL_VERSION # ctrl_bytes p"
  by (cases p) (auto simp: StickerCtrl_encode_payload_def Let_def map_sum_Inr_iff rbind_Inr_iff
      chunk_body_check_Ok check_chunk_plan_Ok wire_write PackRef_encode_to_bytes
      split: if_splits option.splits)

lemma StickerCtrl_decode_cons:
  "StickerCtrl_decode_payload (CTRL_VERSION # op # rest) =
     (let r = rd [CTRL_VERSION, op] rest in
      if op = OP_ACK then decode_ack r
      else if op = OP_WANT_ITEM then decode_want_item r
      else if op = OP_ITEM_BODY then decode_item_body r
      else if op = OP_WANT_PACK then decode_want_pack r
      else if op = OP_PACK_BODY then decode_pack_body r
      else if op = OP_PACK_REFUSED then decode_pack_refused r
      else if op = OP_WANT_THUMBS then decode_want_thumbs r
      else if op = OP_THUMBS_BODY then decode_thumbs_body r
      else Err (bad ''sticker_ctrl.op'' (show_nat (unat op))))"
  by (simp add: StickerCtrl_decode_payload_def Reader_new_rd reader_eval)

lemma want_item_len: "length sha \<le> 32 \<Longrightarrow> unat (of_nat (length sha) :: u8) = length sha"
  by simp

lemma StickerCtrl_decode_encode:
  assumes "StickerCtrl_wf p" "ctrl_encodable p"
  shows "StickerCtrl_decode_payload (CTRL_VERSION # ctrl_bytes p) = Ok p"
proof (cases p)
  case (WantItem sha)
  with assms want_item_len [of sha] show ?thesis
    by (simp add: StickerCtrl_decode_cons ctrl_ops decode_want_item_def reader_eval
        del: unat_of_nat_byte)
qed (use assms in \<open>simp_all add: StickerCtrl_decode_cons StickerCtrl_wf_def ctrl_ops decode_ack_def
    decode_item_body_eval pack_decode_defs(1,3-) decode_pack_chunk_eval reader_eval\<close>)

lemma StickerCtrl_decode_inv:
  assumes "StickerCtrl_decode_payload b = Ok p"
  shows "StickerCtrl_wf p" and "ctrl_encodable p" and "length (ctrl_bytes p) + 1 \<le> length b"
proof -
  from assms obtain op rest where b: "b = CTRL_VERSION # op # rest"
    by (auto simp: StickerCtrl_decode_payload_def rbind_Inr_iff reader_inv Reader_new_rd
        split: if_splits)
  from assms have "StickerCtrl_wf p \<and> ctrl_encodable p \<and> length (ctrl_bytes p) + 1 \<le> length b"
    unfolding b StickerCtrl_decode_cons
    by (auto simp: Let_def decode_ack_def decode_want_item_def decode_item_body_def
        pack_decode_defs StickerCtrl_wf_def rbind_Inr_iff reader_inv Reader_new_rd
        check_chunk_plan_Ok PackRef_decode_wf PackRef_len split: if_splits option.splits)
  then show "StickerCtrl_wf p" "ctrl_encodable p" "length (ctrl_bytes p) + 1 \<le> length b"
    by simp_all
qed

interpretation sticker_ctrl:
  wire_payload StickerCtrl_encode_payload StickerCtrl_decode_payload StickerCtrl_wf
  by unfold_locales
    (auto simp: StickerCtrl_encode_Ok StickerCtrl_decode_encode dest: StickerCtrl_decode_inv)

section \<open>Properties\<close>

text \<open>
  Image data survives a bad trailer. An item chunk followed by 56 bytes that are not
  a valid pack reference is still decoded, with the reference dropped and the chunk kept.
\<close>

lemma item_body_keeps_chunk:
  assumes "length sha = 32" "idx < count" "unat count \<le> MAX_ITEM_CHUNKS"
    and "length data \<le> ITEM_CHUNK_MAX" "length trailer = PACK_REF_LEN"
  shows "StickerCtrl_decode_payload
      ([CTRL_VERSION, OP_ITEM_BODY] @ sha @ be16 idx @ be16 count @ be32 (of_nat (length data)) @
       data @ trailer) =
    Ok (ItemBody sha idx count data
          (map_option fst (result_ok (PackRef_decode_from (Reader_new trailer)))))"
proof -
  have "0 < unat count" using assms(2) by (simp add: word_less_nat_alt)
  then have "check_chunk_plan idx count MAX_ITEM_CHUNKS ''sticker_ctrl.item_body'' = Ok ()"
    using assms(2,3) by (auto simp: check_chunk_plan_def)
  with assms show ?thesis
    by (simp add: StickerCtrl_decode_payload_def decode_item_body_def Reader_new_rd reader_eval
        ctrl_ops CTRL_VERSION_def PACK_REF_LEN_def limit_defs)
qed

end
