(* ===== verification/Wire_Envelope.thy ===== *)
theory Wire_Envelope
  imports Wire_Basic Wire_Attach Wire_Sticker
begin

text \<open>
  The inner envelope of \<^verbatim>\<open>crates/wire-types/src/envelope.rs\<close>: the seventeen payload
  types with their codes, the typed payload union that dispatches to the payload
  codecs, and the strict envelope codec with its size cap. The payload contract of
  every type lifts to the union, and from there to the envelope.
\<close>

section \<open>Types\<close>

definition MSG_ID_BYTES :: nat where "MSG_ID_BYTES = 16"

datatype envelope_type =
    T_Msg
  | T_Edit
  | T_Delete
  | T_DeleteAll
  | T_ResyncReq
  | T_AttachHead
  | T_AttachChunk
  | T_ContactClose
  | T_Profile
  | T_Pref
  | T_ProfileReq
  | T_Sticker
  | T_StickerCtrl
  | T_Presence
  | T_ChatPolicy
  | T_Typing
  | T_Read

fun EnvelopeType_code :: "envelope_type \<Rightarrow> u8" where
  "EnvelopeType_code T_Msg = 1"
| "EnvelopeType_code T_Edit = 2"
| "EnvelopeType_code T_Delete = 3"
| "EnvelopeType_code T_DeleteAll = 4"
| "EnvelopeType_code T_ResyncReq = 5"
| "EnvelopeType_code T_AttachHead = 6"
| "EnvelopeType_code T_AttachChunk = 7"
| "EnvelopeType_code T_ContactClose = 8"
| "EnvelopeType_code T_Profile = 9"
| "EnvelopeType_code T_Pref = 10"
| "EnvelopeType_code T_ProfileReq = 11"
| "EnvelopeType_code T_Sticker = 14"
| "EnvelopeType_code T_StickerCtrl = 15"
| "EnvelopeType_code T_Presence = 16"
| "EnvelopeType_code T_ChatPolicy = 17"
| "EnvelopeType_code T_Typing = 18"
| "EnvelopeType_code T_Read = 19"

definition EnvelopeType_from_code :: "u8 \<Rightarrow> envelope_type option" where
  "EnvelopeType_from_code code =
     (if code = 1 then Some T_Msg
      else if code = 2 then Some T_Edit
      else if code = 3 then Some T_Delete
      else if code = 4 then Some T_DeleteAll
      else if code = 5 then Some T_ResyncReq
      else if code = 6 then Some T_AttachHead
      else if code = 7 then Some T_AttachChunk
      else if code = 8 then Some T_ContactClose
      else if code = 9 then Some T_Profile
      else if code = 10 then Some T_Pref
      else if code = 11 then Some T_ProfileReq
      else if code = 14 then Some T_Sticker
      else if code = 15 then Some T_StickerCtrl
      else if code = 16 then Some T_Presence
      else if code = 17 then Some T_ChatPolicy
      else if code = 18 then Some T_Typing
      else if code = 19 then Some T_Read
      else None)"

datatype payload =
    P_Msg msg
  | P_Edit edit
  | P_Delete delete
  | P_DeleteAll delete_all
  | P_ResyncReq resync_req
  | P_AttachHead attach_head_payload
  | P_AttachChunk attach_chunk
  | P_ContactClose contact_close
  | P_Profile profile
  | P_Pref pref
  | P_ProfileReq profile_req
  | P_Sticker sticker_item
  | P_StickerCtrl sticker_ctrl
  | P_Presence presence
  | P_ChatPolicy chat_policy
  | P_Typing typing
  | P_Read read_receipt

fun Payload_envelope_type :: "payload \<Rightarrow> envelope_type" where
  "Payload_envelope_type (P_Msg p) = T_Msg"
| "Payload_envelope_type (P_Edit p) = T_Edit"
| "Payload_envelope_type (P_Delete p) = T_Delete"
| "Payload_envelope_type (P_DeleteAll p) = T_DeleteAll"
| "Payload_envelope_type (P_ResyncReq p) = T_ResyncReq"
| "Payload_envelope_type (P_AttachHead p) = T_AttachHead"
| "Payload_envelope_type (P_AttachChunk p) = T_AttachChunk"
| "Payload_envelope_type (P_ContactClose p) = T_ContactClose"
| "Payload_envelope_type (P_Profile p) = T_Profile"
| "Payload_envelope_type (P_Pref p) = T_Pref"
| "Payload_envelope_type (P_ProfileReq p) = T_ProfileReq"
| "Payload_envelope_type (P_Sticker p) = T_Sticker"
| "Payload_envelope_type (P_StickerCtrl p) = T_StickerCtrl"
| "Payload_envelope_type (P_Presence p) = T_Presence"
| "Payload_envelope_type (P_ChatPolicy p) = T_ChatPolicy"
| "Payload_envelope_type (P_Typing p) = T_Typing"
| "Payload_envelope_type (P_Read p) = T_Read"

fun Payload_encode :: "(bytes \<Rightarrow> bytes) \<Rightarrow> payload \<Rightarrow> wire_error + bytes" where
  "Payload_encode nfc (P_Msg p) = Msg_encode_payload p"
| "Payload_encode nfc (P_Edit p) = Edit_encode_payload p"
| "Payload_encode nfc (P_Delete p) = Delete_encode_payload p"
| "Payload_encode nfc (P_DeleteAll p) = DeleteAll_encode_payload p"
| "Payload_encode nfc (P_ResyncReq p) = ResyncReq_encode_payload p"
| "Payload_encode nfc (P_AttachHead p) = AttachHead_encode_payload p"
| "Payload_encode nfc (P_AttachChunk p) = AttachChunk_encode_payload p"
| "Payload_encode nfc (P_ContactClose p) = ContactClose_encode_payload p"
| "Payload_encode nfc (P_Profile p) = Profile_encode_payload nfc p"
| "Payload_encode nfc (P_Pref p) = Pref_encode_payload p"
| "Payload_encode nfc (P_ProfileReq p) = ProfileReq_encode_payload p"
| "Payload_encode nfc (P_Sticker p) = StickerItem_encode_payload p"
| "Payload_encode nfc (P_StickerCtrl p) = StickerCtrl_encode_payload p"
| "Payload_encode nfc (P_Presence p) = Presence_encode_payload p"
| "Payload_encode nfc (P_ChatPolicy p) = ChatPolicy_encode_payload p"
| "Payload_encode nfc (P_Typing p) = Typing_encode_payload p"
| "Payload_encode nfc (P_Read p) = Read_encode_payload p"

fun Payload_decode :: "(bytes \<Rightarrow> bytes) \<Rightarrow> envelope_type \<Rightarrow> bytes \<Rightarrow> wire_error + payload" where
  "Payload_decode nfc T_Msg bs = rbind (Msg_decode_payload bs) (\<lambda>p. Ok (P_Msg p))"
| "Payload_decode nfc T_Edit bs = rbind (Edit_decode_payload bs) (\<lambda>p. Ok (P_Edit p))"
| "Payload_decode nfc T_Delete bs = rbind (Delete_decode_payload bs) (\<lambda>p. Ok (P_Delete p))"
| "Payload_decode nfc T_DeleteAll bs = rbind (DeleteAll_decode_payload bs) (\<lambda>p. Ok (P_DeleteAll p))"
| "Payload_decode nfc T_ResyncReq bs = rbind (ResyncReq_decode_payload bs) (\<lambda>p. Ok (P_ResyncReq p))"
| "Payload_decode nfc T_AttachHead bs = rbind (AttachHead_decode_payload bs) (\<lambda>p. Ok (P_AttachHead p))"
| "Payload_decode nfc T_AttachChunk bs = rbind (AttachChunk_decode_payload bs) (\<lambda>p. Ok (P_AttachChunk p))"
| "Payload_decode nfc T_ContactClose bs = rbind (ContactClose_decode_payload bs) (\<lambda>p. Ok (P_ContactClose p))"
| "Payload_decode nfc T_Profile bs = rbind (Profile_decode_payload nfc bs) (\<lambda>p. Ok (P_Profile p))"
| "Payload_decode nfc T_Pref bs = rbind (Pref_decode_payload bs) (\<lambda>p. Ok (P_Pref p))"
| "Payload_decode nfc T_ProfileReq bs = rbind (ProfileReq_decode_payload bs) (\<lambda>p. Ok (P_ProfileReq p))"
| "Payload_decode nfc T_Sticker bs = rbind (StickerItem_decode_payload bs) (\<lambda>p. Ok (P_Sticker p))"
| "Payload_decode nfc T_StickerCtrl bs = rbind (StickerCtrl_decode_payload bs) (\<lambda>p. Ok (P_StickerCtrl p))"
| "Payload_decode nfc T_Presence bs = rbind (Presence_decode_payload bs) (\<lambda>p. Ok (P_Presence p))"
| "Payload_decode nfc T_ChatPolicy bs = rbind (ChatPolicy_decode_payload bs) (\<lambda>p. Ok (P_ChatPolicy p))"
| "Payload_decode nfc T_Typing bs = rbind (Typing_decode_payload bs) (\<lambda>p. Ok (P_Typing p))"
| "Payload_decode nfc T_Read bs = rbind (Read_decode_payload bs) (\<lambda>p. Ok (P_Read p))"

fun Payload_wf :: "payload \<Rightarrow> bool" where
  "Payload_wf (P_Msg p) = Msg_wf p"
| "Payload_wf (P_Edit p) = Edit_wf p"
| "Payload_wf (P_Delete p) = True"
| "Payload_wf (P_DeleteAll p) = True"
| "Payload_wf (P_ResyncReq p) = ResyncReq_wf p"
| "Payload_wf (P_AttachHead p) = AttachHead_wf p"
| "Payload_wf (P_AttachChunk p) = AttachChunk_wf p"
| "Payload_wf (P_ContactClose p) = True"
| "Payload_wf (P_Profile p) = Profile_wf p"
| "Payload_wf (P_Pref p) = True"
| "Payload_wf (P_ProfileReq p) = True"
| "Payload_wf (P_Sticker p) = StickerItem_wf p"
| "Payload_wf (P_StickerCtrl p) = StickerCtrl_wf p"
| "Payload_wf (P_Presence p) = True"
| "Payload_wf (P_ChatPolicy p) = ChatPolicy_wf p"
| "Payload_wf (P_Typing p) = True"
| "Payload_wf (P_Read p) = True"

section \<open>The envelope\<close>

record envelope =
  env_msg_id :: bytes
  env_app_seq :: u64
  env_sent_at :: u64
  env_ref_id :: "bytes option"
  env_payload :: payload

definition Envelope_envelope_type :: "envelope \<Rightarrow> envelope_type" where
  "Envelope_envelope_type e = Payload_envelope_type (env_payload e)"

definition Envelope_encode :: "(bytes \<Rightarrow> bytes) \<Rightarrow> envelope \<Rightarrow> wire_error + bytes" where
  "Envelope_encode nfc e =
     rbind (Payload_encode nfc (env_payload e)) (\<lambda>payload.
     let out = writes ([Writer_u8 (EnvelopeType_code (Envelope_envelope_type e)),
                        Writer_raw (env_msg_id e), Writer_u64be (env_app_seq e),
                        Writer_u64be (env_sent_at e)] @
                       (case env_ref_id e of
                          Some r \<Rightarrow> [Writer_u8 (of_nat MSG_ID_BYTES), Writer_raw r]
                        | None \<Rightarrow> [Writer_u8 0]) @
                       [Writer_lp payload])
     in if length out > MAX_ENVELOPE_BYTES
        then Err (TooLarge ''envelope'' (length out) MAX_ENVELOPE_BYTES)
        else Ok out)"

definition Envelope_decode :: "(bytes \<Rightarrow> bytes) \<Rightarrow> bytes \<Rightarrow> wire_error + envelope" where
  "Envelope_decode nfc bs =
     (if length bs > MAX_ENVELOPE_BYTES
      then Err (TooLarge ''envelope'' (length bs) MAX_ENVELOPE_BYTES) else
      let r = Reader_new bs in
      rbind (Reader_u8 ''envelope.type'' r) (\<lambda>(code, r).
      rbind (Reader_take MSG_ID_BYTES ''envelope.msg_id'' r) (\<lambda>(msg_id, r).
      rbind (Reader_u64be ''envelope.app_seq'' r) (\<lambda>(app_seq, r).
      rbind (Reader_u64be ''envelope.sent_at'' r) (\<lambda>(sent_at, r).
      rbind (Reader_u8 ''envelope.ref_len'' r) (\<lambda>(ref_len, r).
      rbind (if unat ref_len = 0 then Ok (None, r)
             else if unat ref_len = MSG_ID_BYTES then
               rbind (Reader_take MSG_ID_BYTES ''envelope.ref'' r) (\<lambda>(ref, r). Ok (Some ref, r))
             else Err (BadLength ''envelope.ref'' (unat ref_len) MSG_ID_BYTES)) (\<lambda>(ref_id, r).
      rbind (Reader_lp MAX_ENVELOPE_BYTES ''envelope.payload'' r) (\<lambda>(payload_bytes, r).
      rbind (Reader_expect_end ''envelope'' r) (\<lambda>_.
      case EnvelopeType_from_code code of
        None \<Rightarrow> Err (UnknownType code msg_id app_seq)
      | Some t \<Rightarrow>
          rbind (Payload_decode nfc t payload_bytes) (\<lambda>payload.
          Ok \<lparr>env_msg_id = msg_id, env_app_seq = app_seq, env_sent_at = sent_at,
              env_ref_id = ref_id, env_payload = payload\<rparr>))))))))))"

definition Envelope_wf :: "envelope \<Rightarrow> bool" where
  "Envelope_wf e \<longleftrightarrow>
     length (env_msg_id e) = MSG_ID_BYTES \<and>
     (case env_ref_id e of None \<Rightarrow> True | Some r \<Rightarrow> length r = MSG_ID_BYTES) \<and>
     Payload_wf (env_payload e)"

section \<open>Codes\<close>

lemma from_code_code [simp]: "EnvelopeType_from_code (EnvelopeType_code t) = Some t"
  by (cases t) (simp_all add: EnvelopeType_from_code_def)

lemma code_from_code: "EnvelopeType_from_code c = Some t \<Longrightarrow> EnvelopeType_code t = c"
  by (auto simp: EnvelopeType_from_code_def split: if_splits)

section \<open>The payload union\<close>

text \<open>For each type, the union keeps the contract of the payload it wraps.\<close>

lemmas payload_decode_encode =
  msg.decode_encode edit.decode_encode delete.decode_encode
  delete_all.decode_encode resync_req.decode_encode attach_head.decode_encode attach_chunk.decode_encode
  contact_close.decode_encode profile.decode_encode pref.decode_encode profile_req.decode_encode sticker_item.decode_encode sticker_ctrl.decode_encode
  presence.decode_encode chat_policy.decode_encode typing.decode_encode read.decode_encode

lemmas payload_decode_wf =
  msg.decode_wf edit.decode_wf delete.decode_wf
  delete_all.decode_wf resync_req.decode_wf attach_head.decode_wf attach_chunk.decode_wf
  contact_close.decode_wf profile.decode_wf pref.decode_wf profile_req.decode_wf sticker_item.decode_wf sticker_ctrl.decode_wf
  presence.decode_wf chat_policy.decode_wf typing.decode_wf read.decode_wf

lemmas payload_decode_encodable =
  msg.decode_encodable edit.decode_encodable delete.decode_encodable
  delete_all.decode_encodable resync_req.decode_encodable attach_head.decode_encodable attach_chunk.decode_encodable
  contact_close.decode_encodable profile.decode_encodable pref.decode_encodable profile_req.decode_encodable sticker_item.decode_encodable sticker_ctrl.decode_encodable
  presence.decode_encodable chat_policy.decode_encodable typing.decode_encodable read.decode_encodable

lemma Payload_decode_encode:
  "Payload_wf p \<Longrightarrow> Payload_encode nfc p = Ok b \<Longrightarrow>
     Payload_decode nfc (Payload_envelope_type p) b = Ok p"
  by (cases p) (simp_all add: payload_decode_encode)

lemma Payload_decode_inv:
  assumes "Payload_decode nfc t b = Ok p"
  shows "Payload_envelope_type p = t" and "Payload_wf p"
    and "\<exists>b'. Payload_encode nfc p = Ok b' \<and> length b' \<le> length b"
  using assms
  by (cases t; auto simp: rbind_Inr_iff intro: payload_decode_wf payload_decode_encodable)+

section \<open>The envelope contract\<close>

definition envelope_bytes :: "envelope \<Rightarrow> bytes \<Rightarrow> bytes" where
  "envelope_bytes e payload =
     [EnvelopeType_code (Envelope_envelope_type e)] @ env_msg_id e @ be64 (env_app_seq e) @
     be64 (env_sent_at e) @ (case env_ref_id e of None \<Rightarrow> [0] | Some r \<Rightarrow> 16 # r) @
     be32 (of_nat (length payload)) @ payload"

lemma Envelope_encode_eq:
  "Envelope_encode nfc e =
     rbind (Payload_encode nfc (env_payload e)) (\<lambda>payload.
       if length (envelope_bytes e payload) > MAX_ENVELOPE_BYTES
       then Err (TooLarge ''envelope'' (length (envelope_bytes e payload)) MAX_ENVELOPE_BYTES)
       else Ok (envelope_bytes e payload))"
  by (cases "env_ref_id e"; cases "Payload_encode nfc (env_payload e)")
    (simp_all add: Envelope_encode_def Let_def wire_write envelope_bytes_def MSG_ID_BYTES_def)

lemma Envelope_encode_Ok:
  "Envelope_encode nfc e = Ok b \<longleftrightarrow>
     (\<exists>payload. Payload_encode nfc (env_payload e) = Ok payload \<and> b = envelope_bytes e payload \<and>
        length b \<le> MAX_ENVELOPE_BYTES)"
  by (cases "Payload_encode nfc (env_payload e)") (auto simp: Envelope_encode_eq)

lemma envelope_bytes_length:
  "Envelope_wf e \<Longrightarrow> length (envelope_bytes e payload) =
     38 + (case env_ref_id e of None \<Rightarrow> 0 | Some r \<Rightarrow> 16) + length payload"
  by (auto simp: envelope_bytes_def Envelope_wf_def MSG_ID_BYTES_def split: option.splits)

lemma Envelope_decode_bytes:
  assumes "length (env_msg_id e) = MSG_ID_BYTES"
    "case env_ref_id e of None \<Rightarrow> True | Some r \<Rightarrow> length r = MSG_ID_BYTES"
    and "length (envelope_bytes e payload) \<le> MAX_ENVELOPE_BYTES"
  shows "Envelope_decode nfc (envelope_bytes e payload) =
      rbind (Payload_decode nfc (Envelope_envelope_type e) payload) (\<lambda>p.
        Ok \<lparr>env_msg_id = env_msg_id e, env_app_seq = env_app_seq e, env_sent_at = env_sent_at e,
            env_ref_id = env_ref_id e, env_payload = p\<rparr>)"
proof -
  have "length payload \<le> length (envelope_bytes e payload)" by (simp add: envelope_bytes_def)
  with assms(3) have "length payload \<le> MAX_ENVELOPE_BYTES" by simp
  moreover have "MAX_ENVELOPE_BYTES < 4294967296" by (simp add: limit_defs)
  moreover have "\<not> MAX_ENVELOPE_BYTES < length (envelope_bytes e payload)" using assms(3) by simp
  ultimately show ?thesis
    using assms(1,2)
    by (cases "env_ref_id e"; cases "Payload_decode nfc (Envelope_envelope_type e) payload")
      (simp_all add: Envelope_decode_def envelope_bytes_def Reader_new_rd reader_eval MSG_ID_BYTES_def)
qed

lemma Envelope_decode_inv:
  assumes "Envelope_decode nfc b = Ok e"
  obtains payload where "b = envelope_bytes e payload" "length b \<le> MAX_ENVELOPE_BYTES"
    "length (env_msg_id e) = MSG_ID_BYTES"
    "case env_ref_id e of None \<Rightarrow> True | Some r \<Rightarrow> length r = MSG_ID_BYTES"
    "Payload_decode nfc (Envelope_envelope_type e) payload = Ok (env_payload e)"
proof -
  have u16: "unat (x :: u8) = 16 \<longleftrightarrow> x = 16" "unat x = 0 \<longleftrightarrow> x = 0" for x
    by (simp_all add: word_unat_eq_iff)
  have "\<exists>payload. b = envelope_bytes e payload \<and> length b \<le> MAX_ENVELOPE_BYTES \<and>
      length (env_msg_id e) = MSG_ID_BYTES \<and>
      (case env_ref_id e of None \<Rightarrow> True | Some r \<Rightarrow> length r = MSG_ID_BYTES) \<and>
      Payload_decode nfc (Envelope_envelope_type e) payload = Ok (env_payload e)"
    using assms
    by (auto simp: Envelope_decode_def envelope_bytes_def Envelope_envelope_type_def rbind_Inr_iff
        reader_inv Reader_new_rd MSG_ID_BYTES_def u16 Payload_decode_inv(1)
        code_from_code [symmetric] split: if_splits option.splits)
  then show thesis using that by blast
qed

text \<open>The envelope keeps the payload contract; its codec is the payload codec of the union.\<close>

interpretation envelope:
  wire_payload "Envelope_encode nfc" "Envelope_decode nfc" Envelope_wf for nfc
proof
  fix e b
  assume "Envelope_wf e" "Envelope_encode nfc e = Ok b"
  then show "Envelope_decode nfc b = Ok e"
    by (auto simp: Envelope_encode_Ok Envelope_wf_def Envelope_decode_bytes
        Envelope_envelope_type_def Payload_decode_encode)
next
  fix b e
  assume "Envelope_decode nfc b = Ok e"
  then show "Envelope_wf e"
    by (elim Envelope_decode_inv)
      (auto simp: Envelope_wf_def dest: Payload_decode_inv(2))
next
  fix b e
  assume "Envelope_decode nfc b = Ok e"
  then obtain payload where p: "b = envelope_bytes e payload" "length b \<le> MAX_ENVELOPE_BYTES"
      "Payload_decode nfc (Envelope_envelope_type e) payload = Ok (env_payload e)"
    by (elim Envelope_decode_inv)
  from Payload_decode_inv(3) [OF p(3)] obtain b' where
    b': "Payload_encode nfc (env_payload e) = Ok b'" "length b' \<le> length payload" by blast
  then have "length (envelope_bytes e b') \<le> length b"
    by (simp add: p(1) envelope_bytes_def)
  with p(2) b'(1) show "\<exists>b'. Envelope_encode nfc e = Ok b' \<and> length b' \<le> length b"
    by (auto simp: Envelope_encode_Ok)
qed

section \<open>Properties\<close>

text \<open>
  C1: an envelope whose fields have their wire shapes is recovered exactly from its
  encoding, and an encoding never exceeds the envelope limit.
\<close>

theorem envelope_roundtrip:
  assumes "Envelope_wf e" "Envelope_encode nfc e = Ok b"
  shows "Envelope_decode nfc b = Ok e \<and> length b \<le> MAX_ENVELOPE_BYTES"
  using envelope.decode_encode [OF assms] assms(2) by (auto simp: Envelope_encode_Ok)

theorem envelope_roundtrip_witness:
  "let e = \<lparr>env_msg_id = replicate 16 7, env_app_seq = 3, env_sent_at = 1700000000,
            env_ref_id = Some (replicate 16 9),
            env_payload = P_Edit \<lparr>edit_body = [104, 105]\<rparr>\<rparr>
   in Envelope_wf e \<and> (\<exists>b. Envelope_encode (\<lambda>n. n) e = Ok b \<and> Envelope_decode (\<lambda>n. n) b = Ok e)"
proof -
  let ?e = "\<lparr>env_msg_id = replicate 16 7, env_app_seq = 3, env_sent_at = 1700000000,
             env_ref_id = Some (replicate 16 9),
             env_payload = P_Edit \<lparr>edit_body = [104, 105]\<rparr>\<rparr>"
  have wf: "Envelope_wf ?e" by code_simp
  obtain b where b: "Envelope_encode (\<lambda>n. n) ?e = Ok b"
    by (simp add: Envelope_encode_Ok envelope_bytes_length [OF wf] Edit_encode_payload_def
        limit_defs wire_write)
  from wf b envelope_roundtrip [OF wf b] show ?thesis by (simp only: Let_def) blast
qed

text \<open>
  C11: whatever bytes decode, the decoded envelope is well formed and encodes again, into
  at most as many bytes, and those decode to the same envelope; nothing a peer can send
  is accepted and then unsendable.
\<close>

theorem envelope_reencode:
  assumes "Envelope_decode nfc b = Ok e"
  shows "Envelope_wf e \<and>
    (\<exists>b'. Envelope_encode nfc e = Ok b' \<and> length b' \<le> length b \<and> Envelope_decode nfc b' = Ok e)"
  using envelope.decode_wf [OF assms] envelope.decode_encodable [OF assms]
    envelope.decode_encode by blast

theorem envelope_reencode_witness:
  "let b = [4] @ replicate 16 7 @ be64 3 @ be64 1700000000 @ [0] @ be32 0
   in \<exists>e. Envelope_decode (\<lambda>n. n) b = Ok e \<and> Envelope_wf e \<and> env_app_seq e = 3"
proof -
  let ?b = "[4] @ replicate 16 7 @ be64 3 @ be64 1700000000 @ [0] @ be32 0"
  let ?e = "\<lparr>env_msg_id = replicate 16 7, env_app_seq = 3, env_sent_at = 1700000000,
             env_ref_id = None, env_payload = P_DeleteAll DeleteAll\<rparr>"
  have "Envelope_decode (\<lambda>n. n) ?b = Ok ?e"
    by (simp add: Envelope_decode_def Reader_new_rd reader_eval MSG_ID_BYTES_def limit_defs
        EnvelopeType_from_code_def DeleteAll_decode_payload_def decode_empty_def)
  from this envelope_reencode [OF this] show ?thesis by (simp only: Let_def) (intro exI, auto)
qed

text \<open>
  The header of an envelope of a type this version does not know is read in full and the
  error carries the type byte, the message id and the sequence number.
\<close>

lemma envelope_unknown_type:
  assumes "EnvelopeType_from_code c = None" "length mid = MSG_ID_BYTES"
    and "length p + 38 \<le> MAX_ENVELOPE_BYTES"
  shows "Envelope_decode nfc ([c] @ mid @ be64 seq @ be64 at' @ [0] @ be32 (of_nat (length p)) @ p) =
    Err (UnknownType c mid seq)"
  using assms
  by (simp add: Envelope_decode_def Reader_new_rd reader_eval MSG_ID_BYTES_def limit_defs)

text \<open>
  Every chunk of an attachment transfer fits one envelope: a well-formed chunk with a
  full data block, sent with a reference id, always encodes.
\<close>

lemma attach_chunk_fits:
  assumes "Envelope_wf e" "env_payload e = P_AttachChunk c" "AttachChunk_encode_payload c = Ok p"
  shows "\<exists>b. Envelope_encode nfc e = Ok b"
proof -
  have "length (ac_head_id c) = 16"
    using assms(1,2) by (simp add: Envelope_wf_def AttachChunk_wf_def)
  then have "length p \<le> 23 + CHUNK_DATA_MAX"
    using assms(3) by (auto simp: AttachChunk_encode_payload_def wire_write split: if_splits)
  then have "length (envelope_bytes e p) \<le> MAX_ENVELOPE_BYTES"
    using envelope_bytes_length [OF assms(1), of p]
    by (simp add: limit_defs split: option.splits)
  then show ?thesis
    using assms(2,3) by (auto simp: Envelope_encode_Ok)
qed

end
