(* ===== verification/Store.thy ===== *)
theory Store
  imports Policy Core_Limits Wire_Envelope
begin

text \<open>
  The persistent state of a device, \<^verbatim>\<open>crates/core/src/store/\<close>: the message ledger, the
  outbox, the inbound sequence log, tombstones, settings, the ciphertext cache, the
  replay cache and the relationship rows, with one definition per repository operation.
  A table is a list of rows in insertion order, or a map where only the key matters.
  Identifiers are stored as hex text and enumerations as words in the source; the model
  keeps the decoded values, and the codecs are shown to be lossless below. Integer
  columns hold \<open>i64\<close> values: a \<open>u64\<close> is stored with its bits unchanged and read back
  unchanged, and every comparison made by a query is the signed one.
\<close>

section \<open>Rows\<close>

datatype direction = In | Out

text \<open>\<open>{:?}\<close> of a string without characters that need an escape.\<close>

definition show_debug :: "string \<Rightarrow> string" where
  "show_debug s = CHR 0x22 # s @ [CHR 0x22]"

definition Direction_as_str :: "direction \<Rightarrow> string" where
  "Direction_as_str d = (case d of In \<Rightarrow> ''in'' | Out \<Rightarrow> ''out'')"

definition Direction_parse :: "string \<Rightarrow> store_error + direction" where
  "Direction_parse s =
     (if s = ''in'' then Ok In else if s = ''out'' then Ok Out
      else Err (Corrupt (''direction '' @ show_debug s)))"

datatype delivery_state = Received | Queued | Transmitted | Acknowledged | Failed

definition DeliveryState_as_str :: "delivery_state \<Rightarrow> string" where
  "DeliveryState_as_str st =
     (case st of
        Received \<Rightarrow> ''received''
      | Queued \<Rightarrow> ''queued''
      | Transmitted \<Rightarrow> ''transmitted''
      | Acknowledged \<Rightarrow> ''acknowledged''
      | Failed \<Rightarrow> ''failed'')"

definition DeliveryState_parse :: "string \<Rightarrow> store_error + delivery_state" where
  "DeliveryState_parse s =
     (if s = ''received'' then Ok Received
      else if s = ''queued'' then Ok Queued
      else if s = ''transmitted'' then Ok Transmitted
      else if s = ''acknowledged'' then Ok Acknowledged
      else if s = ''failed'' then Ok Failed
      else Err (Corrupt (''delivery state '' @ show_debug s)))"

record message_row =
  m_msg_id :: bytes
  m_rel_id :: string
  m_direction :: direction
  m_app_seq :: u64
  m_sent_at :: u64
  m_received_at :: "u64 option"
  m_env_type :: u8
  m_ref_id :: "bytes option"
  m_payload :: bytes
  m_state :: delivery_state
  m_expires_at :: "u64 option"
  m_created_at :: u64
  m_edited :: bool
  m_tombstone :: bool
  m_read_at :: "u64 option"
  m_edit_count :: u32
  m_last_edit_seq :: u64

record new_message =
  n_msg_id :: bytes
  n_rel_id :: string
  n_direction :: direction
  n_app_seq :: u64
  n_sent_at :: u64
  n_received_at :: "u64 option"
  n_env_type :: u8
  n_ref_id :: "bytes option"
  n_payload :: bytes
  n_state :: delivery_state
  n_expires_at :: "u64 option"

record outbox_row =
  ob_msg_id :: bytes
  ob_rel_id :: string
  ob_record :: bytes
  ob_attempts :: u32
  ob_next_attempt_at :: u64
  ob_expires_at :: u64
  ob_created_at :: u64

record tombstone_row =
  ts_rel_id :: string
  ts_ref_id :: bytes
  ts_expiry :: u64

record ciphertext_row =
  ct_msg_id :: bytes
  ct_rel_id :: string
  ct_frame :: bytes

record frame_row =
  if_rel_id :: string
  if_hash :: bytes
  if_expires_at :: u64

text \<open>The columns of a relationship, after the policy columns and the key.\<close>

record rel_row = policy_row +
  rel_role :: string
  rel_state :: string
  rel_service_id :: string
  rel_onion :: string
  rel_peer_onion :: string
  rel_peer_identity_key :: bytes
  rel_peer_client_auth_public :: string
  rel_our_client_auth_private :: string
  rel_our_nonce :: bytes
  rel_peer_nonce :: bytes
  rel_our_qr_bytes :: bytes
  rel_intro_pending :: bool
  rel_session_state :: string
  rel_created_at :: u64
  rel_peer_caps :: u64
  rel_close_state :: "string option"
  rel_history_cut_seq :: u64
  rel_peer_prefs :: "bytes option"

record attachment_row =
  at_head_id :: bytes
  at_rel_id :: string
  at_msg_id :: bytes
  at_direction :: direction
  at_media_class :: u8
  at_mime_hint :: bytes
  at_orig_ext :: bytes
  at_uncompressed_n :: u32
  at_chunk_count :: u16
  at_chunk_bucket :: u16
  at_content_sha256 :: bytes
  at_caption :: bytes
  at_flags :: u8
  at_chunks :: bytes
  at_complete :: bool
  at_consumed :: bool
  at_expires_at :: "u64 option"
  at_created_at :: u64

record chunk_row =
  ck_head_id :: bytes
  ck_idx :: u16
  ck_data :: bytes
  ck_rel_id :: string
  ck_created_at :: u64

record profile_row =
  pf_rel_id :: string
  pf_name :: bytes
  pf_jpeg :: bytes
  pf_updated_at :: u64

record pack_row =
  pk_pack_id :: bytes
  pk_pack_pk :: bytes
  pk_title :: bytes
  pk_kind :: u8
  pk_visibility :: u8
  pk_item_count :: u64
  pk_icon_item_id :: u16
  pk_installed_at :: u64
  pk_cached :: bool
  pk_from_rel :: "string option"
  pk_last_used_at :: u64

record sticker_item_row =
  sr_pack_id :: bytes
  sr_item_id :: u16
  sr_w :: u16
  sr_h :: u16
  sr_sha256 :: bytes
  sr_bytes :: bytes

record cached_item_row =
  ci_sha256 :: bytes
  ci_bytes :: bytes
  ci_w :: u16
  ci_h :: u16
  ci_kind :: u8
  ci_pack_id :: "bytes option"
  ci_from_rel :: "string option"
  ci_created_at :: u64

record serve_row =
  sv_rel_id :: string
  sv_day :: u64
  sv_count :: u32

record db =
  db_rels :: "(string \<times> rel_row) list"
  db_messages :: "message_row list"
  db_outbox :: "outbox_row list"
  db_inbound_seqs :: "(string \<times> u64) list"
  db_tombstones :: "tombstone_row list"
  db_settings :: "string \<rightharpoonup> bytes"
  db_ciphertexts :: "ciphertext_row list"
  db_inbound_frames :: "frame_row list"
  db_attachments :: "attachment_row list"
  db_chunks :: "chunk_row list"
  db_profiles :: "profile_row list"
  db_packs :: "pack_row list"
  db_sticker_items :: "sticker_item_row list"
  db_pack_keys :: "(bytes \<times> bytes) list"
  db_sticker_cache :: "cached_item_row list"
  db_sticker_serves :: "serve_row list"

definition empty_db :: db where
  "empty_db = \<lparr>db_rels = [], db_messages = [], db_outbox = [], db_inbound_seqs = [],
     db_tombstones = [], db_settings = Map.empty, db_ciphertexts = [], db_inbound_frames = [],
     db_attachments = [], db_chunks = [], db_profiles = [], db_packs = [], db_sticker_items = [],
     db_pack_keys = [], db_sticker_cache = [], db_sticker_serves = []\<rparr>"

definition rel_of :: "string \<Rightarrow> db \<Rightarrow> rel_row option" where
  "rel_of rel_id db = map_of (db_rels db) rel_id"

text \<open>The comparisons of SQL integers.\<close>

definition i64_le :: "u64 \<Rightarrow> u64 \<Rightarrow> bool" where
  "i64_le a b \<longleftrightarrow> sint a \<le> sint b"

definition i64_lt :: "u64 \<Rightarrow> u64 \<Rightarrow> bool" where
  "i64_lt a b \<longleftrightarrow> sint a < sint b"

definition i64_max :: "u64 \<Rightarrow> u64 \<Rightarrow> u64" where
  "i64_max a b = (if i64_le a b then b else a)"

text \<open>
  An \<open>UPDATE\<close> that changes the rows that satisfy a condition, and whether there is one.
\<close>

definition update_where :: "('a \<Rightarrow> bool) \<Rightarrow> ('a \<Rightarrow> 'a) \<Rightarrow> 'a list \<Rightarrow> 'a list" where
  "update_where P f rows = map (\<lambda>r. if P r then f r else r) rows"

definition any_row :: "('a \<Rightarrow> bool) \<Rightarrow> 'a list \<Rightarrow> bool" where
  "any_row P rows = (filter P rows \<noteq> [])"

section \<open>Identifiers as text\<close>

definition hex_digit :: "nat \<Rightarrow> char" where
  "hex_digit n = ''0123456789abcdef'' ! n"

definition hex_encode :: "bytes \<Rightarrow> string" where
  "hex_encode bs =
     concat (map (\<lambda>b. [hex_digit (unat (drop_bit 4 b)), hex_digit (unat (b AND 0x0f))]) bs)"

text \<open>
  \<open>u8::from_str_radix\<close> on two characters in base 16: digits of either case, and a leading
  plus sign before one digit.
\<close>

definition digit_value :: "char \<Rightarrow> nat option" where
  "digit_value c =
     (let n = of_char c :: nat in
      if 48 \<le> n \<and> n \<le> 57 then Some (n - 48)
      else if 97 \<le> n \<and> n \<le> 102 then Some (n - 87)
      else if 65 \<le> n \<and> n \<le> 70 then Some (n - 55)
      else None)"

definition radix16_pair :: "char \<Rightarrow> char \<Rightarrow> store_error + u8" where
  "radix16_pair c d =
     (case digit_value d of
        None \<Rightarrow> Err (Corrupt ''bad hex: invalid digit found in string'')
      | Some lo \<Rightarrow>
          if c = CHR ''+'' then Ok (of_nat lo)
          else case digit_value c of
                 None \<Rightarrow> Err (Corrupt ''bad hex: invalid digit found in string'')
               | Some hi \<Rightarrow> Ok (of_nat (hi * 16 + lo)))"

fun hex_pairs :: "string \<Rightarrow> store_error + bytes" where
  "hex_pairs (c # d # s) =
     rbind (radix16_pair c d) (\<lambda>b. rbind (hex_pairs s) (\<lambda>bs. Ok (b # bs)))"
| "hex_pairs _ = Ok []"

definition hex_decode :: "string \<Rightarrow> store_error + bytes" where
  "hex_decode s =
     (if length s mod 2 \<noteq> 0 then Err (Corrupt ''odd hex length'') else hex_pairs s)"

definition parse_id16 :: "string \<Rightarrow> string \<Rightarrow> store_error + bytes" where
  "parse_id16 hex at =
     rbind (hex_decode hex) (\<lambda>bs.
     if length bs = 16 then Ok bs else Err (Corrupt (at @ '': not 16 bytes'')))"

section \<open>Messages\<close>

definition new_row :: "u64 \<Rightarrow> new_message \<Rightarrow> message_row" where
  "new_row now msg =
     \<lparr>m_msg_id = n_msg_id msg, m_rel_id = n_rel_id msg, m_direction = n_direction msg,
      m_app_seq = n_app_seq msg, m_sent_at = n_sent_at msg, m_received_at = n_received_at msg,
      m_env_type = n_env_type msg, m_ref_id = n_ref_id msg, m_payload = n_payload msg,
      m_state = n_state msg, m_expires_at = n_expires_at msg, m_created_at = now,
      m_edited = False, m_tombstone = False, m_read_at = None, m_edit_count = 0,
      m_last_edit_seq = 0\<rparr>"

definition message :: "bytes \<Rightarrow> db \<Rightarrow> message_row option" where
  "message msg_id db = find (\<lambda>r. m_msg_id r = msg_id) (db_messages db)"

definition insert_message :: "u64 \<Rightarrow> new_message \<Rightarrow> db \<Rightarrow> store_error + db" where
  "insert_message now msg db =
     (if any_row (\<lambda>r. m_msg_id r = n_msg_id msg) (db_messages db)
      then Err (Sqlite UniqueViolation)
      else Ok (db\<lparr>db_messages := db_messages db @ [new_row now msg]\<rparr>))"

text \<open>
  Rows in descending sequence order; rows of equal sequence, whose order SQL leaves open,
  are listed in insertion order.
\<close>

definition thread :: "string \<Rightarrow> nat \<Rightarrow> u64 option \<Rightarrow> db \<Rightarrow> message_row list" where
  "thread rel_id limit before_seq db =
     take limit
       (sort_key (\<lambda>r. - sint (m_app_seq r))
         (filter (\<lambda>r. m_rel_id r = rel_id \<and>
                     (case before_seq of None \<Rightarrow> True | Some b \<Rightarrow> i64_lt (m_app_seq r) b))
           (db_messages db)))"

definition is_thread_row :: "u8 \<Rightarrow> bool" where
  "is_thread_row env_type =
     (case EnvelopeType_from_code env_type of
        None \<Rightarrow> False
      | Some t \<Rightarrow> t \<in> {T_Msg, T_AttachHead, T_Sticker, T_ChatPolicy, T_Profile, T_ProfileReq, T_Pref})"

definition thread_visible :: "string \<Rightarrow> u32 \<Rightarrow> u64 option \<Rightarrow> db \<Rightarrow> message_row list" where
  "thread_visible rel_id limit before_seq db =
     take (unat limit)
       (filter (\<lambda>r. is_thread_row (m_env_type r) \<and> \<not> m_tombstone r)
         (thread rel_id (unat (saturating_mul limit 4)) before_seq db))"

definition set_delivery :: "bytes \<Rightarrow> delivery_state \<Rightarrow> db \<Rightarrow> bool \<times> db" where
  "set_delivery msg_id st db =
     (any_row (\<lambda>r. m_msg_id r = msg_id) (db_messages db),
      db\<lparr>db_messages := update_where (\<lambda>r. m_msg_id r = msg_id) (\<lambda>r. r\<lparr>m_state := st\<rparr>) (db_messages db)\<rparr>)"

definition delete_message :: "bytes \<Rightarrow> db \<Rightarrow> bool \<times> db" where
  "delete_message msg_id db =
     (any_row (\<lambda>r. m_msg_id r = msg_id) (db_messages db),
      db\<lparr>db_messages := filter (\<lambda>r. m_msg_id r \<noteq> msg_id) (db_messages db)\<rparr>)"

text \<open>Ciphertexts whose ledger row is gone: \<open>msg_id NOT IN (SELECT msg_id FROM messages)\<close>.\<close>

definition has_ledger_row :: "db \<Rightarrow> bytes \<Rightarrow> bool" where
  "has_ledger_row db msg_id = any_row (\<lambda>r. m_msg_id r = msg_id) (db_messages db)"

definition messages_sweep_expired :: "u64 \<Rightarrow> db \<Rightarrow> nat \<times> db" where
  "messages_sweep_expired now db =
     (let dead = (\<lambda>r. case m_expires_at r of None \<Rightarrow> False | Some e \<Rightarrow> i64_le e now);
          n = length (filter dead (db_messages db));
          db = db\<lparr>db_messages := filter (\<lambda>r. \<not> dead r) (db_messages db)\<rparr>;
          db = db\<lparr>db_ciphertexts := filter (\<lambda>c. has_ledger_row db (ct_msg_id c)) (db_ciphertexts db)\<rparr>;
          db = db\<lparr>db_inbound_frames := filter (\<lambda>f. \<not> i64_le (if_expires_at f) now) (db_inbound_frames db)\<rparr>
      in (n, db))"

record receive_view_t =
  rv_max_contiguous_seq :: u64
  rv_bitmap :: bytes

text \<open>
  The receive view: the horizon walk over the ascending sequence numbers, then the repair
  bitmap, in the order of the loop. \<open>max + 1\<close> wraps, as in a release build.
\<close>

fun horizon_walk :: "u64 \<Rightarrow> u64 list \<Rightarrow> u64 \<times> u64 list" where
  "horizon_walk mx [] = (mx, [])"
| "horizon_walk mx (seq # seqs) =
     (if seq = mx + 1 then horizon_walk seq seqs else (mx, seq # seqs))"

definition set_bit_at :: "bytes \<Rightarrow> nat \<Rightarrow> bytes" where
  "set_bit_at bitmap i = bitmap[i div 8 := bitmap ! (i div 8) OR push_bit (i mod 8) 1]"

fun fill_bitmap :: "nat \<Rightarrow> u64 \<Rightarrow> u64 list \<Rightarrow> bytes \<Rightarrow> nat option \<Rightarrow> bytes \<times> nat option" where
  "fill_bitmap bits mx [] bitmap last_set = (bitmap, last_set)"
| "fill_bitmap bits mx (seq # seqs) bitmap last_set =
     (let offset = unat (saturating_sub seq (mx + 1)) in
      if offset \<ge> bits then (bitmap, last_set)
      else fill_bitmap bits mx seqs (set_bit_at bitmap offset) (Some offset))"

definition ledger_seqs :: "string \<Rightarrow> db \<Rightarrow> u64 list" where
  "ledger_seqs rel_id db =
     sort_key sint (map snd (filter (\<lambda>r. fst r = rel_id) (db_inbound_seqs db)))"

definition view_of_seqs :: "nat \<Rightarrow> u64 list \<Rightarrow> receive_view_t" where
  "view_of_seqs bits seqs =
     (let (mx, rest) = horizon_walk 0 seqs;
          (bitmap, last_set) = fill_bitmap bits mx rest (replicate ((bits + 7) div 8) 0) None
      in \<lparr>rv_max_contiguous_seq = mx,
          rv_bitmap = take (case last_set of None \<Rightarrow> 0 | Some i \<Rightarrow> i div 8 + 1) bitmap\<rparr>)"

definition receive_view :: "string \<Rightarrow> nat \<Rightarrow> db \<Rightarrow> receive_view_t" where
  "receive_view rel_id bits db = view_of_seqs bits (take VIEW_SCAN_LIMIT (ledger_seqs rel_id db))"

definition deep_seqs :: "string \<Rightarrow> u64 \<Rightarrow> u64 \<Rightarrow> db \<Rightarrow> u64 list" where
  "deep_seqs rel_id base mx db =
     filter (\<lambda>q. i64_le base q \<and> i64_le q mx) (ledger_seqs rel_id db)"

definition outbound_window :: "string \<Rightarrow> u64 \<Rightarrow> u32 \<Rightarrow> db \<Rightarrow> message_row list" where
  "outbound_window rel_id after window db =
     sort_key (\<lambda>r. sint (m_app_seq r))
       (filter (\<lambda>r. m_rel_id r = rel_id \<and> m_direction r = Out \<and>
                   i64_lt after (m_app_seq r) \<and> i64_le (m_app_seq r) (after + ucast window))
         (db_messages db))"

definition unacked_outbound :: "string \<Rightarrow> u64 \<Rightarrow> db \<Rightarrow> message_row list" where
  "unacked_outbound rel_id through db =
     sort_key (\<lambda>r. sint (m_app_seq r))
       (filter (\<lambda>r. m_rel_id r = rel_id \<and> m_direction r = Out \<and> i64_le (m_app_seq r) through \<and>
                   (m_state r = Queued \<or> m_state r = Transmitted))
         (db_messages db))"

section \<open>Settings\<close>

definition key_close_started_at :: "string \<Rightarrow> string" where
  "key_close_started_at rel_id = ''close_started_at:'' @ rel_id"

definition key_resync_req_at :: "string \<Rightarrow> string" where
  "key_resync_req_at rel_id = ''resync_req_at:'' @ rel_id"

definition key_activation_sent :: "string \<Rightarrow> string" where
  "key_activation_sent rel_id = ''activation_sent:'' @ rel_id"

definition key_out_seq_floor :: "string \<Rightarrow> string" where
  "key_out_seq_floor rel_id = ''out_seq_floor:'' @ rel_id"

definition set_setting :: "string \<Rightarrow> bytes \<Rightarrow> db \<Rightarrow> db" where
  "set_setting key v db = db\<lparr>db_settings := (db_settings db)(key \<mapsto> v)\<rparr>"

definition setting :: "string \<Rightarrow> db \<Rightarrow> bytes option" where
  "setting key db = db_settings db key"

definition delete_setting :: "string \<Rightarrow> db \<Rightarrow> bool \<times> db" where
  "delete_setting key db =
     (db_settings db key \<noteq> None, db\<lparr>db_settings := (db_settings db)(key := None)\<rparr>)"

definition get_bool :: "string \<Rightarrow> db \<Rightarrow> store_error + bool option" where
  "get_bool key db =
     (case setting key db of
        None \<Rightarrow> Ok None
      | Some v \<Rightarrow>
          if v = [0x31] then Ok (Some True)
          else if v = [0x30] then Ok (Some False)
          else Err (Corrupt (''bool setting '' @ key)))"

definition set_bool :: "string \<Rightarrow> bool \<Rightarrow> db \<Rightarrow> db" where
  "set_bool key v db = set_setting key (if v then [0x31] else [0x30]) db"

definition get_u64 :: "string \<Rightarrow> db \<Rightarrow> store_error + u64 option" where
  "get_u64 key db =
     (case setting key db of
        None \<Rightarrow> Ok None
      | Some v \<Rightarrow>
          if length v = 8 then Ok (Some (of_nat (of_be v)))
          else Err (Corrupt (''u64 setting '' @ key)))"

definition set_u64 :: "string \<Rightarrow> u64 \<Rightarrow> db \<Rightarrow> db" where
  "set_u64 key v db = set_setting key (be64 v) db"

text \<open>The lenient read of a stored time or counter: anything but eight bytes counts as absent.\<close>

definition setting_u64_or :: "u64 \<Rightarrow> string \<Rightarrow> db \<Rightarrow> u64" where
  "setting_u64_or d key db =
     (case setting key db of
        None \<Rightarrow> d
      | Some v \<Rightarrow> if length v = 8 then of_nat (of_be v) else d)"

section \<open>Sequence numbers, edits and erasure\<close>

definition max_out_seq :: "string \<Rightarrow> db \<Rightarrow> u64 option" where
  "max_out_seq rel_id db =
     (case filter (\<lambda>r. m_rel_id r = rel_id \<and> m_direction r = Out) (db_messages db) of
        [] \<Rightarrow> None
      | r # rs \<Rightarrow> Some (foldl (\<lambda>a r. i64_max a (m_app_seq r)) (m_app_seq r) rs))"

definition next_out_seq :: "string \<Rightarrow> db \<Rightarrow> u64 \<times> db" where
  "next_out_seq rel_id db =
     (let from_ledger = (case max_out_seq rel_id db of None \<Rightarrow> 1 | Some v \<Rightarrow> v + 1);
          key = key_out_seq_floor rel_id;
          floor = setting_u64_or 1 key db;
          nxt = max from_ledger floor
      in (nxt, set_setting key (be64 (saturating_add nxt 1)) db))"

definition mark_edited :: "bytes \<Rightarrow> bytes \<Rightarrow> u64 \<Rightarrow> db \<Rightarrow> bool \<times> db" where
  "mark_edited msg_id payload edit_seq db =
     (let P = (\<lambda>r. m_msg_id r = msg_id \<and> \<not> m_tombstone r) in
      (any_row P (db_messages db),
       db\<lparr>db_messages := update_where P
            (\<lambda>r. r\<lparr>m_payload := payload, m_edited := True, m_edit_count := m_edit_count r + 1,
                  m_last_edit_seq := edit_seq\<rparr>) (db_messages db)\<rparr>))"

definition mark_tombstoned :: "bytes \<Rightarrow> db \<Rightarrow> bool \<times> db" where
  "mark_tombstoned msg_id db =
     (any_row (\<lambda>r. m_msg_id r = msg_id) (db_messages db),
      db\<lparr>db_messages := update_where (\<lambda>r. m_msg_id r = msg_id)
           (\<lambda>r. r\<lparr>m_payload := [], m_tombstone := True\<rparr>) (db_messages db)\<rparr>)"

definition tombstone_thread :: "string \<Rightarrow> db \<Rightarrow> nat \<times> db" where
  "tombstone_thread rel_id db =
     (let P = (\<lambda>r. m_rel_id r = rel_id \<and> \<not> m_tombstone r) in
      (length (filter P (db_messages db)),
       db\<lparr>db_messages := update_where P (\<lambda>r. r\<lparr>m_payload := [], m_tombstone := True\<rparr>)
            (db_messages db)\<rparr>))"

definition mark_read :: "bytes \<Rightarrow> u64 \<Rightarrow> db \<Rightarrow> bool \<times> db" where
  "mark_read msg_id read_at db =
     (let P = (\<lambda>r. m_msg_id r = msg_id \<and> m_direction r = Out \<and> m_read_at r = None) in
      (any_row P (db_messages db),
       db\<lparr>db_messages := update_where P (\<lambda>r. r\<lparr>m_read_at := Some read_at\<rparr>) (db_messages db)\<rparr>))"

definition erase_history :: "string \<Rightarrow> bytes list \<Rightarrow> db \<Rightarrow> nat \<times> db" where
  "erase_history rel_id keep db =
     (let P = (\<lambda>r. m_rel_id r = rel_id \<and> m_msg_id r \<notin> set keep);
          n = length (filter P (db_messages db));
          db = db\<lparr>db_messages := filter (\<lambda>r. \<not> P r) (db_messages db)\<rparr>;
          db = db\<lparr>db_ciphertexts := filter (\<lambda>c. ct_rel_id c \<noteq> rel_id \<or> has_ledger_row db (ct_msg_id c))
                                     (db_ciphertexts db)\<rparr>
      in (n, db))"

section \<open>Inbound sequence log\<close>

definition has_inbound_seq :: "string \<Rightarrow> u64 \<Rightarrow> db \<Rightarrow> bool" where
  "has_inbound_seq rel_id app_seq db = ((rel_id, app_seq) \<in> set (db_inbound_seqs db))"

definition note_inbound_seq :: "string \<Rightarrow> u64 \<Rightarrow> db \<Rightarrow> bool \<times> db" where
  "note_inbound_seq rel_id app_seq db =
     (if has_inbound_seq rel_id app_seq db then (False, db)
      else (True, db\<lparr>db_inbound_seqs := db_inbound_seqs db @ [(rel_id, app_seq)]\<rparr>))"

section \<open>Outbox\<close>

definition outbox_entry :: "u64 \<Rightarrow> bytes \<Rightarrow> string \<Rightarrow> bytes \<Rightarrow> u64 \<Rightarrow> outbox_row" where
  "outbox_entry now msg_id rel_id record ttl_secs =
     \<lparr>ob_msg_id = msg_id, ob_rel_id = rel_id, ob_record = record, ob_attempts = 0,
      ob_next_attempt_at = now, ob_expires_at = now + ttl_secs, ob_created_at = now\<rparr>"

definition enqueue :: "u64 \<Rightarrow> bytes \<Rightarrow> string \<Rightarrow> bytes \<Rightarrow> u64 \<Rightarrow> db \<Rightarrow> store_error + db" where
  "enqueue now msg_id rel_id record ttl_secs db =
     (if any_row (\<lambda>r. ob_msg_id r = msg_id) (db_outbox db) then Err (Sqlite UniqueViolation)
      else Ok (db\<lparr>db_outbox := db_outbox db @ [outbox_entry now msg_id rel_id record ttl_secs]\<rparr>))"

definition requeue :: "u64 \<Rightarrow> bytes \<Rightarrow> string \<Rightarrow> bytes \<Rightarrow> u64 \<Rightarrow> db \<Rightarrow> db" where
  "requeue now msg_id rel_id record ttl_secs db =
     db\<lparr>db_outbox := filter (\<lambda>r. ob_msg_id r \<noteq> msg_id) (db_outbox db) @
                     [outbox_entry now msg_id rel_id record ttl_secs]\<rparr>"

definition due :: "u64 \<Rightarrow> nat \<Rightarrow> db \<Rightarrow> outbox_row list" where
  "due now limit db =
     take limit (sort_key (\<lambda>r. sint (ob_next_attempt_at r))
       (filter (\<lambda>r. i64_le (ob_next_attempt_at r) now) (db_outbox db)))"

definition note_attempt :: "u64 \<Rightarrow> bytes \<Rightarrow> u64 \<Rightarrow> db \<Rightarrow> db" where
  "note_attempt now msg_id backoff_secs db =
     db\<lparr>db_outbox := update_where (\<lambda>r. ob_msg_id r = msg_id)
          (\<lambda>r. r\<lparr>ob_attempts := ob_attempts r + 1, ob_next_attempt_at := now + backoff_secs\<rparr>)
          (db_outbox db)\<rparr>"

definition dequeue :: "bytes \<Rightarrow> db \<Rightarrow> outbox_row option \<times> db" where
  "dequeue msg_id db =
     (case find (\<lambda>r. ob_msg_id r = msg_id) (db_outbox db) of
        None \<Rightarrow> (None, db)
      | Some r \<Rightarrow> (Some r, db\<lparr>db_outbox := filter (\<lambda>r. ob_msg_id r \<noteq> msg_id) (db_outbox db)\<rparr>))"

definition fail_expired :: "u64 \<Rightarrow> db \<Rightarrow> outbox_row list \<times> db" where
  "fail_expired now db =
     (filter (\<lambda>r. i64_le (ob_expires_at r) now) (db_outbox db),
      db\<lparr>db_outbox := filter (\<lambda>r. \<not> i64_le (ob_expires_at r) now) (db_outbox db)\<rparr>)"

definition queued_len :: "db \<Rightarrow> nat" where
  "queued_len db = length (db_outbox db)"

definition fail_relationship_outbound :: "string \<Rightarrow> db \<Rightarrow> nat \<times> db" where
  "fail_relationship_outbound rel_id db =
     (let P = (\<lambda>r. m_rel_id r = rel_id \<and> m_direction r = Out \<and>
                   (m_state r = Queued \<or> m_state r = Transmitted)) in
      (length (filter P (db_messages db)),
       db\<lparr>db_messages := update_where P (\<lambda>r. r\<lparr>m_state := Failed\<rparr>) (db_messages db),
          db_outbox := filter (\<lambda>r. ob_rel_id r \<noteq> rel_id) (db_outbox db)\<rparr>))"

section \<open>Tombstones\<close>

definition TOMBSTONE_TTL_SEC :: u64 where "TOMBSTONE_TTL_SEC = 86400"

definition add_tombstone :: "u64 \<Rightarrow> string \<Rightarrow> bytes \<Rightarrow> db \<Rightarrow> db" where
  "add_tombstone now rel_id ref_id db =
     (let expiry = now + TOMBSTONE_TTL_SEC;
          P = (\<lambda>t. ts_rel_id t = rel_id \<and> ts_ref_id t = ref_id) in
      if any_row P (db_tombstones db)
      then db\<lparr>db_tombstones := update_where P (\<lambda>t. t\<lparr>ts_expiry := expiry\<rparr>) (db_tombstones db)\<rparr>
      else db\<lparr>db_tombstones := db_tombstones db @
                [\<lparr>ts_rel_id = rel_id, ts_ref_id = ref_id, ts_expiry = expiry\<rparr>]\<rparr>)"

definition is_tombstoned :: "u64 \<Rightarrow> string \<Rightarrow> bytes \<Rightarrow> db \<Rightarrow> bool" where
  "is_tombstoned now rel_id ref_id db =
     any_row (\<lambda>t. ts_rel_id t = rel_id \<and> ts_ref_id t = ref_id \<and> i64_lt now (ts_expiry t))
       (db_tombstones db)"

text \<open>Entries of equal expiry, whose order SQL leaves open, count as ordered by insertion.\<close>

definition prune_tombstones :: "u64 \<Rightarrow> string \<Rightarrow> db \<Rightarrow> nat \<times> db" where
  "prune_tombstones now rel_id db =
     (let all = db_tombstones db;
          live = filter (\<lambda>t. \<not> (ts_rel_id t = rel_id \<and> i64_le (ts_expiry t) now)) all;
          ranked = sort_key (\<lambda>t. - sint (ts_expiry t)) (filter (\<lambda>t. ts_rel_id t = rel_id) live);
          over = map ts_ref_id (drop TOMBSTONE_CAP ranked);
          kept = filter (\<lambda>t. \<not> (ts_rel_id t = rel_id \<and> ts_ref_id t \<in> set over)) live
      in (length all - length kept, db\<lparr>db_tombstones := kept\<rparr>))"

definition tombstone_count :: "string \<Rightarrow> db \<Rightarrow> nat" where
  "tombstone_count rel_id db = length (filter (\<lambda>t. ts_rel_id t = rel_id) (db_tombstones db))"

section \<open>Relationship rows\<close>

definition update_rel :: "string \<Rightarrow> (rel_row \<Rightarrow> rel_row) \<Rightarrow> db \<Rightarrow> db" where
  "update_rel rel_id f db =
     db\<lparr>db_rels := map (\<lambda>(k, row). (k, if k = rel_id then f row else row)) (db_rels db)\<rparr>"

definition history_cut :: "string \<Rightarrow> db \<Rightarrow> u64" where
  "history_cut rel_id db = (case rel_of rel_id db of None \<Rightarrow> 0 | Some r \<Rightarrow> rel_history_cut_seq r)"

definition raise_history_cut :: "string \<Rightarrow> u64 \<Rightarrow> db \<Rightarrow> db" where
  "raise_history_cut rel_id seq =
     update_rel rel_id (\<lambda>r. r\<lparr>rel_history_cut_seq := i64_max (rel_history_cut_seq r) seq\<rparr>)"

definition close_state :: "string \<Rightarrow> db \<Rightarrow> string option" where
  "close_state rel_id db = (case rel_of rel_id db of None \<Rightarrow> None | Some r \<Rightarrow> rel_close_state r)"

section \<open>Identifiers and search\<close>

lemma find_snoc:
  "find P (xs @ [x]) = (case find P xs of Some y \<Rightarrow> Some y | None \<Rightarrow> if P x then Some x else None)"
  by (induction xs) auto

lemma map_update_where: "(\<And>r. g (f r) = g r) \<Longrightarrow> map g (update_where P f rows) = map g rows"
  by (simp add: update_where_def)

lemma set_update_where: "set (update_where P f rows) = (\<lambda>r. if P r then f r else r) ` set rows"
  by (simp add: update_where_def)

lemma update_rel_tables [simp]:
  "db_messages (update_rel rel_id f db) = db_messages db"
  "db_outbox (update_rel rel_id f db) = db_outbox db"
  "db_inbound_seqs (update_rel rel_id f db) = db_inbound_seqs db"
  by (simp_all add: update_rel_def)

lemma rel_of_update_rel:
  "rel_of x (update_rel rel_id f db) = (if x = rel_id then map_option f (rel_of x db) else rel_of x db)"
proof -
  have "map_of (map (\<lambda>(k, row). (k, if k = rel_id then f row else row)) rows) x =
      (if x = rel_id then map_option f (map_of rows x) else map_of rows x)" for rows
    by (induction rows) auto
  then show ?thesis by (simp add: rel_of_def update_rel_def)
qed

lemma radix16_pair_digit:
  assumes "hi < 16" "lo < 16"
  shows "radix16_pair (hex_digit hi) (hex_digit lo) = Ok (of_nat (hi * 16 + lo))"
proof -
  have "\<forall>n \<in> set [0..<16]. digit_value (hex_digit n) = Some n \<and> hex_digit n \<noteq> CHR ''+''"
    by code_simp
  then show ?thesis using assms by (simp add: radix16_pair_def)
qed

lemma unat_low_nibble: "unat (b AND 0x0f) = unat b mod 16" for b :: u8
proof -
  have "b AND 0x0f = take_bit 4 b" by (simp add: take_bit_eq_mask mask_eq_exp_minus_1)
  then show ?thesis by (simp add: take_bit_eq_mod unat_mod)
qed

lemma unat_high_nibble: "unat (drop_bit 4 b) = unat b div 16" for b :: u8
  by (simp add: drop_bit_eq_div unat_div)

lemma hex_pairs_encode: "hex_pairs (hex_encode bs) = Ok bs"
proof (induction bs)
  case Nil
  then show ?case by (simp add: hex_encode_def)
next
  case (Cons b bs)
  have "unat b div 16 < 16" using unat_u8_less [of b] by linarith
  then have "radix16_pair (hex_digit (unat b div 16)) (hex_digit (unat b mod 16)) = Ok b"
    by (subst radix16_pair_digit) auto
  with Cons show ?case by (simp add: hex_encode_def unat_low_nibble unat_high_nibble)
qed

lemma length_hex_encode: "length (hex_encode bs) = 2 * length bs"
  by (induction bs) (simp_all add: hex_encode_def)

text \<open>
  Identifiers survive their text form. Every byte string is read back from its hex text,
  and the reader of 16-byte identifiers accepts exactly the texts of 16-byte identifiers
  among them.
\<close>

lemma id_text_roundtrip:
  "hex_decode (hex_encode bs) = Ok bs \<and>
   parse_id16 (hex_encode bs) at =
     (if length bs = 16 then Ok bs else Err (Corrupt (at @ '': not 16 bytes'')))"
  by (simp add: parse_id16_def hex_decode_def hex_pairs_encode length_hex_encode)

end
