(* ===== verification/Session.thy ===== *)
theory Session
  imports Store Frame
begin

text \<open>
  The session layer of \<^verbatim>\<open>crates/core/src/session/mod.rs\<close> and \<^verbatim>\<open>session/error.rs\<close>:
  the broken-session gate, the one-ciphertext-per-message cache, the replay cache of
  inbound frames and the classification of failures of the ratchet library. The library
  itself is a parameter: functions that map the ratchet state and the input to a result
  and a new ratchet state. SHA-256 is a parameter too.
\<close>

section \<open>Errors\<close>

datatype session_error =
    Broken string
  | Duplicate
  | Malformed string
  | NoSession
  | SessionTooLarge nat nat
  | MsgIdConflict
  | SessionStore store_error

text \<open>
  The failures of the ratchet library that the source tells apart; the strings are the
  texts the source formats into its own errors.
\<close>

datatype signal_error =
    DuplicatedMessage
  | InvalidMessage string string
  | InvalidSessionStructure string
  | UntrustedIdentity string
  | InvalidKeyAgreement
  | SignatureValidationFailed
  | SessionNotFound string
  | InvalidRegistrationId string string
  | InvalidAnyPreKeyId string
  | GarbledCiphertext string
  | OtherSignalError string

text \<open>
  \<open>InvalidAnyPreKeyId\<close> stands for the three pre-key id errors, \<open>GarbledCiphertext\<close> for
  the eight encoding errors, \<open>OtherSignalError\<close> for the remaining ones, store failures
  included. The result is never \<open>None\<close>; the callers' branches for that case are kept.
\<close>

fun classify_signal_error :: "signal_error \<Rightarrow> session_error option" where
  "classify_signal_error DuplicatedMessage = Some Duplicate"
| "classify_signal_error (InvalidMessage t d) =
     Some (Broken (''invalid '' @ t @ '' message: '' @ d))"
| "classify_signal_error (InvalidSessionStructure d) = Some (Broken (''invalid session: '' @ d))"
| "classify_signal_error (UntrustedIdentity a) = Some (Broken (''untrusted identity '' @ a))"
| "classify_signal_error InvalidKeyAgreement = Some (Broken ''invalid key agreement'')"
| "classify_signal_error SignatureValidationFailed = Some (Broken ''signature validation failed'')"
| "classify_signal_error (SessionNotFound d) = Some (Broken (''peer has session, we don't: '' @ d))"
| "classify_signal_error (InvalidRegistrationId addr i) =
     Some (Broken (''invalid registration id '' @ i @ '' for '' @ addr))"
| "classify_signal_error (InvalidAnyPreKeyId d) = Some (Broken (''pre-key id unknown: '' @ d))"
| "classify_signal_error (GarbledCiphertext d) = Some (Malformed d)"
| "classify_signal_error (OtherSignalError d) = Some (Broken d)"

section \<open>Session state\<close>

datatype session_state = SS_None | SS_Active | SS_Broken

definition session_state :: "string \<Rightarrow> db \<Rightarrow> session_state" where
  "session_state rel_id db =
     (case rel_of rel_id db of
        None \<Rightarrow> SS_None
      | Some r \<Rightarrow> if rel_session_state r = ''broken'' then SS_Broken else SS_Active)"

definition mark_broken :: "string \<Rightarrow> db \<Rightarrow> db" where
  "mark_broken rel_id db =
     snd (fail_relationship_outbound rel_id
           (update_rel rel_id (\<lambda>r. r\<lparr>rel_session_state := ''broken''\<rparr>) db))"

section \<open>Ciphertext cache\<close>

definition stored_ciphertext :: "string \<Rightarrow> bytes \<Rightarrow> db \<Rightarrow> bytes option" where
  "stored_ciphertext rel_id msg_id db =
     map_option ct_frame
       (find (\<lambda>c. ct_msg_id c = msg_id \<and> ct_rel_id c = rel_id) (db_ciphertexts db))"

definition TAG_SIGNAL :: u8 where "TAG_SIGNAL = 2"

definition TAG_PREKEY :: u8 where "TAG_PREKEY = 3"

text \<open>
  What the library returns on encryption: one of the two message kinds that go on the
  wire, or another kind, with its serialisation.
\<close>

datatype ciphertext_kind = SignalMessage | PreKeySignalMessage | OtherMessage string

type_synonym 'r lib_encrypt =
  "'r \<Rightarrow> string \<Rightarrow> bytes \<Rightarrow> (signal_error + (ciphertext_kind \<times> bytes)) \<times> 'r"

definition encrypt ::
    "'r lib_encrypt \<Rightarrow> string \<Rightarrow> bytes \<Rightarrow> bytes \<Rightarrow> 'r \<times> db \<Rightarrow> (session_error + bytes) \<times> 'r \<times> db" where
  "encrypt lib rel_id msg_id plaintext st =
     (let (r, db) = st in
      if length plaintext > MAX_ENVELOPE_BYTES
      then (Err (SessionTooLarge (length plaintext) MAX_ENVELOPE_BYTES), r, db)
      else case session_state rel_id db of
        SS_Broken \<Rightarrow> (Err (Broken ''relationship is broken''), r, db)
      | SS_None \<Rightarrow> (Err NoSession, r, db)
      | SS_Active \<Rightarrow>
          (case find (\<lambda>c. ct_msg_id c = msg_id) (db_ciphertexts db) of
             Some c \<Rightarrow> (if ct_rel_id c \<noteq> rel_id then Err MsgIdConflict else Ok (ct_frame c), r, db)
           | None \<Rightarrow>
               (case lib r rel_id plaintext of
                  (Inl e, r) \<Rightarrow>
                    (case classify_signal_error e of
                       Some (Broken reason) \<Rightarrow> (Err (Broken reason), r, mark_broken rel_id db)
                     | Some other \<Rightarrow> (Err other, r, db)
                     | None \<Rightarrow> (Err (Malformed ''unclassified''), r, db))
                | (Inr (OtherMessage k, _), r) \<Rightarrow>
                    (Err (Malformed (''unexpected ciphertext type '' @ k)), r, db)
                | (Inr (kind, body), r) \<Rightarrow>
                    (let frame = (if kind = SignalMessage then TAG_SIGNAL else TAG_PREKEY) # body
                     in (Ok frame, r,
                         db\<lparr>db_ciphertexts := db_ciphertexts db @
                              [\<lparr>ct_msg_id = msg_id, ct_rel_id = rel_id, ct_frame = frame\<rparr>]\<rparr>)))))"

section \<open>Inbound frames\<close>

definition is_known_inbound_frame :: "(bytes \<Rightarrow> bytes) \<Rightarrow> string \<Rightarrow> bytes \<Rightarrow> db \<Rightarrow> bool" where
  "is_known_inbound_frame sha256 rel_id frame db =
     any_row (\<lambda>f. if_rel_id f = rel_id \<and> if_hash f = sha256 frame) (db_inbound_frames db)"

definition note_inbound_frame :: "(bytes \<Rightarrow> bytes) \<Rightarrow> u64 \<Rightarrow> string \<Rightarrow> bytes \<Rightarrow> db \<Rightarrow> db" where
  "note_inbound_frame sha256 now rel_id frame db =
     (if is_known_inbound_frame sha256 rel_id frame db then db
      else db\<lparr>db_inbound_frames := db_inbound_frames db @
             [\<lparr>if_rel_id = rel_id, if_hash = sha256 frame,
               if_expires_at = now + of_int INBOUND_FRAME_TTL_SECS\<rparr>]\<rparr>)"

definition parse_frame :: "bytes \<Rightarrow> session_error + (u8 \<times> bytes)" where
  "parse_frame frame =
     (case frame of
        [] \<Rightarrow> Err (Malformed ''empty frame'')
      | tag # rest \<Rightarrow>
          if tag = TAG_SIGNAL \<or> tag = TAG_PREKEY then Ok (tag, rest)
          else Err (Malformed (''unknown ciphertext tag 0x'' @ show_hex_byte tag)))"

text \<open>
  Decryption by the library: parsing the body may fail, with the text of its error, before
  the ratchet is touched.
\<close>

type_synonym 'r lib_decrypt =
  "'r \<Rightarrow> string \<Rightarrow> u8 \<Rightarrow> bytes \<Rightarrow> string + ((signal_error + bytes) \<times> 'r)"

definition finish_decrypt ::
    "string \<Rightarrow> signal_error + bytes \<Rightarrow> db \<Rightarrow> (session_error + bytes) \<times> db" where
  "finish_decrypt rel_id result db =
     (case result of
        Inr plaintext \<Rightarrow> (Ok plaintext, update_rel rel_id (\<lambda>r. r\<lparr>rel_intro_pending := False\<rparr>) db)
      | Inl e \<Rightarrow>
          (case classify_signal_error e of
             Some (Broken reason) \<Rightarrow> (Err (Broken reason), mark_broken rel_id db)
           | Some other \<Rightarrow> (Err other, db)
           | None \<Rightarrow> (Err (SessionStore (Corrupt ''unclassified'')), db)))"

definition decrypt ::
    "'r lib_decrypt \<Rightarrow> (bytes \<Rightarrow> bytes) \<Rightarrow> u64 \<Rightarrow> string \<Rightarrow> bytes \<Rightarrow> 'r \<times> db \<Rightarrow>
     (session_error + bytes) \<times> 'r \<times> db" where
  "decrypt lib sha256 now rel_id frame st =
     (let (r, db) = st in
      if session_state rel_id db = SS_Broken
      then (Err (Broken ''relationship is broken''), r, db)
      else if is_known_inbound_frame sha256 rel_id frame db then (Err Duplicate, r, db)
      else case parse_frame frame of
        Inl e \<Rightarrow> (Err e, r, db)
      | Inr (tag, rest) \<Rightarrow>
          (case lib r rel_id tag rest of
             Inl e \<Rightarrow> (Err (Malformed e), r, db)
           | Inr (result, r) \<Rightarrow>
               (case finish_decrypt rel_id result db of
                  (Inl e, db) \<Rightarrow> (Err e, r, db)
                | (Inr plaintext, db) \<Rightarrow>
                    (Ok plaintext, r, note_inbound_frame sha256 now rel_id frame db))))"

section \<open>Properties\<close>

lemma session_state_ciphertexts [simp]: "session_state x (db\<lparr>db_ciphertexts := cs\<rparr>) = session_state x db"
  by (simp add: session_state_def rel_of_def)

lemma session_state_frames [simp]: "session_state x (db\<lparr>db_inbound_frames := fs\<rparr>) = session_state x db"
  by (simp add: session_state_def rel_of_def)

lemma encrypt_Ok:
  assumes "encrypt lib rel_id msg_id plaintext (r, db) = (Ok frame, r1, db1)"
  shows "session_state rel_id db1 = SS_Active \<and>
    (\<exists>c. find (\<lambda>c. ct_msg_id c = msg_id) (db_ciphertexts db1) = Some c \<and> ct_rel_id c = rel_id \<and>
       ct_frame c = frame)"
proof (cases "find (\<lambda>c. ct_msg_id c = msg_id) (db_ciphertexts db)")
  case None
  with assms show ?thesis
    by (auto simp: encrypt_def Let_def find_snoc
        split: if_splits session_state.splits sum.splits prod.splits ciphertext_kind.splits
          option.splits session_error.splits)
next
  case (Some c)
  with assms show ?thesis
    by (auto simp: encrypt_def split: if_splits session_state.splits)
qed

lemma session_state_update_intro [simp]:
  "session_state x (update_rel rel_id (\<lambda>r. r\<lparr>rel_intro_pending := b\<rparr>) db) = session_state x db"
  by (auto simp: session_state_def rel_of_update_rel split: option.splits)

lemma frame_known_after_note: "is_known_inbound_frame sha256 rel_id frame (note_inbound_frame sha256 now rel_id frame db)"
  by (auto simp: note_inbound_frame_def is_known_inbound_frame_def any_row_def)

lemma session_state_note_frame [simp]:
  "session_state x (note_inbound_frame sha256 now rel_id frame db) = session_state x db"
  by (simp add: note_inbound_frame_def)

lemma session_state_mark_broken:
  "session_state x (mark_broken rel_id db) =
     (if x = rel_id \<and> session_state x db \<noteq> SS_None then SS_Broken else session_state x db)"
proof -
  have "session_state x (mark_broken rel_id db) =
      session_state x (update_rel rel_id (\<lambda>r. r\<lparr>rel_session_state := ''broken''\<rparr>) db)"
    by (simp add: session_state_def mark_broken_def fail_relationship_outbound_def rel_of_def Let_def)
  then show ?thesis by (auto simp: session_state_def rel_of_update_rel split: option.splits)
qed

lemma mark_broken_tables [simp]:
  "db_ciphertexts (mark_broken rel_id db) = db_ciphertexts db"
  "db_inbound_frames (mark_broken rel_id db) = db_inbound_frames db"
  by (simp_all add: mark_broken_def fail_relationship_outbound_def update_rel_def Let_def)

section \<open>Runs of the session layer\<close>

text \<open>
  The operations that read or write the session tables or the rows of the ledger they depend
  on: encryption, decryption, the insertion and deletion of a ledger row, the retention
  sweep and the erasure of a history.
\<close>

datatype session_op =
    OpEncrypt string bytes bytes
  | OpDecrypt u64 string bytes
  | OpInsert u64 new_message
  | OpDelete bytes
  | OpSweep u64
  | OpErase string "bytes list"

fun session_step ::
    "'r lib_encrypt \<Rightarrow> 'r lib_decrypt \<Rightarrow> (bytes \<Rightarrow> bytes) \<Rightarrow> session_op \<Rightarrow> 'r \<times> db \<Rightarrow>
     (session_error + bytes) \<times> 'r \<times> db" where
  "session_step enc dec sha256 (OpEncrypt rel_id msg_id plaintext) st = encrypt enc rel_id msg_id plaintext st"
| "session_step enc dec sha256 (OpDecrypt now rel_id frame) st = decrypt dec sha256 now rel_id frame st"
| "session_step enc dec sha256 (OpInsert now msg) (r, db) =
     (case insert_message now msg db of
        Inl e \<Rightarrow> (Err (SessionStore e), r, db)
      | Inr db' \<Rightarrow> (Ok [], r, db'))"
| "session_step enc dec sha256 (OpDelete msg_id) (r, db) = (Ok [], r, snd (delete_message msg_id db))"
| "session_step enc dec sha256 (OpSweep now) (r, db) = (Ok [], r, snd (messages_sweep_expired now db))"
| "session_step enc dec sha256 (OpErase rel_id keep) (r, db) = (Ok [], r, snd (erase_history rel_id keep db))"

fun session_run ::
    "'r lib_encrypt \<Rightarrow> 'r lib_decrypt \<Rightarrow> (bytes \<Rightarrow> bytes) \<Rightarrow> session_op list \<Rightarrow> 'r \<times> db \<Rightarrow>
     (session_error + bytes) list \<times> 'r \<times> db" where
  "session_run enc dec sha256 [] st = ([], st)"
| "session_run enc dec sha256 (op # ops) st =
     (let (result, st) = session_step enc dec sha256 op st;
          (results, st) = session_run enc dec sha256 ops st
      in (result # results, st))"

text \<open>What a step does to the three tables the session layer looks at.\<close>

lemma encrypt_effect:
  assumes "encrypt enc rel_id msg_id plaintext (r, db) = (res, r1, db1)"
  shows "db_inbound_frames db1 = db_inbound_frames db \<and>
    (db_ciphertexts db1 = db_ciphertexts db \<or>
     find (\<lambda>c. ct_msg_id c = msg_id) (db_ciphertexts db) = None \<and>
       (\<exists>frame. db_ciphertexts db1 = db_ciphertexts db @
          [\<lparr>ct_msg_id = msg_id, ct_rel_id = rel_id, ct_frame = frame\<rparr>])) \<and>
    (\<forall>x. session_state x db1 = session_state x db \<or> session_state x db1 = SS_Broken)"
  using assms
  by (auto simp: encrypt_def Let_def session_state_mark_broken
      split: if_splits session_state.splits option.splits sum.splits prod.splits ciphertext_kind.splits
        session_error.splits)

lemma finish_decrypt_cases:
  assumes "finish_decrypt rel_id result db = (res, db')"
  obtains "db' = db" | "db' = mark_broken rel_id db"
  | "db' = update_rel rel_id (\<lambda>r. r\<lparr>rel_intro_pending := False\<rparr>) db"
  using assms by (auto simp: finish_decrypt_def split: sum.splits option.splits session_error.splits)

lemma update_rel_session_tables [simp]:
  "db_ciphertexts (update_rel rel_id f db) = db_ciphertexts db"
  "db_inbound_frames (update_rel rel_id f db) = db_inbound_frames db"
  by (simp_all add: update_rel_def)

lemma finish_decrypt_effect:
  assumes "finish_decrypt rel_id result db = (res, db')"
  shows "db_inbound_frames db' = db_inbound_frames db \<and> db_ciphertexts db' = db_ciphertexts db \<and>
    (\<forall>x. session_state x db' = session_state x db \<or> session_state x db' = SS_Broken)"
  using assms by (cases rule: finish_decrypt_cases) (auto simp: session_state_mark_broken)

lemma decrypt_effect:
  assumes "decrypt dec sha256 now rel_id frame (r, db) = (res, r1, db1)"
  shows "db_ciphertexts db1 = db_ciphertexts db \<and>
    (db_inbound_frames db1 = db_inbound_frames db \<or>
     \<not> is_known_inbound_frame sha256 rel_id frame db \<and>
       db_inbound_frames db1 = db_inbound_frames db @
         [\<lparr>if_rel_id = rel_id, if_hash = sha256 frame, if_expires_at = now + of_int INBOUND_FRAME_TTL_SECS\<rparr>]) \<and>
    (\<forall>x. session_state x db1 = session_state x db \<or> session_state x db1 = SS_Broken)"
  using assms finish_decrypt_effect
  by (auto simp: decrypt_def note_inbound_frame_def is_known_inbound_frame_def
      split: if_splits sum.splits prod.splits) metis+

lemma ledger_effect:
  "session_state x (snd (messages_sweep_expired now db)) = session_state x db"
  "session_state x (snd (erase_history rel_id keep db)) = session_state x db"
  "session_state x (snd (delete_message msg_id db)) = session_state x db"
  "insert_message now msg db = Ok db' \<Longrightarrow> session_state x db' = session_state x db"
  by (auto simp: messages_sweep_expired_def erase_history_def delete_message_def insert_message_def Let_def
      session_state_def rel_of_def split: if_splits)

lemma ledger_tables:
  "db_ciphertexts (snd (delete_message msg_id db)) = db_ciphertexts db"
  "db_inbound_frames (snd (delete_message msg_id db)) = db_inbound_frames db"
  "db_inbound_frames (snd (erase_history rel_id keep db)) = db_inbound_frames db"
  "db_inbound_frames (snd (messages_sweep_expired now db)) =
     filter (\<lambda>f. \<not> i64_le (if_expires_at f) now) (db_inbound_frames db)"
  "db_ciphertexts (snd (messages_sweep_expired now db)) =
     filter (\<lambda>c. has_ledger_row (snd (messages_sweep_expired now db)) (ct_msg_id c)) (db_ciphertexts db)"
  "db_ciphertexts (snd (erase_history rel_id keep db)) =
     filter (\<lambda>c. ct_rel_id c \<noteq> rel_id \<or> has_ledger_row (snd (erase_history rel_id keep db)) (ct_msg_id c))
       (db_ciphertexts db)"
  by (simp_all add: delete_message_def erase_history_def messages_sweep_expired_def has_ledger_row_def Let_def)

lemma insert_tables:
  "insert_message now msg db = Ok db' \<Longrightarrow>
   db_ciphertexts db' = db_ciphertexts db \<and> db_inbound_frames db' = db_inbound_frames db"
  by (auto simp: insert_message_def split: if_splits)

lemma step_session_state:
  assumes "session_step enc dec sha256 op (r, db) = (res, r1, db1)"
  shows "session_state x db1 = session_state x db \<or> session_state x db1 = SS_Broken"
proof (cases op)
  case (OpEncrypt a b c)
  then show ?thesis using assms encrypt_effect by fastforce
next
  case (OpDecrypt a b c)
  then show ?thesis using assms decrypt_effect by fastforce
qed (use assms ledger_effect in \<open>auto split: sum.splits\<close>)

text \<open>An invariant of the steps is an invariant of the runs.\<close>

lemma session_run_invariant:
  assumes "session_run enc dec sha256 ops st = (results, st')" "I st"
    and "\<And>op st res st'. op \<in> set ops \<Longrightarrow> I st \<Longrightarrow> session_step enc dec sha256 op st = (res, st') \<Longrightarrow> I st'"
  shows "I st'"
  using assms
proof (induction ops arbitrary: st results)
  case (Cons op ops)
  obtain res st1 where step: "session_step enc dec sha256 op st = (res, st1)" by (metis surj_pair)
  then obtain results1 where run: "session_run enc dec sha256 ops st1 = (results1, st')"
    using Cons.prems(1) by (auto split: prod.splits)
  have "I st1" by (rule Cons.prems(3) [OF _ Cons.prems(2) step]) simp
  then show ?case using Cons.IH [OF run] Cons.prems(3) by (meson list.set_intros(2))
qed simp

subsection \<open>One ciphertext per message\<close>

definition ciphertext_cached :: "string \<Rightarrow> bytes \<Rightarrow> bytes \<Rightarrow> db \<Rightarrow> bool" where
  "ciphertext_cached rel_id msg_id frame db \<longleftrightarrow>
     session_state rel_id db \<noteq> SS_None \<and>
     find (\<lambda>c. ct_msg_id c = msg_id) (db_ciphertexts db) =
       Some \<lparr>ct_msg_id = msg_id, ct_rel_id = rel_id, ct_frame = frame\<rparr>"

text \<open>
  The sweep and the erasure of the relationship's history drop the ciphertext of a message
  that has no ledger row any more; the run must leave the row of this message through them.
\<close>

definition may_drop :: "string \<Rightarrow> session_op \<Rightarrow> bool" where
  "may_drop rel_id op = (case op of OpSweep _ \<Rightarrow> True | OpErase rel _ \<Rightarrow> rel = rel_id | _ \<Rightarrow> False)"

fun row_kept ::
    "'r lib_encrypt \<Rightarrow> 'r lib_decrypt \<Rightarrow> (bytes \<Rightarrow> bytes) \<Rightarrow> string \<Rightarrow> bytes \<Rightarrow> session_op list \<Rightarrow>
     'r \<times> db \<Rightarrow> bool" where
  "row_kept enc dec sha256 rel_id msg_id [] st = True"
| "row_kept enc dec sha256 rel_id msg_id (op # ops) st =
     (let st = snd (session_step enc dec sha256 op st) in
      (may_drop rel_id op \<longrightarrow> has_ledger_row (snd st) msg_id) \<and>
      row_kept enc dec sha256 rel_id msg_id ops st)"

lemma find_filter: "find P xs = Some x \<Longrightarrow> Q x \<Longrightarrow> find P (filter Q xs) = Some x"
  by (induction xs) (auto split: if_splits)

lemma find_append_Some: "find P xs = Some x \<Longrightarrow> find P (xs @ ys) = Some x"
  by (induction xs) auto

lemma cached_step:
  assumes "ciphertext_cached rel_id msg_id frame db" "session_step enc dec sha256 op (r, db) = (res, r1, db1)"
    and "may_drop rel_id op \<longrightarrow> has_ledger_row db1 msg_id"
  shows "ciphertext_cached rel_id msg_id frame db1"
proof -
  let ?c = "\<lparr>ct_msg_id = msg_id, ct_rel_id = rel_id, ct_frame = frame\<rparr>" and ?P = "\<lambda>c. ct_msg_id c = msg_id"
  have st: "session_state rel_id db1 \<noteq> SS_None" and c: "find ?P (db_ciphertexts db) = Some ?c"
    using assms(1) step_session_state [OF assms(2), of rel_id] by (auto simp: ciphertext_cached_def)
  have "find ?P (db_ciphertexts db1) = Some ?c"
  proof (cases op)
    case (OpEncrypt a b d)
    then show ?thesis using assms(2) encrypt_effect c find_append_Some by fastforce
  next
    case (OpDecrypt a b d)
    then show ?thesis using assms(2) decrypt_effect c by fastforce
  qed (use assms(2,3) c in \<open>auto simp: ledger_tables may_drop_def intro!: find_filter dest: insert_tables
        split: sum.splits\<close>)
  with st show ?thesis by (simp add: ciphertext_cached_def)
qed

lemma cached_run:
  assumes "session_run enc dec sha256 ops (r, db) = (results, r1, db1)" "ciphertext_cached rel_id msg_id frame db"
    and "row_kept enc dec sha256 rel_id msg_id ops (r, db)"
  shows "ciphertext_cached rel_id msg_id frame db1"
  using assms
proof (induction ops arbitrary: r db results)
  case (Cons op ops)
  obtain res r' db' where step: "session_step enc dec sha256 op (r, db) = (res, r', db')" by (metis prod_cases3)
  then have kept: "may_drop rel_id op \<longrightarrow> has_ledger_row db' msg_id"
      "row_kept enc dec sha256 rel_id msg_id ops (r', db')"
    using Cons.prems(3) by simp_all
  obtain results' where "session_run enc dec sha256 ops (r', db') = (results', r1, db1)"
    using Cons.prems(1) step by (auto split: prod.splits)
  from Cons.IH [OF this cached_step [OF Cons.prems(2) step kept(1)] kept(2)] show ?case .
qed simp

text \<open>
  C17: one ciphertext per message. After a message has been encrypted, and after any further
  encryptions, decryptions, ledger writes, sweeps and erasures that leave the ledger row of the
  message, encrypting under the same identifier and relationship never makes a second
  ciphertext: it returns the frame of the first time, whatever the plaintext within the size
  limit, unless the session has been broken meanwhile, and leaves the ratchet and the store
  alone. Beyond the size limit it is refused.
\<close>

theorem encrypt_once:
  assumes "encrypt enc rel_id msg_id plaintext (r, db) = (Ok frame, r1, db1)"
    and "session_run enc dec sha256 ops (r1, db1) = (results, r2, db2)"
    and "row_kept enc dec sha256 rel_id msg_id ops (r1, db1)"
  shows "encrypt enc rel_id msg_id plaintext2 (r2, db2) =
    (if length plaintext2 > MAX_ENVELOPE_BYTES then Err (SessionTooLarge (length plaintext2) MAX_ENVELOPE_BYTES)
     else if session_state rel_id db2 = SS_Broken then Err (Broken ''relationship is broken'')
     else Ok frame, r2, db2)"
proof -
  have "ciphertext_cached rel_id msg_id frame db1"
    using encrypt_Ok [OF assms(1)] by (auto simp: ciphertext_cached_def find_Some_iff)
  from cached_run [OF assms(2) this assms(3)] show ?thesis
    by (cases "session_state rel_id db2") (simp_all add: ciphertext_cached_def encrypt_def)
qed

subsection \<open>The replay cache\<close>

definition frame_noted :: "(bytes \<Rightarrow> bytes) \<Rightarrow> string \<Rightarrow> bytes \<Rightarrow> u64 \<Rightarrow> db \<Rightarrow> bool" where
  "frame_noted sha256 rel_id frame expiry db \<longleftrightarrow>
     filter (\<lambda>f. if_rel_id f = rel_id \<and> if_hash f = sha256 frame) (db_inbound_frames db) =
       [\<lparr>if_rel_id = rel_id, if_hash = sha256 frame, if_expires_at = expiry\<rparr>]"

lemma known_filter:
  "is_known_inbound_frame sha256 rel_id frame db \<longleftrightarrow>
     filter (\<lambda>f. if_rel_id f = rel_id \<and> if_hash f = sha256 frame) (db_inbound_frames db) \<noteq> []"
  by (simp add: is_known_inbound_frame_def any_row_def)

lemma noted_known: "frame_noted sha256 rel_id frame expiry db \<Longrightarrow> is_known_inbound_frame sha256 rel_id frame db"
  by (simp add: frame_noted_def known_filter)

lemma filter_swap: "filter P (filter Q xs) = filter Q (filter P xs)"
  by (simp add: conj_commute)

lemma noted_step:
  assumes "frame_noted sha256 rel_id frame expiry db" "session_step enc dec sha256 op (r, db) = (res, r1, db1)"
    and "\<forall>t. op = OpSweep t \<longrightarrow> \<not> i64_le expiry t"
  shows "frame_noted sha256 rel_id frame expiry db1"
proof (cases op)
  case (OpEncrypt a b c)
  then show ?thesis using assms(1,2) encrypt_effect unfolding frame_noted_def by fastforce
next
  case (OpDecrypt now rel f)
  with assms(2) have "decrypt dec sha256 now rel f (r, db) = (res, r1, db1)" by simp
  from decrypt_effect [OF this] assms(1) show ?thesis
    by (auto simp: frame_noted_def known_filter)
next
  case (OpSweep t)
  with assms show ?thesis
    by (auto simp: frame_noted_def ledger_tables filter_swap simp del: filter_filter)
qed (use assms(1,2) in \<open>auto simp: frame_noted_def ledger_tables dest: insert_tables split: sum.splits\<close>)

lemma decrypt_Ok:
  assumes "decrypt dec sha256 now rel_id frame (r, db) = (Ok plaintext, r1, db1)"
  shows "frame_noted sha256 rel_id frame (now + of_int INBOUND_FRAME_TTL_SECS) db1"
proof -
  have new: "\<not> is_known_inbound_frame sha256 rel_id frame db" using assms by (auto simp: decrypt_def split: if_splits)
  moreover have "is_known_inbound_frame sha256 rel_id frame db1"
    using assms by (auto simp: decrypt_def frame_known_after_note split: if_splits sum.splits prod.splits)
  ultimately show ?thesis
    using decrypt_effect [OF assms] by (auto simp: frame_noted_def known_filter)
qed

text \<open>
  C20: no frame is decrypted twice while it is remembered. After a frame has been decrypted, and
  after any further steps of the session layer whose sweeps come before its retention of
  24 hours is over, the same bytes on the same relationship are refused without a call of the
  library, as a duplicate or, when the session has been broken meanwhile, as broken; the ratchet and the
  store stay as they are. The first sweep at the end of the retention forgets the frame.
\<close>

theorem decrypt_once:
  assumes "decrypt dec sha256 now rel_id frame (r, db) = (Ok plaintext, r1, db1)"
    and "session_run enc dec sha256 ops (r1, db1) = (results, r2, db2)"
    and "\<forall>t. OpSweep t \<in> set ops \<longrightarrow> \<not> i64_le (now + of_int INBOUND_FRAME_TTL_SECS) t"
  shows "decrypt dec sha256 now2 rel_id frame (r2, db2) =
      (if session_state rel_id db2 = SS_Broken then Err (Broken ''relationship is broken'') else Err Duplicate,
       r2, db2) \<and>
    (i64_le (now + of_int INBOUND_FRAME_TTL_SECS) t \<longrightarrow>
       \<not> is_known_inbound_frame sha256 rel_id frame (snd (messages_sweep_expired t db2)))"
proof -
  let ?e = "now + of_int INBOUND_FRAME_TTL_SECS"
  have noted: "frame_noted sha256 rel_id frame ?e db2"
    using session_run_invariant [OF assms(2), where I = "\<lambda>(r, db). frame_noted sha256 rel_id frame ?e db"]
      decrypt_Ok [OF assms(1)] noted_step assms(3) by fastforce
  moreover have "i64_le ?e t \<longrightarrow> \<not> is_known_inbound_frame sha256 rel_id frame (snd (messages_sweep_expired t db2))"
    using noted unfolding known_filter ledger_tables filter_swap [of _ "\<lambda>f. \<not> i64_le (if_expires_at f) t"]
    by (simp add: frame_noted_def del: filter_filter)
  ultimately show ?thesis using noted_known by (auto simp: decrypt_def)
qed

subsection \<open>Broken sessions\<close>

text \<open>The relationship that an encryption or a decryption works on.\<close>

fun session_rel :: "session_op \<Rightarrow> string option" where
  "session_rel (OpEncrypt rel_id _ _) = Some rel_id"
| "session_rel (OpDecrypt _ rel_id _) = Some rel_id"
| "session_rel _ = None"

definition nothing_pending :: "string \<Rightarrow> db \<Rightarrow> bool" where
  "nothing_pending rel_id db \<longleftrightarrow>
     (\<forall>r \<in> set (db_messages db). m_rel_id r = rel_id \<and> m_direction r = Out \<longrightarrow>
        m_state r \<noteq> Queued \<and> m_state r \<noteq> Transmitted) \<and>
     (\<forall>row \<in> set (db_outbox db). ob_rel_id row \<noteq> rel_id)"

definition refused :: "session_error + bytes \<Rightarrow> bool" where
  "refused res \<longleftrightarrow> res = Err (Broken ''relationship is broken'') \<or> (\<exists>n. res = Err (SessionTooLarge n MAX_ENVELOPE_BYTES))"

lemma nothing_pending_broken: "nothing_pending rel_id (mark_broken rel_id db)"
  unfolding nothing_pending_def mark_broken_def fail_relationship_outbound_def update_where_def Let_def snd_conv
  by (simp add: ball_Un)

lemma break_step:
  assumes "session_step enc dec sha256 op (r, db) = (Err (Broken reason), r1, db1)" "session_rel op = Some rel_id"
    and "session_state rel_id db = SS_Active"
  shows "db1 = mark_broken rel_id db"
proof (cases op)
  case (OpEncrypt a b c)
  with assms show ?thesis
    by (auto simp: encrypt_def Let_def
        split: if_splits option.splits sum.splits prod.splits ciphertext_kind.splits session_error.splits)
next
  case (OpDecrypt a b c)
  with assms show ?thesis
    by (auto simp: decrypt_def finish_decrypt_def parse_frame_def
        split: if_splits list.splits option.splits sum.splits prod.splits session_error.splits)
qed (use assms(2) in simp_all)

lemma broken_step:
  assumes "session_state rel_id db = SS_Broken" "session_rel op = Some rel_id"
  shows "\<exists>res. session_step enc dec sha256 op (r, db) = (res, r, db) \<and> refused res"
  using assms by (cases op) (auto simp: encrypt_def decrypt_def refused_def)

lemma broken_stays:
  assumes "session_state rel_id db = SS_Broken" "session_step enc dec sha256 op (r, db) = (res, r1, db1)"
  shows "session_state rel_id db1 = SS_Broken"
  using step_session_state [OF assms(2), of rel_id] assms(1) by auto

lemma broken_run:
  assumes "session_run enc dec sha256 ops (r, db) = (results, r1, db1)" "session_state rel_id db = SS_Broken"
  shows "session_state rel_id db1 = SS_Broken \<and>
    list_all2 (\<lambda>op res. session_rel op = Some rel_id \<longrightarrow> refused res) ops results \<and>
    snd (session_run enc dec sha256 (filter (\<lambda>op. session_rel op \<noteq> Some rel_id) ops) (r, db)) = (r1, db1)"
  using assms
proof (induction ops arbitrary: r db results)
  case (Cons op ops)
  obtain res r' db' where step: "session_step enc dec sha256 op (r, db) = (res, r', db')" by (metis prod_cases3)
  then obtain results' where run: "session_run enc dec sha256 ops (r', db') = (results', r1, db1)"
      "results = res # results'"
    using Cons.prems(1) by (auto split: prod.splits)
  note IH = Cons.IH [OF run(1) broken_stays [OF Cons.prems(2) step]]
  show ?case
  proof (cases "session_rel op = Some rel_id")
    case True
    from broken_step [OF Cons.prems(2) this, of enc dec sha256 r] step have "r' = r" "db' = db" "refused res"
      by auto
    with IH run(2) True show ?thesis by simp
  next
    case False
    with IH run(2) step show ?thesis by (auto split: prod.splits)
  qed
qed simp

text \<open>
  C21: a broken session stays closed. The encryption or decryption in which the library reports a
  break leaves no outbound row of the relationship queued or transmitted and no outbox row, and
  marks the session. From then on, whatever steps of the session layer follow on this and on other
  relationships, the session stays broken, every encryption and decryption on it is refused,
  and none of them has any effect: the run ends in the same ratchet and the same store as it
  would without them.
\<close>

theorem broken_sessions_closed:
  assumes "session_step enc dec sha256 op (r, db) = (Err (Broken reason), r1, db1)"
    and "session_rel op = Some rel_id" "session_state rel_id db = SS_Active"
    and "session_run enc dec sha256 ops (r1, db1) = (results, r2, db2)"
  shows "nothing_pending rel_id db1 \<and> session_state rel_id db2 = SS_Broken \<and>
    list_all2 (\<lambda>op res. session_rel op = Some rel_id \<longrightarrow> refused res) ops results \<and>
    snd (session_run enc dec sha256 (filter (\<lambda>op. session_rel op \<noteq> Some rel_id) ops) (r1, db1)) = (r2, db2)"
proof -
  have "db1 = mark_broken rel_id db" by (rule break_step [OF assms(1-3)])
  then have "nothing_pending rel_id db1" "session_state rel_id db1 = SS_Broken"
    using assms(3) by (simp_all add: nothing_pending_broken session_state_mark_broken)
  then show ?thesis using broken_run [OF assms(4)] by blast
qed

text \<open>A library that answers every encryption with one block and every decryption with the body.\<close>

definition echo_encrypt :: "nat lib_encrypt" where
  "echo_encrypt r rel_id plaintext = (Ok (SignalMessage, [of_nat r]), r + 1)"

definition echo_decrypt :: "nat lib_decrypt" where
  "echo_decrypt r rel_id tag body = Ok (Ok body, r + 1)"

definition example_rel :: rel_row where
  "example_rel =
     \<lparr>policy_ttl_sec = 86400, policy_flags = 3, policy_wants = 31868, policy_pending = None,
      policy_last_sync_at = 0, rel_role = ''inviter'', rel_state = ''active'',
      rel_service_id = ''ours'', rel_onion = ''here'', rel_peer_onion = ''peer'',
      rel_peer_identity_key = [], rel_peer_client_auth_public = [], rel_our_client_auth_private = [],
      rel_our_nonce = replicate 32 1, rel_peer_nonce = replicate 32 2, rel_our_qr_bytes = [],
      rel_intro_pending = False, rel_session_state = ''active'', rel_created_at = 0,
      rel_peer_caps = 0, rel_close_state = None, rel_history_cut_seq = 0, rel_peer_prefs = None\<rparr>"

definition one_rel_db :: db where
  "one_rel_db = empty_db\<lparr>db_rels := [(''r'', example_rel)]\<rparr>"

lemma one_rel_active: "session_state ''r'' one_rel_db = SS_Active"
  by (simp add: session_state_def one_rel_db_def rel_of_def example_rel_def)

lemma one_rel_tables: "db_ciphertexts one_rel_db = []" "db_inbound_frames one_rel_db = []"
  by (simp_all add: one_rel_db_def empty_db_def)

text \<open>A device with a queued message, and a library that has lost the session.\<close>

definition queued_message :: new_message where
  "queued_message =
     \<lparr>n_msg_id = [1], n_rel_id = ''r'', n_direction = Out, n_app_seq = 1, n_sent_at = 5, n_received_at = None,
      n_env_type = 0, n_ref_id = None, n_payload = [5, 6], n_state = Queued, n_expires_at = Some 100\<rparr>"

definition lost_decrypt :: "nat lib_decrypt" where
  "lost_decrypt r rel_id tag body = Ok (Err (SessionNotFound ''r''), r + 1)"

definition queued_db :: db where
  "queued_db = one_rel_db\<lparr>
     db_messages := [new_row 5 queued_message],
     db_outbox := [\<lparr>ob_msg_id = [1], ob_rel_id = ''r'', ob_record = [0], ob_attempts = 0, ob_next_attempt_at = 0,
       ob_expires_at = 100, ob_created_at = 5\<rparr>],
     db_ciphertexts := [\<lparr>ct_msg_id = [1], ct_rel_id = ''r'', ct_frame = [2, 0]\<rparr>]\<rparr>"

theorem encrypt_once_witness:
  "\<exists>frame r db results r2 db2.
     encrypt echo_encrypt ''r'' [1] [5, 6] (0, one_rel_db) = (Ok frame, r, db) \<and>
     session_run echo_encrypt echo_decrypt id [OpInsert 5 queued_message, OpEncrypt ''r'' [2] [7], OpSweep 50]
       (r, db) = (results, r2, db2) \<and>
     encrypt echo_encrypt ''r'' [1] [7] (r2, db2) = (Ok frame, r2, db2)"
proof -
  let ?ops = "[OpInsert 5 queued_message, OpEncrypt ''r'' [2] [7], OpSweep 50]"
  obtain frame r db where e: "encrypt echo_encrypt ''r'' [1] [5, 6] (0, one_rel_db) = (Ok frame, r, db)"
    and db: "db = one_rel_db\<lparr>db_ciphertexts := [\<lparr>ct_msg_id = [1], ct_rel_id = ''r'', ct_frame = frame\<rparr>]\<rparr>"
    by (simp add: encrypt_def one_rel_active one_rel_tables echo_encrypt_def limit_defs Let_def)
  have m: "db_messages db = []" by (simp add: db one_rel_db_def empty_db_def)
  obtain results r2 db2 where run: "session_run echo_encrypt echo_decrypt id ?ops (r, db) = (results, r2, db2)"
    by (metis prod_cases3)
  have kept: "row_kept echo_encrypt echo_decrypt id ''r'' [1] ?ops (r, db)"
    by (simp add: may_drop_def insert_message_def m any_row_def encrypt_def limit_defs echo_encrypt_def Let_def
        messages_sweep_expired_def has_ledger_row_def new_row_def queued_message_def i64_le_def
        session_state_def rel_of_def db one_rel_db_def example_rel_def empty_db_def)
  have "session_state ''r'' db2 = SS_Active"
    using run
    by (auto simp: insert_message_def m any_row_def encrypt_def limit_defs echo_encrypt_def Let_def
        messages_sweep_expired_def session_state_def rel_of_def db one_rel_db_def example_rel_def
        split: if_splits)
  with encrypt_once [OF e run kept, of "[7]"] e run show ?thesis by (auto simp: limit_defs)
qed

theorem decrypt_once_witness:
  "\<exists>plaintext r db results r2 db2.
     decrypt echo_decrypt id 5 ''r'' [2, 8] (0, one_rel_db) = (Ok plaintext, r, db) \<and>
     session_run echo_encrypt echo_decrypt id [OpDecrypt 6 ''r'' [2, 9], OpSweep 1000] (r, db) = (results, r2, db2) \<and>
     fst (decrypt echo_decrypt id 2000 ''r'' [2, 8] (r2, db2)) = Err Duplicate \<and>
     \<not> is_known_inbound_frame id ''r'' [2, 8] (snd (messages_sweep_expired 86405 db2))"
proof -
  let ?ops = "[OpDecrypt 6 ''r'' [2, 9], OpSweep 1000]"
  obtain plaintext r db where
    d: "decrypt echo_decrypt id 5 ''r'' [2, 8] (0, one_rel_db) = (Ok plaintext, r, db)"
    by (simp add: decrypt_def one_rel_active echo_decrypt_def parse_frame_def TAG_SIGNAL_def
        finish_decrypt_def is_known_inbound_frame_def any_row_def one_rel_tables)
  obtain results r2 db2 where run: "session_run echo_encrypt echo_decrypt id ?ops (r, db) = (results, r2, db2)"
    by (metis prod_cases3)
  have "session_state ''r'' db = SS_Active"
    using d by (auto simp: decrypt_def one_rel_active echo_decrypt_def parse_frame_def TAG_SIGNAL_def
        finish_decrypt_def is_known_inbound_frame_def any_row_def one_rel_tables)
  then have "session_state ''r'' db2 = SS_Active"
    using run by (auto simp: decrypt_def echo_decrypt_def parse_frame_def TAG_SIGNAL_def finish_decrypt_def
        ledger_effect split: if_splits)
  moreover have "\<forall>t. OpSweep t \<in> set ?ops \<longrightarrow> \<not> i64_le (5 + of_int INBOUND_FRAME_TTL_SECS) t"
    by (simp add: i64_le_def limit_defs)
  moreover have "i64_le (5 + of_int INBOUND_FRAME_TTL_SECS) 86405" by (simp add: i64_le_def limit_defs)
  ultimately show ?thesis using decrypt_once [OF d run, of 2000 86405] d run by auto
qed

theorem broken_sessions_closed_witness:
  "\<exists>reason r1 db1 results r2 db2.
     session_step echo_encrypt lost_decrypt id (OpDecrypt 7 ''r'' [2, 8]) (0, queued_db) =
       (Err (Broken reason), r1, db1) \<and>
     session_run echo_encrypt lost_decrypt id [OpEncrypt ''r'' [1] [7], OpSweep 50, OpDecrypt 8 ''r'' [2, 8]] (r1, db1) =
       (results, r2, db2) \<and>
     \<not> nothing_pending ''r'' queued_db \<and> nothing_pending ''r'' db1 \<and> refused (results ! 0) \<and> refused (results ! 2)"
proof -
  let ?ops = "[OpEncrypt ''r'' [1] [7], OpSweep 50, OpDecrypt 8 ''r'' [2, 8]]"
  have active: "session_state ''r'' queued_db = SS_Active"
    by (simp add: session_state_def queued_db_def one_rel_db_def rel_of_def example_rel_def)
  have new: "\<not> is_known_inbound_frame id ''r'' [2, 8] queued_db"
    by (simp add: is_known_inbound_frame_def any_row_def queued_db_def one_rel_db_def empty_db_def)
  obtain reason r1 db1 where step: "session_step echo_encrypt lost_decrypt id (OpDecrypt 7 ''r'' [2, 8]) (0, queued_db) =
      (Err (Broken reason), r1, db1)"
    by (simp add: decrypt_def active new parse_frame_def TAG_SIGNAL_def lost_decrypt_def finish_decrypt_def)
  obtain results r2 db2 where run: "session_run echo_encrypt lost_decrypt id ?ops (r1, db1) = (results, r2, db2)"
    by (metis prod_cases3)
  have "\<not> nothing_pending ''r'' queued_db" by (simp add: nothing_pending_def queued_db_def)
  with broken_sessions_closed [OF step _ active run] step run show ?thesis
    by (auto simp: list_all2_Cons1)
qed

end
