(* ===== verification/Sync.thy ===== *)
theory Sync
  imports Session "HOL-Library.Multiset"
begin

text \<open>
  The sync layer, \<^verbatim>\<open>crates/core/src/sync/\<close>: the resynchronisation request and its
  handling, the delivery state machine of outbound rows, the timestamp clamp, the
  transport-free drain and the ingest of an envelope into the ledger. SHA-256, the
  normalisation of names and the send sink are parameters.
\<close>

section \<open>Errors and delivery transitions\<close>

definition MESSAGE_TTL_SECS :: u64 where "MESSAGE_TTL_SECS = 86400"

datatype sync_error =
    SyncStore store_error
  | SyncSession session_error
  | SyncWire wire_error
  | FutureTimestamp u64 u64
  | BadTransition delivery_state delivery_state
  | SendFailed string

definition legal_transition :: "delivery_state \<Rightarrow> delivery_state \<Rightarrow> bool" where
  "legal_transition from to \<longleftrightarrow>
     (from, to) \<in> {(Queued, Transmitted), (Queued, Acknowledged), (Transmitted, Acknowledged),
                   (Transmitted, Transmitted), (Queued, Failed), (Transmitted, Failed)}"

definition transition :: "bytes \<Rightarrow> delivery_state \<Rightarrow> db \<Rightarrow> sync_error + db" where
  "transition msg_id to db =
     (case message msg_id db of
        None \<Rightarrow> Err (SyncStore (Corrupt ''transition on unknown msg_id''))
      | Some row \<Rightarrow>
          if \<not> legal_transition (m_state row) to then Err (BadTransition (m_state row) to)
          else Ok (snd (set_delivery msg_id to db)))"

definition mark_transmitted :: "bytes \<Rightarrow> db \<Rightarrow> sync_error + db" where
  "mark_transmitted msg_id db = transition msg_id Transmitted db"

definition mark_acknowledged :: "bytes \<Rightarrow> db \<Rightarrow> sync_error + db" where
  "mark_acknowledged msg_id db = transition msg_id Acknowledged db"

section \<open>Backoff and drain\<close>

definition BACKOFF_BASE_SECS :: u64 where "BACKOFF_BASE_SECS = 5"

definition BACKOFF_CAP_SECS :: u64 where "BACKOFF_CAP_SECS = 900"

fun saturating_pow :: "u64 \<Rightarrow> nat \<Rightarrow> u64" where
  "saturating_pow b 0 = 1"
| "saturating_pow b (Suc n) = saturating_mul (saturating_pow b n) b"

definition backoff :: "u32 \<Rightarrow> u64" where
  "backoff attempts =
     min (saturating_mul BACKOFF_BASE_SECS (saturating_pow 3 (unat (min attempts 10))))
       BACKOFF_CAP_SECS"

record drain_outcome =
  transmitted :: "bytes list"
  deferred :: "bytes list"

text \<open>
  The sink is a state machine of the caller: it takes the relationship and the record and
  says whether the write succeeded.
\<close>

type_synonym 't sink = "'t \<Rightarrow> string \<Rightarrow> bytes \<Rightarrow> (sync_error + unit) \<times> 't"

fun drain_rows ::
    "'t sink \<Rightarrow> u64 \<Rightarrow> outbox_row list \<Rightarrow> 't \<times> db \<times> drain_outcome \<Rightarrow> 't \<times> db \<times> drain_outcome" where
  "drain_rows send now [] st = st"
| "drain_rows send now (row # rows) (t, db, oc) =
     (case send t (ob_rel_id row) (ob_record row) of
        (Inr _, t) \<Rightarrow>
          drain_rows send now rows
            (t, snd (set_delivery (ob_msg_id row) Transmitted (snd (dequeue (ob_msg_id row) db))),
             oc\<lparr>transmitted := transmitted oc @ [ob_msg_id row]\<rparr>)
      | (Inl _, t) \<Rightarrow>
          drain_rows send now rows
            (t, note_attempt now (ob_msg_id row) (backoff (ob_attempts row)) db,
             oc\<lparr>deferred := deferred oc @ [ob_msg_id row]\<rparr>))"

definition drain :: "'t sink \<Rightarrow> u64 \<Rightarrow> nat \<Rightarrow> 't \<times> db \<Rightarrow> 't \<times> db \<times> drain_outcome" where
  "drain send now limit st =
     (let (t, db) = st in
      drain_rows send now (due now limit db) (t, db, \<lparr>transmitted = [], deferred = []\<rparr>))"

section \<open>Clock skew\<close>

definition MAX_FUTURE_SKEW_SECS :: u64 where "MAX_FUTURE_SKEW_SECS = 300"

definition clamp_sent_at :: "u64 \<Rightarrow> u64 \<Rightarrow> sync_error + u64" where
  "clamp_sent_at sent_at now =
     (if sent_at > now + MAX_FUTURE_SKEW_SECS then Err (FutureTimestamp sent_at now)
      else Ok (min sent_at now))"

section \<open>Resynchronisation\<close>

definition CAP_V15 :: u32 where "CAP_V15 = push_bit 0 1"

definition CAP_V19 :: u32 where "CAP_V19 = push_bit 1 1"

definition CAP_STICKER :: u32 where "CAP_STICKER = push_bit 2 1"

definition CAP_PRESENCE :: u32 where "CAP_PRESENCE = push_bit 3 1"

definition CAP_POLICY :: u32 where "CAP_POLICY = push_bit 4 1"

definition CAP_TYPING :: u32 where "CAP_TYPING = push_bit 5 1"

definition CAP_READ :: u32 where "CAP_READ = push_bit 6 1"

definition LOCAL_CAPS :: u32 where
  "LOCAL_CAPS = CAP_V15 OR CAP_V19 OR CAP_STICKER OR CAP_PRESENCE OR CAP_POLICY OR CAP_TYPING OR
     CAP_READ"

definition has_cap :: "u32 \<Rightarrow> u32 \<Rightarrow> bool" where
  "has_cap peer_caps b \<longleftrightarrow> peer_caps AND b \<noteq> 0"

definition refuse_if_broken :: "string \<Rightarrow> db \<Rightarrow> sync_error + unit" where
  "refuse_if_broken rel_id db =
     (if session_state rel_id db = SS_Broken
      then Err (SyncSession (Broken ''relationship is broken'')) else Ok ())"

definition build_request :: "(bytes \<Rightarrow> bytes) \<Rightarrow> string \<Rightarrow> db \<Rightarrow> sync_error + resync_req" where
  "build_request sha256 rel_id db =
     rbind (refuse_if_broken rel_id db) (\<lambda>_.
     let view = receive_view rel_id BITMAP_BITS db;
         base = deep_base (rv_max_contiguous_seq view);
         deep = deep_seqs rel_id base (rv_max_contiguous_seq view) db
     in Ok \<lparr>max_contiguous_seq = rv_max_contiguous_seq view,
            received_seq_bitmap = rv_bitmap view, req_caps = LOCAL_CAPS,
            req_history_hash =
              history_hash sha256 (rv_max_contiguous_seq view) (rv_bitmap view) deep\<rparr>)"

definition is_missing :: "u64 \<Rightarrow> bytes \<Rightarrow> u64 \<Rightarrow> bool" where
  "is_missing mx bitmap app_seq =
     (if app_seq = 0 \<or> app_seq \<le> mx then app_seq = 0
      else
        let offset = app_seq - mx - 1 in
        if offset \<ge> of_nat BITMAP_BITS then True
        else let i = unat offset in
             if i div 8 < length bitmap then bitmap ! (i div 8) AND push_bit (i mod 8) 1 = 0
             else True)"

definition opens_gap :: "string \<Rightarrow> u64 \<Rightarrow> db \<Rightarrow> bool" where
  "opens_gap rel_id app_seq db =
     (if app_seq \<le> 1 then False
      else app_seq > rv_max_contiguous_seq (receive_view rel_id BITMAP_BITS db) + 1)"

record retransmit =
  rt_msg_id :: bytes
  rt_app_seq :: u64
  rt_frame :: bytes

fun handle_rows ::
    "string \<Rightarrow> u64 \<Rightarrow> resync_req \<Rightarrow> message_row list \<Rightarrow> db \<times> retransmit list \<Rightarrow>
     sync_error + (db \<times> retransmit list)" where
  "handle_rows rel_id now req [] st = Ok st"
| "handle_rows rel_id now req (row # rows) (db, out) =
     (if \<not> is_missing (max_contiguous_seq req) (received_seq_bitmap req) (m_app_seq row) then
        rbind (if m_state row = Transmitted \<or> m_state row = Queued
               then mark_acknowledged (m_msg_id row) db else Ok db) (\<lambda>db.
        handle_rows rel_id now req rows (db, out))
      else if (case m_expires_at row of None \<Rightarrow> False | Some e \<Rightarrow> e \<le> now) then
        handle_rows rel_id now req rows (db, out)
      else
        case stored_ciphertext rel_id (m_msg_id row) db of
          Some frame \<Rightarrow>
            handle_rows rel_id now req rows
              (db, out @ [\<lparr>rt_msg_id = m_msg_id row, rt_app_seq = m_app_seq row, rt_frame = frame\<rparr>])
        | None \<Rightarrow> handle_rows rel_id now req rows (db, out))"

definition handle_request ::
    "string \<Rightarrow> u64 \<Rightarrow> resync_req \<Rightarrow> db \<Rightarrow> sync_error + (db \<times> retransmit list)" where
  "handle_request rel_id now req db =
     rbind (refuse_if_broken rel_id db) (\<lambda>_.
     let through = max_contiguous_seq req + of_nat BITMAP_BITS
     in handle_rows rel_id now req (unacked_outbound rel_id through db) (db, []))"

section \<open>Ingest\<close>

datatype ingest_outcome = Stored bool | IngestDuplicate

definition track_inbound :: "u64 \<Rightarrow> string \<Rightarrow> envelope \<Rightarrow> db \<Rightarrow> sync_error + (bool \<times> db)" where
  "track_inbound now rel_id env db =
     rbind (clamp_sent_at (env_sent_at env) now) (\<lambda>_.
     Ok (note_inbound_seq rel_id (env_app_seq env) db))"

definition ingest_envelope ::
    "(bytes \<Rightarrow> bytes) \<Rightarrow> u64 \<Rightarrow> string \<Rightarrow> envelope \<Rightarrow> db \<Rightarrow> sync_error + (ingest_outcome \<times> db)" where
  "ingest_envelope nfc now rel_id env db =
     rbind (clamp_sent_at (env_sent_at env) now) (\<lambda>sent_at.
     case message (env_msg_id env) db of
       Some _ \<Rightarrow> Ok (IngestDuplicate, db)
     | None \<Rightarrow>
         let gap = opens_gap rel_id (env_app_seq env) db;
             db = snd (note_inbound_seq rel_id (env_app_seq env) db)
         in rbind (map_err SyncWire (Payload_encode nfc (env_payload env))) (\<lambda>payload.
            rbind (map_err SyncStore
              (insert_message now
                \<lparr>n_msg_id = env_msg_id env, n_rel_id = rel_id, n_direction = In,
                 n_app_seq = env_app_seq env, n_sent_at = sent_at, n_received_at = Some now,
                 n_env_type = EnvelopeType_code (Envelope_envelope_type env),
                 n_ref_id = env_ref_id env, n_payload = payload, n_state = Received,
                 n_expires_at = Some (now + MESSAGE_TTL_SECS)\<rparr> db)) (\<lambda>db.
            Ok (Stored gap, db))))"

section \<open>The backoff schedule and the drain\<close>

lemma unat_saturating_pow:
  "unat (saturating_pow b n) = min (unat b ^ n) (2 ^ 64 - 1)" if "1 \<le> unat b"
proof (induction n)
  case 0
  then show ?case by simp
next
  case (Suc n)
  have "min (min (unat b ^ n) (2 ^ 64 - 1) * unat b) (2 ^ 64 - 1) = min (unat b ^ Suc n) (2 ^ 64 - (1::nat))"
  proof (cases "unat b ^ n \<le> 2 ^ 64 - 1")
    case True
    then show ?thesis by (simp add: mult.commute)
  next
    case False
    have "2 ^ 64 - 1 \<le> unat b ^ n * unat b"
      by (rule order_trans [of _ "unat b ^ n"]) (use False that in simp_all)
    then have "min (unat b ^ Suc n) (2 ^ 64 - 1) = 2 ^ 64 - (1::nat)" by (simp only: power_Suc2 min_absorb2)
    then show ?thesis using False that by simp
  qed
  then show ?case by (simp only: saturating_pow.simps unat_saturating_mul Suc) simp
qed

text \<open>
  The backoff is the schedule 5, 15, 45, 135, 405 and then 900 seconds; no number of
  attempts overflows it.
\<close>

lemma backoff_schedule:
  "unat (backoff attempts) = min (5 * 3 ^ min (unat attempts) 10) 900"
proof -
  have "unat (saturating_pow 3 n) = 3 ^ n" if "n \<le> 10" for n
  proof -
    have "(3::nat) ^ n \<le> 3 ^ 10" using that by (intro power_increasing) simp_all
    then show ?thesis by (simp add: unat_saturating_pow)
  qed
  moreover have "unat (min attempts 10) = min (unat attempts) 10"
    by (simp add: min_def word_le_nat_alt)
  moreover have "(3::nat) ^ min (unat attempts) 10 \<le> 3 ^ 10" by (intro power_increasing) simp_all
  ultimately show ?thesis
    by (simp add: backoff_def min_def word_le_nat_alt unat_saturating_mul BACKOFF_BASE_SECS_def BACKOFF_CAP_SECS_def)
qed

text \<open>
  A drain pass as one update: the transmitted identifiers leave the outbox and mark their
  ledger rows, the deferred ones are counted and rescheduled.
\<close>

definition defer_row :: "u64 \<Rightarrow> outbox_row \<Rightarrow> outbox_row" where
  "defer_row now r = r\<lparr>ob_attempts := ob_attempts r + 1, ob_next_attempt_at := now + backoff (ob_attempts r)\<rparr>"

definition drained :: "u64 \<Rightarrow> bytes list \<Rightarrow> bytes list \<Rightarrow> db \<Rightarrow> db" where
  "drained now T D db =
     db\<lparr>db_outbox := update_where (\<lambda>r. ob_msg_id r \<in> set D) (defer_row now)
          (filter (\<lambda>r. ob_msg_id r \<notin> set T) (db_outbox db)),
        db_messages := update_where (\<lambda>r. m_msg_id r \<in> set T) (\<lambda>r. r\<lparr>m_state := Transmitted\<rparr>)
          (db_messages db)\<rparr>"

lemma drained_sent:
  "drained now T D (snd (set_delivery i Transmitted (snd (dequeue i db)))) = drained now (i # T) D db"
proof -
  have q: "snd (dequeue i db) = db\<lparr>db_outbox := filter (\<lambda>r. ob_msg_id r \<noteq> i) (db_outbox db)\<rparr>"
    by (auto simp: dequeue_def find_None_iff filter_id_conv split: option.split)
  have "filter (\<lambda>r. ob_msg_id r \<notin> set T) (filter (\<lambda>r. ob_msg_id r \<noteq> i) (db_outbox db)) =
      filter (\<lambda>r. ob_msg_id r \<notin> set (i # T)) (db_outbox db)"
    by (simp add: conj_commute)
  moreover have "update_where (\<lambda>r. m_msg_id r \<in> set T) (\<lambda>r. r\<lparr>m_state := Transmitted\<rparr>)
      (update_where (\<lambda>r. m_msg_id r = i) (\<lambda>r. r\<lparr>m_state := Transmitted\<rparr>) (db_messages db)) =
    update_where (\<lambda>r. m_msg_id r \<in> set (i # T)) (\<lambda>r. r\<lparr>m_state := Transmitted\<rparr>) (db_messages db)"
    by (simp add: update_where_def)
  ultimately show ?thesis unfolding q by (simp add: drained_def set_delivery_def)
qed

lemma drained_deferred:
  assumes "distinct (map ob_msg_id (db_outbox db))" "row \<in> set (db_outbox db)"
    and "ob_msg_id row \<notin> set T" "ob_msg_id row \<notin> set D"
  shows "drained now T D (note_attempt now (ob_msg_id row) (backoff (ob_attempts row)) db) =
    drained now T (ob_msg_id row # D) db"
proof -
  let ?g = "\<lambda>r. if ob_msg_id r = ob_msg_id row then r\<lparr>ob_attempts := ob_attempts r + 1,
      ob_next_attempt_at := now + backoff (ob_attempts row)\<rparr> else r"
  have g: "ob_msg_id (?g r) = ob_msg_id r" for r by simp
  have row: "r = row" if "r \<in> set (db_outbox db)" "ob_msg_id r = ob_msg_id row" for r
    using that assms(1,2) by (auto simp: distinct_map inj_on_def)
  have "update_where (\<lambda>r. ob_msg_id r \<in> set D) (defer_row now)
      (filter (\<lambda>r. ob_msg_id r \<notin> set T) (map ?g (db_outbox db))) =
    update_where (\<lambda>r. ob_msg_id r \<in> set (ob_msg_id row # D)) (defer_row now)
      (filter (\<lambda>r. ob_msg_id r \<notin> set T) (db_outbox db))"
    unfolding filter_map comp_def g update_where_def map_map
    using row assms(4) by (intro map_cong) (auto simp: defer_row_def)
  then show ?thesis by (simp add: drained_def note_attempt_def update_where_def)
qed

lemma drain_rows_exact:
  assumes "drain_rows send now rows (t, db, oc) = (t', db', oc')"
    and "distinct (map ob_msg_id (db_outbox db))" "set rows \<subseteq> set (db_outbox db)"
    and "distinct (map ob_msg_id rows)"
  shows "\<exists>T D. transmitted oc' = transmitted oc @ T \<and> deferred oc' = deferred oc @ D \<and>
    mset T + mset D = mset (map ob_msg_id rows) \<and> db' = drained now T D db"
  using assms
proof (induction rows arbitrary: t db oc)
  case Nil
  then show ?case by (simp add: drained_def update_where_def)
next
  case (Cons row rows)
  obtain res t1 where send: "send t (ob_rel_id row) (ob_record row) = (res, t1)" by fastforce
  show ?case
  proof (cases res)
    case (Inr u)
    let ?db = "snd (set_delivery (ob_msg_id row) Transmitted (snd (dequeue (ob_msg_id row) db)))"
    let ?oc = "oc\<lparr>transmitted := transmitted oc @ [ob_msg_id row]\<rparr>"
    have run: "drain_rows send now rows (t1, ?db, ?oc) = (t', db', oc')"
      using Cons.prems(1) send Inr by simp
    have q: "db_outbox ?db = filter (\<lambda>r. ob_msg_id r \<noteq> ob_msg_id row) (db_outbox db)"
      by (auto simp: set_delivery_def dequeue_def find_None_iff filter_id_conv split: option.split)
    have "distinct (map ob_msg_id (db_outbox ?db))" "set rows \<subseteq> set (db_outbox ?db)"
        "distinct (map ob_msg_id rows)"
      using Cons.prems(2-4) unfolding q by (auto simp: distinct_map_filter rev_image_eqI)
    from Cons.IH [OF run this]
    obtain T D where "transmitted oc' = transmitted oc @ ob_msg_id row # T" "deferred oc' = deferred oc @ D"
      "mset T + mset D = mset (map ob_msg_id rows)" "db' = drained now T D ?db"
      by auto
    then show ?thesis
      by (intro exI [of _ "ob_msg_id row # T"] exI [of _ D]) (simp add: drained_sent)
  next
    case (Inl e)
    let ?db = "note_attempt now (ob_msg_id row) (backoff (ob_attempts row)) db"
    let ?oc = "oc\<lparr>deferred := deferred oc @ [ob_msg_id row]\<rparr>"
    have run: "drain_rows send now rows (t1, ?db, ?oc) = (t', db', oc')"
      using Cons.prems(1) send Inl by simp
    have "distinct (map ob_msg_id (db_outbox ?db))" "distinct (map ob_msg_id rows)"
      using Cons.prems(2,4) by (auto simp: note_attempt_def update_where_def comp_def if_distrib cong: if_cong)
    moreover have "set rows \<subseteq> set (db_outbox ?db)"
    proof
      fix r assume "r \<in> set rows"
      then have "r \<in> set (db_outbox db)" "ob_msg_id r \<noteq> ob_msg_id row"
        using Cons.prems(3,4) by (auto simp: rev_image_eqI)
      then show "r \<in> set (db_outbox ?db)"
        by (auto simp: note_attempt_def update_where_def image_iff intro!: bexI [of _ r])
    qed
    ultimately obtain T D where
      td: "transmitted oc' = transmitted oc @ T" "deferred oc' = deferred oc @ ob_msg_id row # D"
        "mset T + mset D = mset (map ob_msg_id rows)" "db' = drained now T D ?db"
      using Cons.IH [OF run] by auto
    have "ob_msg_id row \<notin> set T" "ob_msg_id row \<notin> set D"
      using arg_cong [OF td(3), of set_mset] Cons.prems(4) by auto
    then show ?thesis
      using td Cons.prems
      by (intro exI [of _ T] exI [of _ "ob_msg_id row # D"]) (simp add: drained_deferred)
  qed
qed

text \<open>
  C23: a drain accounts for every due record. Whatever the sink answers, each due record is
  transmitted or deferred, exactly once; transmitted records have left the outbox and their
  ledger rows are marked, deferred ones stay with one more attempt and a later date, and
  nothing else in the store has changed.
\<close>

theorem drain_accounts:
  assumes "drain send now limit (t, db) = (t', db', oc)" "distinct (map ob_msg_id (db_outbox db))"
  shows "mset (transmitted oc) + mset (deferred oc) = mset (map ob_msg_id (due now limit db)) \<and>
    db' = drained now (transmitted oc) (deferred oc) db"
proof -
  have "distinct (map ob_msg_id (sort_key k (filter P (db_outbox db))))" for k :: "outbox_row \<Rightarrow> int" and P
    using assms(2) by (auto simp: distinct_map intro: inj_on_subset)
  then have "distinct (map ob_msg_id (due now limit db))" "set (due now limit db) \<subseteq> set (db_outbox db)"
    by (auto simp: due_def take_map [symmetric] dest: in_set_takeD)
  with drain_rows_exact [of send now "due now limit db" t db "\<lparr>transmitted = [], deferred = []\<rparr>"] assms
  show ?thesis by (auto simp: drain_def)
qed

theorem drain_accounts_witness:
  "let row = (\<lambda>i rel. outbox_entry 5 [i] rel [9] 100);
       db = empty_db\<lparr>db_outbox := [row 1 ''up'', row 2 ''down'']\<rparr>;
       send = (\<lambda>t rel record. (if rel = ''up'' then Ok () else Err (SendFailed ''x''), t))
   in drain send 7 10 ((), db) = ((), drained 7 [[1]] [[2]] db, \<lparr>transmitted = [[1]], deferred = [[2]]\<rparr>)"
proof -
  let ?row = "\<lambda>i rel. outbox_entry 5 [i] rel [9] 100"
  let ?db = "empty_db\<lparr>db_outbox := [?row 1 ''up'', ?row 2 ''down'']\<rparr>"
  let ?send = "\<lambda>t rel record. (if rel = ''up'' then Ok () else Err (SendFailed ''x''), t)"
  obtain db' where d: "drain ?send 7 10 ((), ?db) = ((), db', \<lparr>transmitted = [[1]], deferred = [[2]]\<rparr>)"
    by (simp add: drain_def due_def i64_le_def outbox_entry_def)
  have "distinct (map ob_msg_id (db_outbox ?db))" by (simp add: outbox_entry_def)
  from drain_accounts [OF d this] d show ?thesis by (simp add: Let_def)
qed

section \<open>Delivery states\<close>

text \<open>A sequence of attempted transitions; refused ones leave the ledger as it is.\<close>

definition attempt :: "bytes \<times> delivery_state \<Rightarrow> db \<Rightarrow> db" where
  "attempt op db = (case transition (fst op) (snd op) db of Inl _ \<Rightarrow> db | Inr db' \<Rightarrow> db')"

lemma find_update_where:
  "(\<And>r. m_msg_id (f r) = m_msg_id r) \<Longrightarrow> i \<noteq> j \<Longrightarrow>
   find (\<lambda>r. m_msg_id r = i) (update_where (\<lambda>r. m_msg_id r = j) f rows) =
     find (\<lambda>r. m_msg_id r = i) rows"
  by (induction rows) (auto simp: update_where_def)

lemma message_set_delivery_other: "i \<noteq> j \<Longrightarrow> message i (snd (set_delivery j st db)) = message i db"
  by (simp add: message_def set_delivery_def find_update_where)

lemma attempt_final:
  assumes "message i db = Some row" "m_state row \<in> {Acknowledged, Failed, Received}"
  shows "message i (attempt op db) = Some row"
proof (cases "fst op = i")
  case True
  then show ?thesis using assms by (auto simp: attempt_def transition_def legal_transition_def)
next
  case False
  then show ?thesis
    using assms(1) by (auto simp: attempt_def transition_def message_set_delivery_other split: option.splits)
qed

text \<open>
  Acknowledged, failed and received are final. No sequence of attempted transitions, on
  this row or on others, changes a row in one of these states.
\<close>

lemma final_states_stay:
  assumes "message i db = Some row" "m_state row \<in> {Acknowledged, Failed, Received}"
  shows "message i (fold attempt ops db) = Some row"
  using assms by (induction ops arbitrary: db) (simp_all add: attempt_final del: insert_iff)

section \<open>What ingest stores\<close>

lemma message_insert_same:
  assumes "insert_message now msg db = Ok db'"
  shows "message (n_msg_id msg) db' = Some (new_row now msg)"
proof -
  have "find (\<lambda>r. m_msg_id r = n_msg_id msg) (db_messages db) = None"
    using assms by (auto simp: insert_message_def any_row_def find_None_iff filter_empty_conv split: if_splits)
  then show ?thesis
    using assms by (auto simp: insert_message_def message_def find_snoc new_row_def split: if_splits)
qed

text \<open>
  An ingested envelope is stored once and faithfully. Its ledger row carries its sequence
  number, its encoded payload and a time that is not in the future, its sequence number is
  in the log, and ingesting it again changes nothing.
\<close>

lemma ingest_once:
  assumes "ingest_envelope nfc now rel_id env db = Ok (Stored gap, db')"
  shows "ingest_envelope nfc now rel_id env db' = Ok (IngestDuplicate, db') \<and>
    has_inbound_seq rel_id (env_app_seq env) db' \<and>
    (\<exists>row. message (env_msg_id env) db' = Some row \<and> m_rel_id row = rel_id \<and> m_direction row = In \<and>
       m_app_seq row = env_app_seq env \<and> m_sent_at row \<le> now \<and> m_state row = Received \<and>
       Payload_encode nfc (env_payload env) = Ok (m_payload row))"
proof -
  from assms obtain sent_at payload where
    c: "clamp_sent_at (env_sent_at env) now = Ok sent_at" "Payload_encode nfc (env_payload env) = Ok payload"
      "message (env_msg_id env) db = None" and
    i: "insert_message now
                \<lparr>n_msg_id = env_msg_id env, n_rel_id = rel_id, n_direction = In,
                 n_app_seq = env_app_seq env, n_sent_at = sent_at, n_received_at = Some now,
                 n_env_type = EnvelopeType_code (Envelope_envelope_type env),
                 n_ref_id = env_ref_id env, n_payload = payload, n_state = Received,
                 n_expires_at = Some (now + MESSAGE_TTL_SECS)\<rparr> (snd (note_inbound_seq rel_id (env_app_seq env) db)) = Ok db'"
    by (auto simp: ingest_envelope_def Let_def rbind_Inr_iff split: option.splits)
  note m = message_insert_same [OF i]
  moreover have "sent_at \<le> now" using c(1) by (auto simp: clamp_sent_at_def split: if_splits)
  moreover have "has_inbound_seq rel_id (env_app_seq env) db'"
    using i by (auto simp: insert_message_def note_inbound_seq_def has_inbound_seq_def split: if_splits)
  ultimately show ?thesis
    using c by (simp add: ingest_envelope_def new_row_def)
qed

end
