(* ===== verification/Receive_View.thy ===== *)
theory Receive_View
  imports Sync
begin

text \<open>
  The receive view of \<^verbatim>\<open>store/messages.rs\<close> against the set of sequence numbers a device
  has received: the horizon is the length of the received prefix, the repair bitmap lists
  what was received beyond it, and the test \<open>is_missing\<close> of \<^verbatim>\<open>sync/resync.rs\<close> reads
  exactly that set back, as long as the log is not longer than the scan limit.
\<close>

section \<open>Bitmaps\<close>

definition bit_at :: "bytes \<Rightarrow> nat \<Rightarrow> bool" where
  "bit_at bitmap i \<longleftrightarrow> i div 8 < length bitmap \<and> bit (bitmap ! (i div 8)) (i mod 8)"

lemma and_push_bit: "b AND push_bit n 1 = 0 \<longleftrightarrow> \<not> bit b n" for b :: u8
  unfolding push_bit_eq_mult by (simp add: and_exp_eq_0_iff_not_bit)

lemma byte_mod_less: "i mod 8 < LENGTH(8)" by simp

lemma bit_at_set:
  assumes "j div 8 < length bitmap"
  shows "bit_at (set_bit_at bitmap j) i \<longleftrightarrow> bit_at bitmap i \<or> i = j"
proof (cases "i div 8 = j div 8")
  case True
  have "bit (push_bit (j mod 8) 1 :: u8) (i mod 8) \<longleftrightarrow> i mod 8 = j mod 8"
    by (auto simp: bit_exp_iff)
  moreover have "i mod 8 = j mod 8 \<longleftrightarrow> i = j" using True by (metis div_mult_mod_eq)
  ultimately show ?thesis
    using True assms by (simp add: bit_at_def set_bit_at_def bit_or_iff)
next
  case False
  then show ?thesis by (auto simp: bit_at_def set_bit_at_def)
qed

lemma length_set_bit_at [simp]: "length (set_bit_at bitmap j) = length bitmap"
  by (simp add: set_bit_at_def)

lemma bit_at_replicate [simp]: "\<not> bit_at (replicate n 0) i"
  by (simp add: bit_at_def)

lemma bit_at_take: "bit_at (take n bitmap) i \<longleftrightarrow> bit_at bitmap i \<and> i div 8 < n"
  by (auto simp: bit_at_def)

section \<open>The receive view\<close>

text \<open>Sequence numbers as natural numbers; the log's order is the natural one below \<open>2 ^ 63\<close>.\<close>

lemma horizon_walk_spec:
  assumes "sorted_wrt (<) (map unat seqs)" "\<forall>s \<in> set seqs. unat mx < unat s"
    and "horizon_walk mx seqs = (m, rest)"
  shows "\<exists>pre. seqs = pre @ rest \<and> unat ` set pre = {unat mx<..unat m} \<and> unat mx \<le> unat m \<and>
      (\<forall>s \<in> set rest. unat m + 1 < unat s)"
  using assms
proof (induction seqs arbitrary: mx)
  case Nil
  then show ?case by auto
next
  case (Cons s seqs)
  have mx: "unat (mx + 1) = unat mx + 1"
  proof (rule unat_inc)
    have "unat mx < unat s" using Cons.prems(2) by simp
    then show "mx \<noteq> - 1" using word_order.extremum [of s] by (auto simp: word_le_nat_alt)
  qed
  show ?case
  proof (cases "s = mx + 1")
    case True
    have "\<forall>x \<in> set seqs. unat s < unat x" using Cons.prems(1) by auto
    with Cons.IH [of s] Cons.prems(1,3) True obtain pre where
      p: "seqs = pre @ rest" "unat ` set pre = {unat s<..unat m}" "unat s \<le> unat m"
        "\<forall>s \<in> set rest. unat m + 1 < unat s" by auto
    then have "unat ` set (s # pre) = {unat mx<..unat m}" using True mx by auto
    with p True mx show ?thesis by (intro exI [of _ "s # pre"]) auto
  next
    case False
    then have "unat s \<noteq> unat mx + 1" using mx by (metis word_unat_eq_iff)
    moreover have "unat mx < unat s" using Cons.prems(2) by simp
    ultimately have "unat mx + 1 < unat s" by linarith
    with False Cons.prems show ?thesis by (intro exI [of _ "[]"]) (auto intro: less_trans)
  qed
qed

lemma fill_bitmap_spec:
  assumes "sorted_wrt (<) (map unat seqs)" "\<forall>s \<in> set seqs. unat m + 1 < unat s"
    and "\<forall>s \<in> set seqs. case last_set of None \<Rightarrow> True | Some l \<Rightarrow> l < unat s - (unat m + 1)"
    and "bits \<le> 8 * length bitmap" "m \<noteq> - 1"
    and "\<forall>i. bit_at bitmap i \<longrightarrow> (\<exists>l. last_set = Some l \<and> i \<le> l)"
    and "fill_bitmap bits m seqs bitmap last_set = (bitmap', last')"
  shows "(\<forall>i. bit_at bitmap' i \<longleftrightarrow> bit_at bitmap i \<or> i < bits \<and> (\<exists>s \<in> set seqs. unat s = unat m + 1 + i)) \<and>
    (\<forall>i. bit_at bitmap' i \<longrightarrow> (\<exists>l. last' = Some l \<and> i \<le> l)) \<and> length bitmap' = length bitmap"
  using assms
proof (induction seqs arbitrary: bitmap last_set)
  case Nil
  then show ?case by simp
next
  case (Cons s seqs)
  let ?o = "unat s - (unat m + 1)"
  have off: "unat (saturating_sub s (m + 1)) = ?o"
    using Cons.prems(5) by (simp add: unat_saturating_sub unat_inc)
  have s: "unat s = unat m + 1 + ?o" using Cons.prems(2) by simp
  have later: "\<forall>x \<in> set seqs. unat s < unat x" using Cons.prems(1) by auto
  show ?case
  proof (cases "?o \<ge> bits")
    case True
    then have r: "bitmap' = bitmap" "last' = last_set" using Cons.prems(7) by (auto simp: off)
    have none: "\<not> (i < bits \<and> (\<exists>x \<in> set (s # seqs). unat x = unat m + 1 + i))" for i
      using True s later by fastforce
    show ?thesis unfolding r using Cons.prems(6) by (simp only: none simp_thms)
  next
    case False
    then have j: "?o div 8 < length bitmap" using Cons.prems(4) by linarith
    let ?b = "set_bit_at bitmap ?o"
    have bits: "bit_at ?b i \<longleftrightarrow> bit_at bitmap i \<or> i = ?o" for i by (rule bit_at_set [OF j])
    have le: "i \<le> ?o" if "bit_at bitmap i" for i
    proof -
      from Cons.prems(6) that obtain l where "last_set = Some l" "i \<le> l" by blast
      with Cons.prems(3) show ?thesis by auto
    qed
    have "(\<forall>i. bit_at bitmap' i \<longleftrightarrow> bit_at ?b i \<or> i < bits \<and> (\<exists>s \<in> set seqs. unat s = unat m + 1 + i)) \<and>
        (\<forall>i. bit_at bitmap' i \<longrightarrow> (\<exists>l. last' = Some l \<and> i \<le> l)) \<and> length bitmap' = length ?b"
    proof (rule Cons.IH)
      show "\<forall>s \<in> set seqs. case Some ?o of None \<Rightarrow> True | Some l \<Rightarrow> l < unat s - (unat m + 1)"
        using later s by fastforce
      show "\<forall>i. bit_at ?b i \<longrightarrow> (\<exists>l. Some ?o = Some l \<and> i \<le> l)" using le bits by auto
      show "fill_bitmap bits m seqs ?b (Some ?o) = (bitmap', last')"
        using Cons.prems(7) False by (simp add: off Let_def)
    qed (use Cons.prems in auto)
    moreover have "i < bits \<and> (\<exists>x \<in> set (s # seqs). unat x = unat m + 1 + i) \<longleftrightarrow>
        i = ?o \<or> i < bits \<and> (\<exists>x \<in> set seqs. unat x = unat m + 1 + i)" for i
      using False s by auto
    ultimately show ?thesis using bits by auto
  qed
qed

text \<open>
  The sequence numbers a device has received from a peer, and the logs that arise from the
  numbering of an honest peer.
\<close>

definition noted :: "string \<Rightarrow> db \<Rightarrow> u64 set" where
  "noted rel_id db = {q. (rel_id, q) \<in> set (db_inbound_seqs db)}"

definition log_ok :: "string \<Rightarrow> db \<Rightarrow> bool" where
  "log_ok rel_id db \<longleftrightarrow>
     distinct (db_inbound_seqs db) \<and> (\<forall>q \<in> noted rel_id db. 1 \<le> unat q \<and> unat q < 2 ^ 63)"

lemma sint_small: "unat q < 2 ^ 63 \<Longrightarrow> sint q = int (unat q)" for q :: u64
proof -
  assume "unat q < 2 ^ 63"
  then have "int (unat q) < int (2 ^ 63)" by (simp only: of_nat_less_iff)
  then have "uint q < 2 ^ 63" by simp
  moreover have "- (2 ^ 63) \<le> uint q" by (rule order_trans [OF _ unsigned_greater_eq]) simp
  ultimately show ?thesis
    unfolding sint_uint by (simp add: signed_take_bit_int_eq_self)
qed

lemma set_ledger_seqs: "set (ledger_seqs rel_id db) = noted rel_id db"
  by (force simp: ledger_seqs_def noted_def)

lemma ledger_seqs_sorted:
  assumes "log_ok rel_id db"
  shows "sorted_wrt (<) (map unat (ledger_seqs rel_id db))"
proof -
  have "distinct (map snd (filter (\<lambda>r. fst r = rel_id) (db_inbound_seqs db)))"
    using assms by (auto simp: log_ok_def distinct_map inj_on_def)
  then have d: "distinct (ledger_seqs rel_id db)"
    by (simp add: ledger_seqs_def distinct_sort)
  have "map sint (ledger_seqs rel_id db) = map int (map unat (ledger_seqs rel_id db))"
    using assms by (auto simp: set_ledger_seqs log_ok_def sint_small)
  moreover have "sorted (map sint (ledger_seqs rel_id db))"
    by (simp add: ledger_seqs_def)
  ultimately have "sorted (map int (map unat (ledger_seqs rel_id db)))" by (simp only:)
  then have "sorted (map unat (ledger_seqs rel_id db))"
    unfolding sorted_map [where f = int] by simp
  moreover have "distinct (map unat (ledger_seqs rel_id db))"
    using d by (simp add: distinct_map inj_on_def word_unat_eq_iff)
  ultimately show ?thesis by (simp add: strict_sorted_iff)
qed

lemma view_of_seqs_spec:
  assumes "sorted_wrt (<) (map unat seqs)" "\<forall>s \<in> set seqs. 1 \<le> unat s \<and> unat s < 2 ^ 63"
    and "v = view_of_seqs bits seqs"
  shows "unat ` set seqs \<inter> {..unat (rv_max_contiguous_seq v) + 1} = {1..unat (rv_max_contiguous_seq v)} \<and>
    unat (rv_max_contiguous_seq v) < 2 ^ 63 \<and>
    (\<forall>i. bit_at (rv_bitmap v) i \<longleftrightarrow>
       i < bits \<and> unat (rv_max_contiguous_seq v) + 1 + i \<in> unat ` set seqs)"
proof -
  obtain m rest where w: "horizon_walk 0 seqs = (m, rest)" by fastforce
  obtain bm l where f: "fill_bitmap bits m rest (replicate ((bits + 7) div 8) 0) None = (bm, l)" by fastforce
  have v: "rv_max_contiguous_seq v = m"
      "rv_bitmap v = take (case l of None \<Rightarrow> 0 | Some i \<Rightarrow> i div 8 + 1) bm"
    by (simp_all add: assms(3) view_of_seqs_def w f)
  from horizon_walk_spec [OF assms(1) _ w] assms(2) obtain pre where
    pre: "seqs = pre @ rest" "unat ` set pre = {0<..unat m}" "\<forall>s \<in> set rest. unat m + 1 < unat s"
    by (auto simp: Suc_le_eq)
  have m: "unat m < 2 ^ 63"
  proof (cases "unat m = 0")
    case False
    then have "unat m \<in> unat ` set pre" using pre(2) by auto
    then show ?thesis using assms(2) pre(1) by auto
  qed simp
  then have "m \<noteq> - 1" by (auto simp: unsigned_minus_1_eq_mask mask_eq_exp_minus_1)
  moreover have "sorted_wrt (<) (map unat rest)" using assms(1) pre(1) by (simp add: sorted_wrt_append)
  ultimately have b: "\<forall>i. bit_at bm i \<longleftrightarrow> i < bits \<and> (\<exists>s \<in> set rest. unat s = unat m + 1 + i)"
      "\<forall>i. bit_at bm i \<longrightarrow> (\<exists>k. l = Some k \<and> i \<le> k)"
    using fill_bitmap_spec [OF _ pre(3) _ _ _ _ f] by auto
  have "bit_at (rv_bitmap v) i \<longleftrightarrow> bit_at bm i" for i
    using b(2) by (auto simp: v(2) bit_at_take less_Suc_eq_le intro: div_le_mono)
  moreover have "(\<exists>s \<in> set rest. unat s = unat m + 1 + i) \<longleftrightarrow> unat m + 1 + i \<in> unat ` set seqs" for i
  proof -
    have "unat m + 1 + i \<notin> unat ` set pre" using pre(2) by auto
    then show ?thesis unfolding pre(1) by force
  qed
  moreover have "unat ` set rest \<inter> {..unat m + 1} = {}" using pre(3) by fastforce
  then have "unat ` set seqs \<inter> {..unat m + 1} = {1..unat m}"
    unfolding pre(1) set_append image_Un pre(2) Int_Un_distrib2 by auto
  ultimately show ?thesis using b(1) m unfolding v(1) by auto
qed

lemma unat_diff_pred: "m < s \<Longrightarrow> unat (s - m - 1) = unat s - unat m - 1" for s m :: u64
proof -
  assume "m < s"
  then have "unat m < unat s" by (simp add: word_less_nat_alt)
  then have a: "unat (s - m) = unat s - unat m" by (simp add: unat_sub_if_size)
  then have "1 \<le> s - m" using \<open>unat m < unat s\<close> by (simp add: word_le_nat_alt)
  then show ?thesis using a by (simp add: unat_sub_if_size word_le_nat_alt)
qed

lemma is_missing_iff:
  "is_missing m bm s \<longleftrightarrow>
     s = 0 \<or> unat m < unat s \<and>
       (unat m + BITMAP_BITS < unat s \<or> \<not> bit_at bm (unat s - unat m - 1))"
proof (cases "s = 0 \<or> s \<le> m")
  case True
  then show ?thesis by (auto simp: is_missing_def word_le_nat_alt)
next
  case False
  then have "m < s" by (simp add: not_le)
  from unat_diff_pred [OF this] False show ?thesis
    by (auto simp: is_missing_def Let_def bit_at_def word_le_nat_alt word_less_nat_alt limit_defs
        and_exp_eq_0_iff_not_bit)
qed

lemma receive_view_spec:
  assumes "log_ok rel_id db" and "v = receive_view rel_id bits db"
    and "seqs = take VIEW_SCAN_LIMIT (ledger_seqs rel_id db)"
  shows "unat ` set seqs \<inter> {..unat (rv_max_contiguous_seq v) + 1} = {1..unat (rv_max_contiguous_seq v)} \<and>
    unat (rv_max_contiguous_seq v) < 2 ^ 63 \<and>
    (\<forall>i. bit_at (rv_bitmap v) i \<longleftrightarrow>
       i < bits \<and> unat (rv_max_contiguous_seq v) + 1 + i \<in> unat ` set seqs)"
proof (rule view_of_seqs_spec)
  show "sorted_wrt (<) (map unat seqs)"
    using ledger_seqs_sorted [OF assms(1)]
    by (metis append_take_drop_id assms(3) map_append sorted_wrt_append)
  show "\<forall>s \<in> set seqs. 1 \<le> unat s \<and> unat s < 2 ^ 63"
    using assms(1) set_take_subset [of VIEW_SCAN_LIMIT "ledger_seqs rel_id db"]
    unfolding assms(3) log_ok_def set_ledger_seqs by blast
  show "v = view_of_seqs bits seqs" using assms(2,3) by (simp add: receive_view_def)
qed

lemma unat_mem_image: "unat s \<in> unat ` S \<longleftrightarrow> s \<in> S" for s :: "'a::len word"
  by (auto simp: word_unat_eq_iff [symmetric])

lemma unat_of_nat_small: "n < 2 ^ 63 \<Longrightarrow> unat (of_nat n :: u64) = n"
  by (simp add: unsigned_of_nat take_bit_nat_eq_self)

lemma not_missing_iff:
  assumes "log_ok rel_id db" and "v = receive_view rel_id BITMAP_BITS db"
  shows "\<not> is_missing (rv_max_contiguous_seq v) (rv_bitmap v) s \<longleftrightarrow>
    s \<in> set (take VIEW_SCAN_LIMIT (ledger_seqs rel_id db)) \<and>
    unat s \<le> unat (rv_max_contiguous_seq v) + BITMAP_BITS"
proof -
  let ?S = "set (take VIEW_SCAN_LIMIT (ledger_seqs rel_id db))"
  let ?m = "unat (rv_max_contiguous_seq v)"
  have sp: "unat ` ?S \<inter> {..?m + 1} = {1..?m}"
      "\<And>i. bit_at (rv_bitmap v) i \<longleftrightarrow> i < BITMAP_BITS \<and> ?m + 1 + i \<in> unat ` ?S"
    using receive_view_spec [OF assms refl] by auto
  have low: "s \<in> ?S \<longleftrightarrow> 1 \<le> unat s" if "unat s \<le> ?m"
  proof -
    have "unat s \<in> unat ` ?S \<longleftrightarrow> unat s \<in> unat ` ?S \<inter> {..?m + 1}" using that by auto
    also have "\<dots> \<longleftrightarrow> 1 \<le> unat s" unfolding sp(1) using that by auto
    finally show ?thesis by (simp only: unat_mem_image)
  qed
  have high: "bit_at (rv_bitmap v) (unat s - ?m - 1) \<longleftrightarrow> unat s \<le> ?m + BITMAP_BITS \<and> s \<in> ?S"
    if "?m < unat s"
  proof -
    have "?m + 1 + (unat s - ?m - 1) = unat s" using that by simp
    then show ?thesis using that unfolding sp(2) by (auto simp: unat_mem_image)
  qed
  show ?thesis
    using low high by (cases "unat s \<le> ?m") (auto simp: is_missing_iff unat_eq_zero Suc_le_eq)
qed

lemma noted_card: "log_ok rel_id db \<Longrightarrow> length (ledger_seqs rel_id db) = card (noted rel_id db)"
  using ledger_seqs_sorted [of rel_id db]
  by (metis distinct_card distinct_map set_ledger_seqs strict_sorted_iff)

text \<open>
  C8: the receive view of an honest log of at most \<open>VIEW_SCAN_LIMIT\<close> entries is exact. Its
  horizon is the length of the gapless prefix of received sequence numbers, and a peer that
  reads the view back with \<open>is_missing\<close> finds a sequence number missing exactly when it
  was not received or lies beyond the window of the bitmap.
\<close>

theorem receive_view_exact:
  assumes "log_ok rel_id db" and "card (noted rel_id db) \<le> VIEW_SCAN_LIMIT"
    and "v = receive_view rel_id BITMAP_BITS db"
  shows "unat ` noted rel_id db \<inter> {..unat (rv_max_contiguous_seq v) + 1} =
           {1..unat (rv_max_contiguous_seq v)} \<and>
    (is_missing (rv_max_contiguous_seq v) (rv_bitmap v) s \<longleftrightarrow>
       s \<notin> noted rel_id db \<or> unat (rv_max_contiguous_seq v) + BITMAP_BITS < unat s)"
proof -
  have all: "take VIEW_SCAN_LIMIT (ledger_seqs rel_id db) = ledger_seqs rel_id db"
    using assms(1,2) by (simp add: noted_card)
  show ?thesis
    using receive_view_spec [OF assms(1,3) refl] not_missing_iff [OF assms(1,3), of s]
    unfolding all set_ledger_seqs by auto
qed

theorem receive_view_exact_witness:
  "let db = empty_db\<lparr>db_inbound_seqs := [(''r'', 1), (''r'', 4), (''r'', 2)]\<rparr>;
       v = receive_view ''r'' BITMAP_BITS db
   in is_missing (rv_max_contiguous_seq v) (rv_bitmap v) 3 \<and>
      \<not> is_missing (rv_max_contiguous_seq v) (rv_bitmap v) 4"
proof -
  define db where "db = empty_db\<lparr>db_inbound_seqs := [(''r'', 1), (''r'', 4), (''r'', 2)]\<rparr>"
  define v where "v = receive_view ''r'' BITMAP_BITS db"
  have n: "noted ''r'' db = {1, 4, 2}" by (auto simp: noted_def db_def)
  have ok: "log_ok ''r'' db" unfolding log_ok_def n by (simp add: db_def)
  have "card (noted ''r'' db) \<le> VIEW_SCAN_LIMIT" by (simp add: n limit_defs)
  note ex = receive_view_exact [OF ok this v_def, unfolded n]
  have "\<not> unat (rv_max_contiguous_seq v) + BITMAP_BITS < 4" by (simp add: limit_defs)
  then show ?thesis using ex [of 3] ex [of 4] by (simp add: db_def [symmetric] v_def [symmetric])
qed

lemma receive_view_sound:
  assumes "log_ok rel_id db" and "v = receive_view rel_id BITMAP_BITS db"
    and "\<not> is_missing (rv_max_contiguous_seq v) (rv_bitmap v) s"
  shows "s \<in> noted rel_id db"
  using assms not_missing_iff [OF assms(1,2), of s] set_take_subset
  by (metis set_ledger_seqs subsetD)

lemma ledger_seqs_interval:
  assumes "log_ok rel_id db" "noted rel_id db = of_nat ` {1..n}" "n < 2 ^ 63"
  shows "map unat (ledger_seqs rel_id db) = [1..<n + 1]"
proof (rule sorted_distinct_set_unique)
  have s: "sorted_wrt (<) (map unat (ledger_seqs rel_id db))" by (rule ledger_seqs_sorted [OF assms(1)])
  then show "sorted (map unat (ledger_seqs rel_id db))" "distinct (map unat (ledger_seqs rel_id db))"
    by (simp_all add: strict_sorted_iff)
  have "unat (of_nat i :: u64) = i" if "i \<le> n" for i
    using that assms(3) by (simp add: unat_of_nat_small)
  then show "set (map unat (ledger_seqs rel_id db)) = set [1..<n + 1]"
    by (auto simp: set_ledger_seqs assms(2) image_image image_iff)
  show "sorted [1..<n + 1]" by (rule sorted_upt)
qed simp

text \<open>
  C40: the log is never pruned while a relationship lives, and the view scans its first
  \<open>VIEW_SCAN_LIMIT\<close> entries only. Once more sequence numbers than that have been received
  without a gap, the horizon stays at the limit and the newest received number is reported
  missing.
\<close>

theorem receive_view_saturates:
  assumes "log_ok rel_id db" "noted rel_id db = of_nat ` {1..n}"
    and "VIEW_SCAN_LIMIT < n" "n < 2 ^ 63"
    and "v = receive_view rel_id BITMAP_BITS db"
  shows "unat (rv_max_contiguous_seq v) = VIEW_SCAN_LIMIT \<and>
    is_missing (rv_max_contiguous_seq v) (rv_bitmap v) (of_nat n)"
proof -
  let ?S = "take VIEW_SCAN_LIMIT (ledger_seqs rel_id db)"
  have "map unat ?S = take VIEW_SCAN_LIMIT [1..<n + 1]"
    using ledger_seqs_interval [OF assms(1,2,4)] by (simp only: take_map [symmetric])
  then have "map unat ?S = [1..<VIEW_SCAN_LIMIT + 1]" using assms(3) by (simp add: take_upt)
  then have S: "unat ` set ?S = {1..VIEW_SCAN_LIMIT}"
    by (metis atLeastLessThanSuc_atLeastAtMost list.set_map set_upt Suc_eq_plus1)
  have "{1..VIEW_SCAN_LIMIT} \<inter> {..unat (rv_max_contiguous_seq v) + 1} = {1..unat (rv_max_contiguous_seq v)}"
    using receive_view_spec [OF assms(1,5) refl] unfolding S by blast
  then have "min VIEW_SCAN_LIMIT (unat (rv_max_contiguous_seq v) + 1) = unat (rv_max_contiguous_seq v)"
    by (metis card_atLeastAtMost Int_atLeastAtMost atMost_atLeast0 diff_Suc_1 max_nat.right_neutral)
  then have "unat (rv_max_contiguous_seq v) = VIEW_SCAN_LIMIT" by linarith
  moreover have "unat (of_nat n :: u64) = n" using assms(4) by (simp add: unat_of_nat_small)
  then have "of_nat n \<notin> set ?S" using S assms(3) by (metis atLeastAtMost_iff imageI not_le)
  then have "is_missing (rv_max_contiguous_seq v) (rv_bitmap v) (of_nat n)"
    using not_missing_iff [OF assms(1,5)] by blast
  ultimately show ?thesis by blast
qed

theorem receive_view_saturates_witness:
  "\<exists>db. 65537 \<in> noted ''r'' db \<and>
     is_missing (rv_max_contiguous_seq (receive_view ''r'' BITMAP_BITS db))
       (rv_bitmap (receive_view ''r'' BITMAP_BITS db)) 65537"
proof -
  define db where "db = empty_db\<lparr>db_inbound_seqs := map (\<lambda>i. (''r'', of_nat i)) [1..<65538]\<rparr>"
  have n: "noted ''r'' db = of_nat ` {1..65537}" by (auto simp: noted_def db_def)
  have "distinct (db_inbound_seqs db)"
    by (auto simp: db_def distinct_map inj_on_def unat_of_nat_small dest!: arg_cong [where f = unat])
  moreover have "1 \<le> unat q \<and> unat q < 2 ^ 63" if "q \<in> noted ''r'' db" for q
    using that by (auto simp: n unat_of_nat_small)
  ultimately have "log_ok ''r'' db" by (simp add: log_ok_def)
  from receive_view_saturates [OF this n _ _ refl] show ?thesis
    by (intro exI [of _ db]) (auto simp: n limit_defs image_iff intro!: bexI [of _ "65537 :: nat"])
qed
end
