(* ===== verification/Resync_Protocol.thy ===== *)
theory Resync_Protocol
  imports Receive_View
begin

text \<open>
  Resynchronisation between two devices (\<^verbatim>\<open>sync/resync.rs\<close>, \<^verbatim>\<open>store/messages.rs\<close>): the
  loop that answers a request as an update of the ledger and a list of frames, the numbering
  of outbound rows, a step relation for one direction of a relationship under loss,
  reordering, duplication and local erasure, and the convergence of two request rounds.
\<close>

section \<open>Rows addressed by their key\<close>

definition ids_distinct :: "db \<Rightarrow> bool" where
  "ids_distinct db \<longleftrightarrow> distinct (map m_msg_id (db_messages db))"

lemma find_key:
  "distinct (map f xs) \<Longrightarrow> x \<in> set xs \<Longrightarrow> find (\<lambda>y. f y = f x) xs = Some x"
  by (induction xs) auto

lemma message_row [simp]:
  "ids_distinct db \<Longrightarrow> row \<in> set (db_messages db) \<Longrightarrow> message (m_msg_id row) db = Some row"
  by (simp add: ids_distinct_def message_def find_key)

lemma ids_distinct_update [simp]:
  "(\<And>r. m_msg_id (f r) = m_msg_id r) \<Longrightarrow>
   ids_distinct (db\<lparr>db_messages := update_where P f (db_messages db)\<rparr>) = ids_distinct db"
  by (simp add: ids_distinct_def map_update_where)

lemma insert_message_Ok:
  "insert_message now msg db = Ok db' \<Longrightarrow>
   db' = db\<lparr>db_messages := db_messages db @ [new_row now msg]\<rparr>"
  by (simp add: insert_message_def split: if_splits)

lemma insert_message_ids: "insert_message now msg db = Ok db' \<Longrightarrow> ids_distinct db \<Longrightarrow> ids_distinct db'"
  by (auto simp: insert_message_def any_row_def filter_empty_conv ids_distinct_def new_row_def
      split: if_splits) metis

section \<open>Handling a request\<close>

abbreviation acknowledge :: "message_row \<Rightarrow> message_row" where
  "acknowledge r \<equiv> r\<lparr>m_state := Acknowledged\<rparr>"

abbreviation pending_state :: "message_row \<Rightarrow> bool" where
  "pending_state r \<equiv> m_state r = Queued \<or> m_state r = Transmitted"

definition covered :: "resync_req \<Rightarrow> message_row \<Rightarrow> bool" where
  "covered req r \<longleftrightarrow>
     \<not> is_missing (max_contiguous_seq req) (received_seq_bitmap req) (m_app_seq r)"

definition expired_row :: "u64 \<Rightarrow> message_row \<Rightarrow> bool" where
  "expired_row now r = (case m_expires_at r of None \<Rightarrow> False | Some e \<Rightarrow> e \<le> now)"

definition resend :: "string \<Rightarrow> u64 \<Rightarrow> resync_req \<Rightarrow> db \<Rightarrow> message_row \<Rightarrow> retransmit option" where
  "resend rel_id now req db r =
     (if covered req r \<or> expired_row now r then None
      else map_option (\<lambda>frame. \<lparr>rt_msg_id = m_msg_id r, rt_app_seq = m_app_seq r, rt_frame = frame\<rparr>)
             (stored_ciphertext rel_id (m_msg_id r) db))"

definition acked :: "(message_row \<Rightarrow> bool) \<Rightarrow> db \<Rightarrow> db" where
  "acked P db = db\<lparr>db_messages := update_where P acknowledge (db_messages db)\<rparr>"

lemma acked_acked:
  "(\<And>r. Q (acknowledge r) = Q r) \<Longrightarrow> acked Q (acked P db) = acked (\<lambda>r. P r \<or> Q r) db"
  by (simp add: acked_def update_where_def comp_def cong: map_cong)

lemma acked_none: "acked (\<lambda>r. False) db = db"
  by (simp add: acked_def update_where_def)

lemma stored_ciphertext_acked [simp]: "stored_ciphertext rel_id i (acked P db) = stored_ciphertext rel_id i db"
  by (simp add: stored_ciphertext_def acked_def)

lemma mark_acknowledged_row:
  "ids_distinct db \<Longrightarrow> row \<in> set (db_messages db) \<Longrightarrow> pending_state row \<Longrightarrow>
   mark_acknowledged (m_msg_id row) db = Ok (acked (\<lambda>r. m_msg_id r = m_msg_id row) db)"
  by (auto simp: mark_acknowledged_def transition_def legal_transition_def set_delivery_def acked_def)

lemma handle_rows_covered:
  "covered req row \<Longrightarrow> pending_state row \<Longrightarrow>
   handle_rows rel_id now req (row # rows) (db, out) =
     rbind (mark_acknowledged (m_msg_id row) db) (\<lambda>db. handle_rows rel_id now req rows (db, out))"
  by (auto simp: covered_def)

lemma handle_rows_missing:
  "\<not> covered req row \<Longrightarrow>
   handle_rows rel_id now req (row # rows) (db, out) =
     handle_rows rel_id now req rows
       (db, out @ (case resend rel_id now req db row of None \<Rightarrow> [] | Some x \<Rightarrow> [x]))"
  by (auto simp: covered_def resend_def expired_row_def split: option.splits)

lemma resend_covered: "covered req row \<Longrightarrow> resend rel_id now req db row = None"
  by (simp add: resend_def)

lemma handle_rows_exact:
  assumes "ids_distinct db" "set rows \<subseteq> set (db_messages db)" "distinct (map m_msg_id rows)"
    and "\<forall>r \<in> set rows. pending_state r"
  shows "handle_rows rel_id now req rows (db, out) =
    Ok (acked (\<lambda>r. m_msg_id r \<in> m_msg_id ` {x \<in> set rows. covered req x}) db,
        out @ List.map_filter (resend rel_id now req db) rows)"
  using assms
proof (induction rows arbitrary: db out)
  case Nil
  then show ?case by (simp add: acked_none List.map_filter_simps)
next
  case (Cons row rows)
  let ?P = "\<lambda>rs r. m_msg_id r \<in> m_msg_id ` {x \<in> set rs. covered req x}"
  show ?case
  proof (cases "covered req row")
    case True
    let ?db = "acked (\<lambda>r. m_msg_id r = m_msg_id row) db"
    have row: "row \<in> set (db_messages db)" "pending_state row" using Cons.prems by auto
    have IH: "handle_rows rel_id now req rows (?db, out) =
        Ok (acked (?P rows) ?db, out @ List.map_filter (resend rel_id now req ?db) rows)"
    proof (rule Cons.IH)
      show "ids_distinct ?db" using Cons.prems(1) by (simp add: acked_def)
      show "set rows \<subseteq> set (db_messages ?db)"
      proof
        fix x assume "x \<in> set rows"
        moreover from this have "m_msg_id x \<noteq> m_msg_id row" using Cons.prems(3) by (metis distinct.simps(2) image_eqI list.set_map list.simps(9))
        ultimately show "x \<in> set (db_messages ?db)"
          using Cons.prems(2) by (auto simp: acked_def set_update_where image_iff intro!: bexI [of _ x])
      qed
    qed (use Cons.prems in auto)
    have a: "acked (?P rows) ?db = acked (?P (row # rows)) db"
      using True by (simp add: acked_acked) (rule arg_cong2 [where f = acked], auto)
    have r: "resend rel_id now req ?db = resend rel_id now req db"
      by (simp add: fun_eq_iff resend_def)
    show ?thesis
      unfolding handle_rows_covered [OF True row(2)] mark_acknowledged_row [OF Cons.prems(1) row]
        rbind_simps IH a r
      by (simp add: List.map_filter_simps resend_covered [OF True])
  next
    case False
    have e: "?P (row # rows) = ?P rows" using False by (auto simp: fun_eq_iff)
    have IH: "handle_rows rel_id now req rows (db, x) =
        Ok (acked (?P rows) db, x @ List.map_filter (resend rel_id now req db) rows)" for x
      by (rule Cons.IH) (use Cons.prems in auto)
    show ?thesis
      unfolding e handle_rows_missing [OF False] IH
      by (simp add: List.map_filter_simps split: option.split)
  qed
qed

definition pending :: "string \<Rightarrow> u64 \<Rightarrow> message_row \<Rightarrow> bool" where
  "pending rel_id through r \<longleftrightarrow> m_rel_id r = rel_id \<and> m_direction r = Out \<and>
     i64_le (m_app_seq r) through \<and> pending_state r"

lemma set_unacked_outbound:
  "set (unacked_outbound rel_id through db) = {r \<in> set (db_messages db). pending rel_id through r}"
  by (auto simp: unacked_outbound_def pending_def)

lemma handle_request_eq:
  assumes "ids_distinct db" "session_state rel_id db \<noteq> SS_Broken"
    and "through = max_contiguous_seq req + of_nat BITMAP_BITS"
  shows "handle_request rel_id now req db =
    Ok (acked (\<lambda>r. pending rel_id through r \<and> covered req r) db,
        List.map_filter (resend rel_id now req db) (unacked_outbound rel_id through db))"
proof -
  let ?rows = "unacked_outbound rel_id through db"
  have d: "distinct (map m_msg_id ?rows)"
  proof -
    have "distinct (map m_msg_id (filter (pending rel_id through) (db_messages db)))"
      using assms(1) by (simp add: ids_distinct_def distinct_map_filter)
    then show ?thesis by (simp add: unacked_outbound_def pending_def [abs_def] distinct_map)
  qed
  have "acked (\<lambda>r. m_msg_id r \<in> m_msg_id ` {x \<in> set ?rows. covered req x}) db =
      acked (\<lambda>r. pending rel_id through r \<and> covered req r) db"
    unfolding acked_def update_where_def set_unacked_outbound
    using assms(1)
    by (intro arg_cong [where f = "\<lambda>m. db\<lparr>db_messages := m\<rparr>"] map_cong)
      (auto simp: ids_distinct_def distinct_map inj_on_def)
  moreover have "handle_rows rel_id now req ?rows (db, []) =
      Ok (acked (\<lambda>r. m_msg_id r \<in> m_msg_id ` {x \<in> set ?rows. covered req x}) db,
          [] @ List.map_filter (resend rel_id now req db) ?rows)"
    by (rule handle_rows_exact [OF assms(1) _ d]) (auto simp: set_unacked_outbound pending_def)
  ultimately show ?thesis
    using assms(2) by (simp add: handle_request_def refuse_if_broken_def assms(3))
qed

section \<open>Numbering\<close>

abbreviation seq_floor :: "string \<Rightarrow> db \<Rightarrow> u64" where
  "seq_floor rel_id db \<equiv> setting_u64_or 1 (key_out_seq_floor rel_id) db"

lemma setting_u64_or_set [simp]:
  "setting_u64_or d k (set_setting k' (be64 v) db) = (if k = k' then v else setting_u64_or d k db)"
  by (simp add: setting_u64_or_def setting_def set_setting_def be64_def)
    (simp flip: be64_def)

lemma key_out_seq_floor_inject [simp]: "key_out_seq_floor a = key_out_seq_floor b \<longleftrightarrow> a = b"
  by (simp add: key_out_seq_floor_def)

definition numbering_inv :: "string \<Rightarrow> u64 set \<Rightarrow> db \<Rightarrow> bool" where
  "numbering_inv rel_id sent db \<longleftrightarrow>
     (\<forall>r \<in> set (db_messages db). m_rel_id r = rel_id \<and> m_direction r = Out \<longrightarrow> m_app_seq r \<in> sent) \<and>
     (\<forall>q \<in> sent. 1 \<le> unat q \<and> unat q < 2 ^ 63 \<and> q < seq_floor rel_id db) \<and>
     1 \<le> seq_floor rel_id db"

lemma next_out_seq_fresh:
  assumes "numbering_inv rel_id sent db" and "next_out_seq rel_id db = (q, db')"
  shows "1 \<le> q" "\<forall>p \<in> sent. p < q"
proof -
  have "seq_floor rel_id db \<le> q" using assms(2) by (auto simp: next_out_seq_def Let_def)
  then show "1 \<le> q" "\<forall>p \<in> sent. p < q"
    using assms(1) by (auto simp: numbering_inv_def intro: order_trans less_le_trans)
qed

lemma next_out_seq_numbering:
  assumes "numbering_inv rel_id sent db" and "next_out_seq rel_id db = (q, db')" "unat q < 2 ^ 63"
  shows "numbering_inv rel_id (insert q sent) db'"
proof -
  have db': "db' = set_setting (key_out_seq_floor rel_id) (be64 (saturating_add q 1)) db"
    using assms(2) by (auto simp: next_out_seq_def Let_def)
  have "unat (saturating_add q 1) = unat q + 1" using assms(3) by (simp add: unat_saturating_add)
  then have "q < saturating_add q 1" "1 \<le> saturating_add q 1"
    by (simp_all add: word_less_nat_alt word_le_nat_alt)
  moreover have "db_messages db' = db_messages db" by (simp add: db' set_setting_def)
  ultimately show ?thesis
    using assms(1,3) next_out_seq_fresh [OF assms(1,2)]
    by (auto simp: numbering_inv_def db' word_le_nat_alt intro: less_trans)
qed

section \<open>Local maintenance of a ledger\<close>

text \<open>
  The operations that rewrite or erase ledger rows without acknowledging one: expiry, erasure,
  failing, edits, tombstones, read marks, transmission, and the insertion of inbound rows.
\<close>

inductive maintenance :: "db \<Rightarrow> db \<Rightarrow> bool" where
  Sweep: "maintenance a (snd (messages_sweep_expired now a))"
| Erase: "maintenance a (snd (erase_history rel_id keep a))"
| FailAll: "maintenance a (snd (fail_relationship_outbound rel_id a))"
| FailOne: "maintenance a (snd (set_delivery msg_id Failed a))"
| Forget: "maintenance a (snd (delete_message msg_id a))"
| Edited: "maintenance a (snd (mark_edited msg_id payload edit_seq a))"
| Tombstoned: "maintenance a (snd (mark_tombstoned msg_id a))"
| ReadMark: "maintenance a (snd (mark_read msg_id read_at a))"
| Sent: "mark_transmitted msg_id a = Ok a' \<Longrightarrow> maintenance a a'"
| Inbound: "n_direction msg = In \<Longrightarrow> insert_message now msg a = Ok a' \<Longrightarrow> maintenance a a'"

definition tame :: "db \<Rightarrow> db \<Rightarrow> bool" where
  "tame a a' \<longleftrightarrow> db_settings a' = db_settings a \<and> (ids_distinct a \<longrightarrow> ids_distinct a') \<and>
     (\<forall>r' \<in> set (db_messages a'). m_direction r' = Out \<longrightarrow>
        (\<exists>r \<in> set (db_messages a). m_direction r = Out \<and> m_rel_id r = m_rel_id r' \<and>
           m_app_seq r = m_app_seq r' \<and> (m_state r' = Acknowledged \<longrightarrow> m_state r = Acknowledged)))"

lemma tame_update:
  assumes "db_messages a' = update_where P f (db_messages a)" "db_settings a' = db_settings a"
    and "\<And>r. m_msg_id (f r) = m_msg_id r \<and> m_direction (f r) = m_direction r \<and>
          m_rel_id (f r) = m_rel_id r \<and> m_app_seq (f r) = m_app_seq r \<and>
          (m_state (f r) = Acknowledged \<longrightarrow> m_state r = Acknowledged)"
  shows "tame a a'"
  using assms unfolding tame_def ids_distinct_def
  by (auto simp: map_update_where set_update_where split: if_splits)

lemma tame_filter:
  "db_messages a' = filter P (db_messages a) \<Longrightarrow> db_settings a' = db_settings a \<Longrightarrow> tame a a'"
  by (auto simp: tame_def ids_distinct_def distinct_map_filter)

lemma maintenance_tame: "maintenance a a' \<Longrightarrow> tame a a'"
proof (induction rule: maintenance.induct)
  case (Sent msg_id a a')
  then have "a' = snd (set_delivery msg_id Transmitted a)"
    by (auto simp: mark_transmitted_def transition_def split: option.splits if_splits)
  then show ?case by (auto simp: set_delivery_def intro!: tame_update)
next
  case (Inbound msg now a a')
  then show ?case
    using insert_message_Ok [OF Inbound(2)] insert_message_ids [OF Inbound(2)]
    by (auto simp: tame_def new_row_def)
next
  case (Sweep a now)
  show ?case by (rule tame_filter) (simp_all add: messages_sweep_expired_def Let_def)
next
  case (Erase a rel_id keep)
  show ?case by (rule tame_filter) (simp_all add: erase_history_def Let_def)
next
  case (Forget a msg_id)
  show ?case by (rule tame_filter) (simp_all add: delete_message_def)
qed (auto simp: fail_relationship_outbound_def set_delivery_def mark_edited_def mark_tombstoned_def
    mark_read_def Let_def intro!: tame_update)

section \<open>Two devices\<close>

text \<open>
  One direction of a relationship: the sender's store, the receiver's store, the sequence
  numbers the sender has given out, and the resynchronisation requests the receiver has built.
  A number given out may arrive any number of times, in any order or never; a request may be
  answered late, repeatedly or never.
\<close>

record link =
  lk_a :: db
  lk_b :: db
  lk_sent :: "u64 set"
  lk_reqs :: "resync_req list"

inductive lstep :: "(bytes \<Rightarrow> bytes) \<Rightarrow> string \<Rightarrow> string \<Rightarrow> link \<Rightarrow> link \<Rightarrow> bool"
    for sha256 ra rb where
  Send: "next_out_seq ra (lk_a s) = (q, a) \<Longrightarrow> unat q < 2 ^ 63 \<Longrightarrow>
     n_rel_id msg = ra \<Longrightarrow> n_direction msg = Out \<Longrightarrow> n_app_seq msg = q \<Longrightarrow> n_state msg = Queued \<Longrightarrow>
     insert_message now msg a = Ok a' \<Longrightarrow>
     lstep sha256 ra rb s (s\<lparr>lk_a := a', lk_sent := insert q (lk_sent s)\<rparr>)"
| Maintain: "maintenance (lk_a s) a' \<Longrightarrow> lstep sha256 ra rb s (s\<lparr>lk_a := a'\<rparr>)"
| Receive: "q \<in> lk_sent s \<Longrightarrow>
     lstep sha256 ra rb s (s\<lparr>lk_b := snd (note_inbound_seq rb q (lk_b s))\<rparr>)"
| MaintainB: "db_inbound_seqs b' = db_inbound_seqs (lk_b s) \<Longrightarrow> lstep sha256 ra rb s (s\<lparr>lk_b := b'\<rparr>)"
| Request: "build_request sha256 rb (lk_b s) = Ok req \<Longrightarrow>
     lstep sha256 ra rb s (s\<lparr>lk_reqs := req # lk_reqs s\<rparr>)"
| Answer: "req \<in> set (lk_reqs s) \<Longrightarrow> handle_request ra now req (lk_a s) = Ok (a', out) \<Longrightarrow>
     lstep sha256 ra rb s (s\<lparr>lk_a := a'\<rparr>)"

inductive lreachable :: "(bytes \<Rightarrow> bytes) \<Rightarrow> string \<Rightarrow> string \<Rightarrow> link \<Rightarrow> bool"
    for sha256 ra rb where
  Start: "db_messages a = [] \<Longrightarrow> setting (key_out_seq_floor ra) a = None \<Longrightarrow> db_inbound_seqs b = [] \<Longrightarrow>
     lreachable sha256 ra rb \<lparr>lk_a = a, lk_b = b, lk_sent = {}, lk_reqs = []\<rparr>"
| Step: "lreachable sha256 ra rb s \<Longrightarrow> lstep sha256 ra rb s s' \<Longrightarrow> lreachable sha256 ra rb s'"

definition sound_req :: "string \<Rightarrow> db \<Rightarrow> resync_req \<Rightarrow> bool" where
  "sound_req rb b req \<longleftrightarrow>
     (\<forall>q. is_missing (max_contiguous_seq req) (received_seq_bitmap req) q \<or> q \<in> noted rb b)"

definition acks_sound :: "string \<Rightarrow> string \<Rightarrow> db \<Rightarrow> db \<Rightarrow> bool" where
  "acks_sound ra rb a b \<longleftrightarrow>
     (\<forall>r \<in> set (db_messages a). m_rel_id r = ra \<and> m_direction r = Out \<and> m_state r = Acknowledged \<longrightarrow>
        m_app_seq r \<in> noted rb b)"

definition link_inv :: "string \<Rightarrow> string \<Rightarrow> link \<Rightarrow> bool" where
  "link_inv ra rb s \<longleftrightarrow> ids_distinct (lk_a s) \<and> numbering_inv ra (lk_sent s) (lk_a s) \<and>
     log_ok rb (lk_b s) \<and> noted rb (lk_b s) \<subseteq> lk_sent s \<and>
     (\<forall>req \<in> set (lk_reqs s). sound_req rb (lk_b s) req) \<and> acks_sound ra rb (lk_a s) (lk_b s)"

lemma noted_note_inbound [simp]:
  "noted rb (snd (note_inbound_seq rb q b)) = insert q (noted rb b)"
  by (auto simp: noted_def note_inbound_seq_def has_inbound_seq_def)

lemma log_ok_note_inbound:
  "log_ok rb b \<Longrightarrow> 1 \<le> unat q \<Longrightarrow> unat q < 2 ^ 63 \<Longrightarrow> log_ok rb (snd (note_inbound_seq rb q b))"
  unfolding log_ok_def noted_note_inbound
  by (auto simp: note_inbound_seq_def has_inbound_seq_def)

lemma sound_req_mono: "sound_req rb b req \<Longrightarrow> noted rb b \<subseteq> noted rb b' \<Longrightarrow> sound_req rb b' req"
  by (auto simp: sound_req_def)

lemma acks_sound_mono: "acks_sound ra rb a b \<Longrightarrow> noted rb b \<subseteq> noted rb b' \<Longrightarrow> acks_sound ra rb a b'"
  by (auto simp: acks_sound_def)

lemma numbering_inv_tame: "tame a a' \<Longrightarrow> numbering_inv ra sent a \<Longrightarrow> numbering_inv ra sent a'"
  by (fastforce simp: tame_def numbering_inv_def setting_u64_or_def setting_def)

lemma acks_sound_tame: "tame a a' \<Longrightarrow> acks_sound ra rb a b \<Longrightarrow> acks_sound ra rb a' b"
  by (fastforce simp: tame_def acks_sound_def)

lemma build_request_view:
  "build_request sha256 rb b = Ok req \<Longrightarrow>
   max_contiguous_seq req = rv_max_contiguous_seq (receive_view rb BITMAP_BITS b)"
  "build_request sha256 rb b = Ok req \<Longrightarrow>
   received_seq_bitmap req = rv_bitmap (receive_view rb BITMAP_BITS b)"
  by (auto simp: build_request_def Let_def rbind_Inr_iff)

lemma build_request_sound:
  "build_request sha256 rb b = Ok req \<Longrightarrow> log_ok rb b \<Longrightarrow> sound_req rb b req"
  unfolding sound_req_def build_request_view using receive_view_sound [OF _ refl] by blast

lemma handle_request_Ok:
  "handle_request ra now req a = Ok (a', out) \<Longrightarrow> ids_distinct a \<Longrightarrow>
   a' = acked (\<lambda>r. pending ra (max_contiguous_seq req + of_nat BITMAP_BITS) r \<and> covered req r) a"
  using handle_request_eq [OF _ _ refl, of a ra now req]
  by (cases "session_state ra a = SS_Broken") (auto simp: handle_request_def refuse_if_broken_def)

lemma lstep_inv: "lstep sha256 ra rb s s' \<Longrightarrow> link_inv ra rb s \<Longrightarrow> link_inv ra rb s'"
proof (induction rule: lstep.induct)
  case (Send s q a msg now a')
  have "numbering_inv ra (insert q (lk_sent s)) a" "db_messages a = db_messages (lk_a s)"
    using Send next_out_seq_numbering by (auto simp: link_inv_def next_out_seq_def Let_def set_setting_def)
  then show ?case
    using Send insert_message_ids [OF Send.hyps(7)] insert_message_Ok [OF Send.hyps(7)]
    by (auto simp: link_inv_def numbering_inv_def acks_sound_def new_row_def ids_distinct_def
        setting_u64_or_def setting_def)
next
  case (Maintain s a')
  from maintenance_tame [OF Maintain.hyps] Maintain.prems show ?case
    by (auto simp: link_inv_def intro: numbering_inv_tame acks_sound_tame) (simp add: tame_def)
next
  case (Receive q s)
  then have "1 \<le> unat q" "unat q < 2 ^ 63" by (auto simp: link_inv_def numbering_inv_def)
  with Receive show ?case
    by (auto simp: link_inv_def log_ok_note_inbound intro: sound_req_mono acks_sound_mono)
next
  case (MaintainB b' s)
  then have "noted rb b' = noted rb (lk_b s)" by (simp add: noted_def)
  with MaintainB show ?case
    by (auto simp: link_inv_def log_ok_def intro: sound_req_mono acks_sound_mono)
next
  case (Request s req)
  then show ?case by (auto simp: link_inv_def intro: build_request_sound)
next
  case (Answer req s now a' out)
  have "sound_req rb (lk_b s) req" using Answer by (auto simp: link_inv_def)
  moreover have a': "a' = acked (\<lambda>r. pending ra (max_contiguous_seq req + of_nat BITMAP_BITS) r \<and> covered req r) (lk_a s)"
    using Answer handle_request_Ok by (auto simp: link_inv_def)
  ultimately show ?case
    using Answer.prems unfolding link_inv_def
    by (auto simp: acked_def numbering_inv_def acks_sound_def sound_req_def covered_def
        set_update_where setting_u64_or_def setting_def split: if_splits)
qed

lemma lreachable_inv: "lreachable sha256 ra rb s \<Longrightarrow> link_inv ra rb s"
proof (induction rule: lreachable.induct)
  case (Start a b)
  then show ?case
    by (simp add: link_inv_def ids_distinct_def numbering_inv_def log_ok_def noted_def acks_sound_def
        setting_u64_or_def)
next
  case (Step s s')
  then show ?case by (blast intro: lstep_inv)
qed

text \<open>
  C2: an acknowledgement is never wrong. In every reachable state of two devices, under any
  loss, repetition and reordering of envelopes and of resynchronisation requests, and with
  rows expiring, failing, being edited or erased on the sender's side, a row the sender
  holds as acknowledged carries a sequence number that the receiver has in its log.
\<close>

theorem acknowledged_received:
  assumes "lreachable sha256 ra rb s" "r \<in> set (db_messages (lk_a s))"
    and "m_rel_id r = ra" "m_direction r = Out" "m_state r = Acknowledged"
  shows "m_app_seq r \<in> noted rb (lk_b s)"
  using lreachable_inv [OF assms(1)] assms(2-) by (auto simp: link_inv_def acks_sound_def)

text \<open>
  C13: sequence numbers are never reused. In every reachable state the next number given out
  is larger than every number given out before, also when the rows that carried them have
  been erased.
\<close>

theorem out_seq_fresh:
  assumes "lreachable sha256 ra rb s" "next_out_seq ra (lk_a s) = (q, a)" "p \<in> lk_sent s"
  shows "p < q"
  using lreachable_inv [OF assms(1)] next_out_seq_fresh(2) [OF _ assms(2)] assms(3)
  by (auto simp: link_inv_def)

section \<open>A round of resynchronisation\<close>

abbreviation horizon :: "string \<Rightarrow> db \<Rightarrow> nat" where
  "horizon rb b \<equiv> unat (rv_max_contiguous_seq (receive_view rb BITMAP_BITS b))"

definition outstanding :: "string \<Rightarrow> db \<Rightarrow> message_row set" where
  "outstanding ra a =
     {r \<in> set (db_messages a). m_rel_id r = ra \<and> m_direction r = Out \<and> pending_state r}"

definition in_window :: "string \<Rightarrow> db \<Rightarrow> message_row \<Rightarrow> bool" where
  "in_window rb b r \<longleftrightarrow> 1 \<le> unat (m_app_seq r) \<and> unat (m_app_seq r) \<le> horizon rb b + BITMAP_BITS"

lemma finite_noted [simp]: "finite (noted rb b)"
  by (simp flip: set_ledger_seqs)

lemma horizon_facts:
  assumes "log_ok rb b" "card (noted rb b) \<le> VIEW_SCAN_LIMIT"
  shows "{1..horizon rb b} \<subseteq> unat ` noted rb b" "horizon rb b + 1 \<notin> unat ` noted rb b"
    "horizon rb b \<le> VIEW_SCAN_LIMIT"
proof -
  have e: "unat ` noted rb b \<inter> {..horizon rb b + 1} = {1..horizon rb b}"
    using receive_view_spec [OF assms(1) refl refl, of BITMAP_BITS] assms
    by (simp add: noted_card set_ledger_seqs)
  then show "{1..horizon rb b} \<subseteq> unat ` noted rb b" by blast
  then have "horizon rb b \<le> card (unat ` noted rb b)"
    using card_mono [of "unat ` noted rb b" "{1..horizon rb b}"] by simp
  then show "horizon rb b \<le> VIEW_SCAN_LIMIT"
    using card_image_le [of "noted rb b" unat] assms(2) by simp
  have "horizon rb b + 1 \<notin> {1..horizon rb b}" by simp
  then show "horizon rb b + 1 \<notin> unat ` noted rb b" using e by blast
qed

lemma horizon_mono:
  assumes "log_ok rb b" "card (noted rb b) \<le> VIEW_SCAN_LIMIT"
    and "log_ok rb b'" "card (noted rb b') \<le> VIEW_SCAN_LIMIT" "noted rb b \<subseteq> noted rb b'"
  shows "horizon rb b \<le> horizon rb b'"
proof (rule ccontr)
  assume "\<not> ?thesis"
  then have "horizon rb b' + 1 \<in> {1..horizon rb b}" by simp
  with horizon_facts(1) [OF assms(1,2)] assms(5) have "horizon rb b' + 1 \<in> unat ` noted rb b'" by blast
  with horizon_facts(2) [OF assms(3,4)] show False by contradiction
qed

lemma round_facts:
  assumes "log_ok rb b" "card (noted rb b) \<le> VIEW_SCAN_LIMIT" "build_request sha256 rb b = Ok req"
    and "r \<in> outstanding ra a" "in_window rb b r"
  shows "covered req r \<longleftrightarrow> m_app_seq r \<in> noted rb b"
    "pending ra (max_contiguous_seq req + of_nat BITMAP_BITS) r"
proof -
  let ?v = "receive_view rb BITMAP_BITS b"
  note req = build_request_view [OF assms(3)]
  have all: "take VIEW_SCAN_LIMIT (ledger_seqs rb b) = ledger_seqs rb b"
    using assms(1,2) by (simp add: noted_card)
  show "covered req r \<longleftrightarrow> m_app_seq r \<in> noted rb b"
    using not_missing_iff [OF assms(1) refl, of "m_app_seq r"] assms(5)
    by (simp add: covered_def req all set_ledger_seqs in_window_def)
  have h: "horizon rb b + BITMAP_BITS < 2 ^ 63"
    using horizon_facts(3) [OF assms(1,2)] by (simp add: limit_defs)
  then have "unat (rv_max_contiguous_seq ?v + of_nat BITMAP_BITS) = horizon rb b + BITMAP_BITS"
    by (simp add: unat_word_ariths unat_of_nat_small limit_defs)
  moreover have "unat (m_app_seq r) < 2 ^ 63" using assms(5) h by (simp add: in_window_def)
  ultimately have "i64_le (m_app_seq r) (rv_max_contiguous_seq ?v + of_nat BITMAP_BITS)"
    using assms(5) h by (simp only: i64_le_def sint_small in_window_def of_nat_le_iff)
  then show "pending ra (max_contiguous_seq req + of_nat BITMAP_BITS) r"
    using assms(4) by (simp add: pending_def outstanding_def req)
qed

definition deliver_all :: "string \<Rightarrow> retransmit list \<Rightarrow> db \<Rightarrow> db" where
  "deliver_all rb rts b = fold (\<lambda>rt b. snd (note_inbound_seq rb (rt_app_seq rt) b)) rts b"

lemma noted_deliver_all: "noted rb (deliver_all rb rts b) = noted rb b \<union> rt_app_seq ` set rts"
  by (induction rts arbitrary: b) (auto simp: deliver_all_def)

lemma log_ok_deliver_all:
  "log_ok rb b \<Longrightarrow> \<forall>rt \<in> set rts. 1 \<le> unat (rt_app_seq rt) \<and> unat (rt_app_seq rt) < 2 ^ 63 \<Longrightarrow>
   log_ok rb (deliver_all rb rts b)"
  by (induction rts arbitrary: b) (auto simp: deliver_all_def log_ok_note_inbound)

lemma session_state_note [simp]: "session_state rb (deliver_all rb rts b) = session_state rb b"
  by (induction rts arbitrary: b)
    (auto simp: deliver_all_def session_state_def rel_of_def note_inbound_seq_def)

lemma session_state_acked [simp]: "session_state ra (acked P a) = session_state ra a"
  by (simp add: session_state_def rel_of_def acked_def)

lemma ids_distinct_acked [simp]: "ids_distinct (acked P a) = ids_distinct a"
  by (simp add: acked_def)

lemma build_request_total:
  "session_state rb b \<noteq> SS_Broken \<Longrightarrow> \<exists>req. build_request sha256 rb b = Ok req"
  by (simp add: build_request_def refuse_if_broken_def Let_def)

lemma set_map_filter: "set (List.map_filter f xs) = {y. \<exists>x \<in> set xs. f x = Some y}"
  by (force simp: List.map_filter_def)

lemma image_Some:
  "(\<And>x. x \<in> S \<Longrightarrow> f x \<noteq> None \<longleftrightarrow> Q x) \<Longrightarrow> (\<And>x y. f x = Some y \<Longrightarrow> g y = h x) \<Longrightarrow>
   g ` {y. \<exists>x \<in> S. f x = Some y} = h ` {x \<in> S. Q x}"
  by (auto simp: image_iff) (metis not_None_eq)+

lemma outstanding_acked:
  "(\<And>r. r \<in> outstanding ra a \<Longrightarrow> Q r \<Longrightarrow> P r) \<Longrightarrow> outstanding ra (acked P a) \<subseteq> {r \<in> outstanding ra a. \<not> Q r}"
  by (auto simp: outstanding_def acked_def set_update_where split: if_splits)

lemma resync_round:
  assumes "ids_distinct a" "session_state ra a \<noteq> SS_Broken" "session_state rb b \<noteq> SS_Broken"
    and "log_ok rb b" "card (noted rb b) \<le> VIEW_SCAN_LIMIT" "\<forall>r \<in> outstanding ra a. in_window rb b r"
  obtains req P out where "build_request sha256 rb b = Ok req"
    and "handle_request ra now req a = Ok (acked P a, out)"
    and "outstanding ra (acked P a) \<subseteq> {r \<in> outstanding ra a. m_app_seq r \<notin> noted rb b}"
    and "rt_app_seq ` set out = m_app_seq ` {r \<in> outstanding ra a. m_app_seq r \<notin> noted rb b \<and>
           \<not> expired_row now r \<and> stored_ciphertext ra (m_msg_id r) a \<noteq> None}"
proof -
  obtain req where req: "build_request sha256 rb b = Ok req" using build_request_total [OF assms(3)] by blast
  let ?t = "max_contiguous_seq req + of_nat BITMAP_BITS"
  note rf = round_facts [OF assms(4,5) req]
  have o: "outstanding ra a = {r \<in> set (db_messages a). pending ra ?t r}"
    using rf(2) assms(6) by (auto simp: outstanding_def pending_def)
  have cov: "covered req r \<longleftrightarrow> m_app_seq r \<in> noted rb b" if "r \<in> outstanding ra a" for r
    using rf(1) assms(6) that by blast
  show thesis
  proof (rule that [OF req handle_request_eq [OF assms(1,2) refl]])
    show "outstanding ra (acked (\<lambda>r. pending ra ?t r \<and> covered req r) a)
        \<subseteq> {r \<in> outstanding ra a. m_app_seq r \<notin> noted rb b}"
      by (rule outstanding_acked) (use cov o in auto)
    show "rt_app_seq ` set (List.map_filter (resend ra now req a) (unacked_outbound ra ?t a)) =
        m_app_seq ` {r \<in> outstanding ra a. m_app_seq r \<notin> noted rb b \<and>
           \<not> expired_row now r \<and> stored_ciphertext ra (m_msg_id r) a \<noteq> None}"
      unfolding set_map_filter set_unacked_outbound o [symmetric]
      by (rule image_Some) (auto simp: resend_def cov split: if_splits)
  qed
qed

text \<open>
  C3: two rounds synchronise. Let neither session be broken and the sender's message ids be distinct,
  let every outstanding row of the sender lie within the window of the receiver's bitmap, be
  unexpired and have its frame cached, and let the receiver's log stay within the scan limit. Then the receiver's request is built, the sender answers
  it with frames, and once these have been received a second request is answered with no
  frame at all and leaves the sender with nothing outstanding.
\<close>

theorem resync_converges:
  assumes "ids_distinct a" "session_state ra a \<noteq> SS_Broken" "session_state rb b \<noteq> SS_Broken"
    and "log_ok rb b" "card (noted rb b \<union> m_app_seq ` outstanding ra a) \<le> VIEW_SCAN_LIMIT"
    and "\<forall>r \<in> outstanding ra a.
      in_window rb b r \<and> \<not> expired_row now r \<and> stored_ciphertext ra (m_msg_id r) a \<noteq> None"
  shows "\<exists>req a1 out req' a2. build_request sha256 rb b = Ok req \<and>
    handle_request ra now req a = Ok (a1, out) \<and>
    build_request sha256 rb (deliver_all rb out b) = Ok req' \<and>
    handle_request ra now' req' a1 = Ok (a2, []) \<and> outstanding ra a2 = {}"
proof -
  have card: "card (noted rb b) \<le> VIEW_SCAN_LIMIT"
    by (rule order_trans [OF card_mono assms(5)]) (auto simp: outstanding_def)
  have win: "\<forall>r \<in> outstanding ra a. in_window rb b r" using assms(6) by blast
  from resync_round [OF assms(1-4) card win, of sha256 now] obtain req P out where
    r1: "build_request sha256 rb b = Ok req" "handle_request ra now req a = Ok (acked P a, out)"
      "outstanding ra (acked P a) \<subseteq> {r \<in> outstanding ra a. m_app_seq r \<notin> noted rb b}"
      "rt_app_seq ` set out = m_app_seq ` {r \<in> outstanding ra a. m_app_seq r \<notin> noted rb b \<and>
         \<not> expired_row now r \<and> stored_ciphertext ra (m_msg_id r) a \<noteq> None}"
    by blast
  let ?b = "deliver_all rb out b"
  have sent: "rt_app_seq ` set out = m_app_seq ` {r \<in> outstanding ra a. m_app_seq r \<notin> noted rb b}"
    unfolding r1(4) using assms(6) by (intro arg_cong [where f = "image m_app_seq"]) blast
  then have noted: "noted rb ?b = noted rb b \<union> m_app_seq ` outstanding ra a"
    by (auto simp: noted_deliver_all)
  have "1 \<le> unat (rt_app_seq rt) \<and> unat (rt_app_seq rt) < 2 ^ 63" if "rt \<in> set out" for rt
  proof -
    have "rt_app_seq rt \<in> m_app_seq ` outstanding ra a" using imageI [OF that, of rt_app_seq] sent by auto
    then show ?thesis
      using win horizon_facts(3) [OF assms(4) card] by (auto simp: in_window_def limit_defs)
  qed
  then have ok: "log_ok rb ?b" using assms(4) by (blast intro: log_ok_deliver_all)
  have le: "horizon rb b \<le> horizon rb ?b"
    by (rule horizon_mono [OF assms(4) card ok]) (use assms(5) noted in auto)
  have win': "\<forall>r \<in> outstanding ra (acked P a). in_window rb ?b r"
    using r1(3) win le by (fastforce simp: in_window_def)
  have pre: "ids_distinct (acked P a)" "session_state ra (acked P a) \<noteq> SS_Broken"
      "session_state rb ?b \<noteq> SS_Broken" "card (noted rb ?b) \<le> VIEW_SCAN_LIMIT"
    using assms(1-3,5) noted by simp_all
  from resync_round [OF pre(1-3) ok pre(4) win', of sha256 now'] obtain req' P' out' where
    r2: "build_request sha256 rb ?b = Ok req'"
      "handle_request ra now' req' (acked P a) = Ok (acked P' (acked P a), out')"
      "outstanding ra (acked P' (acked P a)) \<subseteq> {r \<in> outstanding ra (acked P a). m_app_seq r \<notin> noted rb ?b}"
      "rt_app_seq ` set out' = m_app_seq ` {r \<in> outstanding ra (acked P a). m_app_seq r \<notin> noted rb ?b \<and>
         \<not> expired_row now' r \<and> stored_ciphertext ra (m_msg_id r) (acked P a) \<noteq> None}"
    by blast
  have none: "{r \<in> outstanding ra (acked P a). m_app_seq r \<notin> noted rb ?b} = {}"
    using r1(3) noted by auto
  have "rt_app_seq ` set out' \<subseteq> m_app_seq ` {r \<in> outstanding ra (acked P a). m_app_seq r \<notin> noted rb ?b}"
    unfolding r2(4) by blast
  then have "set out' = {}" unfolding none by simp
  moreover have "outstanding ra (acked P' (acked P a)) = {}" using r2(3) unfolding none by blast
  ultimately show ?thesis using r1 r2 by auto
qed

definition example_row :: new_message where
  "example_row = \<lparr>n_msg_id = replicate 16 7, n_rel_id = ''a'', n_direction = Out, n_app_seq = 1, n_sent_at = 5,
     n_received_at = None, n_env_type = 1, n_ref_id = None, n_payload = [], n_state = Queued,
     n_expires_at = None\<rparr>"

definition example_sender :: db where
  "example_sender = empty_db\<lparr>db_messages := [new_row 5 example_row],
     db_ciphertexts := [\<lparr>ct_msg_id = replicate 16 7, ct_rel_id = ''a'', ct_frame = [2, 9]\<rparr>]\<rparr>"

lemma outstanding_example: "outstanding ''a'' example_sender = {new_row 5 example_row}"
  by (auto simp: outstanding_def example_sender_def new_row_def example_row_def)

theorem resync_converges_witness:
  "outstanding ''a'' example_sender \<noteq> {} \<and>
   (\<exists>req a1 out req' a2. build_request id ''b'' empty_db = Ok req \<and>
      handle_request ''a'' 9 req example_sender = Ok (a1, out) \<and>
      build_request id ''b'' (deliver_all ''b'' out empty_db) = Ok req' \<and>
      handle_request ''a'' 9 req' a1 = Ok (a2, []) \<and> outstanding ''a'' a2 = {})"
proof
  show "outstanding ''a'' example_sender \<noteq> {}" by (simp add: outstanding_example)
qed (rule resync_converges, unfold outstanding_example,
  simp_all add: ids_distinct_def example_sender_def session_state_def rel_of_def empty_db_def log_ok_def noted_def
    in_window_def expired_row_def stored_ciphertext_def new_row_def example_row_def limit_defs)

lemma lreach_step:
  "lreachable sha256 ra rb s \<Longrightarrow> lstep sha256 ra rb s s' \<Longrightarrow> s' = t \<Longrightarrow> lreachable sha256 ra rb t"
  by (blast intro: lreachable.Step)

lemma lreach_acked:
  "\<exists>s r. lreachable id ''a'' ''b'' s \<and> r \<in> set (db_messages (lk_a s)) \<and> m_rel_id r = ''a'' \<and>
     m_direction r = Out \<and> m_state r = Acknowledged \<and> m_app_seq r = 1"
proof -
  let ?a0 = "set_setting (key_out_seq_floor ''a'') (be64 2) empty_db"
  let ?row = "new_row 5 example_row"
  define a where "a = ?a0\<lparr>db_messages := [?row]\<rparr>"
  define b where "b = empty_db\<lparr>db_inbound_seqs := [(''b'', 1)]\<rparr>"
  let ?s0 = "\<lparr>lk_a = empty_db, lk_b = empty_db, lk_sent = {}, lk_reqs = []\<rparr>"
  have n: "noted ''b'' b = {1}" by (auto simp: noted_def b_def empty_db_def)
  have ok: "log_ok ''b'' b" "card (noted ''b'' b) \<le> VIEW_SCAN_LIMIT"
    unfolding log_ok_def n by (simp_all add: b_def limit_defs)
  obtain req where req: "build_request id ''b'' b = Ok req"
    using build_request_total [of "''b''" b] by (auto simp: session_state_def rel_of_def b_def empty_db_def)
  have a: "ids_distinct a" "session_state ''a'' a \<noteq> SS_Broken"
    by (simp_all add: a_def ids_distinct_def session_state_def rel_of_def set_setting_def empty_db_def)
  have row: "?row \<in> outstanding ''a'' a" "in_window ''b'' b ?row"
    by (simp_all add: outstanding_def in_window_def a_def new_row_def example_row_def limit_defs)
  let ?P = "\<lambda>r. pending ''a'' (max_contiguous_seq req + of_nat BITMAP_BITS) r \<and> covered req r"
  have P: "?P ?row"
    using round_facts [OF ok req row] by (simp add: n new_row_def example_row_def)
  have "lreachable id ''a'' ''b'' ?s0"
    by (rule lreachable.Start) (simp_all add: empty_db_def setting_def)
  then have "lreachable id ''a'' ''b'' (?s0\<lparr>lk_a := a, lk_sent := {1}\<rparr>)"
    by (rule lreach_step [OF _ lstep.Send [where q = 1 and a = ?a0 and a' = a and msg = example_row and now = 5]])
      (simp_all add: a_def example_row_def new_row_def empty_db_def insert_message_def any_row_def
        next_out_seq_def max_out_seq_def setting_u64_or_def setting_def Let_def set_setting_def saturating_add_def)
  then have "lreachable id ''a'' ''b'' (?s0\<lparr>lk_a := a, lk_sent := {1}, lk_b := b\<rparr>)"
    by (rule lreach_step [OF _ lstep.Receive [of 1]])
      (simp_all add: b_def note_inbound_seq_def has_inbound_seq_def empty_db_def)
  then have "lreachable id ''a'' ''b'' (?s0\<lparr>lk_a := a, lk_sent := {1}, lk_b := b, lk_reqs := [req]\<rparr>)"
    by (rule lreach_step [OF _ lstep.Request [where req = req]]) (simp_all add: req)
  then have "lreachable id ''a'' ''b'' (?s0\<lparr>lk_a := acked ?P a, lk_sent := {1}, lk_b := b, lk_reqs := [req]\<rparr>)"
    by (rule lreach_step [OF _ lstep.Answer [where req = req and now = 9]])
      (simp_all add: handle_request_eq [OF a refl])
  moreover have "acknowledge ?row \<in> set (db_messages (acked ?P a))"
    using P by (simp add: acked_def set_update_where a_def)
  moreover have "m_rel_id ?row = ''a''" "m_direction ?row = Out" "m_app_seq ?row = 1"
    by (simp_all add: new_row_def example_row_def)
  ultimately show ?thesis
    by (intro exI [of _ "?s0\<lparr>lk_a := acked ?P a, lk_sent := {1}, lk_b := b, lk_reqs := [req]\<rparr>"]
        exI [of _ "acknowledge ?row"] conjI) simp_all
qed

theorem acknowledged_received_witness:
  "\<exists>s. lreachable id ''a'' ''b'' s \<and> 1 \<in> noted ''b'' (lk_b s)"
proof -
  from lreach_acked obtain s r where
    s: "lreachable id ''a'' ''b'' s" "r \<in> set (db_messages (lk_a s))" "m_rel_id r = ''a''"
      "m_direction r = Out" "m_state r = Acknowledged" "m_app_seq r = 1" by blast
  with acknowledged_received [OF s(1-5)] show ?thesis by auto
qed

theorem out_seq_fresh_witness:
  "\<exists>s q a. lreachable id ''a'' ''b'' s \<and> next_out_seq ''a'' (lk_a s) = (q, a) \<and> 1 < q"
proof -
  from lreach_acked obtain s r where
    s: "lreachable id ''a'' ''b'' s" "r \<in> set (db_messages (lk_a s))" "m_rel_id r = ''a''"
      "m_direction r = Out" "m_app_seq r = 1" by blast
  then have "1 \<in> lk_sent s"
    using lreachable_inv [OF s(1)] by (auto simp: link_inv_def numbering_inv_def)
  moreover obtain q a where "next_out_seq ''a'' (lk_a s) = (q, a)" by fastforce
  ultimately show ?thesis using s(1) out_seq_fresh [OF s(1)] by blast
qed

end
