(* ===== verification/Messages.thy ===== *)
theory Messages
  imports Sync "HOL-Library.AList"
begin

text \<open>
  The decision functions of \<^verbatim>\<open>crates/core/src/messages/\<close> (edits, deletes and the history
  cut), the capability gates of \<^verbatim>\<open>crates/core/src/caps/mod.rs\<close> and the indicator tables of
  \<^verbatim>\<open>presence/mod.rs\<close> and \<^verbatim>\<open>typing/mod.rs\<close>.
\<close>

section \<open>Capabilities\<close>

definition local_caps :: u32 where "local_caps = LOCAL_CAPS"

definition required_cap :: "envelope_type \<Rightarrow> u32 option" where
  "required_cap t =
     (if t = T_Sticker \<or> t = T_StickerCtrl then Some CAP_STICKER
      else if t = T_Presence then Some CAP_PRESENCE
      else if t = T_Typing then Some CAP_TYPING
      else if t = T_Read then Some CAP_READ
      else if t = T_ChatPolicy then Some CAP_POLICY
      else None)"

definition note_peer_caps :: "string \<Rightarrow> u32 \<Rightarrow> db \<Rightarrow> db" where
  "note_peer_caps rel_id peer_caps = update_rel rel_id (\<lambda>r. r\<lparr>rel_peer_caps := ucast peer_caps\<rparr>)"

definition peer_caps :: "string \<Rightarrow> db \<Rightarrow> u32" where
  "peer_caps rel_id db = (case rel_of rel_id db of None \<Rightarrow> 0 | Some r \<Rightarrow> ucast (rel_peer_caps r))"

definition allows :: "u32 \<Rightarrow> envelope_type \<Rightarrow> bool" where
  "allows caps t = (case required_cap t of None \<Rightarrow> True | Some b \<Rightarrow> has_cap caps b)"

definition check_inbound :: "string \<Rightarrow> envelope_type \<Rightarrow> db \<Rightarrow> bool" where
  "check_inbound rel_id t db = allows (peer_caps rel_id db) t"

definition check_outbound :: "u32 \<Rightarrow> envelope_type \<Rightarrow> bool" where
  "check_outbound caps t = allows caps t"

section \<open>Edits and deletes\<close>

definition EDIT_WINDOW_SEC :: u64 where "EDIT_WINDOW_SEC = 3600"

definition EDIT_MAX_EDITS :: u32 where "EDIT_MAX_EDITS = 30"

datatype EditDecision =
    Apply
  | DropTombstone
  | DropHistoryCut
  | DropMissing
  | DropAuthorship
  | DropKind
  | DropExpired
  | DropWindow
  | DropCap
  | DropStaleSeq
  | DropTooLarge

definition can_offer_edit :: "message_row \<Rightarrow> u64 \<Rightarrow> bool" where
  "can_offer_edit row now =
     (if m_direction row \<noteq> Out then False
      else if m_env_type row \<noteq> EnvelopeType_code T_Msg then False
      else if m_tombstone row \<or> m_edit_count row \<ge> EDIT_MAX_EDITS then False
      else now < m_sent_at row + EDIT_WINDOW_SEC)"

definition edit_decision ::
    "message_row option \<Rightarrow> u64 \<Rightarrow> u64 \<Rightarrow> nat \<Rightarrow> nat \<Rightarrow> bool \<Rightarrow> u64 \<Rightarrow> EditDecision" where
  "edit_decision target now incoming_app_seq body_bytes max_body_bytes tombstoned history_cut_seq =
     (if history_cut_seq > 0 \<and> incoming_app_seq < history_cut_seq then DropHistoryCut
      else if tombstoned then DropTombstone
      else case target of
        None \<Rightarrow> DropMissing
      | Some target \<Rightarrow>
          if m_direction target \<noteq> In then DropAuthorship
          else if m_env_type target \<noteq> EnvelopeType_code T_Msg then DropKind
          else if (case m_expires_at target of None \<Rightarrow> False | Some e \<Rightarrow> now \<ge> e) then DropExpired
          else
            let first_received =
              (case m_received_at target of None \<Rightarrow> m_created_at target | Some r \<Rightarrow> r) in
            if now \<ge> first_received + EDIT_WINDOW_SEC then DropWindow
            else if m_edit_count target \<ge> EDIT_MAX_EDITS then DropCap
            else if incoming_app_seq \<le> m_last_edit_seq target then DropStaleSeq
            else if body_bytes > max_body_bytes then DropTooLarge
            else Apply)"

definition is_history_type :: "envelope_type \<Rightarrow> bool" where
  "is_history_type t \<longleftrightarrow> t \<in> {T_Msg, T_Edit, T_AttachHead, T_AttachChunk, T_Sticker}"

definition should_drop_inbound :: "envelope_type \<Rightarrow> u64 \<Rightarrow> u64 \<Rightarrow> bool \<Rightarrow> bool" where
  "should_drop_inbound t app_seq history_cut_seq tombstoned =
     (if \<not> is_history_type t then False
      else if tombstoned then True
      else history_cut_seq > 0 \<and> app_seq < history_cut_seq)"

section \<open>Presence\<close>

definition PRESENCE_TTL_SECS :: u64 where "PRESENCE_TTL_SECS = 45"

record peer_presence =
  pp_in_app :: bool
  pp_do_not_disturb :: bool

text \<open>
  The table as an association list with one entry per relationship; the order in which the
  source's hash map is traversed is left open there.
\<close>

type_synonym presence_table = "(string \<times> (presence \<times> u64)) list"

definition presence_note ::
    "string \<Rightarrow> presence \<Rightarrow> u64 \<Rightarrow> presence_table \<Rightarrow> peer_presence option \<times> presence_table" where
  "presence_note rel_id p now t =
     (if map_option fst (map_of t rel_id) = Some p then None
      else Some \<lparr>pp_in_app = in_app p, pp_do_not_disturb = do_not_disturb p\<rparr>,
      AList.update rel_id (p, now) t)"

definition presence_state :: "string \<Rightarrow> u64 \<Rightarrow> presence_table \<Rightarrow> peer_presence" where
  "presence_state rel_id now t =
     (case map_of t rel_id of
        None \<Rightarrow> \<lparr>pp_in_app = False, pp_do_not_disturb = False\<rparr>
      | Some (p, at) \<Rightarrow>
          if saturating_sub now at < PRESENCE_TTL_SECS
          then \<lparr>pp_in_app = in_app p, pp_do_not_disturb = do_not_disturb p\<rparr>
          else \<lparr>pp_in_app = False, pp_do_not_disturb = False\<rparr>)"

definition presence_sweep :: "u64 \<Rightarrow> presence_table \<Rightarrow> string list \<times> presence_table" where
  "presence_sweep now t =
     (let fresh = (\<lambda>(rel_id, p, at). saturating_sub now at < PRESENCE_TTL_SECS) in
      (map fst (filter (\<lambda>e. \<not> fresh e \<and> in_app (fst (snd e))) t), filter fresh t))"

definition presence_forget :: "string \<Rightarrow> presence_table \<Rightarrow> presence_table" where
  "presence_forget rel_id t = AList.delete rel_id t"

section \<open>Typing\<close>

definition TYPING_TTL_SECS :: u64 where "TYPING_TTL_SECS = 5"

definition TYPING_SEND_INTERVAL_SECS :: u64 where "TYPING_SEND_INTERVAL_SECS = 3"

record typing_table =
  ty_inbound :: "(string \<times> u64) list"
  ty_last_sent :: "(string \<times> u64) list"

definition is_typing :: "string \<Rightarrow> u64 \<Rightarrow> typing_table \<Rightarrow> bool" where
  "is_typing rel_id now t =
     (case map_of (ty_inbound t) rel_id of None \<Rightarrow> False | Some e \<Rightarrow> e > now)"

definition typing_note :: "string \<Rightarrow> bool \<Rightarrow> u64 \<Rightarrow> typing_table \<Rightarrow> bool option \<times> typing_table" where
  "typing_note rel_id typing now t =
     (if is_typing rel_id now t = typing then None else Some typing,
      t\<lparr>ty_inbound := if typing then AList.update rel_id (now + TYPING_TTL_SECS) (ty_inbound t)
                      else AList.delete rel_id (ty_inbound t)\<rparr>)"

definition typing_sweep :: "u64 \<Rightarrow> typing_table \<Rightarrow> string list \<times> typing_table" where
  "typing_sweep now t =
     (map fst (filter (\<lambda>(rel_id, e). e \<le> now) (ty_inbound t)),
      t\<lparr>ty_inbound := filter (\<lambda>(rel_id, e). \<not> e \<le> now) (ty_inbound t)\<rparr>)"

definition should_send :: "string \<Rightarrow> u64 \<Rightarrow> typing_table \<Rightarrow> bool" where
  "should_send rel_id now t =
     (case map_of (ty_last_sent t) rel_id of
        None \<Rightarrow> True
      | Some at \<Rightarrow> saturating_sub now at \<ge> TYPING_SEND_INTERVAL_SECS)"

definition note_sent :: "string \<Rightarrow> u64 \<Rightarrow> typing_table \<Rightarrow> typing_table" where
  "note_sent rel_id now t = t\<lparr>ty_last_sent := AList.update rel_id now (ty_last_sent t)\<rparr>"

definition typing_forget :: "string \<Rightarrow> typing_table \<Rightarrow> typing_table" where
  "typing_forget rel_id t =
     t\<lparr>ty_inbound := AList.delete rel_id (ty_inbound t),
       ty_last_sent := AList.delete rel_id (ty_last_sent t)\<rparr>"

end
