(* ===== verification/Wire_Pack.thy ===== *)
theory Wire_Pack
  imports Wire_Sticker
begin

text \<open>
  The pack documents of \<^verbatim>\<open>crates/wire-types/src/sticker.rs\<close>: the signed pack document
  (\<open>body_bytes\<close>, \<open>decode_signed\<close>, \<open>decode_body\<close>, the progress scan \<open>scan_partial\<close>) and
  the unsigned thumbnail document. Signature verification and SHA-256 are closures in
  the source and parameters \<open>verify\<close> and \<open>sha256\<close> here. The \<open>for\<close> loops over the items
  are recursive functions that carry the set of item ids seen so far.
\<close>

section \<open>Signed pack documents\<close>

definition PACK_DOC_DOMAIN :: bytes where
  "PACK_DOC_DOMAIN = map (\<lambda>c. of_nat (of_char c)) ''s//chat6-v7 Pack''"

record pack_doc_item =
  pdi_item_id :: u16
  pdi_w :: u16
  pdi_h :: u16
  pdi_sha256 :: bytes
  pdi_bytes :: bytes

record sticker_pack_doc =
  pd_pack_id :: bytes
  pd_kind :: u8
  pd_visibility :: u8
  pd_title :: bytes
  pd_icon_item_id :: u16
  pd_items :: "pack_doc_item list"

fun body_items :: "u8 \<Rightarrow> u16 set \<Rightarrow> pack_doc_item list \<Rightarrow> writer \<Rightarrow> wire_error + writer" where
  "body_items kind seen [] w = Ok w"
| "body_items kind seen (it # its) w =
     (if pdi_item_id it \<in> seen then Err (bad ''pack_doc.items'' ''duplicate item id'')
      else if \<not> item_ok kind (ucast (pdi_w it)) (ucast (pdi_h it)) (length (pdi_bytes it))
      then Err (bad ''pack_doc.item'' ''item fails caps'')
      else body_items kind (insert (pdi_item_id it) seen) its
             (wseq [Writer_u16be (pdi_item_id it), Writer_u16be (pdi_w it),
                    Writer_u16be (pdi_h it), Writer_raw (pdi_sha256 it),
                    Writer_lp (pdi_bytes it)] w))"

definition StickerPackDoc_body_bytes :: "sticker_pack_doc \<Rightarrow> wire_error + bytes" where
  "StickerPackDoc_body_bytes d =
     (if \<not> valid_kind (pd_kind d) \<or> \<not> valid_visibility (pd_visibility d)
      then Err (bad ''pack_doc.kind'' ''unknown kind/visibility'')
      else if length (pd_title d) > MAX_TITLE_CHARS * 4
      then Err (TooLarge ''pack_doc.title'' (length (pd_title d)) (MAX_TITLE_CHARS * 4))
      else if pd_items d = [] \<or> length (pd_items d) > max_items (pd_kind d)
      then Err (bad ''pack_doc.items'' ''item count out of range'')
      else
        rbind (body_items (pd_kind d) {} (pd_items d)
                (wseq [Writer_raw PACK_DOC_DOMAIN, Writer_raw (pd_pack_id d),
                       Writer_u8 (pd_kind d), Writer_u8 (pd_visibility d),
                       Writer_lp (pd_title d), Writer_u16be (pd_icon_item_id d),
                       Writer_u16be (of_nat (length (pd_items d)))] Writer_new))
          (\<lambda>w. Ok (Writer_finish w)))"

fun decode_items ::
    "(bytes \<Rightarrow> bytes) \<Rightarrow> u8 \<Rightarrow> nat \<Rightarrow> u16 set \<Rightarrow> reader \<Rightarrow>
     wire_error + (pack_doc_item list \<times> reader)" where
  "decode_items sha256 kind 0 seen r = Ok ([], r)"
| "decode_items sha256 kind (Suc n) seen r =
     rbind (Reader_u16be ''pack_doc.item.id'' r) (\<lambda>(item_id, r).
     rbind (Reader_u16be ''pack_doc.item.w'' r) (\<lambda>(w, r).
     rbind (Reader_u16be ''pack_doc.item.h'' r) (\<lambda>(h, r).
     rbind (Reader_take 32 ''pack_doc.item.sha'' r) (\<lambda>(sha, r).
     rbind (Reader_lp (max_bytes kind) ''pack_doc.item.bytes'' r) (\<lambda>(bs, r).
     if bs = [] then Err (bad ''pack_doc.item.bytes'' ''empty'') else
     if item_id \<in> seen then Err (bad ''pack_doc.items'' ''duplicate item id'') else
     if sha256 bs \<noteq> sha then Err (bad ''pack_doc.item.sha'' ''hash mismatch'') else
     if \<not> item_ok kind (ucast w) (ucast h) (length bs)
     then Err (bad ''pack_doc.item'' ''item fails caps'') else
     rbind (decode_items sha256 kind n (insert item_id seen) r) (\<lambda>(items, r).
     Ok (\<lparr>pdi_item_id = item_id, pdi_w = w, pdi_h = h, pdi_sha256 = sha, pdi_bytes = bs\<rparr>
         # items, r)))))))"

definition StickerPackDoc_decode_body ::
    "(bytes \<Rightarrow> bytes) \<Rightarrow> bytes \<Rightarrow> wire_error + sticker_pack_doc" where
  "StickerPackDoc_decode_body sha256 body =
     (let r = Reader_new body in
      rbind (Reader_take (length PACK_DOC_DOMAIN) ''pack_doc.domain'' r) (\<lambda>(domain, r).
      if domain \<noteq> PACK_DOC_DOMAIN then Err (bad ''pack_doc.domain'' ''mismatch'') else
      rbind (Reader_take 16 ''pack_doc.pack_id'' r) (\<lambda>(pack_id, r).
      rbind (Reader_u8 ''pack_doc.kind'' r) (\<lambda>(kind, r).
      rbind (Reader_u8 ''pack_doc.visibility'' r) (\<lambda>(visibility, r).
      if \<not> valid_kind kind \<or> \<not> valid_visibility visibility
      then Err (bad ''pack_doc.kind'' ''unknown kind/visibility'') else
      rbind (Reader_lp (MAX_TITLE_CHARS * 4) ''pack_doc.title'' r) (\<lambda>(title_bytes, r).
      rbind (from_utf8 (bad ''pack_doc.title'' ''utf-8'') title_bytes) (\<lambda>title.
      if chars_count title > MAX_TITLE_CHARS
      then Err (TooLarge ''pack_doc.title'' (chars_count title) MAX_TITLE_CHARS) else
      rbind (Reader_u16be ''pack_doc.icon'' r) (\<lambda>(icon_item_id, r).
      rbind (Reader_u16be ''pack_doc.count'' r) (\<lambda>(count, r).
      if unat count < 1 \<or> unat count > max_items kind
      then Err (bad ''pack_doc.items'' ''item count out of range'') else
      rbind (decode_items sha256 kind (unat count) {} r) (\<lambda>(items, r).
      rbind (Reader_expect_end ''pack_doc'' r) (\<lambda>_.
      if \<not> (\<exists>it \<in> set items. pdi_item_id it = icon_item_id)
      then Err (bad ''pack_doc.icon'' ''icon item missing'') else
      Ok \<lparr>pd_pack_id = pack_id, pd_kind = kind, pd_visibility = visibility,
          pd_title = title, pd_icon_item_id = icon_item_id, pd_items = items\<rparr>)))))))))))"

definition StickerPackDoc_decode_signed ::
    "(bytes \<Rightarrow> bytes \<Rightarrow> bytes \<Rightarrow> bool) \<Rightarrow> (bytes \<Rightarrow> bytes) \<Rightarrow> bytes \<Rightarrow> bytes \<Rightarrow>
     wire_error + sticker_pack_doc" where
  "StickerPackDoc_decode_signed verify sha256 blob pack_pk =
     (if length blob > MAX_PACK_DOC_BYTES
      then Err (TooLarge ''pack_doc'' (length blob) MAX_PACK_DOC_BYTES)
      else if length blob < 64 + length PACK_DOC_DOMAIN + 16 + 1 + 1 + 4 + 2 + 2
      then Err (Truncated ''pack_doc'')
      else
        let body = take (length blob - 64) blob;
            sig = drop (length blob - 64) blob
        in if \<not> verify pack_pk body sig then Err (bad ''pack_doc.sig'' ''signature invalid'')
           else StickerPackDoc_decode_body sha256 body)"

text \<open>The progress scan: \<open>None\<close> until the header is complete, then a walk of the item table.\<close>

fun scan_items :: "u8 \<Rightarrow> nat \<Rightarrow> u16 set \<Rightarrow> reader \<Rightarrow> nat" where
  "scan_items kind 0 seen r = 0"
| "scan_items kind (Suc left) seen r =
     (case Reader_u16be ''pack_doc.item.id'' r of Inl _ \<Rightarrow> 0 | Inr (item_id, r) \<Rightarrow>
      case Reader_take (2 + 2 + 32) ''pack_doc.item.head'' r of Inl _ \<Rightarrow> 0 | Inr (_, r) \<Rightarrow>
      case Reader_u32be ''pack_doc.item.len'' r of Inl _ \<Rightarrow> 0 | Inr (n, r) \<Rightarrow>
      if unat n = 0 \<or> unat n > max_bytes kind then 0
      else if Reader_remaining r < unat n then 0
      else case Reader_take (unat n) ''pack_doc.item.bytes'' r of Inl _ \<Rightarrow> 0 | Inr (_, r) \<Rightarrow>
      if item_id \<in> seen then 0
      else Suc (scan_items kind left (insert item_id seen) r))"

definition scan_header :: "bytes \<Rightarrow> wire_error + ((u8 \<times> nat) \<times> reader)" where
  "scan_header partial =
     (let r = Reader_new partial in
      rbind (Reader_take (length PACK_DOC_DOMAIN) ''pack_doc.domain'' r) (\<lambda>(domain, r).
      if domain \<noteq> PACK_DOC_DOMAIN then Err (bad ''pack_doc.domain'' ''mismatch'') else
      rbind (Reader_take 16 ''pack_doc.pack_id'' r) (\<lambda>(_, r).
      rbind (Reader_u8 ''pack_doc.kind'' r) (\<lambda>(kind, r).
      rbind (Reader_u8 ''pack_doc.visibility'' r) (\<lambda>(_, r).
      if \<not> valid_kind kind then Err (bad ''pack_doc.kind'' ''unknown kind'') else
      rbind (Reader_lp (MAX_TITLE_CHARS * 4) ''pack_doc.title'' r) (\<lambda>(_, r).
      rbind (Reader_u16be ''pack_doc.icon'' r) (\<lambda>(_, r).
      rbind (Reader_u16be ''pack_doc.count'' r) (\<lambda>(count, r).
      if unat count < 1 \<or> unat count > max_items kind
      then Err (bad ''pack_doc.items'' ''item count out of range'') else
      Ok ((kind, unat count), r)))))))))"

definition StickerPackDoc_scan_partial :: "bytes \<Rightarrow> (nat \<times> nat) option" where
  "StickerPackDoc_scan_partial partial =
     (if length partial > MAX_PACK_DOC_BYTES then None
      else map_option (\<lambda>((kind, count), r). (scan_items kind count {} r, count))
             (result_ok (scan_header partial)))"

section \<open>Thumbnail documents\<close>

record thumb =
  th_item_id :: u16
  th_bytes :: bytes

record sticker_thumbs_doc =
  td_title :: bytes
  td_kind :: u8
  td_icon_item_id :: u16
  td_thumbs :: "thumb list"

fun encode_thumbs :: "u16 set \<Rightarrow> thumb list \<Rightarrow> writer \<Rightarrow> wire_error + writer" where
  "encode_thumbs seen [] w = Ok w"
| "encode_thumbs seen (t # ts) w =
     (if th_item_id t \<in> seen then Err (bad ''thumbs_doc.thumbs'' ''duplicate item id'')
      else if th_bytes t = [] \<or> length (th_bytes t) > MAX_THUMB_BYTES
      then Err (bad ''thumbs_doc.thumb'' ''bytes out of range'')
      else encode_thumbs (insert (th_item_id t) seen) ts
             (wseq [Writer_u16be (th_item_id t), Writer_lp (th_bytes t)] w))"

definition StickerThumbsDoc_encode :: "sticker_thumbs_doc \<Rightarrow> wire_error + bytes" where
  "StickerThumbsDoc_encode d =
     (if \<not> valid_kind (td_kind d) then Err (bad ''thumbs_doc.kind'' ''unknown kind'')
      else if length (td_title d) > MAX_TITLE_CHARS * 4
      then Err (TooLarge ''thumbs_doc.title'' (length (td_title d)) (MAX_TITLE_CHARS * 4))
      else if td_thumbs d = [] \<or> length (td_thumbs d) > max_items (td_kind d)
      then Err (bad ''thumbs_doc.thumbs'' ''count out of range'')
      else
        rbind (encode_thumbs {} (td_thumbs d)
                (wseq [Writer_lp (td_title d), Writer_u8 (td_kind d),
                       Writer_u16be (td_icon_item_id d),
                       Writer_u16be (of_nat (length (td_thumbs d)))] Writer_new))
          (\<lambda>w. let out = Writer_finish w in
             if length out > MAX_THUMBS_DOC_BYTES
             then Err (TooLarge ''thumbs_doc'' (length out) MAX_THUMBS_DOC_BYTES)
             else Ok out))"

fun decode_thumbs :: "nat \<Rightarrow> u16 set \<Rightarrow> reader \<Rightarrow> wire_error + (thumb list \<times> reader)" where
  "decode_thumbs 0 seen r = Ok ([], r)"
| "decode_thumbs (Suc n) seen r =
     rbind (Reader_u16be ''thumbs_doc.thumb.id'' r) (\<lambda>(item_id, r).
     rbind (Reader_lp MAX_THUMB_BYTES ''thumbs_doc.thumb.bytes'' r) (\<lambda>(bs, r).
     if bs = [] then Err (bad ''thumbs_doc.thumb'' ''empty'') else
     if item_id \<in> seen then Err (bad ''thumbs_doc.thumbs'' ''duplicate item id'') else
     rbind (decode_thumbs n (insert item_id seen) r) (\<lambda>(thumbs, r).
     Ok (\<lparr>th_item_id = item_id, th_bytes = bs\<rparr> # thumbs, r))))"

definition StickerThumbsDoc_decode :: "bytes \<Rightarrow> wire_error + sticker_thumbs_doc" where
  "StickerThumbsDoc_decode blob =
     (if length blob > MAX_THUMBS_DOC_BYTES
      then Err (TooLarge ''thumbs_doc'' (length blob) MAX_THUMBS_DOC_BYTES) else
      let r = Reader_new blob in
      rbind (Reader_lp (MAX_TITLE_CHARS * 4) ''thumbs_doc.title'' r) (\<lambda>(title_bytes, r).
      rbind (from_utf8 (bad ''thumbs_doc.title'' ''utf-8'') title_bytes) (\<lambda>title.
      if chars_count title > MAX_TITLE_CHARS
      then Err (TooLarge ''thumbs_doc.title'' (chars_count title) MAX_TITLE_CHARS) else
      rbind (Reader_u8 ''thumbs_doc.kind'' r) (\<lambda>(kind, r).
      if \<not> valid_kind kind then Err (bad ''thumbs_doc.kind'' ''unknown kind'') else
      rbind (Reader_u16be ''thumbs_doc.icon'' r) (\<lambda>(icon_item_id, r).
      rbind (Reader_u16be ''thumbs_doc.count'' r) (\<lambda>(count, r).
      if unat count < 1 \<or> unat count > max_items kind
      then Err (bad ''thumbs_doc.thumbs'' ''count out of range'') else
      rbind (decode_thumbs (unat count) {} r) (\<lambda>(thumbs, r).
      rbind (Reader_expect_end ''thumbs_doc'' r) (\<lambda>_.
      Ok \<lparr>td_title = title, td_kind = kind, td_icon_item_id = icon_item_id,
          td_thumbs = thumbs\<rparr>))))))))"

section \<open>Item tables\<close>

definition item_bytes :: "pack_doc_item \<Rightarrow> bytes" where
  "item_bytes it =
     be16 (pdi_item_id it) @ be16 (pdi_w it) @ be16 (pdi_h it) @ pdi_sha256 it @
     be32 (of_nat (length (pdi_bytes it))) @ pdi_bytes it"

definition items_ok :: "u8 \<Rightarrow> u16 set \<Rightarrow> pack_doc_item list \<Rightarrow> bool" where
  "items_ok kind seen items \<longleftrightarrow>
     distinct (map pdi_item_id items) \<and> set (map pdi_item_id items) \<inter> seen = {} \<and>
     (\<forall>it \<in> set items. item_ok kind (ucast (pdi_w it)) (ucast (pdi_h it)) (length (pdi_bytes it)))"

definition item_hash_ok :: "(bytes \<Rightarrow> bytes) \<Rightarrow> pack_doc_item \<Rightarrow> bool" where
  "item_hash_ok sha256 it \<longleftrightarrow> length (pdi_sha256 it) = 32 \<and> sha256 (pdi_bytes it) = pdi_sha256 it"

lemma items_ok_simps [simp]:
  "items_ok kind seen []"
  "items_ok kind seen (it # its) \<longleftrightarrow>
     pdi_item_id it \<notin> seen \<and>
     item_ok kind (ucast (pdi_w it)) (ucast (pdi_h it)) (length (pdi_bytes it)) \<and>
     items_ok kind (insert (pdi_item_id it) seen) its"
  by (auto simp: items_ok_def)

lemma body_items_Ok:
  "body_items kind seen items w = Ok w' \<longleftrightarrow>
     items_ok kind seen items \<and> w' = Writer_raw (concat (map item_bytes items)) w"
  by (induction items arbitrary: seen w) (auto simp: wire_write item_bytes_def)

lemma item_ok_len:
  assumes "item_ok kind w h (length bs)"
  shows "bs \<noteq> [] \<and> length bs \<le> max_bytes kind \<and> length bs < 4294967296"
  using assms max_bytes_lens(2) [of bs kind] by (auto simp: item_ok_def)

lemma decode_items_Ok:
  "decode_items sha256 kind n seen (rd pre post) = Ok (items, r') \<longleftrightarrow>
     length items = n \<and> items_ok kind seen items \<and> (\<forall>it \<in> set items. item_hash_ok sha256 it) \<and>
     (\<exists>post'. post = concat (map item_bytes items) @ post' \<and>
              r' = rd (pre @ concat (map item_bytes items)) post')"
proof (induction n arbitrary: seen pre post items r')
  case 0
  then show ?case by auto
next
  case (Suc n)
  show ?case (is "?l \<longleftrightarrow> ?r")
  proof
    assume ?l
    then show ?r
      by (auto simp: rbind_Inr_iff reader_inv Suc.IH item_bytes_def item_hash_ok_def
          split: if_splits)
  next
    assume r: ?r
    then obtain it its where items: "items = it # its" by (cases items) auto
    from r obtain post' where post: "post = item_bytes it @ concat (map item_bytes its) @ post'"
        "r' = rd (pre @ item_bytes it @ concat (map item_bytes its)) post'"
      by (auto simp: items)
    have it: "pdi_bytes it \<noteq> []" "length (pdi_bytes it) \<le> max_bytes kind"
        "length (pdi_bytes it) < 4294967296" "length (pdi_sha256 it) = 32"
        "sha256 (pdi_bytes it) = pdi_sha256 it" "pdi_item_id it \<notin> seen"
      using r by (auto simp: items item_hash_ok_def dest: item_ok_len)
    have "decode_items sha256 kind n (insert (pdi_item_id it) seen)
        (rd (pre @ item_bytes it) (concat (map item_bytes its) @ post')) = Ok (its, r')"
      using r by (simp add: Suc.IH items post)
    with r it show ?l
      by (simp add: items post(1) item_bytes_def [of it] reader_eval)
  qed
qed

lemma decode_items_eval:
  "length items = n \<Longrightarrow> items_ok kind seen items \<Longrightarrow> \<forall>it \<in> set items. item_hash_ok sha256 it \<Longrightarrow>
     decode_items sha256 kind n seen (rd pre (concat (map item_bytes items))) =
       Ok (items, rd (pre @ concat (map item_bytes items)) [])"
  by (simp add: decode_items_Ok)

section \<open>The pack document contract\<close>

definition StickerPackDoc_wf :: "(bytes \<Rightarrow> bytes) \<Rightarrow> sticker_pack_doc \<Rightarrow> bool" where
  "StickerPackDoc_wf sha256 d \<longleftrightarrow>
     length (pd_pack_id d) = 16 \<and> utf8_valid (pd_title d) \<and>
     chars_count (pd_title d) \<le> MAX_TITLE_CHARS \<and>
     (\<exists>it \<in> set (pd_items d). pdi_item_id it = pd_icon_item_id d) \<and>
     (\<forall>it \<in> set (pd_items d). item_hash_ok sha256 it)"

definition pack_header :: "sticker_pack_doc \<Rightarrow> bytes" where
  "pack_header d =
     PACK_DOC_DOMAIN @ pd_pack_id d @ [pd_kind d, pd_visibility d] @
     be32 (of_nat (length (pd_title d))) @ pd_title d @ be16 (pd_icon_item_id d) @
     be16 (of_nat (length (pd_items d)))"

lemma body_bytes_Ok:
  "StickerPackDoc_body_bytes d = Ok b \<longleftrightarrow>
     valid_kind (pd_kind d) \<and> valid_visibility (pd_visibility d) \<and>
     length (pd_title d) \<le> MAX_TITLE_CHARS * 4 \<and>
     pd_items d \<noteq> [] \<and> length (pd_items d) \<le> max_items (pd_kind d) \<and>
     items_ok (pd_kind d) {} (pd_items d) \<and>
     b = pack_header d @ concat (map item_bytes (pd_items d))"
  by (auto simp: StickerPackDoc_body_bytes_def rbind_Inr_iff body_items_Ok wire_write
      pack_header_def)

lemma title_len: "length t \<le> MAX_TITLE_CHARS * 4 \<Longrightarrow> length t < 4294967296"
  by (simp add: limit_defs)

lemma item_count_u16: "n \<le> max_items kind \<Longrightarrow> unat (of_nat n :: u16) = n"
  using max_items_le [of kind] by (simp add: unat_of_nat_u16)

interpretation pack_doc:
  canonical_payload StickerPackDoc_body_bytes "StickerPackDoc_decode_body sha256"
    "StickerPackDoc_wf sha256" for sha256
proof
  fix b d
  show "StickerPackDoc_decode_body sha256 b = Ok d \<longleftrightarrow>
      StickerPackDoc_wf sha256 d \<and> StickerPackDoc_body_bytes d = Ok b" (is "?d \<longleftrightarrow> ?e")
  proof
    assume ?d
    then show ?e
      by (auto simp: StickerPackDoc_decode_body_def StickerPackDoc_wf_def body_bytes_Ok
          pack_header_def rbind_Inr_iff reader_inv decode_items_Ok Reader_new_rd split: if_splits)
  next
    assume e: ?e
    then have "unat (of_nat (length (pd_items d)) :: u16) = length (pd_items d)"
      by (auto simp: body_bytes_Ok intro: item_count_u16)
    with e show ?d
      unfolding StickerPackDoc_wf_def body_bytes_Ok pack_header_def
      by (cases d) (simp add: StickerPackDoc_decode_body_def Reader_new_rd reader_eval title_len
          decode_items_eval)
  qed
qed

section \<open>The progress scan\<close>

lemma scan_header_Ok:
  assumes "StickerPackDoc_body_bytes d = Ok b" "length (pd_pack_id d) = 16"
  shows "scan_header (pack_header d @ post) =
      Ok ((pd_kind d, length (pd_items d)), rd (pack_header d) post)"
  using assms unfolding body_bytes_Ok
  by (auto simp: scan_header_def pack_header_def Reader_new_rd reader_eval title_len
      item_count_u16)

text \<open>How many items of a table lie entirely within its first \<open>k\<close> bytes.\<close>

fun complete_items :: "nat \<Rightarrow> pack_doc_item list \<Rightarrow> nat" where
  "complete_items k [] = 0"
| "complete_items k (it # its) =
     (if k < length (item_bytes it) then 0 else Suc (complete_items (k - length (item_bytes it)) its))"

lemma scan_items_step:
  assumes "length (pdi_sha256 it) = 32" "pdi_bytes it \<noteq> []"
    and "length (pdi_bytes it) \<le> max_bytes kind" "length (pdi_bytes it) < 4294967296"
  shows "scan_items kind (Suc n) seen (rd pre (take k (item_bytes it @ rest))) =
      (if k < length (item_bytes it) \<or> pdi_item_id it \<in> seen then 0
       else Suc (scan_items kind n (insert (pdi_item_id it) seen)
              (rd (pre @ item_bytes it) (take (k - length (item_bytes it)) rest))))"
proof -
  let ?n = "length (pdi_bytes it)"
  define hd36 where "hd36 = be16 (pdi_w it) @ be16 (pdi_h it) @ pdi_sha256 it"
  have h: "length hd36 = 36" using assms by (simp add: hd36_def)
  have ib: "item_bytes it = be16 (pdi_item_id it) @ hd36 @ be32 (of_nat ?n) @ pdi_bytes it"
    by (simp add: item_bytes_def hd36_def)
  have n: "unat (of_nat ?n :: u32) = ?n" using assms by (simp add: unat_of_nat_u32)
  consider "k < 2" | "2 \<le> k" "k < 38" | "38 \<le> k" "k < 42" | "42 \<le> k" "k < 42 + ?n" | "42 + ?n \<le> k"
    by linarith
  then show ?thesis
  proof cases
    case 1
    then show ?thesis by (simp add: ib h Reader_u16be_def Reader_take_rd)
  next
    case 2
    then have "k - 2 < 36" by simp
    with 2 show ?thesis by (simp add: ib h reader_eval Reader_take_rd)
  next
    case 3
    then show ?thesis by (simp add: ib h reader_eval Reader_u32be_def Reader_take_rd)
  next
    case 4
    then have "k - 42 < ?n" by linarith
    with 4 show ?thesis using assms by (simp add: ib h n reader_eval)
  next
    case 5
    then show ?thesis using assms by (simp add: ib h n reader_eval)
  qed
qed

lemma scan_items_prefix:
  assumes "items_ok kind seen items" "\<forall>it \<in> set items. length (pdi_sha256 it) = 32"
  shows "scan_items kind (length items) seen (rd pre (take k (concat (map item_bytes items) @ rest))) =
      complete_items k items"
  using assms
proof (induction items arbitrary: seen pre k)
  case Nil
  then show ?case by simp
next
  case (Cons it its)
  from Cons.prems have "pdi_bytes it \<noteq> []" "length (pdi_bytes it) \<le> max_bytes kind"
      "length (pdi_bytes it) < 4294967296"
    by (auto dest: item_ok_len)
  with Cons.prems scan_items_step [of it kind "length its" seen pre k
      "concat (map item_bytes its) @ rest"]
  show ?case
    by (simp add: Cons.IH del: scan_items.simps take_append)
qed

lemma complete_items_le: "complete_items k items \<le> length items"
  by (induction items arbitrary: k) simp_all

lemma complete_items_mono: "j \<le> k \<Longrightarrow> complete_items j items \<le> complete_items k items"
proof (induction items arbitrary: j k)
  case (Cons it its)
  from Cons.IH [OF diff_le_mono [OF Cons.prems]] Cons.prems show ?case by simp
qed simp

lemma complete_items_all:
  "complete_items k items = length items \<longleftrightarrow> length (concat (map item_bytes items)) \<le> k"
proof (induction items arbitrary: k)
  case (Cons it its)
  show ?case
  proof (cases "k < length (item_bytes it)")
    case False
    with Cons.IH [of "k - length (item_bytes it)"] show ?thesis by simp linarith
  qed simp
qed simp

lemma scan_partial_prefix:
  assumes "StickerPackDoc_body_bytes d = Ok b" "StickerPackDoc_wf sha256 d"
    and "length (pack_header d) \<le> k" "k \<le> MAX_PACK_DOC_BYTES"
  shows "StickerPackDoc_scan_partial (take k (b @ sig)) =
      Some (complete_items (k - length (pack_header d)) (pd_items d), length (pd_items d))"
proof -
  let ?c = "concat (map item_bytes (pd_items d))"
  from assms(1) have b: "b = pack_header d @ ?c" and ok: "items_ok (pd_kind d) {} (pd_items d)"
    by (simp_all add: body_bytes_Ok)
  have pre: "take k (b @ sig) = pack_header d @ take (k - length (pack_header d)) (?c @ sig)"
    using assms(3) by (simp add: b)
  have "length (take k (b @ sig)) \<le> MAX_PACK_DOC_BYTES"
    using assms(4) by simp
  moreover have "\<forall>it \<in> set (pd_items d). length (pdi_sha256 it) = 32" "length (pd_pack_id d) = 16"
    using assms(2) by (auto simp: StickerPackDoc_wf_def item_hash_ok_def)
  ultimately show ?thesis
    using scan_items_prefix [OF ok]
    by (simp add: StickerPackDoc_scan_partial_def pre scan_header_Ok [OF assms(1)] del: take_append)
qed

section \<open>Signed blobs\<close>

lemma decode_signed_Ok:
  "StickerPackDoc_decode_signed verify sha256 blob pk = Ok d \<longleftrightarrow>
     length blob \<le> MAX_PACK_DOC_BYTES \<and> length blob \<ge> 106 \<and>
     verify pk (take (length blob - 64) blob) (drop (length blob - 64) blob) \<and>
     StickerPackDoc_wf sha256 d \<and> StickerPackDoc_body_bytes d = Ok (take (length blob - 64) blob)"
  by (auto simp: StickerPackDoc_decode_signed_def Let_def pack_doc.decode_iff PACK_DOC_DOMAIN_def
      split: if_splits)

section \<open>The thumbnail document contract\<close>

definition thumb_bytes :: "thumb \<Rightarrow> bytes" where
  "thumb_bytes t = be16 (th_item_id t) @ be32 (of_nat (length (th_bytes t))) @ th_bytes t"

definition thumbs_ok :: "u16 set \<Rightarrow> thumb list \<Rightarrow> bool" where
  "thumbs_ok seen ts \<longleftrightarrow>
     distinct (map th_item_id ts) \<and> set (map th_item_id ts) \<inter> seen = {} \<and>
     (\<forall>t \<in> set ts. th_bytes t \<noteq> [] \<and> length (th_bytes t) \<le> MAX_THUMB_BYTES)"

lemma thumbs_ok_simps [simp]:
  "thumbs_ok seen []"
  "thumbs_ok seen (t # ts) \<longleftrightarrow>
     th_item_id t \<notin> seen \<and> th_bytes t \<noteq> [] \<and> length (th_bytes t) \<le> MAX_THUMB_BYTES \<and>
     thumbs_ok (insert (th_item_id t) seen) ts"
  by (auto simp: thumbs_ok_def)

lemma encode_thumbs_Ok:
  "encode_thumbs seen ts w = Ok w' \<longleftrightarrow>
     thumbs_ok seen ts \<and> w' = Writer_raw (concat (map thumb_bytes ts)) w"
  by (induction ts arbitrary: seen w) (auto simp: wire_write thumb_bytes_def)

lemma decode_thumbs_Ok:
  "decode_thumbs n seen (rd pre post) = Ok (ts, r') \<longleftrightarrow>
     length ts = n \<and> thumbs_ok seen ts \<and>
     (\<exists>post'. post = concat (map thumb_bytes ts) @ post' \<and>
              r' = rd (pre @ concat (map thumb_bytes ts)) post')"
proof (induction n arbitrary: seen pre post ts r')
  case 0
  then show ?case by auto
next
  case (Suc n)
  show ?case (is "?l \<longleftrightarrow> ?r")
  proof
    assume ?l
    then show ?r
      by (auto simp: rbind_Inr_iff reader_inv Suc.IH thumb_bytes_def split: if_splits)
  next
    assume r: ?r
    then obtain t ts' where ts: "ts = t # ts'" by (cases ts) auto
    from r obtain post' where post: "post = thumb_bytes t @ concat (map thumb_bytes ts') @ post'"
        "r' = rd (pre @ thumb_bytes t @ concat (map thumb_bytes ts')) post'"
      by (auto simp: ts)
    have t: "length (th_bytes t) < 4294967296" using r by (auto simp: ts limit_defs)
    have "decode_thumbs n (insert (th_item_id t) seen)
        (rd (pre @ thumb_bytes t) (concat (map thumb_bytes ts') @ post')) = Ok (ts', r')"
      using r by (simp add: Suc.IH ts post)
    with r t show ?l
      by (simp add: ts post(1) thumb_bytes_def [of t] reader_eval)
  qed
qed

lemma decode_thumbs_eval:
  "length ts = n \<Longrightarrow> thumbs_ok seen ts \<Longrightarrow>
     decode_thumbs n seen (rd pre (concat (map thumb_bytes ts))) =
       Ok (ts, rd (pre @ concat (map thumb_bytes ts)) [])"
  by (simp add: decode_thumbs_Ok)

definition StickerThumbsDoc_wf :: "sticker_thumbs_doc \<Rightarrow> bool" where
  "StickerThumbsDoc_wf d \<longleftrightarrow>
     utf8_valid (td_title d) \<and> chars_count (td_title d) \<le> MAX_TITLE_CHARS"

definition thumbs_doc_bytes :: "sticker_thumbs_doc \<Rightarrow> bytes" where
  "thumbs_doc_bytes d =
     be32 (of_nat (length (td_title d))) @ td_title d @ [td_kind d] @ be16 (td_icon_item_id d) @
     be16 (of_nat (length (td_thumbs d))) @ concat (map thumb_bytes (td_thumbs d))"

lemma thumbs_encode_Ok:
  "StickerThumbsDoc_encode d = Ok b \<longleftrightarrow>
     valid_kind (td_kind d) \<and> length (td_title d) \<le> MAX_TITLE_CHARS * 4 \<and>
     td_thumbs d \<noteq> [] \<and> length (td_thumbs d) \<le> max_items (td_kind d) \<and>
     thumbs_ok {} (td_thumbs d) \<and> length b \<le> MAX_THUMBS_DOC_BYTES \<and> b = thumbs_doc_bytes d"
  by (auto simp: StickerThumbsDoc_encode_def rbind_Inr_iff encode_thumbs_Ok wire_write Let_def
      thumbs_doc_bytes_def)

interpretation thumbs_doc:
  canonical_payload StickerThumbsDoc_encode StickerThumbsDoc_decode StickerThumbsDoc_wf
proof
  fix b d
  show "StickerThumbsDoc_decode b = Ok d \<longleftrightarrow>
      StickerThumbsDoc_wf d \<and> StickerThumbsDoc_encode d = Ok b" (is "?d \<longleftrightarrow> ?e")
  proof
    assume ?d
    then show ?e
      by (auto simp: StickerThumbsDoc_decode_def StickerThumbsDoc_wf_def thumbs_encode_Ok
          thumbs_doc_bytes_def rbind_Inr_iff reader_inv decode_thumbs_Ok Reader_new_rd
          split: if_splits)
  next
    assume e: ?e
    then have "unat (of_nat (length (td_thumbs d)) :: u16) = length (td_thumbs d)"
      by (auto simp: thumbs_encode_Ok intro: item_count_u16)
    with e show ?d
      unfolding StickerThumbsDoc_wf_def thumbs_encode_Ok thumbs_doc_bytes_def
      by (cases d) (auto simp: StickerThumbsDoc_decode_def Reader_new_rd reader_eval title_len
          decode_thumbs_eval)
  qed
qed

section \<open>Properties\<close>

text \<open>
  C38: a signed pack blob is accepted exactly when it is the canonical body of the returned
  document followed by a 64-byte signature that verifies over that body under the pack key
  and the blob is within the size limit; the document then has distinct item ids, only
  items within the caps of its kind and with matching content hashes, a title within the
  character limit, and an icon among its items.
\<close>

theorem pack_signed_exact:
  "StickerPackDoc_decode_signed verify sha256 blob pk = Ok d \<longleftrightarrow>
     (\<exists>body sig. blob = body @ sig \<and> length sig = 64 \<and> verify pk body sig \<and>
        StickerPackDoc_body_bytes d = Ok body \<and> StickerPackDoc_wf sha256 d \<and>
        length blob \<le> MAX_PACK_DOC_BYTES)"
  (is "?l \<longleftrightarrow> ?r")
proof
  assume ?l
  then show ?r
    unfolding decode_signed_Ok
    by (intro exI [of _ "take (length blob - 64) blob"] exI [of _ "drop (length blob - 64) blob"])
      simp
next
  assume ?r
  then obtain body sig where r: "blob = body @ sig" "length sig = 64" "verify pk body sig"
      "StickerPackDoc_body_bytes d = Ok body" "StickerPackDoc_wf sha256 d"
      "length blob \<le> MAX_PACK_DOC_BYTES"
    by blast
  then have "42 \<le> length body"
    by (auto simp: body_bytes_Ok pack_header_def PACK_DOC_DOMAIN_def StickerPackDoc_wf_def)
  with r show ?l by (simp add: decode_signed_Ok)
qed

text \<open>
  Download progress is exact. For every prefix of an acceptable signed pack that
  covers its header, the scan reports the number of items that lie entirely within the
  prefix and the true item count; the number grows with the prefix and reaches the count
  exactly when the whole item table has arrived.
\<close>

lemma pack_progress:
  assumes "StickerPackDoc_decode_signed verify sha256 blob pk = Ok d"
    and "length (pack_header d) \<le> j" "j \<le> k" "k \<le> length blob"
  shows "\<exists>m n. StickerPackDoc_scan_partial (take j blob) = Some (m, length (pd_items d)) \<and>
      StickerPackDoc_scan_partial (take k blob) = Some (n, length (pd_items d)) \<and>
      m \<le> n \<and> n \<le> length (pd_items d) \<and> (n = length (pd_items d) \<longleftrightarrow> length blob - 64 \<le> k)"
proof -
  have blob: "take (length blob - 64) blob @ drop (length blob - 64) blob = blob" by simp
  from assms(1) have d: "StickerPackDoc_body_bytes d = Ok (take (length blob - 64) blob)"
      "StickerPackDoc_wf sha256 d" "length blob \<le> MAX_PACK_DOC_BYTES"
    by (simp_all add: decode_signed_Ok)
  have scan: "StickerPackDoc_scan_partial (take i blob) =
      Some (complete_items (i - length (pack_header d)) (pd_items d), length (pd_items d))"
    if "length (pack_header d) \<le> i" "i \<le> k" for i
    using scan_partial_prefix [OF d(1,2) that(1), of "drop (length blob - 64) blob"] that(2) assms(4) d(3)
    unfolding blob by simp
  have "length blob - 64 = length (pack_header d) + length (concat (map item_bytes (pd_items d)))"
    using arg_cong [OF conjunct2 [OF conjunct2 [OF conjunct2 [OF conjunct2 [OF conjunct2 [OF conjunct2
      [OF d(1) [unfolded body_bytes_Ok]]]]]]], of length] by simp
  then have "complete_items (k - length (pack_header d)) (pd_items d) = length (pd_items d) \<longleftrightarrow>
      length blob - 64 \<le> k"
    unfolding complete_items_all using assms(2,3) by linarith
  with scan [OF assms(2,3)] scan [OF order_trans [OF assms(2,3)]] assms(3) show ?thesis
    by (simp add: complete_items_mono complete_items_le)
qed

end
