(* ===== verification/Engine_Types.thy ===== *)
theory Engine_Types
  imports Messages Wire_Pack
begin

text \<open>
  The error and event types of \<^verbatim>\<open>crates/core/src/engine/mod.rs\<close>, and the state and error
  threading of the engine's methods: a method takes the engine state to a result, which may
  be an error, and the state after it, in which the effects before the error remain.
\<close>

section \<open>Errors\<close>

datatype media_error =
    Unsupported string
  | MediaDecode string
  | MediaEncode string
  | MediaTooLarge nat nat

datatype pairing_error =
    Invalid string
  | Expired
  | BadSignature

datatype pairing_failure =
    PairingPayload pairing_error
  | PairingSession session_error
  | PairingTransport transport_error
  | PairingStore store_error
  | PairingSqlite sqlite_error
  | PairingWire wire_error
  | ContactExists
  | SelfPairing
  | PairingNotFound
  | NotARequest
  | CapReached string

datatype engine_error =
    UnknownRelationship
  | NotActive
  | Closing
  | SessionBroken
  | CapGated envelope_type
  | PolicyDenied envelope_type
  | NotFound
  | EditDenied string
  | EngineWire wire_error
  | EngineStore store_error
  | EngineSession session_error
  | EngineTransport transport_error
  | EnginePairing pairing_failure
  | EngineSync sync_error
  | EngineMedia media_error

section \<open>Events\<close>

datatype engine_event =
    EvMessage string bytes
  | EvEdited string bytes
  | EvDeleted string bytes
  | EvHistoryCleared string
  | EvRead string bytes
  | EvTyping string bool
  | EvPresence string bool bool
  | EvProfileUpdated string
  | EvProfileRequested string
  | EvPeerPrefs string
  | EvSticker string bytes bool
  | EvStickerPackInstalled bytes
  | EvStickerPackRefused bytes u8
  | EvStickerThumbs bytes sticker_thumbs_doc
  | EvAttachmentProgress string bytes nat nat
  | EvAttachmentComplete string bytes bytes
  | EvAttachmentFailed string bytes
  | EvAttachmentChunkDropped string bytes
  | EvPolicyChanged string
  | EvContactClosed string
  | EvGapDetected string

section \<open>State and error threading\<close>

type_synonym ('e, 's, 'a) fallible = "'s \<Rightarrow> ('e + 'a) \<times> 's"

type_synonym ('s, 'a) action = "(engine_error, 's, 'a) fallible"

definition sret :: "'a \<Rightarrow> ('e, 's, 'a) fallible" where
  "sret x s = (Ok x, s)"

definition sthrow :: "'e \<Rightarrow> ('e, 's, 'a) fallible" where
  "sthrow e s = (Err e, s)"

definition slift :: "'e + 'a \<Rightarrow> ('e, 's, 'a) fallible" where
  "slift r s = (r, s)"

definition sbind :: "('e, 's, 'a) fallible \<Rightarrow> ('a \<Rightarrow> ('e, 's, 'b) fallible) \<Rightarrow> ('e, 's, 'b) fallible" where
  "sbind m f s = (case m s of (Inl e, s') \<Rightarrow> (Err e, s') | (Inr x, s') \<Rightarrow> f x s')"

definition sget :: "('s \<Rightarrow> 'a) \<Rightarrow> ('e, 's, 'a) fallible" where
  "sget f s = (Ok (f s), s)"

definition smodify :: "('s \<Rightarrow> 's) \<Rightarrow> ('e, 's, unit) fallible" where
  "smodify f s = (Ok (), f s)"

text \<open>The result of a call that the caller matches on instead of passing its error up.\<close>

definition sattempt :: "('d, 's, 'a) fallible \<Rightarrow> ('e, 's, 'd + 'a) fallible" where
  "sattempt m s = (let (r, s') = m s in (Ok r, s'))"

text \<open>A loop over a list, which stops at the first error.\<close>

fun sfor :: "'x list \<Rightarrow> ('x \<Rightarrow> ('e, 's, unit) fallible) \<Rightarrow> ('e, 's, unit) fallible" where
  "sfor [] f = sret ()"
| "sfor (x # xs) f = sbind (f x) (\<lambda>_. sfor xs f)"

section \<open>Preserved predicates\<close>

text \<open>
  An action keeps a predicate of the state when it holds after the action whenever it held
  before, whether the action succeeds or fails. The rules follow the shape of the methods.
\<close>

definition keeps :: "('s \<Rightarrow> bool) \<Rightarrow> ('e, 's, 'a) fallible \<Rightarrow> bool" where
  "keeps P m \<longleftrightarrow> (\<forall>s. P s \<longrightarrow> P (snd (m s)))"

named_theorems keeps_rules

lemma keepsD: "keeps P m \<Longrightarrow> P s \<Longrightarrow> m s = (r, s') \<Longrightarrow> P s'"
  by (auto simp: keeps_def dest: spec [of _ s])

lemma keeps_sret [keeps_rules]: "keeps P (sret x)"
  by (simp add: keeps_def sret_def)

lemma keeps_sthrow [keeps_rules]: "keeps P (sthrow e)"
  by (simp add: keeps_def sthrow_def)

lemma keeps_slift [keeps_rules]: "keeps P (slift r)"
  by (simp add: keeps_def slift_def)

lemma keeps_sget [keeps_rules]: "keeps P (sget f)"
  by (simp add: keeps_def sget_def)

lemma keeps_sbind [keeps_rules]: "keeps P m \<Longrightarrow> (\<And>x. keeps P (f x)) \<Longrightarrow> keeps P (sbind m f)"
  by (auto simp: keeps_def sbind_def split: prod.splits sum.splits)

lemma keeps_smodify [keeps_rules]: "(\<And>s. P s \<Longrightarrow> P (f s)) \<Longrightarrow> keeps P (smodify f)"
  by (simp add: keeps_def smodify_def)

lemma keeps_sattempt [keeps_rules]: "keeps P m \<Longrightarrow> keeps P (sattempt m)"
  by (auto simp: keeps_def sattempt_def split: prod.splits)

lemma keeps_sfor [keeps_rules]: "(\<And>x. keeps P (f x)) \<Longrightarrow> keeps P (sfor xs f)"
  by (induction xs) (auto intro: keeps_rules)

lemma keeps_if [keeps_rules]: "keeps P a \<Longrightarrow> keeps P b \<Longrightarrow> keeps P (if c then a else b)"
  by simp

lemma keeps_case_option [keeps_rules]:
  "keeps P a \<Longrightarrow> (\<And>x. keeps P (b x)) \<Longrightarrow> keeps P (case v of None \<Rightarrow> a | Some x \<Rightarrow> b x)"
  by (cases v) auto

lemma keeps_case_sum [keeps_rules]:
  "(\<And>e. keeps P (a e)) \<Longrightarrow> (\<And>x. keeps P (b x)) \<Longrightarrow> keeps P (case v of Inl e \<Rightarrow> a e | Inr x \<Rightarrow> b x)"
  by (cases v) auto

lemma keeps_case_prod [keeps_rules]:
  "(\<And>x y. keeps P (f x y)) \<Longrightarrow> keeps P (case p of (x, y) \<Rightarrow> f x y)"
  by (cases p) auto

lemma keeps_let [keeps_rules]: "(\<And>x. keeps P (f x)) \<Longrightarrow> keeps P (let x = v in f x)"
  by simp

section \<open>Successful runs\<close>

lemma sbind_Ok: "sbind m f s = (Ok y, s') \<longleftrightarrow> (\<exists>x s1. m s = (Ok x, s1) \<and> f x s1 = (Ok y, s'))"
  by (auto simp: sbind_def split: prod.splits sum.splits)

lemma map_err_Ok: "map_err g r = Ok x \<longleftrightarrow> r = Ok x"
  by (cases r) auto

lemma slift_eq: "slift r s = (r', s') \<longleftrightarrow> r = r' \<and> s' = s"
  by (auto simp: slift_def)

lemma sret_eq: "sret x s = (r, s') \<longleftrightarrow> r = Ok x \<and> s' = s"
  by (auto simp: sret_def)

lemma sget_eq: "sget f s = (r, s') \<longleftrightarrow> r = Ok (f s) \<and> s' = s"
  by (auto simp: sget_def)

lemma sthrow_Ok: "sthrow e s \<noteq> (Ok x, s')"
  by (simp add: sthrow_def)

lemma smodify_eq: "smodify f s = (r, s') \<longleftrightarrow> r = Ok () \<and> s' = f s"
  by (auto simp: smodify_def)

end
