(* ===== verification/Attach.thy ===== *)
theory Attach
  imports Engine_Types
begin

text \<open>
  Attachments: the repositories \<^verbatim>\<open>store/attachments.rs\<close> and \<^verbatim>\<open>store/chunks.rs\<close>, the
  sniffing of media kinds (\<^verbatim>\<open>media/sniff.rs\<close>) and the chunk planning and reassembly of
  \<^verbatim>\<open>attach/mod.rs\<close>. The methods that touch the store only are actions on it; SHA-256 and
  the image re-encoder are parameters.
\<close>

section \<open>Attachment rows\<close>

record new_attachment =
  na_head_id :: bytes
  na_rel_id :: string
  na_msg_id :: bytes
  na_direction :: direction
  na_media_class :: u8
  na_mime_hint :: bytes
  na_uncompressed_n :: u32
  na_chunk_count :: u16
  na_chunk_bucket :: u16
  na_content_sha256 :: bytes
  na_caption :: bytes
  na_flags :: u8
  na_orig_ext :: bytes
  na_expires_at :: "u64 option"

definition attachment :: "bytes \<Rightarrow> db \<Rightarrow> attachment_row option" where
  "attachment head_id db = find (\<lambda>a. at_head_id a = head_id) (db_attachments db)"

definition insert_head :: "u64 \<Rightarrow> new_attachment \<Rightarrow> db \<Rightarrow> store_error + db" where
  "insert_head now h db =
     (if any_row (\<lambda>a. at_head_id a = na_head_id h) (db_attachments db)
      then Err (Sqlite UniqueViolation)
      else Ok (db\<lparr>db_attachments := db_attachments db @
        [\<lparr>at_head_id = na_head_id h, at_rel_id = na_rel_id h, at_msg_id = na_msg_id h,
          at_direction = na_direction h, at_media_class = na_media_class h,
          at_mime_hint = na_mime_hint h, at_orig_ext = na_orig_ext h,
          at_uncompressed_n = na_uncompressed_n h, at_chunk_count = na_chunk_count h,
          at_chunk_bucket = na_chunk_bucket h, at_content_sha256 = na_content_sha256 h,
          at_caption = na_caption h, at_flags = na_flags h, at_chunks = [], at_complete = False,
          at_consumed = False, at_expires_at = na_expires_at h, at_created_at = now\<rparr>]\<rparr>))"

definition for_message :: "bytes \<Rightarrow> db \<Rightarrow> attachment_row list" where
  "for_message msg_id db = filter (\<lambda>a. at_msg_id a = msg_id) (db_attachments db)"

definition update_attachment :: "bytes \<Rightarrow> (attachment_row \<Rightarrow> attachment_row) \<Rightarrow> db \<Rightarrow> db" where
  "update_attachment head_id f db =
     db\<lparr>db_attachments := update_where (\<lambda>a. at_head_id a = head_id) f (db_attachments db)\<rparr>"

definition mark_consumed :: "bytes \<Rightarrow> db \<Rightarrow> bool \<times> db" where
  "mark_consumed head_id db =
     (any_row (\<lambda>a. at_head_id a = head_id) (db_attachments db),
      update_attachment head_id (\<lambda>a. a\<lparr>at_consumed := True\<rparr>) db)"

definition count_ones :: "u8 \<Rightarrow> nat" where
  "count_ones b = length (filter (bit b) [0..<8])"

definition ones :: "bytes \<Rightarrow> nat" where
  "ones bitmap = sum_list (map count_ones bitmap)"

definition resize :: "nat \<Rightarrow> bytes \<Rightarrow> bytes" where
  "resize n bs = take n bs @ replicate (n - length bs) 0"

definition div_ceil :: "nat \<Rightarrow> nat \<Rightarrow> nat" where
  "div_ceil a b = (a + b - 1) div b"

definition note_chunk :: "bytes \<Rightarrow> u16 \<Rightarrow> db \<Rightarrow> bool option \<times> db" where
  "note_chunk head_id index db =
     (case attachment head_id db of
        None \<Rightarrow> (None, db)
      | Some row \<Rightarrow>
          if index \<ge> at_chunk_count row then (None, db)
          else
            let need = div_ceil (unat (at_chunk_count row)) 8;
                chunks = set_bit_at (resize need (at_chunks row)) (unat index);
                done = ones chunks \<ge> unat (at_chunk_count row)
            in (Some done, update_attachment head_id (\<lambda>a. a\<lparr>at_chunks := chunks\<rparr>) db))"

definition attachments_sweep_expired :: "u64 \<Rightarrow> db \<Rightarrow> nat \<times> db" where
  "attachments_sweep_expired now db =
     (let dead = (\<lambda>a. case at_expires_at a of None \<Rightarrow> False | Some e \<Rightarrow> i64_le e now) in
      (length (filter dead (db_attachments db)),
       db\<lparr>db_attachments := filter (\<lambda>a. \<not> dead a) (db_attachments db)\<rparr>))"

definition delete_attachment :: "bytes \<Rightarrow> db \<Rightarrow> bool \<times> db" where
  "delete_attachment head_id db =
     (any_row (\<lambda>a. at_head_id a = head_id) (db_attachments db),
      db\<lparr>db_attachments := filter (\<lambda>a. at_head_id a \<noteq> head_id) (db_attachments db)\<rparr>)"

section \<open>Chunk payloads\<close>

definition chunk :: "bytes \<Rightarrow> u16 \<Rightarrow> db \<Rightarrow> bytes option" where
  "chunk head_id index db =
     map_option ck_data (find (\<lambda>c. ck_head_id c = head_id \<and> ck_idx c = index) (db_chunks db))"

definition put_chunk :: "bytes \<Rightarrow> u16 \<Rightarrow> bytes \<Rightarrow> string \<Rightarrow> u64 \<Rightarrow> db \<Rightarrow> store_error + db" where
  "put_chunk head_id index data rel_id now db =
     (case chunk head_id index db of
        Some prev \<Rightarrow>
          if prev \<noteq> data
          then Err (Corrupt (''chunk '' @ hex_encode head_id @ '':'' @ show_nat (unat index) @
                             '' rewritten with different bytes''))
          else Ok db
      | None \<Rightarrow>
          Ok (db\<lparr>db_chunks := db_chunks db @
            [\<lparr>ck_head_id = head_id, ck_idx = index, ck_data = data, ck_rel_id = rel_id,
              ck_created_at = now\<rparr>]\<rparr>))"

definition chunks_for :: "bytes \<Rightarrow> db \<Rightarrow> bytes list" where
  "chunks_for head_id db =
     map ck_data (sort_key (\<lambda>c. unat (ck_idx c)) (filter (\<lambda>c. ck_head_id c = head_id) (db_chunks db)))"

definition delete_chunks :: "bytes \<Rightarrow> db \<Rightarrow> nat \<times> db" where
  "delete_chunks head_id db =
     (length (filter (\<lambda>c. ck_head_id c = head_id) (db_chunks db)),
      db\<lparr>db_chunks := filter (\<lambda>c. ck_head_id c \<noteq> head_id) (db_chunks db)\<rparr>)"

definition chunk_stats :: "chunk_row list \<Rightarrow> nat \<times> nat" where
  "chunk_stats rows = (length rows, sum_list (map (\<lambda>c. length (ck_data c)) rows))"

definition orphan_head_stats :: "bytes \<Rightarrow> db \<Rightarrow> nat \<times> nat" where
  "orphan_head_stats head_id db = chunk_stats (filter (\<lambda>c. ck_head_id c = head_id) (db_chunks db))"

definition has_head :: "db \<Rightarrow> chunk_row \<Rightarrow> bool" where
  "has_head db c = any_row (\<lambda>a. at_head_id a = ck_head_id c) (db_attachments db)"

definition orphan_rel_stats :: "string \<Rightarrow> db \<Rightarrow> nat \<times> nat" where
  "orphan_rel_stats rel_id db =
     chunk_stats (filter (\<lambda>c. ck_rel_id c = rel_id \<and> \<not> has_head db c) (db_chunks db))"

definition sweep_orphans :: "u64 \<Rightarrow> db \<Rightarrow> nat \<times> db" where
  "sweep_orphans older_than db =
     (let dead = (\<lambda>c. i64_lt (ck_created_at c) older_than \<and> \<not> has_head db c) in
      (length (filter dead (db_chunks db)),
       db\<lparr>db_chunks := filter (\<lambda>c. \<not> dead c) (db_chunks db)\<rparr>))"

section \<open>Media kinds\<close>

datatype media_kind = Jpeg | Png | Webp | Heic | Mp4 | Webm | Gif | Reject

fun MediaKind_as_str :: "media_kind \<Rightarrow> string" where
  "MediaKind_as_str Jpeg = ''jpeg''"
| "MediaKind_as_str Png = ''png''"
| "MediaKind_as_str Webp = ''webp''"
| "MediaKind_as_str Heic = ''heic''"
| "MediaKind_as_str Mp4 = ''mp4''"
| "MediaKind_as_str Webm = ''webm''"
| "MediaKind_as_str Gif = ''gif''"
| "MediaKind_as_str Reject = ''reject''"

text \<open>
  The brand of an \<open>ftyp\<close> box is compared as text, in which bytes that are not UTF-8 are
  replaced; the four brands are ASCII, so comparing the bytes gives the same answer.
\<close>

definition sniff :: "bytes \<Rightarrow> media_kind" where
  "sniff head =
     (if length head \<ge> 3 \<and> take 3 head = [0xff, 0xd8, 0xff] then Jpeg
      else if length head \<ge> 6 \<and> (take 6 head = byte_str ''GIF87a'' \<or> take 6 head = byte_str ''GIF89a'')
      then Gif
      else if length head \<ge> 8 \<and> take 4 head = [0x89, 0x50, 0x4e, 0x47] then Png
      else if length head \<ge> 12 \<and> take 4 head = byte_str ''RIFF'' \<and>
              take 4 (drop 8 head) = byte_str ''WEBP'' then Webp
      else if length head \<ge> 12 \<and> take 4 (drop 4 head) = byte_str ''ftyp'' then
        (let brand = take 4 (drop 8 head) in
         if brand \<in> {byte_str ''heic'', byte_str ''mif1'', byte_str ''msf1'', byte_str ''heif''}
         then Heic else Mp4)
      else if length head \<ge> 4 \<and> take 4 head = [0x1a, 0x45, 0xdf, 0xa3] then Webm
      else Reject)"

definition is_image :: "media_kind \<Rightarrow> bool" where
  "is_image k \<longleftrightarrow> k \<in> {Jpeg, Png, Webp, Heic}"

definition is_sticker_image :: "media_kind \<Rightarrow> bool" where
  "is_sticker_image k \<longleftrightarrow> k \<in> {Png, Webp, Gif}"

definition is_video :: "media_kind \<Rightarrow> bool" where
  "is_video k \<longleftrightarrow> k \<in> {Mp4, Webm}"

definition is_animated_webp :: "bytes \<Rightarrow> bool" where
  "is_animated_webp bs =
     (if sniff bs \<noteq> Webp \<or> length bs < 21 then False
      else if take 4 (drop 12 bs) \<noteq> byte_str ''VP8X'' then False
      else bs ! 20 AND 0x02 \<noteq> 0)"

section \<open>Planning a transfer\<close>

datatype chunk_out = Data bytes | Pad

record attach_plan =
  plan_head :: attach_head
  plan_chunks :: "chunk_out list"

record attachment_spec =
  spec_media_class :: u8
  spec_mime_hint :: bytes
  spec_orig_ext :: bytes
  spec_bytes :: bytes
  spec_caption :: bytes
  spec_view_once :: bool

function chunks_of :: "nat \<Rightarrow> 'a list \<Rightarrow> 'a list list" where
  "chunks_of n xs = (if n = 0 \<or> xs = [] then [] else take n xs # chunks_of n (drop n xs))"
  by pat_completeness auto
termination by (relation "measure (\<lambda>(n, xs). length xs)") auto

declare chunks_of.simps [simp del]

definition plan_transfer ::
    "(bytes \<Rightarrow> bytes) \<Rightarrow> u8 \<Rightarrow> bytes \<Rightarrow> bytes \<Rightarrow> bytes \<Rightarrow> bytes \<Rightarrow> bool \<Rightarrow> engine_error + attach_plan" where
  "plan_transfer sha256 mclass mime ext bs cap once =
     (if bs = [] \<or> length bs > MAX_ATTACH then Err (EditDenied ''attachment size out of range'')
      else
        let inl = length bs \<le> INLINE_MAX;
            count = (if inl then 0 else of_nat (div_ceil (length bs) CHUNK_DATA_MAX)) :: u16;
            bucket = (if inl then 0
                      else of_nat (div_ceil (unat count) BUCKET_GRANULARITY * BUCKET_GRANULARITY)) :: u16;
            data = (if inl then [] else map Data (chunks_of CHUNK_DATA_MAX bs))
        in Ok \<lparr>plan_head =
                 \<lparr>media_class = mclass, mime_hint = mime, orig_ext = ext,
                  uncompressed_n = of_nat (length bs), chunk_count = count, chunk_bucket = bucket,
                  content_sha256 = sha256 bs, caption = cap,
                  head_flags = if once then FLAG_VIEW_ONCE else 0\<rparr>,
               plan_chunks = data @ replicate (unat bucket - length data) Pad\<rparr>)"

text \<open>The re-encoder emits JPEG or PNG; the extension and the type follow the bytes it returns.\<close>

definition reencoded ::
    "(bytes \<Rightarrow> media_error + bytes) \<Rightarrow> attachment_spec \<Rightarrow> engine_error + attachment_spec" where
  "reencoded strip_and_reencode_image spec =
     rbind (map_err EngineMedia (strip_and_reencode_image (spec_bytes spec))) (\<lambda>bs.
     let jpeg = take 2 bs = [0xff, 0xd8] in
     Ok (spec\<lparr>spec_mime_hint := byte_str (if jpeg then ''image/jpeg'' else ''image/png''),
              spec_orig_ext := byte_str (if jpeg then ''jpg'' else ''png''),
              spec_bytes := bs\<rparr>))"

definition prepare_spec ::
    "(bytes \<Rightarrow> media_error + bytes) \<Rightarrow> attachment_spec \<Rightarrow> engine_error + attachment_spec" where
  "prepare_spec strip_and_reencode_image spec =
     (if spec_media_class spec = CLASS_IMAGE then
        (case sniff (spec_bytes spec) of
           Jpeg \<Rightarrow> reencoded strip_and_reencode_image spec
         | Png \<Rightarrow> reencoded strip_and_reencode_image spec
         | Webp \<Rightarrow> reencoded strip_and_reencode_image spec
         | Gif \<Rightarrow> Ok (spec\<lparr>spec_mime_hint := byte_str ''image/gif'', spec_orig_ext := byte_str ''gif''\<rparr>)
         | other \<Rightarrow> Err (EngineMedia (Unsupported (MediaKind_as_str other))))
      else if spec_media_class spec = CLASS_VIDEO then Ok (spec\<lparr>spec_orig_ext := byte_str ''mp4''\<rparr>)
      else Ok spec)"

section \<open>Store actions and the policy columns\<close>

definition store_do :: "(db \<Rightarrow> 'a \<times> db) \<Rightarrow> (db, 'a) action" where
  "store_do f db = (let (x, db) = f db in (Ok x, db))"

definition store_try :: "(db \<Rightarrow> store_error + db) \<Rightarrow> (db, unit) action" where
  "store_try f db = (case f db of Inl e \<Rightarrow> (Err (EngineStore e), db) | Inr db' \<Rightarrow> (Ok (), db'))"

definition store_get :: "(db \<Rightarrow> store_error + 'a) \<Rightarrow> (db, 'a) action" where
  "store_get f db = (map_err EngineStore (f db), db)"

definition db_load_policy :: "string \<Rightarrow> db \<Rightarrow> store_error + policy_state" where
  "db_load_policy rel_id db = load_policy (\<lambda>r. rel_of r db) rel_id"

definition db_save_policy :: "string \<Rightarrow> policy_state \<Rightarrow> db \<Rightarrow> db" where
  "db_save_policy rel_id s = update_rel rel_id (policy_columns s)"

definition clamp_message_expiry :: "string \<Rightarrow> u64 \<Rightarrow> db \<Rightarrow> nat \<times> db" where
  "clamp_message_expiry rel_id before db =
     (let P = (\<lambda>r. m_rel_id r = rel_id \<and>
                  (case m_expires_at r of None \<Rightarrow> True | Some e \<Rightarrow> i64_lt before e)) in
      (length (filter P (db_messages db)),
       db\<lparr>db_messages := update_where P (\<lambda>r. r\<lparr>m_expires_at := Some before\<rparr>) (db_messages db)\<rparr>))"

fun erase_heads :: "bytes list \<Rightarrow> db \<Rightarrow> db" where
  "erase_heads [] db = db"
| "erase_heads (h # hs) db =
     erase_heads hs (snd (mark_tombstoned h (snd (delete_attachment h (snd (delete_chunks h db))))))"

definition erase_attach_messages :: "string \<Rightarrow> db \<Rightarrow> nat \<times> db" where
  "erase_attach_messages rel_id db =
     (let heads = map m_msg_id (filter (\<lambda>r. m_rel_id r = rel_id \<and>
                    m_env_type r = EnvelopeType_code T_AttachHead \<and> \<not> m_tombstone r) (db_messages db))
      in (length heads, erase_heads heads db))"

definition message_expiry :: "string \<Rightarrow> u64 \<Rightarrow> db \<Rightarrow> store_error + u64 option" where
  "message_expiry rel_id floor db = rbind (db_load_policy rel_id db) (\<lambda>p. Ok (expiry_at p floor))"

definition attachments_allowed :: "string \<Rightarrow> db \<Rightarrow> store_error + bool" where
  "attachments_allowed rel_id db = rbind (db_load_policy rel_id db) (\<lambda>p. Ok (attachments p))"

section \<open>Reassembly\<close>

text \<open>The full bitmap of a complete transfer: the bits below the chunk count.\<close>

definition full_bitmap :: "u16 \<Rightarrow> bytes" where
  "full_bitmap n =
     (let need = div_ceil (unat n) 8;
          bitmap = replicate need 0xff
      in if unat n mod 8 \<noteq> 0 then bitmap[need - 1 := push_bit (unat n mod 8) 1 - 1] else bitmap)"

definition try_complete :: "(bytes \<Rightarrow> bytes) \<Rightarrow> string \<Rightarrow> bytes \<Rightarrow> (db, engine_event list) action" where
  "try_complete sha256 rel_id head_id db =
     (case attachment head_id db of
        None \<Rightarrow> (Ok [], db)
      | Some row \<Rightarrow>
          if at_complete row then (Ok [], db)
          else
            let stored = chunks_for head_id db in
            if length stored < unat (at_chunk_count row) then (Ok [], db)
            else
              let bs = concat stored in
              if length bs \<noteq> unat (at_uncompressed_n row) \<or> sha256 bs \<noteq> at_content_sha256 row then
                (Ok [EvAttachmentFailed rel_id head_id],
                 snd (delete_attachment head_id (snd (delete_chunks head_id db))))
              else
                (Ok [EvAttachmentComplete rel_id head_id (at_msg_id row)],
                 update_attachment head_id
                   (\<lambda>a. a\<lparr>at_chunks := full_bitmap (at_chunk_count row), at_complete := True\<rparr>) db))"

definition inbound_head :: "string \<Rightarrow> envelope \<Rightarrow> attach_head \<Rightarrow> u64 option \<Rightarrow> new_attachment" where
  "inbound_head rel_id env head expiry =
     \<lparr>na_head_id = env_msg_id env, na_rel_id = rel_id, na_msg_id = env_msg_id env, na_direction = In,
      na_media_class = media_class head, na_mime_hint = mime_hint head,
      na_uncompressed_n = uncompressed_n head, na_chunk_count = chunk_count head,
      na_chunk_bucket = chunk_bucket head, na_content_sha256 = content_sha256 head,
      na_caption = caption head, na_flags = head_flags head, na_orig_ext = orig_ext head,
      na_expires_at = expiry\<rparr>"

definition on_attach_head ::
    "(bytes \<Rightarrow> bytes) \<Rightarrow> u64 \<Rightarrow> string \<Rightarrow> envelope \<Rightarrow> attach_head_payload \<Rightarrow>
     (db, engine_event list) action" where
  "on_attach_head sha256 now rel_id env payload =
     sbind (store_get (attachments_allowed rel_id)) (\<lambda>allowed.
     if \<not> allowed then sret []
     else
       sbind (sget (attachment (env_msg_id env))) (\<lambda>known.
       if known \<noteq> None then sret []
       else
         let head = ahp_head payload in
         sbind (store_get (message_expiry rel_id now)) (\<lambda>expiry.
         sbind (store_try (insert_head now (inbound_head rel_id env head expiry))) (\<lambda>_.
         case ahp_inline payload of
           Some bs \<Rightarrow>
             if sha256 bs \<noteq> content_sha256 head then
               sbind (store_do (delete_attachment (env_msg_id env))) (\<lambda>_.
               sret [EvAttachmentFailed rel_id (env_msg_id env)])
             else
               sbind (store_try (put_chunk (env_msg_id env) 0 bs rel_id now)) (\<lambda>_.
               sbind (smodify (update_attachment (env_msg_id env) (\<lambda>a. a\<lparr>at_complete := True\<rparr>))) (\<lambda>_.
               sret [EvAttachmentComplete rel_id (env_msg_id env) (env_msg_id env)]))
         | None \<Rightarrow> try_complete sha256 rel_id (env_msg_id env)))))"

definition on_attach_chunk ::
    "(bytes \<Rightarrow> bytes) \<Rightarrow> u64 \<Rightarrow> string \<Rightarrow> attach_chunk \<Rightarrow> (db, engine_event list) action" where
  "on_attach_chunk sha256 now rel_id c =
     (if ac_pad c then sret []
      else
        sbind (sget (\<lambda>db.
          case attachment (ac_head_id c) db of
            None \<Rightarrow>
              (let len = length (ac_data c);
                   (n, bs) = orphan_head_stats (ac_head_id c) db;
                   (rel_n, rel_bs) = orphan_rel_stats rel_id db
               in n \<ge> MAX_ORPHAN_CHUNKS_PER_HEAD \<or> bs + len > MAX_ORPHAN_BYTES_PER_HEAD \<or>
                  rel_n \<ge> MAX_ORPHAN_CHUNKS_PER_REL \<or> rel_bs + len > MAX_ORPHAN_BYTES_PER_REL)
          | Some head_row \<Rightarrow> ac_index c \<ge> at_chunk_count head_row)) (\<lambda>refused.
        if refused then sret [EvAttachmentChunkDropped rel_id (ac_head_id c)]
        else
          sbind (store_try (put_chunk (ac_head_id c) (ac_index c) (ac_data c) rel_id now)) (\<lambda>_.
          sbind (store_do (note_chunk (ac_head_id c) (ac_index c))) (\<lambda>noted.
          case noted of
            None \<Rightarrow> sret []
          | Some True \<Rightarrow> try_complete sha256 rel_id (ac_head_id c)
          | Some False \<Rightarrow>
              sget (\<lambda>db.
                case attachment (ac_head_id c) db of
                  None \<Rightarrow> [EvAttachmentProgress rel_id (ac_head_id c) 0 0]
                | Some r \<Rightarrow> [EvAttachmentProgress rel_id (ac_head_id c) (ones (at_chunks r))
                              (unat (at_chunk_count r))])))))"

definition on_delete_target :: "bytes \<Rightarrow> (db, unit) action" where
  "on_delete_target target =
     sbind (sget (for_message target)) (\<lambda>atts.
     sfor atts (\<lambda>att.
       sbind (store_do (delete_chunks (at_head_id att))) (\<lambda>_.
       sbind (store_do (delete_attachment (at_head_id att))) (\<lambda>_. sret ()))))"

definition attachment_bytes :: "bytes \<Rightarrow> db \<Rightarrow> bytes option" where
  "attachment_bytes head_id db =
     (case attachment head_id db of
        None \<Rightarrow> None
      | Some row \<Rightarrow>
          if \<not> at_complete row \<or> at_consumed row then None
          else
            let stored = chunks_for head_id db in
            if stored = [] then None else Some (concat stored))"

definition attachment_viewed :: "bytes \<Rightarrow> db \<Rightarrow> db" where
  "attachment_viewed head_id db =
     (case attachment head_id db of
        None \<Rightarrow> db
      | Some row \<Rightarrow>
          if at_flags row AND FLAG_VIEW_ONCE \<noteq> 0 \<and> \<not> at_consumed row
          then snd (mark_consumed head_id (snd (delete_chunks head_id db))) else db)"

definition class_for_mime :: "string \<Rightarrow> u8" where
  "class_for_mime mime = (if take 6 mime = ''video/'' then CLASS_VIDEO else CLASS_IMAGE)"

end
