(* ===== verification/Attach_Transfer.thy ===== *)
theory Attach_Transfer
  imports Attach Receive_View
begin

text \<open>
  Whole attachment transfers: what the plan of \<^verbatim>\<open>attach/mod.rs\<close> sends, and what the
  receiving side's head and chunk handlers make of it. The lemmas carry one invariant of a
  transfer in progress, the chunks stored and the bits set, through every handler call.
\<close>

section \<open>Chunk plans\<close>

lemma chunks_of_Nil [simp]: "chunks_of n [] = []"
  by (simp add: chunks_of.simps)

lemma concat_chunks_of: "0 < n \<Longrightarrow> concat (chunks_of n xs) = xs"
proof (induction n xs rule: chunks_of.induct)
  case (1 n xs)
  then show ?case by (subst chunks_of.simps) auto
qed

lemma chunks_of_sizes: "c \<in> set (chunks_of n xs) \<Longrightarrow> c \<noteq> [] \<and> length c \<le> n"
proof (induction n xs rule: chunks_of.induct)
  case (1 n xs)
  then show ?case by (subst (asm) (2) chunks_of.simps) (auto split: if_splits)
qed

lemma div_ceil_step: "0 < n \<Longrightarrow> 0 < a \<Longrightarrow> div_ceil a n = Suc (div_ceil (a - n) n)"
proof -
  assume n: "0 < n" and a: "0 < a"
  show ?thesis
  proof (cases "a \<le> n")
    case True
    then have "a + n - 1 < 2 * n" "n \<le> a + n - 1" using a by auto
    then have "(a + n - 1) div n = 1" by (intro div_nat_eqI) simp_all
    moreover have "(n - 1) div n = 0" using n by simp
    ultimately show ?thesis using True by (simp add: div_ceil_def)
  next
    case False
    then have e: "a + n - 1 = (a - n + n - 1) + n" using n by simp
    have "(a + n - 1) div n = (a - n + n - 1) div n + 1"
      by (subst e) (use n in \<open>simp only: div_add_self2 neq0_conv\<close>)
    then show ?thesis by (simp add: div_ceil_def)
  qed
qed

lemma length_chunks_of: "0 < n \<Longrightarrow> length (chunks_of n xs) = div_ceil (length xs) n"
proof (induction n xs rule: chunks_of.induct)
  case (1 n xs)
  show ?case
  proof (cases "xs = []")
    case True
    then show ?thesis using 1(2) by (simp add: div_ceil_def)
  next
    case False
    then show ?thesis using 1 by (subst chunks_of.simps) (simp add: div_ceil_step)
  qed
qed

definition data_of :: "chunk_out list \<Rightarrow> bytes list" where
  "data_of cs = List.map_filter (\<lambda>c. case c of Data d \<Rightarrow> Some d | Pad \<Rightarrow> None) cs"

lemma data_of_plan: "data_of (map Data ds @ replicate n Pad) = ds"
proof -
  have "data_of (replicate n Pad) = []" by (induction n) (auto simp: data_of_def List.map_filter_simps)
  moreover have "data_of (map Data ds @ xs) = ds @ data_of xs" for xs
    by (induction ds) (auto simp: data_of_def List.map_filter_simps)
  ultimately show ?thesis by simp
qed

lemma chunk_total:
  assumes "length bs \<le> MAX_ATTACH"
  shows "div_ceil (length bs) CHUNK_DATA_MAX \<le> 940"
proof -
  have "(length bs + CHUNK_DATA_MAX - 1) div CHUNK_DATA_MAX \<le> (MAX_ATTACH + CHUNK_DATA_MAX - 1) div CHUNK_DATA_MAX"
    using assms by (intro div_le_mono) simp
  also have "\<dots> = 940" by (simp add: limit_defs)
  finally show ?thesis by (simp add: div_ceil_def)
qed

lemma div_ceil_le: "0 < n \<Longrightarrow> a \<le> div_ceil a n * n"
proof -
  assume "0 < n"
  have "a + n - 1 < ((a + n - 1) div n + 1) * n" using \<open>0 < n\<close> dividend_less_div_times [of n "a + n - 1"]
    by (simp add: algebra_simps)
  then show ?thesis using \<open>0 < n\<close> by (simp add: div_ceil_def algebra_simps)
qed

lemma plan_shape:
  assumes "plan_transfer sha256 mclass mime ext bs cap once = Ok p" "INLINE_MAX < length bs"
    and "pieces = chunks_of CHUNK_DATA_MAX bs"
  shows "plan_chunks p = map Data pieces @ replicate (unat (chunk_bucket (plan_head p)) - length pieces) Pad"
    "unat (chunk_count (plan_head p)) = length pieces" "length pieces \<le> 940" "pieces \<noteq> []" "concat pieces = bs"
    "unat (chunk_bucket (plan_head p)) = div_ceil (length pieces) BUCKET_GRANULARITY * BUCKET_GRANULARITY"
    "unat (uncompressed_n (plan_head p)) = length bs" "content_sha256 (plan_head p) = sha256 bs"
proof -
  let ?n = "div_ceil (length bs) CHUNK_DATA_MAX"
  have size: "length bs \<le> MAX_ATTACH" "bs \<noteq> []" using assms(1) by (auto simp: plan_transfer_def split: if_splits)
  have n: "?n \<le> 940" by (rule chunk_total [OF size(1)])
  then have un: "unat (of_nat ?n :: u16) = ?n" by (simp add: unat_of_nat_u16)
  let ?b = "div_ceil ?n BUCKET_GRANULARITY * BUCKET_GRANULARITY"
  have "div_ceil ?n 8 \<le> 118" using n by (simp add: div_ceil_def)
  then have "?b \<le> 944" by (simp add: BUCKET_GRANULARITY_def)
  then have ub: "unat (of_nat ?b :: u16) = ?b" by (simp only: unat_of_nat_u16)
  have len: "length pieces = ?n" by (simp add: assms(3) length_chunks_of limit_defs)
  have "unat (of_nat (length bs) :: u32) = length bs" using size(1) by (simp add: unat_of_nat limit_defs)
  moreover have "0 < CHUNK_DATA_MAX" by (simp add: limit_defs)
  then show "concat pieces = bs" "pieces \<noteq> []"
    using size(2) by (auto simp: assms(3) concat_chunks_of) (metis concat.simps(1) concat_chunks_of)
  ultimately show "plan_chunks p = map Data pieces @ replicate (unat (chunk_bucket (plan_head p)) - length pieces) Pad"
    "unat (chunk_count (plan_head p)) = length pieces" "length pieces \<le> 940"
    "unat (chunk_bucket (plan_head p)) = div_ceil (length pieces) BUCKET_GRANULARITY * BUCKET_GRANULARITY"
    "unat (uncompressed_n (plan_head p)) = length bs" "content_sha256 (plan_head p) = sha256 bs"
    using assms un ub len n by (auto simp: plan_transfer_def Let_def simp del: of_nat_mult split: if_splits)
qed

section \<open>Counting bits\<close>

lemma bit_at_Cons: "bit_at (b # bs) i \<longleftrightarrow> (if i < 8 then bit b i else bit_at bs (i - 8))"
proof (cases "i < 8")
  case False
  then have "i div 8 = Suc ((i - 8) div 8)" "i mod 8 = (i - 8) mod 8" by (auto simp: le_div_geq le_mod_geq)
  then show ?thesis using False by (simp add: bit_at_def)
qed (simp add: bit_at_def)

lemma count_ones_card: "count_ones b = card {i. i < 8 \<and> bit b i}"
proof -
  have "count_ones b = card (set (filter (bit b) [0..<8]))"
    unfolding count_ones_def by (rule distinct_card [symmetric]) simp
  also have "set (filter (bit b) [0..<8]) = {i. i < 8 \<and> bit b i}" by auto
  finally show ?thesis .
qed

lemma finite_bit_at [simp]: "finite {i. bit_at bs i}"
proof (rule finite_subset)
  show "{i. bit_at bs i} \<subseteq> {..<8 * length bs}" by (auto simp: bit_at_def)
qed simp

lemma ones_card: "ones bs = card {i. bit_at bs i}"
proof (induction bs)
  case Nil
  then show ?case by (simp add: ones_def bit_at_def)
next
  case (Cons b bs)
  have "{i. bit_at (b # bs) i} = {i. i < 8 \<and> bit b i} \<union> (+) 8 ` {i. bit_at bs i}"
  proof (intro set_eqI iffI)
    fix i assume "i \<in> {i. bit_at (b # bs) i}"
    then show "i \<in> {i. i < 8 \<and> bit b i} \<union> (+) 8 ` {i. bit_at bs i}"
      by (cases "i < 8") (auto simp: bit_at_Cons image_iff intro!: exI [of _ "i - 8"])
  qed (auto simp: bit_at_Cons)
  moreover have "card ((+) 8 ` {i. bit_at bs i}) = card {i. bit_at bs i}"
    by (intro card_image) simp
  ultimately show ?case
    using Cons by (simp add: ones_def count_ones_card card_Un_disjoint disjoint_iff image_iff)
qed

lemma bit_at_resize: "bit_at (resize n bs) i \<longleftrightarrow> bit_at bs i \<and> i div 8 < n"
  by (auto simp: bit_at_def resize_def nth_append)

lemma length_resize [simp]: "length (resize n bs) = n"
  by (simp add: resize_def)

lemma less_div_ceil: "i < n \<Longrightarrow> i div 8 < div_ceil n 8"
  unfolding div_ceil_def by linarith

section \<open>Stored chunks\<close>

text \<open>
  The chunk rows of one transfer: those of the indices \<open>R\<close>, each with its piece.
\<close>

definition head_rows :: "bytes \<Rightarrow> db \<Rightarrow> chunk_row list" where
  "head_rows h db = filter (\<lambda>c. ck_head_id c = h) (db_chunks db)"

definition holds :: "bytes \<Rightarrow> bytes list \<Rightarrow> nat set \<Rightarrow> db \<Rightarrow> bool" where
  "holds h pieces R db \<longleftrightarrow>
     distinct (map (\<lambda>c. unat (ck_idx c)) (head_rows h db)) \<and>
     (\<lambda>c. unat (ck_idx c)) ` set (head_rows h db) = R \<and>
     (\<forall>c \<in> set (head_rows h db). ck_data c = pieces ! unat (ck_idx c))"

lemma chunk_head_rows: "chunk h i db = map_option ck_data (find (\<lambda>c. ck_idx c = i) (head_rows h db))"
proof -
  have "find (\<lambda>c. ck_head_id c = h \<and> ck_idx c = i) rows =
      find (\<lambda>c. ck_idx c = i) (filter (\<lambda>c. ck_head_id c = h) rows)" for rows :: "chunk_row list"
    by (induction rows) auto
  then show ?thesis by (simp add: chunk_def head_rows_def)
qed

lemma holds_put:
  assumes "holds h pieces R db" "i < 65536"
  shows "\<exists>db'. put_chunk h (of_nat i) (pieces ! i) rel_id now db = Ok db' \<and> holds h pieces (insert i R) db' \<and>
    db_attachments db' = db_attachments db"
proof -
  have i: "unat (of_nat i :: u16) = i" using assms(2) by (rule unat_of_nat_u16)
  show ?thesis
  proof (cases "find (\<lambda>c. ck_idx c = of_nat i) (head_rows h db)")
    case None
    then have "i \<notin> R" using assms(1) i by (auto simp: holds_def find_None_iff)
    moreover have "head_rows h (db\<lparr>db_chunks := db_chunks db @ [\<lparr>ck_head_id = h, ck_idx = of_nat i,
        ck_data = pieces ! i, ck_rel_id = rel_id, ck_created_at = now\<rparr>]\<rparr>) =
      head_rows h db @ [\<lparr>ck_head_id = h, ck_idx = of_nat i, ck_data = pieces ! i, ck_rel_id = rel_id,
        ck_created_at = now\<rparr>]"
      by (simp add: head_rows_def)
    ultimately show ?thesis
      using None assms(1) i by (auto simp: put_chunk_def chunk_head_rows holds_def)
  next
    case (Some c)
    then have c: "c \<in> set (head_rows h db)" "ck_idx c = of_nat i" by (auto simp: find_Some_iff)
    then have "ck_data c = pieces ! i" "i \<in> R" using assms(1) i by (auto simp: holds_def image_iff intro!: bexI [of _ c])
    then show ?thesis using Some assms(1) by (auto simp: put_chunk_def chunk_head_rows insert_absorb)
  qed
qed

lemma chunks_for_full:
  assumes "holds h pieces {..<length pieces} db"
  shows "chunks_for h db = pieces"
proof -
  let ?k = "\<lambda>c. unat (ck_idx c)"
  let ?rows = "sort_key ?k (head_rows h db)"
  have "map ?k ?rows = [0..<length pieces]"
  proof (rule sorted_distinct_set_unique)
    show "distinct (map ?k ?rows)" using assms by (auto simp: holds_def distinct_map)
    show "set (map ?k ?rows) = set [0..<length pieces]" using assms by (auto simp: holds_def)
  qed simp_all
  moreover have "map ck_data ?rows = map ((!) pieces) (map ?k ?rows)"
    using assms by (auto simp: holds_def)
  ultimately have "map ck_data ?rows = map ((!) pieces) [0..<length pieces]" by (simp only:)
  then show ?thesis by (simp add: chunks_for_def head_rows_def map_nth)
qed

lemma length_chunks_for: "holds h pieces R db \<Longrightarrow> length (chunks_for h db) = card R"
proof -
  assume a: "holds h pieces R db"
  have "length (chunks_for h db) = length (map (\<lambda>c. unat (ck_idx c)) (head_rows h db))"
    by (simp add: chunks_for_def head_rows_def)
  also have "\<dots> = card R" using a unfolding holds_def by (metis distinct_card list.set_map)
  finally show ?thesis .
qed

section \<open>A transfer in progress\<close>

text \<open>
  A transfer of \<open>pieces\<close> that holds the chunks \<open>R\<close>, with the bits \<open>B\<close> set in its bitmap and
  not yet complete; and a complete one.
\<close>

definition transfer_row :: "(bytes \<Rightarrow> bytes) \<Rightarrow> bytes \<Rightarrow> bytes list \<Rightarrow> attachment_row \<Rightarrow> bool" where
  "transfer_row sha256 h pieces row \<longleftrightarrow>
     at_head_id row = h \<and> unat (at_chunk_count row) = length pieces \<and>
     unat (at_uncompressed_n row) = length (concat pieces) \<and>
     at_content_sha256 row = sha256 (concat pieces) \<and> \<not> at_consumed row"

definition in_progress ::
    "(bytes \<Rightarrow> bytes) \<Rightarrow> bytes \<Rightarrow> bytes list \<Rightarrow> nat set \<Rightarrow> nat set \<Rightarrow> db \<Rightarrow> bool" where
  "in_progress sha256 h pieces R B db \<longleftrightarrow>
     (\<exists>row. attachment h db = Some row \<and> transfer_row sha256 h pieces row \<and> \<not> at_complete row \<and>
        (\<forall>i. bit_at (at_chunks row) i \<longleftrightarrow> i \<in> B)) \<and>
     holds h pieces R db \<and> B \<subseteq> R \<and> R \<subseteq> {..<length pieces}"

definition completed :: "(bytes \<Rightarrow> bytes) \<Rightarrow> bytes \<Rightarrow> bytes list \<Rightarrow> db \<Rightarrow> bool" where
  "completed sha256 h pieces db \<longleftrightarrow>
     (\<exists>row. attachment h db = Some row \<and> transfer_row sha256 h pieces row \<and> at_complete row) \<and>
     holds h pieces {..<length pieces} db"

definition chunk_msg :: "bytes \<Rightarrow> bytes list \<Rightarrow> nat \<Rightarrow> attach_chunk" where
  "chunk_msg h pieces i = \<lparr>ac_head_id = h, ac_index = of_nat i, ac_pad = False, ac_data = pieces ! i\<rparr>"

lemma find_update_where_key:
  "(\<And>r. g (f r) = g r) \<Longrightarrow>
   find (\<lambda>r. g r = k) (update_where (\<lambda>r. g r = k) f rows) = map_option f (find (\<lambda>r. g r = k) rows)"
  by (induction rows) (auto simp: update_where_def)

lemma attachment_update:
  "(\<And>a. at_head_id (f a) = at_head_id a) \<Longrightarrow>
   attachment h (update_attachment h f db) = map_option f (attachment h db)"
  by (simp add: attachment_def update_attachment_def find_update_where_key)

lemma holds_update_attachment [simp]: "holds h pieces R (update_attachment h' f db) = holds h pieces R db"
  by (simp add: holds_def head_rows_def update_attachment_def)

lemma note_chunk_in_progress:
  assumes "in_progress sha256 h pieces R B db" "i \<in> R" "length pieces < 65536"
  shows "\<exists>db'. note_chunk h (of_nat i) db = (Some (insert i B = {..<length pieces}), db') \<and>
    in_progress sha256 h pieces R (insert i B) db'"
proof -
  obtain row where row: "attachment h db = Some row" "transfer_row sha256 h pieces row" "\<not> at_complete row"
      "\<And>j. bit_at (at_chunks row) j \<longleftrightarrow> j \<in> B" and
    R: "holds h pieces R db" "B \<subseteq> R" "R \<subseteq> {..<length pieces}"
    using assms(1) unfolding in_progress_def by blast
  have i: "i < length pieces" "unat (of_nat i :: u16) = i"
    using assms(2,3) R(3) unat_of_nat_u16 [of i] by auto
  have n: "unat (at_chunk_count row) = length pieces" using row(2) by (simp add: transfer_row_def)
  let ?c = "set_bit_at (resize (div_ceil (length pieces) 8) (at_chunks row)) i"
  have bits: "bit_at ?c j \<longleftrightarrow> j \<in> insert i B" for j
    using less_div_ceil [OF i(1)] less_div_ceil [of j "length pieces"] R(2,3)
    by (auto simp: bit_at_set bit_at_resize row(4))
  have "ones ?c = card (insert i B)" unfolding ones_card bits by (rule arg_cong [where f = card]) auto
  moreover have "insert i B \<subseteq> {..<length pieces}" using R(2,3) i(1) by auto
  ultimately have "unat (at_chunk_count row) \<le> ones ?c \<longleftrightarrow> insert i B = {..<length pieces}"
    unfolding n by (metis card_lessThan card_seteq finite_lessThan order_refl)
  moreover have "\<not> at_chunk_count row \<le> of_nat i" using i n by (simp add: word_le_nat_alt)
  ultimately show ?thesis
    using row R bits assms(2)
    by (auto simp: note_chunk_def Let_def i n in_progress_def attachment_update transfer_row_def)
qed

lemma try_complete_full:
  assumes "in_progress sha256 h pieces {..<length pieces} B db"
  shows "\<exists>evs db'. try_complete sha256 rel_id h db = (Ok evs, db') \<and> completed sha256 h pieces db'"
proof -
  obtain row where row: "attachment h db = Some row" "transfer_row sha256 h pieces row" "\<not> at_complete row" and
    R: "holds h pieces {..<length pieces} db"
    using assms unfolding in_progress_def by blast
  have "chunks_for h db = pieces" by (rule chunks_for_full [OF R])
  then show ?thesis
    using row R
    by (auto simp: try_complete_def Let_def transfer_row_def completed_def attachment_update)
qed

lemma attachment_cong: "db_attachments db' = db_attachments db \<Longrightarrow> attachment h db' = attachment h db"
  by (simp add: attachment_def)

lemma in_progress_put:
  assumes "in_progress sha256 h pieces R B db" "i < length pieces" "length pieces < 65536"
  shows "\<exists>db'. put_chunk h (of_nat i) (pieces ! i) rel_id now db = Ok db' \<and>
    in_progress sha256 h pieces (insert i R) B db'"
proof -
  have h: "holds h pieces R db" "i < 65536" using assms by (auto simp: in_progress_def)
  from holds_put [OF h, of rel_id now] obtain db' where
    db': "put_chunk h (of_nat i) (pieces ! i) rel_id now db = Ok db'" "holds h pieces (insert i R) db'"
      "db_attachments db' = db_attachments db" by blast
  then show ?thesis using assms(1,2) by (auto simp: in_progress_def attachment_cong [OF db'(3)])
qed

lemma on_attach_chunk_progress:
  assumes "in_progress sha256 h pieces R B db" "i < length pieces" "length pieces < 65536"
  shows "\<exists>evs db'. on_attach_chunk sha256 now rel_id (chunk_msg h pieces i) db = (Ok evs, db') \<and>
    (if insert i B = {..<length pieces} then completed sha256 h pieces db'
     else in_progress sha256 h pieces (insert i R) (insert i B) db')"
proof -
  obtain row where row: "attachment h db = Some row" "unat (at_chunk_count row) = length pieces"
    using assms(1) by (auto simp: in_progress_def transfer_row_def)
  have i: "unat (of_nat i :: u16) = i" using assms(2,3) by (intro unat_of_nat_u16) simp
  have lt: "\<not> at_chunk_count row \<le> of_nat i" using i row(2) assms(2) by (simp add: word_le_nat_alt)
  from in_progress_put [OF assms, of rel_id now] obtain db1 where
    p: "put_chunk h (of_nat i) (pieces ! i) rel_id now db = Ok db1"
      "in_progress sha256 h pieces (insert i R) B db1" by blast
  from note_chunk_in_progress [OF p(2) _ assms(3), of i] obtain db2 where
    n: "note_chunk h (of_nat i) db1 = (Some (insert i B = {..<length pieces}), db2)"
      "in_progress sha256 h pieces (insert i R) (insert i B) db2" by blast
  show ?thesis
  proof (cases "insert i B = {..<length pieces}")
    case True
    have "insert i R = {..<length pieces}" using n(2) True by (auto simp: in_progress_def)
    with n(2) have "in_progress sha256 h pieces {..<length pieces} (insert i B) db2" by simp
    from try_complete_full [OF this, of rel_id] True show ?thesis
      using p(1) n(1) row lt
      by (auto simp: on_attach_chunk_def chunk_msg_def sbind_def sget_def store_try_def store_do_def)
  next
    case False
    then show ?thesis
      using p(1) n row lt
      by (auto simp: on_attach_chunk_def chunk_msg_def sbind_def sget_def store_try_def store_do_def)
  qed
qed

lemma on_attach_chunk_completed:
  assumes "completed sha256 h pieces db" "i < length pieces" "length pieces < 65536"
  shows "\<exists>evs db'. on_attach_chunk sha256 now rel_id (chunk_msg h pieces i) db = (Ok evs, db') \<and>
    completed sha256 h pieces db'"
proof -
  obtain row where row: "attachment h db = Some row" "transfer_row sha256 h pieces row" "at_complete row"
    and R: "holds h pieces {..<length pieces} db"
    using assms(1) unfolding completed_def by blast
  have i: "unat (of_nat i :: u16) = i" "i < 65536" using assms(2,3) by (auto intro: unat_of_nat_u16)
  have lt: "\<not> at_chunk_count row \<le> of_nat i"
    using i row(2) assms(2) by (simp add: word_le_nat_alt transfer_row_def)
  from holds_put [OF R i(2), of rel_id now] obtain db1 where
    p: "put_chunk h (of_nat i) (pieces ! i) rel_id now db = Ok db1" "holds h pieces {..<length pieces} db1"
      "db_attachments db1 = db_attachments db"
    using assms(2) by (auto simp: insert_absorb)
  have row1: "attachment h db1 = Some row" using row(1) attachment_cong [OF p(3)] by simp
  obtain d c where n: "note_chunk h (of_nat i) db1 =
      (Some d, update_attachment h (\<lambda>a. a\<lparr>at_chunks := c\<rparr>) db1)"
    using lt by (simp add: note_chunk_def row1 Let_def)
  let ?db2 = "update_attachment h (\<lambda>a. a\<lparr>at_chunks := c\<rparr>) db1"
  have c2: "attachment h ?db2 = Some (row\<lparr>at_chunks := c\<rparr>)" by (simp add: attachment_update row1)
  have "completed sha256 h pieces ?db2"
    using c2 row(2,3) p(2) by (auto simp: completed_def transfer_row_def)
  then show ?thesis
    using p(1) n row lt c2
    by (cases d)
      (auto simp: on_attach_chunk_def chunk_msg_def sbind_def sget_def store_try_def store_do_def try_complete_def)
qed

text \<open>All the same: the transfer after the chunks \<open>R\<close> have arrived behind the head.\<close>

definition arrived :: "(bytes \<Rightarrow> bytes) \<Rightarrow> bytes \<Rightarrow> bytes list \<Rightarrow> nat set \<Rightarrow> db \<Rightarrow> bool" where
  "arrived sha256 h pieces R db =
     (if R = {..<length pieces} then completed sha256 h pieces db else in_progress sha256 h pieces R R db)"

lemma arrived_chunk:
  assumes "arrived sha256 h pieces R db" "i < length pieces" "length pieces < 65536"
  shows "\<exists>evs db'. on_attach_chunk sha256 now rel_id (chunk_msg h pieces i) db = (Ok evs, db') \<and>
    arrived sha256 h pieces (insert i R) db'"
proof (cases "R = {..<length pieces}")
  case True
  then show ?thesis
    using assms on_attach_chunk_completed [of sha256 h pieces db i now rel_id]
    by (simp add: arrived_def insert_absorb)
next
  case False
  then show ?thesis
    using assms on_attach_chunk_progress [of sha256 h pieces R R db i now rel_id]
    by (simp add: arrived_def)
qed

section \<open>Whole transfers\<close>

text \<open>The chunk envelopes of a plan, in the order of the sender's loop.\<close>

definition plan_msg :: "bytes \<Rightarrow> attach_plan \<Rightarrow> nat \<Rightarrow> attach_chunk" where
  "plan_msg h p i =
     (case plan_chunks p ! i of
        Data d \<Rightarrow> \<lparr>ac_head_id = h, ac_index = of_nat i, ac_pad = False, ac_data = d\<rparr>
      | Pad \<Rightarrow> \<lparr>ac_head_id = h, ac_index = of_nat i, ac_pad = True, ac_data = []\<rparr>)"

definition deliver_chunks ::
    "(bytes \<Rightarrow> bytes) \<Rightarrow> u64 \<Rightarrow> string \<Rightarrow> bytes \<Rightarrow> attach_plan \<Rightarrow> nat list \<Rightarrow> (db, unit) action" where
  "deliver_chunks sha256 now rel_id h p order =
     sfor order (\<lambda>i. sbind (on_attach_chunk sha256 now rel_id (plan_msg h p i)) (\<lambda>_. sret ()))"

lemma deliver_chunks_arrived:
  assumes "plan_chunks p = map Data pieces @ replicate k Pad" "length pieces < 65536"
    and "set order \<subseteq> {..<length (plan_chunks p)}" "arrived sha256 h pieces R db"
  shows "\<exists>db'. deliver_chunks sha256 now rel_id h p order db = (Ok (), db') \<and>
    arrived sha256 h pieces (R \<union> (set order \<inter> {..<length pieces})) db'"
  using assms(3,4)
proof (induction order arbitrary: R db)
  case Nil
  then show ?case by (simp add: deliver_chunks_def sret_def)
next
  case (Cons i order)
  show ?case
  proof (cases "i < length pieces")
    case True
    then have "plan_msg h p i = chunk_msg h pieces i"
      by (simp add: plan_msg_def chunk_msg_def assms(1) nth_append)
    moreover from arrived_chunk [OF Cons.prems(2) True assms(2), of now rel_id] obtain evs db1 where
      a: "on_attach_chunk sha256 now rel_id (chunk_msg h pieces i) db = (Ok evs, db1)"
        "arrived sha256 h pieces (insert i R) db1" by blast
    moreover from Cons.IH [OF _ a(2)] Cons.prems(1) obtain db' where
      "deliver_chunks sha256 now rel_id h p order db1 = (Ok (), db')"
      "arrived sha256 h pieces (insert i R \<union> (set order \<inter> {..<length pieces})) db'" by auto
    ultimately show ?thesis using True by (auto simp: deliver_chunks_def sbind_def sret_def Int_insert_left)
  next
    case False
    then have "plan_msg h p i = \<lparr>ac_head_id = h, ac_index = of_nat i, ac_pad = True, ac_data = []\<rparr>"
      using nth_replicate [of "i - length pieces" k Pad] Cons.prems(1) False
      by (simp add: plan_msg_def assms(1) nth_append less_diff_conv2)
    moreover from Cons.IH [OF _ Cons.prems(2)] Cons.prems(1) obtain db' where
      "deliver_chunks sha256 now rel_id h p order db = (Ok (), db')"
      "arrived sha256 h pieces (R \<union> (set order \<inter> {..<length pieces})) db'" by auto
    ultimately show ?thesis
      using False by (auto simp: deliver_chunks_def sbind_def sret_def on_attach_chunk_def)
  qed
qed

definition head_for :: "(bytes \<Rightarrow> bytes) \<Rightarrow> bytes list \<Rightarrow> attach_head \<Rightarrow> bool" where
  "head_for sha256 pieces head \<longleftrightarrow> unat (chunk_count head) = length pieces \<and>
     unat (uncompressed_n head) = length (concat pieces) \<and> content_sha256 head = sha256 (concat pieces)"

lemma on_attach_head_starts:
  assumes "attachments_allowed rel_id db = Ok True" "attachment (env_msg_id env) db = None"
    and "head_for sha256 pieces head" "holds (env_msg_id env) pieces R db" "card R < length pieces"
    and "R \<subseteq> {..<length pieces}"
  shows "\<exists>db'. on_attach_head sha256 now rel_id env \<lparr>ahp_head = head, ahp_inline = None\<rparr> db = (Ok [], db') \<and>
    in_progress sha256 (env_msg_id env) pieces R {} db'"
proof -
  let ?h = "env_msg_id env"
  obtain p where "db_load_policy rel_id db = Ok p"
    using assms(1) by (auto simp: attachments_allowed_def rbind_Inr_iff)
  then obtain e where e: "message_expiry rel_id now db = Ok e" by (simp add: message_expiry_def)
  have "\<not> any_row (\<lambda>a. at_head_id a = ?h) (db_attachments db)"
    using assms(2) by (auto simp: attachment_def find_None_iff any_row_def filter_empty_conv)
  then obtain db1 where ins: "insert_head now (inbound_head rel_id env head e) db = Ok db1" and
    db1: "db_chunks db1 = db_chunks db" and
    row: "\<exists>row. db_attachments db1 = db_attachments db @ [row] \<and> transfer_row sha256 ?h pieces row \<and>
      \<not> at_complete row \<and> at_chunks row = []"
    using assms(3) by (simp add: insert_head_def inbound_head_def transfer_row_def head_for_def)
  then obtain row where row: "attachment ?h db1 = Some row" "transfer_row sha256 ?h pieces row"
      "\<not> at_complete row" "at_chunks row = []"
    using assms(2) by (auto simp: attachment_def find_snoc transfer_row_def)
  have holds: "holds ?h pieces R db1" using assms(4) by (simp add: holds_def head_rows_def db1)
  have "try_complete sha256 rel_id ?h db1 = (Ok [], db1)"
    using row length_chunks_for [OF holds] assms(5) by (simp add: try_complete_def Let_def transfer_row_def)
  moreover have "in_progress sha256 ?h pieces R {} db1"
    using row holds assms(6) by (auto simp: in_progress_def bit_at_def)
  ultimately show ?thesis
    using assms(1,2) e ins
    by (auto simp: on_attach_head_def sbind_def sget_def store_get_def store_try_def)
qed

lemma deliver_chunks_progress:
  assumes "plan_chunks p = map Data pieces @ replicate k Pad" "length pieces < 65536"
    and "set order \<subseteq> {..<length pieces}" "B \<union> set order \<noteq> {..<length pieces}" 
    and "in_progress sha256 h pieces R B db"
  shows "\<exists>db'. deliver_chunks sha256 now rel_id h p order db = (Ok (), db') \<and>
    in_progress sha256 h pieces (R \<union> set order) (B \<union> set order) db'"
  using assms(3-)
proof (induction order arbitrary: R B db)
  case Nil
  then show ?case by (simp add: deliver_chunks_def sret_def)
next
  case (Cons i order)
  have i: "i < length pieces" "insert i B \<noteq> {..<length pieces}"
    using Cons.prems by (auto simp: in_progress_def)
  have m: "plan_msg h p i = chunk_msg h pieces i"
    using i(1) by (simp add: plan_msg_def chunk_msg_def assms(1) nth_append)
  from on_attach_chunk_progress [OF Cons.prems(3) i(1) assms(2), of now rel_id] i(2) obtain evs db1 where
    a: "on_attach_chunk sha256 now rel_id (chunk_msg h pieces i) db = (Ok evs, db1)"
      "in_progress sha256 h pieces (insert i R) (insert i B) db1" by auto
  from Cons.IH [OF _ _ a(2)] Cons.prems(1,2) obtain db' where
    "deliver_chunks sha256 now rel_id h p order db1 = (Ok (), db')"
    "in_progress sha256 h pieces (insert i R \<union> set order) (insert i B \<union> set order) db'" by auto
  then show ?case using a(1) m by (auto simp: deliver_chunks_def sbind_def sret_def)
qed

lemma orphan_chunk_stored:
  assumes "attachment h db = None" "db_chunks db = []" "i < length pieces" "length pieces < 65536"
    and "length (pieces ! i) \<le> CHUNK_DATA_MAX"
  shows "\<exists>db'. on_attach_chunk sha256 now rel_id (chunk_msg h pieces i) db = (Ok [], db') \<and>
    holds h pieces {i} db' \<and> db_attachments db' = db_attachments db \<and> db_rels db' = db_rels db"
proof -
  let ?c = "\<lparr>ck_head_id = h, ck_idx = of_nat i, ck_data = pieces ! i, ck_rel_id = rel_id, ck_created_at = now\<rparr>"
  have "unat (of_nat i :: u16) = i" using assms(3,4) by (intro unat_of_nat_u16) simp
  then have "holds h pieces {i} (db\<lparr>db_chunks := [?c]\<rparr>)" by (simp add: holds_def head_rows_def)
  moreover have "attachment h (db\<lparr>db_chunks := [?c]\<rparr>) = None" using assms(1) by (simp add: attachment_def)
  ultimately show ?thesis
    using assms(1,2,5)
    by (simp add: on_attach_chunk_def chunk_msg_def sbind_def sget_def store_try_def store_do_def
        sret_def orphan_head_stats_def orphan_rel_stats_def chunk_stats_def limit_defs put_chunk_def
        chunk_def note_chunk_def)
qed

section \<open>Properties\<close>

text \<open>
  C27: the plan of an attachment above the inline limit is exact: its data chunks, in order,
  concatenate to the attachment, they are non-empty and within the chunk limit and as many as
  the head announces, they come before the padding, and data and padding together are the
  announced bucket, a multiple of eight that the wire accepts.
\<close>

theorem plan_exact:
  assumes "plan_transfer sha256 mclass mime ext bs cap once = Ok p" "INLINE_MAX < length bs"
  shows "concat (data_of (plan_chunks p)) = bs \<and>
    length (data_of (plan_chunks p)) = unat (chunk_count (plan_head p)) \<and>
    length (plan_chunks p) = unat (chunk_bucket (plan_head p)) \<and>
    8 dvd length (plan_chunks p) \<and> length (plan_chunks p) \<le> MAX_CHUNKS \<and>
    (\<forall>c \<in> set (data_of (plan_chunks p)). c \<noteq> [] \<and> length c \<le> CHUNK_DATA_MAX) \<and>
    take (unat (chunk_count (plan_head p))) (plan_chunks p) = map Data (data_of (plan_chunks p))"
proof -
  define pieces where "pieces = chunks_of CHUNK_DATA_MAX bs"
  note sh = plan_shape [OF assms pieces_def]
  have "div_ceil (length pieces) 8 \<le> 118" using sh(3) by (simp add: div_ceil_def)
  then have b: "unat (chunk_bucket (plan_head p)) \<le> 944" "length pieces \<le> unat (chunk_bucket (plan_head p))"
      "8 dvd unat (chunk_bucket (plan_head p))"
    using div_ceil_le [of 8 "length pieces"] by (simp_all add: sh(6) BUCKET_GRANULARITY_def)
  have d: "data_of (plan_chunks p) = pieces" by (subst sh(1)) (rule data_of_plan)
  have l: "length (plan_chunks p) = unat (chunk_bucket (plan_head p))" using b(2) by (subst sh(1)) simp
  have "take (length pieces) (plan_chunks p) = map Data pieces" by (subst sh(1)) simp
  then show ?thesis
    unfolding d l sh(2,5) using b chunks_of_sizes [of _ CHUNK_DATA_MAX bs]
    by (auto simp: pieces_def limit_defs)
qed

text \<open>
  C9: a transfer completes whatever the order of its chunks: after the head is accepted,
  delivering the chunk envelopes of the plan in any order, with any repetitions and any of the
  padding, as long as every data chunk is among them, leaves the attachment complete with
  exactly the bytes the sender planned.
\<close>

theorem transfer_completes:
  assumes "plan_transfer sha256 mclass mime ext bs cap once = Ok p" "INLINE_MAX < length bs"
    and "attachments_allowed rel_id db = Ok True" "attachment (env_msg_id env) db = None"
    and "head_rows (env_msg_id env) db = []"
    and "set order \<subseteq> {..<length (plan_chunks p)}" "{..<unat (chunk_count (plan_head p))} \<subseteq> set order"
  shows "\<exists>db'. sbind (on_attach_head sha256 now rel_id env \<lparr>ahp_head = plan_head p, ahp_inline = None\<rparr>)
      (\<lambda>_. deliver_chunks sha256 now' rel_id (env_msg_id env) p order) db = (Ok (), db') \<and>
    attachment_bytes (env_msg_id env) db' = Some bs"
proof -
  define pieces where "pieces = chunks_of CHUNK_DATA_MAX bs"
  note sh = plan_shape [OF assms(1,2) pieces_def]
  have "head_for sha256 pieces (plan_head p)" by (simp add: head_for_def sh)
  moreover have "holds (env_msg_id env) pieces {} db" by (simp add: holds_def assms(5))
  ultimately obtain db1 where h: "on_attach_head sha256 now rel_id env
      \<lparr>ahp_head = plan_head p, ahp_inline = None\<rparr> db = (Ok [], db1)"
      "in_progress sha256 (env_msg_id env) pieces {} {} db1"
    using on_attach_head_starts [OF assms(3,4), of sha256 pieces "plan_head p" "{}" now] sh(4) by auto
  have "arrived sha256 (env_msg_id env) pieces {} db1" using h(2) sh(4) by (auto simp: arrived_def)
  with deliver_chunks_arrived [OF sh(1) _ assms(6) this, of now' rel_id] sh(3) obtain db' where
    d: "deliver_chunks sha256 now' rel_id (env_msg_id env) p order db1 = (Ok (), db')"
      "arrived sha256 (env_msg_id env) pieces (set order \<inter> {..<length pieces}) db'" by auto
  have "set order \<inter> {..<length pieces} = {..<length pieces}" using assms(7) sh(2) by auto
  with d(2) have c: "completed sha256 (env_msg_id env) pieces db'" by (simp add: arrived_def)
  then have "chunks_for (env_msg_id env) db' = pieces" by (auto simp: completed_def chunks_for_full)
  then have "attachment_bytes (env_msg_id env) db' = Some bs"
    using c sh(4,5) by (auto simp: completed_def attachment_bytes_def transfer_row_def Let_def)
  then show ?thesis using h(1) d(1) by (simp add: sbind_def)
qed

text \<open>
  C36: a chunk that overtakes its head wedges the transfer: it is stored but its bit is never
  set, because the head starts from an empty bitmap. When the head and all the other chunks
  have arrived the store holds every chunk of the attachment, in order, and still there are no
  bytes to show.
\<close>

theorem orphan_chunk_wedges:
  assumes "plan_transfer sha256 mclass mime ext bs cap once = Ok p" "INLINE_MAX < length bs"
    and "attachments_allowed rel_id db = Ok True" "attachment (env_msg_id env) db = None" "db_chunks db = []"
    and "i < unat (chunk_count (plan_head p))" "1 < unat (chunk_count (plan_head p))"
    and "set order = {..<unat (chunk_count (plan_head p))} - {i}"
  shows "\<exists>db'. sbind (on_attach_chunk sha256 now rel_id (plan_msg (env_msg_id env) p i)) (\<lambda>_.
      sbind (on_attach_head sha256 now rel_id env \<lparr>ahp_head = plan_head p, ahp_inline = None\<rparr>) (\<lambda>_.
      deliver_chunks sha256 now rel_id (env_msg_id env) p order)) db = (Ok (), db') \<and>
    concat (chunks_for (env_msg_id env) db') = bs \<and> attachment_bytes (env_msg_id env) db' = None"
proof -
  define pieces where "pieces = chunks_of CHUNK_DATA_MAX bs"
  note sh = plan_shape [OF assms(1,2) pieces_def]
  let ?h = "env_msg_id env"
  have i: "i < length pieces" "length pieces < 65536" using assms(6) sh(2,3) by auto
  have m: "plan_msg ?h p i = chunk_msg ?h pieces i"
    using i(1) by (subst plan_msg_def, subst sh(1)) (simp add: chunk_msg_def nth_append)
  have "length (pieces ! i) \<le> CHUNK_DATA_MAX"
    using chunks_of_sizes [of "pieces ! i" CHUNK_DATA_MAX bs] i(1) by (simp add: pieces_def)
  from orphan_chunk_stored [OF assms(4,5) i this, of sha256 now rel_id] obtain db1 where
    o: "on_attach_chunk sha256 now rel_id (chunk_msg ?h pieces i) db = (Ok [], db1)"
      "holds ?h pieces {i} db1" "db_attachments db1 = db_attachments db" "db_rels db1 = db_rels db" by blast
  have "attachments_allowed rel_id db1 = Ok True"
    using assms(3) o(4) by (simp add: attachments_allowed_def db_load_policy_def rel_of_def)
  moreover have "attachment ?h db1 = None" using assms(4) attachment_cong [OF o(3)] by simp
  moreover have "head_for sha256 pieces (plan_head p)" by (simp add: head_for_def sh)
  ultimately obtain db2 where h: "on_attach_head sha256 now rel_id env
      \<lparr>ahp_head = plan_head p, ahp_inline = None\<rparr> db1 = (Ok [], db2)"
      "in_progress sha256 ?h pieces {i} {} db2"
    using on_attach_head_starts [of rel_id db1 env sha256 pieces "plan_head p" "{i}" now] o(2) i assms(7) sh(2)
    by auto
  have ord: "set order = {..<length pieces} - {i}" using assms(8) sh(2) by simp
  with deliver_chunks_progress [OF sh(1) i(2) _ _ h(2), of order now rel_id] i(1) obtain db3 where
    d: "deliver_chunks sha256 now rel_id ?h p order db2 = (Ok (), db3)"
      "in_progress sha256 ?h pieces ({i} \<union> set order) (set order) db3" by auto
  have "{i} \<union> set order = {..<length pieces}" using ord i(1) by auto
  with d(2) have "chunks_for ?h db3 = pieces" by (auto simp: in_progress_def chunks_for_full)
  moreover have "attachment_bytes ?h db3 = None"
    using d(2) by (auto simp: in_progress_def attachment_bytes_def)
  ultimately show ?thesis using m o(1) h(1) d(1) sh(5) by (simp add: sbind_def)
qed

section \<open>Witnesses\<close>

definition zeros :: bytes where
  "zeros = replicate 30000 0"

definition zeros_head :: "attach_plan \<Rightarrow> envelope" where
  "zeros_head p =
     \<lparr>env_msg_id = [7], env_app_seq = 1, env_sent_at = 0, env_ref_id = None,
      env_payload = P_AttachHead \<lparr>ahp_head = plan_head p, ahp_inline = None\<rparr>\<rparr>"

lemma zeros_plan:
  obtains p where "plan_transfer (take 1) 1 [] [] zeros [] False = Ok p"
    "unat (chunk_count (plan_head p)) = 2" "length (plan_chunks p) = 8"
proof -
  obtain p where p: "plan_transfer (take 1) 1 [] [] zeros [] False = Ok p"
    by (simp add: plan_transfer_def zeros_def limit_defs Let_def)
  have l: "INLINE_MAX < length zeros" by (simp add: zeros_def limit_defs)
  note sh = plan_shape [OF p l refl]
  have n: "length (chunks_of CHUNK_DATA_MAX zeros) = 2"
    by (simp add: length_chunks_of zeros_def div_ceil_def limit_defs)
  have "length (plan_chunks p) = 8" by (subst sh(1)) (simp add: n sh(6) div_ceil_def BUCKET_GRANULARITY_def)
  then show ?thesis using that [OF p] sh(2) n by simp
qed

lemma one_rel_attachments: "attachments_allowed ''r'' one_rel_db = Ok True"
  by (simp add: attachments_allowed_def db_load_policy_def load_policy_def one_rel_db_def rel_of_def
      example_rel_def attachments_def enforced_def FLAG_WANT_ATTACH_def)

lemma one_rel_no_attachment:
  "attachment h one_rel_db = None" "head_rows h one_rel_db = []" "db_chunks one_rel_db = []"
  by (simp_all add: one_rel_db_def empty_db_def attachment_def head_rows_def)

theorem plan_exact_witness:
  "\<exists>p. plan_transfer (take 1) 1 [] [] zeros [] False = Ok p \<and> concat (data_of (plan_chunks p)) = zeros \<and>
     length (plan_chunks p) = 8"
proof -
  obtain p where p: "plan_transfer (take 1) 1 [] [] zeros [] False = Ok p" "length (plan_chunks p) = 8"
    by (rule zeros_plan)
  have "INLINE_MAX < length zeros" by (simp add: zeros_def limit_defs)
  from plan_exact [OF p(1) this] p show ?thesis by blast
qed

theorem transfer_completes_witness:
  "\<exists>p db'. plan_transfer (take 1) 1 [] [] zeros [] False = Ok p \<and>
     sbind (on_attach_head (take 1) 5 ''r'' (zeros_head p) \<lparr>ahp_head = plan_head p, ahp_inline = None\<rparr>)
       (\<lambda>_. deliver_chunks (take 1) 6 ''r'' [7] p [3, 1, 1, 0]) one_rel_db = (Ok (), db') \<and>
     attachment_bytes [7] db' = Some zeros"
proof -
  obtain p where p: "plan_transfer (take 1) 1 [] [] zeros [] False = Ok p"
      "unat (chunk_count (plan_head p)) = 2" "length (plan_chunks p) = 8"
    by (rule zeros_plan)
  have l: "INLINE_MAX < length zeros" by (simp add: zeros_def limit_defs)
  have "env_msg_id (zeros_head p) = [7]" by (simp add: zeros_head_def)
  moreover have "{..<2} \<subseteq> set [3, 1, 1, 0::nat]" by auto
  ultimately show ?thesis
    using transfer_completes [OF p(1) l one_rel_attachments one_rel_no_attachment(1,2),
        where env = "zeros_head p" and order = "[3, 1, 1, 0]" and now = 5 and now' = 6] p by simp
qed

theorem orphan_chunk_wedges_witness:
  "\<exists>p db'. plan_transfer (take 1) 1 [] [] zeros [] False = Ok p \<and>
     sbind (on_attach_chunk (take 1) 5 ''r'' (plan_msg [7] p 1)) (\<lambda>_.
       sbind (on_attach_head (take 1) 5 ''r'' (zeros_head p) \<lparr>ahp_head = plan_head p, ahp_inline = None\<rparr>) (\<lambda>_.
       deliver_chunks (take 1) 5 ''r'' [7] p [0])) one_rel_db = (Ok (), db') \<and>
     concat (chunks_for [7] db') = zeros \<and> attachment_bytes [7] db' = None"
proof -
  obtain p where p: "plan_transfer (take 1) 1 [] [] zeros [] False = Ok p"
      "unat (chunk_count (plan_head p)) = 2" "length (plan_chunks p) = 8"
    by (rule zeros_plan)
  have l: "INLINE_MAX < length zeros" by (simp add: zeros_def limit_defs)
  have "env_msg_id (zeros_head p) = [7]" by (simp add: zeros_head_def)
  moreover have "set [0::nat] = {..<2} - {1}" by auto
  ultimately show ?thesis
    using orphan_chunk_wedges [OF p(1) l one_rel_attachments one_rel_no_attachment(1,3),
        where env = "zeros_head p" and order = "[0]" and now = 5 and i = 1] p by simp
qed

end
