(* ===== verification/Stickers.thy ===== *)
theory Stickers
  imports Attach
begin

text \<open>
  The stored and the in-memory side of stickers: the repositories of
  \<^verbatim>\<open>store/sticker_items.rs\<close> and \<^verbatim>\<open>store/sticker_cache.rs\<close>, the reassembly buffers and
  the cache hygiene of \<^verbatim>\<open>stickers/mod.rs\<close>, the inline tokens of \<^verbatim>\<open>stickers/tokens.rs\<close>,
  the pack table with its quotas of \<^verbatim>\<open>stickers/packs.rs\<close> and the lookups of
  \<^verbatim>\<open>stickers/inbound.rs\<close> and \<^verbatim>\<open>stickers/send.rs\<close>. Hash maps are association lists
  with distinct keys.
\<close>

section \<open>Device quotas\<close>

definition INLINE_BYTES_MAX :: nat where [limit_defs]: "INLINE_BYTES_MAX = 27500"

definition MAX_PACKS_TOTAL :: nat where [limit_defs]: "MAX_PACKS_TOTAL = 100"

definition MAX_PACKS_PER_SENDER :: nat where [limit_defs]: "MAX_PACKS_PER_SENDER = 16"

definition MAX_CACHED_PACKS :: nat where [limit_defs]: "MAX_CACHED_PACKS = 32"

definition MAX_CACHE_ENTRIES :: nat where [limit_defs]: "MAX_CACHE_ENTRIES = 4096"

definition CACHE_TTL_SEC :: u64 where [limit_defs]: "CACHE_TTL_SEC = 7 * 86400"

definition PACK_SERVES_PER_PEER_PER_DAY :: u32 where [limit_defs]: "PACK_SERVES_PER_PEER_PER_DAY = 8"

definition MAX_PENDING_ITEMS :: nat where [limit_defs]: "MAX_PENDING_ITEMS = 64"

definition MAX_PENDING_ITEM_BYTES :: nat where [limit_defs]: "MAX_PENDING_ITEM_BYTES = 8 * 1024 * 1024"

definition MAX_PENDING_PACKS :: nat where [limit_defs]: "MAX_PENDING_PACKS = 4"

definition PENDING_CHUNK_TTL_SEC :: u64 where [limit_defs]: "PENDING_CHUNK_TTL_SEC = 600"

section \<open>Reassembly buffers\<close>

record pending_chunks =
  pc_chunk_count :: u16
  pc_chunks :: "(u16 \<times> bytes) list"
  pc_total_bytes :: nat
  pc_created_at :: u64

definition PendingChunks_new :: "u16 \<Rightarrow> u64 \<Rightarrow> pending_chunks" where
  "PendingChunks_new cnt now =
     \<lparr>pc_chunk_count = cnt, pc_chunks = [], pc_total_bytes = 0, pc_created_at = now\<rparr>"

text \<open>The chunks of the given indices in order, if none is missing.\<close>

fun gather :: "(u16 \<times> bytes) list \<Rightarrow> nat list \<Rightarrow> bytes option" where
  "gather chunks [] = Some []"
| "gather chunks (i # is) =
     (case map_of chunks (of_nat i) of
        None \<Rightarrow> None
      | Some d \<Rightarrow> map_option (\<lambda>out. d @ out) (gather chunks is))"

definition PendingChunks_add :: "u16 \<Rightarrow> bytes \<Rightarrow> pending_chunks \<Rightarrow> bytes option \<times> pending_chunks" where
  "PendingChunks_add index data p =
     (if index \<ge> pc_chunk_count p \<or> map_of (pc_chunks p) index \<noteq> None then (None, p)
      else
        let p = p\<lparr>pc_total_bytes := pc_total_bytes p + length data,
                  pc_chunks := (index, data) # pc_chunks p\<rparr>
        in if length (pc_chunks p) = unat (pc_chunk_count p)
           then (gather (pc_chunks p) [0..<unat (pc_chunk_count p)], p)
           else (None, p))"

type_synonym pending_map = "(string \<times> pending_chunks) list"

record pending_buffers =
  pb_items :: pending_map
  pb_packs :: pending_map
  pb_thumbs :: pending_map

definition PendingBuffers_new :: pending_buffers where
  "PendingBuffers_new = \<lparr>pb_items = [], pb_packs = [], pb_thumbs = []\<rparr>"

definition admit :: "string \<Rightarrow> u16 \<Rightarrow> nat \<Rightarrow> u64 \<Rightarrow> pending_map \<Rightarrow> (pending_chunks \<times> pending_map) option" where
  "admit key cnt max_entries now m =
     (case map_of m key of
        Some entry \<Rightarrow> Some (entry, m)
      | None \<Rightarrow>
          if length m \<ge> max_entries then None
          else let entry = PendingChunks_new cnt now in Some (entry, (key, entry) # m))"

text \<open>The common body of the three feeding methods, which differ in the buffer and the bounds.\<close>

definition feed ::
    "nat \<Rightarrow> nat \<Rightarrow> string \<Rightarrow> u16 \<Rightarrow> u16 \<Rightarrow> bytes \<Rightarrow> u64 \<Rightarrow> pending_map \<Rightarrow> bytes option \<times> pending_map" where
  "feed max_entries max_total key index cnt data now m =
     (case admit key cnt max_entries now m of
        None \<Rightarrow> (None, m)
      | Some (entry, m) \<Rightarrow>
          if pc_chunk_count entry \<noteq> cnt then (None, m)
          else if pc_total_bytes entry + length data > max_total then (None, AList.delete key m)
          else
            let (done, entry) = PendingChunks_add index data entry
            in (done, if done \<noteq> None then AList.delete key m else AList.update key entry m))"

definition feed_item ::
    "string \<Rightarrow> u16 \<Rightarrow> u16 \<Rightarrow> bytes \<Rightarrow> u64 \<Rightarrow> pending_buffers \<Rightarrow> bytes option \<times> pending_buffers" where
  "feed_item sha_key index cnt data now pb =
     (let (done, m) = feed MAX_PENDING_ITEMS MAX_PENDING_ITEM_BYTES sha_key index cnt data now
                        (pb_items pb)
      in (done, pb\<lparr>pb_items := m\<rparr>))"

definition feed_pack ::
    "string \<Rightarrow> u16 \<Rightarrow> u16 \<Rightarrow> bytes \<Rightarrow> u64 \<Rightarrow> pending_buffers \<Rightarrow> bytes option \<times> pending_buffers" where
  "feed_pack pack_key index cnt data now pb =
     (let (done, m) = feed MAX_PENDING_PACKS MAX_PACK_DOC_BYTES pack_key index cnt data now
                        (pb_packs pb)
      in (done, pb\<lparr>pb_packs := m\<rparr>))"

definition feed_thumbs ::
    "string \<Rightarrow> u16 \<Rightarrow> u16 \<Rightarrow> bytes \<Rightarrow> u64 \<Rightarrow> pending_buffers \<Rightarrow> bytes option \<times> pending_buffers" where
  "feed_thumbs pack_key index cnt data now pb =
     (let (done, m) = feed MAX_PENDING_PACKS MAX_THUMBS_DOC_BYTES pack_key index cnt data now
                        (pb_thumbs pb)
      in (done, pb\<lparr>pb_thumbs := m\<rparr>))"

definition buffer_progress :: "string \<Rightarrow> pending_buffers \<Rightarrow> (nat \<times> nat) option" where
  "buffer_progress pack_key pb =
     (case map_of (pb_packs pb) pack_key of
        None \<Rightarrow> None
      | Some entry \<Rightarrow>
          (case gather (pc_chunks entry) [0..<unat (pc_chunk_count entry)] of
             None \<Rightarrow> None
           | Some partial \<Rightarrow> StickerPackDoc_scan_partial partial))"

definition pending_sweep :: "u64 \<Rightarrow> pending_buffers \<Rightarrow> pending_buffers" where
  "pending_sweep now pb =
     (let live = (\<lambda>(k, e). now < pc_created_at e + PENDING_CHUNK_TTL_SEC)
      in \<lparr>pb_items = filter live (pb_items pb), pb_packs = filter live (pb_packs pb),
          pb_thumbs = filter live (pb_thumbs pb)\<rparr>)"

definition pending_forget :: "string \<Rightarrow> pending_buffers \<Rightarrow> pending_buffers" where
  "pending_forget rel_id pb = PendingBuffers_new"

section \<open>Inline tokens\<close>

definition lower_hex :: "u8 \<Rightarrow> bool" where
  "lower_hex b \<longleftrightarrow> 0x30 \<le> b \<and> b \<le> 0x39 \<or> 0x61 \<le> b \<and> b \<le> 0x66"

text \<open>
  The scan at one position: a token is three bytes, sixteen lower-case hex digits and a colon.
  The digits and the colon are ASCII, so the slice of the text is at character boundaries
  whenever the tests on its bytes succeed.
\<close>

definition token_at :: "bytes \<Rightarrow> bool" where
  "token_at bs \<longleftrightarrow> take 3 bs = byte_str '':e:'' \<and> bs ! 19 = 0x3a \<and> list_all lower_hex (take 16 (drop 3 bs))"

definition push_prefix :: "bytes \<Rightarrow> bytes list \<Rightarrow> bytes list" where
  "push_prefix hex out =
     (case hex_decode (text_of hex) of
        Inl _ \<Rightarrow> out
      | Inr prefix \<Rightarrow> if length prefix = 8 \<and> prefix \<notin> set out then out @ [prefix] else out)"

function extract_from :: "bytes \<Rightarrow> bytes list \<Rightarrow> bytes list" where
  "extract_from bs out =
     (if length bs < 20 then out
      else if token_at bs then extract_from (drop 20 bs) (push_prefix (take 16 (drop 3 bs)) out)
      else extract_from (tl bs) out)"
  by pat_completeness auto
termination by (relation "measure (\<lambda>(bs, out). length bs)") auto

declare extract_from.simps [simp del]

definition extract_tokens :: "bytes \<Rightarrow> bytes list" where
  "extract_tokens text = extract_from text []"

definition token_for :: "bytes \<Rightarrow> bytes" where
  "token_for sha256 = byte_str ('':e:'' @ hex_encode (take 8 sha256) @ '':'')"

section \<open>Items, keys and the loose-item cache\<close>

definition item :: "bytes \<Rightarrow> u16 \<Rightarrow> db \<Rightarrow> sticker_item_row option" where
  "item pack_id item_id db =
     find (\<lambda>r. sr_pack_id r = pack_id \<and> sr_item_id r = item_id) (db_sticker_items db)"

definition put_item :: "sticker_item_row \<Rightarrow> db \<Rightarrow> store_error + db" where
  "put_item it db =
     (case item (sr_pack_id it) (sr_item_id it) db of
        Some prev \<Rightarrow>
          if sr_sha256 prev \<noteq> sr_sha256 it \<or> sr_bytes prev \<noteq> sr_bytes it
          then Err (Corrupt (''sticker item '' @ hex_encode (sr_pack_id it) @ '':'' @
                             show_nat (unat (sr_item_id it)) @ '' rewritten''))
          else Ok db
      | None \<Rightarrow> Ok (db\<lparr>db_sticker_items := db_sticker_items db @ [it]\<rparr>))"

definition items_for :: "bytes \<Rightarrow> db \<Rightarrow> sticker_item_row list" where
  "items_for pack_id db =
     sort_key (\<lambda>r. unat (sr_item_id r)) (filter (\<lambda>r. sr_pack_id r = pack_id) (db_sticker_items db))"

definition item_by_sha :: "bytes \<Rightarrow> db \<Rightarrow> sticker_item_row option" where
  "item_by_sha sha db = find (\<lambda>r. sr_sha256 r = sha) (db_sticker_items db)"

definition delete_items :: "bytes \<Rightarrow> db \<Rightarrow> nat \<times> db" where
  "delete_items pack_id db =
     (length (filter (\<lambda>r. sr_pack_id r = pack_id) (db_sticker_items db)),
      db\<lparr>db_sticker_items := filter (\<lambda>r. sr_pack_id r \<noteq> pack_id) (db_sticker_items db)\<rparr>)"

definition put_pack_key :: "bytes \<Rightarrow> bytes \<Rightarrow> db \<Rightarrow> db" where
  "put_pack_key pack_id secret db =
     db\<lparr>db_pack_keys := filter (\<lambda>k. fst k \<noteq> pack_id) (db_pack_keys db) @ [(pack_id, secret)]\<rparr>"

definition pack_key :: "bytes \<Rightarrow> db \<Rightarrow> bytes option" where
  "pack_key pack_id db = map_of (db_pack_keys db) pack_id"

definition cache_get :: "bytes \<Rightarrow> db \<Rightarrow> cached_item_row option" where
  "cache_get sha db = find (\<lambda>r. ci_sha256 r = sha) (db_sticker_cache db)"

definition cache_put :: "u64 \<Rightarrow> cached_item_row \<Rightarrow> db \<Rightarrow> db" where
  "cache_put now it db =
     (if cache_get (ci_sha256 it) db \<noteq> None then db
      else db\<lparr>db_sticker_cache := db_sticker_cache db @ [it\<lparr>ci_created_at := now\<rparr>]\<rparr>)"

definition cache_list_oldest :: "u32 \<Rightarrow> db \<Rightarrow> cached_item_row list" where
  "cache_list_oldest limit db =
     take (unat limit) (sort_key (\<lambda>r. sint (ci_created_at r)) (db_sticker_cache db))"

definition cache_delete :: "bytes \<Rightarrow> db \<Rightarrow> bool \<times> db" where
  "cache_delete sha db =
     (any_row (\<lambda>r. ci_sha256 r = sha) (db_sticker_cache db),
      db\<lparr>db_sticker_cache := filter (\<lambda>r. ci_sha256 r \<noteq> sha) (db_sticker_cache db)\<rparr>)"

definition cache_stats :: "db \<Rightarrow> nat \<times> nat" where
  "cache_stats db =
     (length (db_sticker_cache db), sum_list (map (\<lambda>r. length (ci_bytes r)) (db_sticker_cache db)))"

definition cache_evict_before :: "u64 \<Rightarrow> db \<Rightarrow> nat \<times> db" where
  "cache_evict_before before db =
     (length (filter (\<lambda>r. i64_lt (ci_created_at r) before) (db_sticker_cache db)),
      db\<lparr>db_sticker_cache := filter (\<lambda>r. \<not> i64_lt (ci_created_at r) before) (db_sticker_cache db)\<rparr>)"

definition note_pack_serve :: "string \<Rightarrow> u64 \<Rightarrow> db \<Rightarrow> u32 \<times> db" where
  "note_pack_serve rel_id day db =
     (let P = (\<lambda>r. sv_rel_id r = rel_id \<and> sv_day r = day) in
      case find P (db_sticker_serves db) of
        Some r \<Rightarrow>
          (sv_count r + 1,
           db\<lparr>db_sticker_serves := update_where P (\<lambda>r. r\<lparr>sv_count := sv_count r + 1\<rparr>)
                                     (db_sticker_serves db)\<rparr>)
      | None \<Rightarrow>
          (1, db\<lparr>db_sticker_serves := db_sticker_serves db @
                   [\<lparr>sv_rel_id = rel_id, sv_day = day, sv_count = 1\<rparr>]\<rparr>))"

text \<open>
  The eviction of \<open>sweep_cache\<close>: entries past the horizon, then all but the most recent ones,
  for the loose items and for the packs that were cached without being installed. Rows of
  equal age, whose order SQL leaves open, count as ordered by insertion.
\<close>

definition sweep_cache :: "u64 \<Rightarrow> db \<Rightarrow> db" where
  "sweep_cache now db =
     (let horizon = saturating_sub now CACHE_TTL_SEC;
          cache = filter (\<lambda>r. \<not> i64_lt (ci_created_at r) horizon) (db_sticker_cache db);
          recent = map ci_sha256 (take MAX_CACHE_ENTRIES (sort_key (\<lambda>r. - sint (ci_created_at r)) cache));
          cache = filter (\<lambda>r. ci_sha256 r \<in> set recent) cache;
          packs = filter (\<lambda>p. \<not> (pk_cached p \<and> i64_lt (pk_last_used_at p) horizon)) (db_packs db);
          used = map pk_pack_id (take MAX_CACHED_PACKS
                   (sort_key (\<lambda>p. - sint (pk_last_used_at p)) (filter pk_cached packs)));
          packs = filter (\<lambda>p. \<not> (pk_cached p \<and> pk_pack_id p \<notin> set used)) packs;
          items = filter (\<lambda>r. sr_pack_id r \<in> pk_pack_id ` set packs) (db_sticker_items db)
      in db\<lparr>db_sticker_cache := cache, db_packs := packs, db_sticker_items := items\<rparr>)"

section \<open>Packs\<close>

record pack_info =
  pi_pack_id :: bytes
  pi_pack_pk :: bytes
  pi_title :: bytes
  pi_kind :: u8
  pi_visibility :: u8
  pi_item_count :: u64
  pi_icon_item_id :: u16
  pi_ours :: bool
  pi_cached :: bool

definition row_to_info :: "db \<Rightarrow> pack_row \<Rightarrow> pack_info" where
  "row_to_info db p =
     \<lparr>pi_pack_id = pk_pack_id p, pi_pack_pk = pk_pack_pk p, pi_title = pk_title p, pi_kind = pk_kind p,
      pi_visibility = pk_visibility p, pi_item_count = pk_item_count p,
      pi_icon_item_id = pk_icon_item_id p, pi_ours = (pack_key (pk_pack_id p) db \<noteq> None),
      pi_cached = pk_cached p\<rparr>"

definition list_packs :: "db \<Rightarrow> pack_info list" where
  "list_packs db = map (row_to_info db) (sort_key (\<lambda>p. sint (pk_installed_at p)) (db_packs db))"

definition pack_info_of :: "bytes \<Rightarrow> db \<Rightarrow> pack_info option" where
  "pack_info_of pack_id db =
     map_option (row_to_info db) (find (\<lambda>p. pk_pack_id p = pack_id) (db_packs db))"

definition admit_pack :: "string option \<Rightarrow> bool \<Rightarrow> db \<Rightarrow> engine_error + unit" where
  "admit_pack from_rel cached db =
     (if length (db_packs db) \<ge> MAX_PACKS_TOTAL then Err (EditDenied ''pack quota reached'')
      else if (case from_rel of
                 None \<Rightarrow> False
               | Some r \<Rightarrow> length (filter (\<lambda>p. pk_from_rel p = Some r) (db_packs db)) \<ge> MAX_PACKS_PER_SENDER)
      then Err (EditDenied ''per-sender pack quota reached'')
      else if cached \<and> length (filter pk_cached (db_packs db)) \<ge> MAX_CACHED_PACKS
      then Err (EditDenied ''cached pack quota reached'')
      else Ok ())"

definition doc_row :: "u64 \<Rightarrow> sticker_pack_doc \<Rightarrow> bytes \<Rightarrow> string option \<Rightarrow> bool \<Rightarrow> pack_row" where
  "doc_row now doc pack_pk from_rel cached =
     \<lparr>pk_pack_id = pd_pack_id doc, pk_pack_pk = pack_pk, pk_title = pd_title doc, pk_kind = pd_kind doc,
      pk_visibility = pd_visibility doc, pk_item_count = of_nat (length (pd_items doc)),
      pk_icon_item_id = pd_icon_item_id doc, pk_installed_at = now, pk_cached = cached,
      pk_from_rel = from_rel, pk_last_used_at = now\<rparr>"

definition doc_item :: "bytes \<Rightarrow> pack_doc_item \<Rightarrow> sticker_item_row" where
  "doc_item pack_id it =
     \<lparr>sr_pack_id = pack_id, sr_item_id = pdi_item_id it, sr_w = pdi_w it, sr_h = pdi_h it,
      sr_sha256 = pdi_sha256 it, sr_bytes = pdi_bytes it\<rparr>"

text \<open>\<open>INSERT OR REPLACE\<close>: a row with the same key goes, whoever wrote it.\<close>

definition replace_pack :: "pack_row \<Rightarrow> db \<Rightarrow> db" where
  "replace_pack p db = db\<lparr>db_packs := filter (\<lambda>q. pk_pack_id q \<noteq> pk_pack_id p) (db_packs db) @ [p]\<rparr>"

definition install_doc ::
    "u64 \<Rightarrow> sticker_pack_doc \<Rightarrow> bytes \<Rightarrow> string option \<Rightarrow> bool \<Rightarrow> (db, unit) action" where
  "install_doc now doc pack_pk from_rel cached =
     sbind (\<lambda>db. (admit_pack from_rel cached db, db)) (\<lambda>_.
     sbind (smodify (replace_pack (doc_row now doc pack_pk from_rel cached))) (\<lambda>_.
     sbind (store_do (delete_items (pd_pack_id doc))) (\<lambda>_.
     sfor (pd_items doc) (\<lambda>it. store_try (put_item (doc_item (pd_pack_id doc) it))))))"

definition install_pack_blob ::
    "(bytes \<Rightarrow> bytes \<Rightarrow> bytes \<Rightarrow> bool) \<Rightarrow> (bytes \<Rightarrow> bytes) \<Rightarrow> u64 \<Rightarrow> bytes \<Rightarrow> bytes \<Rightarrow> string option \<Rightarrow> bool \<Rightarrow>
     (db, bytes) action" where
  "install_pack_blob verify sha256 now blob pack_pk from_rel cached =
     sbind (slift (map_err EngineWire (StickerPackDoc_decode_signed verify sha256 blob pack_pk))) (\<lambda>doc.
     sbind (install_doc now doc pack_pk from_rel cached) (\<lambda>_.
     sret (pd_pack_id doc)))"

definition remove_pack :: "bytes \<Rightarrow> db \<Rightarrow> bool \<times> db" where
  "remove_pack pack_id db =
     (any_row (\<lambda>p. pk_pack_id p = pack_id) (db_packs db),
      snd (delete_items pack_id
        (db\<lparr>db_packs := filter (\<lambda>p. pk_pack_id p \<noteq> pack_id) (db_packs db)\<rparr>))
        \<lparr>db_pack_keys := filter (\<lambda>k. fst k \<noteq> pack_id) (db_pack_keys db)\<rparr>)"

definition stored_doc :: "pack_info \<Rightarrow> sticker_item_row list \<Rightarrow> sticker_pack_doc" where
  "stored_doc info its =
     \<lparr>pd_pack_id = pi_pack_id info, pd_kind = pi_kind info, pd_visibility = pi_visibility info,
      pd_title = pi_title info, pd_icon_item_id = pi_icon_item_id info,
      pd_items = map (\<lambda>r. \<lparr>pdi_item_id = sr_item_id r, pdi_w = sr_w r, pdi_h = sr_h r,
                            pdi_sha256 = sr_sha256 r, pdi_bytes = sr_bytes r\<rparr>) its\<rparr>"

section \<open>Lookups by content\<close>

definition have_item :: "bytes \<Rightarrow> db \<Rightarrow> bool" where
  "have_item sha db \<longleftrightarrow> item_by_sha sha db \<noteq> None \<or> cache_get sha db \<noteq> None"

text \<open>\<open>hex(sha256) LIKE prefix%\<close> ignores the case of the digits, so it compares the bytes.\<close>

definition has_prefix :: "bytes \<Rightarrow> bytes \<Rightarrow> bool" where
  "has_prefix prefix sha \<longleftrightarrow> take (length prefix) sha = prefix"

definition have_item_prefix :: "bytes \<Rightarrow> db \<Rightarrow> bool" where
  "have_item_prefix prefix db \<longleftrightarrow>
     any_row (\<lambda>r. has_prefix prefix (sr_sha256 r)) (db_sticker_items db) \<or>
     any_row (\<lambda>r. has_prefix prefix (ci_sha256 r)) (db_sticker_cache db)"

record item_with_pack =
  iwp_item :: sticker_item_row
  iwp_pack :: pack_ref

definition find_item :: "bytes \<Rightarrow> db \<Rightarrow> item_with_pack option" where
  "find_item sha db =
     (case (if length sha = 32 then item_by_sha sha db
            else find (\<lambda>r. has_prefix sha (sr_sha256 r)) (db_sticker_items db)) of
        None \<Rightarrow> None
      | Some it \<Rightarrow>
          map_option (\<lambda>info.
            \<lparr>iwp_item = it,
             iwp_pack = \<lparr>pr_pack_id = sr_pack_id it, pr_pack_pk = pi_pack_pk info, pr_kind = pi_kind info,
                         pr_visibility = pi_visibility info, pr_item_id = sr_item_id it,
                         pr_w = sr_w it, pr_h = sr_h it\<rparr>\<rparr>)
            (pack_info_of (sr_pack_id it) db))"

section \<open>Preserved predicates of store actions\<close>

lemma keeps_store_try [keeps_rules]:
  "(\<And>db db'. P db \<Longrightarrow> f db = Ok db' \<Longrightarrow> P db') \<Longrightarrow> keeps P (store_try f)"
  by (auto simp: keeps_def store_try_def split: sum.splits)

lemma keeps_store_do [keeps_rules]: "(\<And>db. P db \<Longrightarrow> P (snd (f db))) \<Longrightarrow> keeps P (store_do f)"
  by (auto simp: keeps_def store_do_def split: prod.splits) (metis snd_conv)

lemma keeps_store_get [keeps_rules]: "keeps P (store_get f)"
  by (simp add: keeps_def store_get_def)

end
