(* ===== verification/Sticker_Exchange.thy ===== *)
theory Sticker_Exchange
  imports Stickers Attach_Transfer
begin

text \<open>
  The exchange of sticker packs: chunked bodies are reassembled exactly whatever their order,
  the quotas hold, inline tokens are found, and two faults of the exchange, a progress query
  that never answers and a pack that its own key does not protect.
\<close>

section \<open>Reassembly\<close>



lemma inj_on_u16: "n < 65536 \<Longrightarrow> inj_on (of_nat :: nat \<Rightarrow> u16) {..<n}"
  by (rule inj_onI) (metis lessThan_iff order_less_trans unat_of_nat_u16)




lemma gather_missing: "i \<in> set is \<Longrightarrow> map_of cs (of_nat i) = None \<Longrightarrow> gather cs is = None"
  by (induction "is") (auto split: option.splits)













section \<open>Progress of a download\<close>

definition unfinished :: "pending_chunks \<Rightarrow> bool" where
  "unfinished e \<longleftrightarrow>
     distinct (map fst (pc_chunks e)) \<and> fst ` set (pc_chunks e) \<subseteq> {..<pc_chunk_count e} \<and>
     length (pc_chunks e) < unat (pc_chunk_count e)"

lemma gather_None_iff: "gather cs is = None \<longleftrightarrow> (\<exists>i \<in> set is. of_nat i \<notin> fst ` set cs)"
  by (induction "is") (auto split: option.splits simp: map_of_eq_None_iff dest: map_of_SomeD intro: rev_image_eqI)

lemma card_below: "card {..<n :: u16} = unat n"
proof -
  have "{..<n} = of_nat ` {..<unat n}"
  proof (intro set_eqI iffI)
    fix x assume "x \<in> {..<n}"
    then have "unat x < unat n" by (simp add: word_less_nat_alt)
    then show "x \<in> of_nat ` {..<unat n}" by (intro rev_image_eqI [of "unat x"]) simp_all
  next
    fix x :: u16 assume "x \<in> of_nat ` {..<unat n}"
    then obtain i where i: "i < unat n" "x = of_nat i" by auto
    then have "i < 65536" by (meson order_less_trans unat_u16_less)
    then show "x \<in> {..<n}" using i by (simp add: word_less_nat_alt unat_of_nat_u16)
  qed
  moreover have "inj_on (of_nat :: nat \<Rightarrow> u16) {..<unat n}" by (rule inj_on_u16 [OF unat_u16_less])
  ultimately show ?thesis by (simp add: card_image)
qed

lemma gather_unfinished: "unfinished e \<Longrightarrow> gather (pc_chunks e) [0..<unat (pc_chunk_count e)] = None"
proof (rule ccontr)
  assume u: "unfinished e" and "gather (pc_chunks e) [0..<unat (pc_chunk_count e)] \<noteq> None"
  then have "of_nat ` {..<unat (pc_chunk_count e)} \<subseteq> fst ` set (pc_chunks e)"
    by (auto simp: gather_None_iff)
  then have "card (of_nat ` {..<unat (pc_chunk_count e)} :: u16 set) \<le> card (fst ` set (pc_chunks e))"
    by (intro card_mono) auto
  moreover have "card (of_nat ` {..<unat (pc_chunk_count e)} :: u16 set) = unat (pc_chunk_count e)"
    by (simp add: card_image inj_on_u16 [OF unat_u16_less])
  moreover have "card (fst ` set (pc_chunks e)) \<le> length (pc_chunks e)"
    using card_length [of "map fst (pc_chunks e)"] by simp
  ultimately show False using u by (simp add: unfinished_def)
qed

lemma gather_finished:
  assumes "distinct (map fst cs)" "fst ` set cs \<subseteq> {..<n}" "length cs = unat n"
  shows "gather cs [0..<unat n] \<noteq> None"
proof -
  have "card (fst ` set cs) = unat n" using assms(1,3) distinct_card [OF assms(1)] by simp
  then have "fst ` set cs = {..<n}"
    using assms(2) by (intro card_subset_eq) (auto simp: card_below)
  moreover have "of_nat i < n" if "i < unat n" for i
    using that order_less_trans [OF that unat_u16_less] by (simp add: word_less_nat_alt unat_of_nat_u16)
  ultimately show ?thesis by (auto simp: gather_None_iff)
qed

lemma unfinished_add:
  assumes "unfinished e" "PendingChunks_add index data e = (None, e')"
  shows "unfinished e'"
proof (cases "index \<ge> pc_chunk_count e \<or> map_of (pc_chunks e) index \<noteq> None")
  case True
  then show ?thesis using assms by (simp add: PendingChunks_add_def)
next
  case False
  let ?cs = "(index, data) # pc_chunks e"
  have d: "distinct (map fst ?cs)" "fst ` set ?cs \<subseteq> {..<pc_chunk_count e}"
    using False assms(1) by (auto simp: unfinished_def map_of_eq_None_iff not_le)
  have "length ?cs \<noteq> unat (pc_chunk_count e)"
    using assms(2) False gather_finished [OF d] by (auto simp: PendingChunks_add_def Let_def split: if_splits)
  moreover from this have "e' = e\<lparr>pc_total_bytes := pc_total_bytes e + length data, pc_chunks := ?cs\<rparr>"
    using assms(2) False by (auto simp: PendingChunks_add_def Let_def)
  moreover have "length (pc_chunks e) < unat (pc_chunk_count e)" using assms(1) by (simp add: unfinished_def)
  ultimately show ?thesis using d by (simp add: unfinished_def)
qed

definition all_unfinished :: "pending_map \<Rightarrow> bool" where
  "all_unfinished m \<longleftrightarrow> (\<forall>(k, e) \<in> set m. unfinished e)"

lemma unfinished_new: "1 \<le> cnt \<Longrightarrow> unfinished (PendingChunks_new cnt now)"
  by (simp add: unfinished_def PendingChunks_new_def word_le_nat_alt)

lemma set_update_subset: "set (AList.update k v al) \<subseteq> insert (k, v) (set al)"
  by (induction al) auto

lemma all_unfinished_admit:
  "admit key cnt max_e now m = Some (e, m') \<Longrightarrow> all_unfinished m \<Longrightarrow> 1 \<le> cnt \<Longrightarrow> all_unfinished m' \<and> unfinished e"
  by (auto simp: admit_def all_unfinished_def Let_def unfinished_new split: option.splits if_splits dest: map_of_SomeD)

lemma all_unfinished_feed:
  assumes "all_unfinished m" "1 \<le> cnt"
  shows "all_unfinished (snd (feed max_e max_t key index cnt data now m))"
proof (cases "admit key cnt max_e now m")
  case None
  then show ?thesis using assms by (simp add: feed_def)
next
  case (Some em)
  obtain e m1 where em: "em = (e, m1)" by (cases em)
  obtain r e' where r: "PendingChunks_add index data e = (r, e')" by fastforce
  have u: "all_unfinished m1" "unfinished e" using all_unfinished_admit [OF Some [unfolded em] assms] by auto
  have del: "all_unfinished (AList.delete key m1)"
    using u(1) by (auto simp: all_unfinished_def AList.delete_eq)
  have "unfinished e' \<Longrightarrow> all_unfinished (AList.update key e' m1)"
    using u(1) set_update_subset [of key e' m1] by (fastforce simp: all_unfinished_def)
  with unfinished_add [OF u(2)] r u(1) del show ?thesis
    by (cases r) (auto simp: feed_def Some em)
qed

inductive buffers_reachable :: "pending_buffers \<Rightarrow> bool" where
  br_new: "buffers_reachable PendingBuffers_new"
| br_item: "buffers_reachable pb \<Longrightarrow> 1 \<le> cnt \<Longrightarrow>
    buffers_reachable (snd (feed_item key index cnt data now pb))"
| br_pack: "buffers_reachable pb \<Longrightarrow> 1 \<le> cnt \<Longrightarrow>
    buffers_reachable (snd (feed_pack key index cnt data now pb))"
| br_thumbs: "buffers_reachable pb \<Longrightarrow> 1 \<le> cnt \<Longrightarrow>
    buffers_reachable (snd (feed_thumbs key index cnt data now pb))"
| br_sweep: "buffers_reachable pb \<Longrightarrow> buffers_reachable (pending_sweep now pb)"
| br_forget: "buffers_reachable pb \<Longrightarrow> buffers_reachable (pending_forget rel_id pb)"

lemma buffers_unfinished: "buffers_reachable pb \<Longrightarrow> all_unfinished (pb_packs pb)"
proof (induction rule: buffers_reachable.induct)
  case (br_pack pb cnt key index data now)
  then show ?case
    using all_unfinished_feed [of "pb_packs pb" cnt] by (auto simp: feed_pack_def split: prod.splits) (metis snd_conv)
qed (auto simp: all_unfinished_def PendingBuffers_new_def feed_item_def feed_thumbs_def pending_sweep_def
    pending_forget_def Let_def split: prod.splits)

section \<open>Quotas\<close>

definition packs_within :: "db \<Rightarrow> bool" where
  "packs_within db \<longleftrightarrow>
     length (db_packs db) \<le> MAX_PACKS_TOTAL \<and> length (filter pk_cached (db_packs db)) \<le> MAX_CACHED_PACKS \<and>
     (\<forall>r. length (filter (\<lambda>p. pk_from_rel p = Some r) (db_packs db)) \<le> MAX_PACKS_PER_SENDER)"

lemma filter_filter_le: "length (filter P (filter Q xs)) \<le> length (filter P xs)"
  by (induction xs) auto

lemma packs_within_shrink:
  assumes "packs_within db" "db_packs db' = filter P (db_packs db)"
  shows "packs_within db'"
  unfolding packs_within_def assms(2)
proof (intro conjI allI)
  show "length (filter P (db_packs db)) \<le> MAX_PACKS_TOTAL"
    by (rule order_trans [OF length_filter_le]) (use assms(1) in \<open>simp add: packs_within_def\<close>)
  show "length (filter pk_cached (filter P (db_packs db))) \<le> MAX_CACHED_PACKS"
    by (rule order_trans [OF filter_filter_le]) (use assms(1) in \<open>simp add: packs_within_def\<close>)
  show "length (filter (\<lambda>p. pk_from_rel p = Some r) (filter P (db_packs db))) \<le> MAX_PACKS_PER_SENDER" for r
    by (rule order_trans [OF filter_filter_le]) (use assms(1) in \<open>simp add: packs_within_def\<close>)
qed

lemma packs_within_replace:
  assumes "packs_within db" "admit_pack from_rel cached db = Ok ()"
  shows "packs_within (replace_pack (doc_row now doc pack_pk from_rel cached) db)"
proof -
  let ?p = "doc_row now doc pack_pk from_rel cached"
  let ?kept = "filter (\<lambda>q. pk_pack_id q \<noteq> pk_pack_id ?p) (db_packs db)"
  have kept: "length (filter P (?kept @ [?p])) \<le> length (filter P (db_packs db)) + (if P ?p then 1 else 0)" for P
    using filter_filter_le [of P "\<lambda>q. pk_pack_id q \<noteq> pk_pack_id ?p" "db_packs db"]
    by (simp only: filter_append length_append) simp
  have room: "length (db_packs db) < MAX_PACKS_TOTAL"
      "cached \<Longrightarrow> length (filter pk_cached (db_packs db)) < MAX_CACHED_PACKS"
      "\<And>r. from_rel = Some r \<Longrightarrow>
        length (filter (\<lambda>p. pk_from_rel p = Some r) (db_packs db)) < MAX_PACKS_PER_SENDER"
    using assms(2) by (auto simp: admit_pack_def split: if_splits option.splits)
  have row: "pk_cached ?p = cached" "pk_from_rel ?p = from_rel" by (simp_all add: doc_row_def)
  have "length (filter pk_cached (?kept @ [?p])) \<le> MAX_CACHED_PACKS"
    by (rule order_trans [OF kept]) (use assms(1) room(2) in \<open>auto simp: packs_within_def row Suc_le_eq\<close>)
  moreover have "length (filter (\<lambda>p. pk_from_rel p = Some r) (?kept @ [?p])) \<le> MAX_PACKS_PER_SENDER" for r
    by (rule order_trans [OF kept]) (use assms(1) room(3) [of r] in \<open>auto simp: packs_within_def row Suc_le_eq\<close>)
  moreover have "length (?kept @ [?p]) \<le> MAX_PACKS_TOTAL"
    by (simp add: Suc_le_eq order_le_less_trans [OF length_filter_le room(1)])
  ultimately show ?thesis by (simp only: packs_within_def replace_pack_def db.simps) simp
qed

lemma put_item_packs: "put_item it db = Ok db' \<Longrightarrow> db_packs db' = db_packs db"
  by (auto simp: put_item_def split: option.splits if_splits)

lemma install_doc_packs:
  "db_packs (snd (install_doc now doc pack_pk from_rel cached db)) =
     (case admit_pack from_rel cached db of
        Inl e \<Rightarrow> db_packs db
      | Inr _ \<Rightarrow> db_packs (replace_pack (doc_row now doc pack_pk from_rel cached) db))"
proof (cases "admit_pack from_rel cached db")
  case (Inr u)
  let ?db = "replace_pack (doc_row now doc pack_pk from_rel cached) db"
  let ?rest = "sbind (store_do (delete_items (pd_pack_id doc))) (\<lambda>_.
     sfor (pd_items doc) (\<lambda>it. store_try (put_item (doc_item (pd_pack_id doc) it))))"
  have "keeps (\<lambda>d. db_packs d = db_packs ?db) ?rest"
    by (intro keeps_rules) (auto simp: delete_items_def put_item_packs)
  then have "db_packs (snd (?rest ?db)) = db_packs ?db" by (simp add: keeps_def)
  moreover have "install_doc now doc pack_pk from_rel cached db = ?rest ?db"
    by (simp add: install_doc_def sbind_def [of "\<lambda>db. (admit_pack from_rel cached db, db)"] Inr
        sbind_def [of "smodify f" for f] smodify_def)
  ultimately show ?thesis by (simp add: Inr)
qed (simp add: install_doc_def sbind_def)

lemma packs_within_cong: "db_packs db' = db_packs db \<Longrightarrow> packs_within db' = packs_within db"
  by (simp add: packs_within_def)

lemma packs_within_install: "packs_within db \<Longrightarrow> packs_within (snd (install_doc now doc pack_pk from_rel cached db))"
  using install_doc_packs [of now doc pack_pk from_rel cached db] packs_within_replace [of db from_rel cached]
  by (cases "admit_pack from_rel cached db") (auto cong: packs_within_cong simp: packs_within_def)

section \<open>Installing over a known pack\<close>

lemma items_ok_distinct: "items_ok kind seen its \<Longrightarrow> distinct (map pdi_item_id its) \<and> pdi_item_id ` set its \<inter> seen = {}"
  by (induction its arbitrary: seen) auto

lemma put_items:
  assumes "distinct (map pdi_item_id its)"
    and "\<forall>r \<in> set (db_sticker_items db). sr_pack_id r = pid \<longrightarrow> sr_item_id r \<notin> pdi_item_id ` set its"
  shows "sfor its (\<lambda>it. store_try (put_item (doc_item pid it))) db =
    (Ok (), db\<lparr>db_sticker_items := db_sticker_items db @ map (doc_item pid) its\<rparr>)"
  using assms
proof (induction its arbitrary: db)
  case Nil
  then show ?case by (simp add: sret_def)
next
  case (Cons it its)
  have "find (\<lambda>r. sr_pack_id r = pid \<and> sr_item_id r = pdi_item_id it) (db_sticker_items db) = None"
    using Cons.prems(2) by (auto simp: find_None_iff)
  then have "put_item (doc_item pid it) db =
      Ok (db\<lparr>db_sticker_items := db_sticker_items db @ [doc_item pid it]\<rparr>)"
    by (simp add: put_item_def item_def doc_item_def)
  moreover have "\<forall>r \<in> set (db_sticker_items db @ [doc_item pid it]).
      sr_pack_id r = pid \<longrightarrow> sr_item_id r \<notin> pdi_item_id ` set its"
    using Cons.prems by (auto simp: doc_item_def)
  ultimately show ?case
    using Cons.IH [of "db\<lparr>db_sticker_items := db_sticker_items db @ [doc_item pid it]\<rparr>"] Cons.prems(1)
    by (simp add: sbind_def store_try_def)
qed

lemma install_doc_installs:
  assumes "admit_pack from_rel cached db = Ok ()" "distinct (map pdi_item_id (pd_items doc))"
  shows "\<exists>db'. install_doc now doc pack_pk from_rel cached db = (Ok (), db') \<and>
    db_packs db' = db_packs (replace_pack (doc_row now doc pack_pk from_rel cached) db) \<and>
    db_pack_keys db' = db_pack_keys db \<and>
    db_sticker_items db' = filter (\<lambda>r. sr_pack_id r \<noteq> pd_pack_id doc) (db_sticker_items db) @
      map (doc_item (pd_pack_id doc)) (pd_items doc)"
  using assms(1)
  by (simp add: install_doc_def sbind_def smodify_def store_do_def delete_items_def replace_pack_def
      put_items [OF assms(2)])

lemma find_snoc_None: "find P xs = None \<Longrightarrow> P x \<Longrightarrow> find P (xs @ [x]) = Some x"
  by (simp add: find_snoc)

lemma pack_info_replaced:
  assumes "db_packs db' = db_packs (replace_pack p db)"
  shows "pack_info_of (pk_pack_id p) db' = Some (row_to_info db' p)"
proof -
  have "find (\<lambda>q. pk_pack_id q = pk_pack_id p) (filter (\<lambda>q. pk_pack_id q \<noteq> pk_pack_id p) (db_packs db)) = None"
    by (simp add: find_None_iff)
  moreover have "db_packs db' = filter (\<lambda>q. pk_pack_id q \<noteq> pk_pack_id p) (db_packs db) @ [p]"
    by (simp add: assms replace_pack_def)
  ultimately have "find (\<lambda>q. pk_pack_id q = pk_pack_id p) (db_packs db') = Some p"
    by (simp only: find_snoc_None)
  then show ?thesis by (simp add: pack_info_of_def)
qed

section \<open>Inline tokens\<close>

lemma text_of_byte_str [simp]: "text_of (byte_str s) = s"
proof -
  have "unat (of_char c :: u8) = of_char c" for c
    by (subst of_nat_of_char [symmetric]) (simp add: unat_of_nat del: of_nat_of_char)
  then show ?thesis by (simp add: text_of_def byte_str_def o_def)
qed

lemma lower_hex_digits: "list_all lower_hex (byte_str (hex_encode bs))"
proof -
  have "\<forall>n \<in> set [0..<16]. list_all lower_hex (byte_str [hex_digit n])" by code_simp
  then have d: "n < 16 \<Longrightarrow> list_all lower_hex (byte_str [hex_digit n])" for n by simp
  have "unat (drop_bit 4 b) < 16" "unat (b AND 0x0f) < 16" for b :: u8
    by (simp_all add: unat_high_nibble unat_low_nibble less_mult_imp_div_less)
  with d show ?thesis by (induction bs) (simp_all add: hex_encode_def byte_str_def)
qed

lemma token_for_shape:
  assumes "8 \<le> length sha"
  shows "token_for sha = byte_str '':e:'' @ byte_str (hex_encode (take 8 sha)) @ [0x3a]"
    "length (byte_str (hex_encode (take 8 sha))) = 16"
  using assms by (simp_all add: token_for_def byte_str_def length_hex_encode)

lemma extract_token:
  assumes "8 \<le> length sha"
  shows "extract_from (token_for sha @ rest) out =
    extract_from rest (if take 8 sha \<in> set out then out else out @ [take 8 sha])"
proof -
  let ?h = "byte_str (hex_encode (take 8 sha))"
  have t: "token_for sha @ rest = byte_str '':e:'' @ ?h @ [0x3a] @ rest" "length ?h = 16" "length (byte_str '':e:'') = 3"
    using token_for_shape [OF assms] by (simp_all add: byte_str_def)
  have parts: "take 3 (token_for sha @ rest) = byte_str '':e:''" "take 16 (drop 3 (token_for sha @ rest)) = ?h"
      "drop 20 (token_for sha @ rest) = rest" "(token_for sha @ rest) ! 19 = 0x3a" "20 \<le> length (token_for sha @ rest)"
    unfolding t(1) using t(2,3) by (simp_all add: nth_append)
  have "token_at (token_for sha @ rest)" using parts lower_hex_digits by (simp add: token_at_def)
  moreover have "push_prefix ?h out = (if take 8 sha \<in> set out then out else out @ [take 8 sha])"
    using assms by (simp add: push_prefix_def hex_decode_def hex_pairs_encode length_hex_encode)
  ultimately show ?thesis using parts by (subst extract_from.simps) simp
qed

lemma extract_skip: "0x3a \<notin> set pre \<Longrightarrow> extract_from (pre @ rest) out = extract_from rest out"
proof (induction pre)
  case Nil
  then show ?case by simp
next
  case (Cons b pre)
  show ?case
  proof (cases "length ((b # pre) @ rest) < 20")
    case True
    then show ?thesis by (subst (1 2) extract_from.simps) simp
  next
    case False
    have "\<not> token_at ((b # pre) @ rest)" using Cons.prems by (auto simp: token_at_def byte_str_def)
    then show ?thesis using False Cons by (subst extract_from.simps) simp
  qed
qed

lemma remdups_firsts:
  "foldl (\<lambda>out p. if p \<in> set out then out else out @ [p]) (rev (remdups (rev qs))) ps = rev (remdups (rev (qs @ ps)))"
proof (induction ps arbitrary: qs)
  case (Cons p ps)
  have "(if p \<in> set (rev (remdups (rev qs))) then rev (remdups (rev qs)) else rev (remdups (rev qs)) @ [p]) =
      rev (remdups (rev (qs @ [p])))" by simp
  then show ?case using Cons [of "qs @ [p]"] by (simp only: foldl_Cons append_assoc append_Cons append_Nil)
qed simp

section \<open>Properties\<close>




text \<open>
  C26: the pack quotas hold. If at most 100 packs are stored, at most 32 of them cached
  without being installed and at most 16 from any one peer, then the same holds after a
  received pack is installed or refused, after a pack is removed and after the cache is swept.
\<close>

theorem pack_quotas_kept:
  assumes "packs_within db"
  shows "packs_within (snd (install_pack_blob verify sha256 now blob pack_pk from_rel cached db)) \<and>
    packs_within (snd (remove_pack pack_id db)) \<and> packs_within (sweep_cache now db)"
proof (intro conjI)
  show "packs_within (snd (install_pack_blob verify sha256 now blob pack_pk from_rel cached db))"
    using assms packs_within_install [OF assms, of now _ pack_pk from_rel cached]
    by (auto simp: install_pack_blob_def sbind_def slift_def sret_def split: sum.splits prod.splits) (metis snd_conv)+
  show "packs_within (snd (remove_pack pack_id db))"
    by (rule packs_within_shrink [OF assms, where P = "\<lambda>p. pk_pack_id p \<noteq> pack_id"])
      (simp add: remove_pack_def delete_items_def)
  show "packs_within (sweep_cache now db)"
    by (rule packs_within_shrink [OF assms]) (simp add: sweep_cache_def Let_def filter_filter)
qed

text \<open>
  C31: a received pack replaces any pack that has its identifier. The signature of a received
  document is checked only against the key that came with it: when the quotas admit it, the
  document takes the place of the stored pack of that identifier with the new key, and its
  items replace the stored items, also when the stored pack is one that was created here
  and whose signing key is still held.
\<close>

theorem pack_takeover:
  assumes "StickerPackDoc_decode_signed verify sha256 blob pk = Ok doc"
    and "admit_pack (Some rel_id) True db = Ok ()"
  shows "\<exists>db' info. install_pack_blob verify sha256 now blob pk (Some rel_id) True db = (Ok (pd_pack_id doc), db') \<and>
    pack_info_of (pd_pack_id doc) db' = Some info \<and> pi_pack_pk info = pk \<and> pi_cached info \<and>
    pi_ours info = (pack_key (pd_pack_id doc) db \<noteq> None) \<and>
    filter (\<lambda>r. sr_pack_id r = pd_pack_id doc) (db_sticker_items db') =
      map (doc_item (pd_pack_id doc)) (pd_items doc)"
proof -
  have "items_ok (pd_kind doc) {} (pd_items doc)" using assms(1) by (simp add: decode_signed_Ok body_bytes_Ok)
  then have d: "distinct (map pdi_item_id (pd_items doc))" using items_ok_distinct by blast
  let ?p = "doc_row now doc pk (Some rel_id) True"
  from install_doc_installs [OF assms(2) d, of now pk] obtain db' where
    i: "install_doc now doc pk (Some rel_id) True db = (Ok (), db')"
      "db_packs db' = db_packs (replace_pack ?p db)" "db_pack_keys db' = db_pack_keys db"
      "db_sticker_items db' = filter (\<lambda>r. sr_pack_id r \<noteq> pd_pack_id doc) (db_sticker_items db) @
        map (doc_item (pd_pack_id doc)) (pd_items doc)" by blast
  have "install_pack_blob verify sha256 now blob pk (Some rel_id) True db = (Ok (pd_pack_id doc), db')"
    using i(1) by (simp add: install_pack_blob_def assms(1) sbind_def slift_def sret_def)
  moreover have "pack_info_of (pd_pack_id doc) db' = Some (row_to_info db' ?p)"
    using pack_info_replaced [OF i(2)] by (simp add: doc_row_def)
  moreover have "filter (\<lambda>r. sr_pack_id r = pd_pack_id doc) (db_sticker_items db') =
      map (doc_item (pd_pack_id doc)) (pd_items doc)"
    by (simp add: i(4) filter_map o_def doc_item_def)
  ultimately show ?thesis
    by (intro exI [of _ db'] exI [of _ "row_to_info db' ?p"])
      (simp add: row_to_info_def doc_row_def pack_key_def i(3))
qed

text \<open>
  The progress of a pack download is never shown. In every state of the reassembly
  buffers that chunks with a valid plan, sweeps and burns lead to, the progress query answers
  nothing: it asks for every chunk of the transfer, and a transfer whose last chunk has
  arrived is no longer in the buffer.
\<close>

lemma progress_never_shown:
  assumes "buffers_reachable pb"
  shows "buffer_progress key pb = None"
proof (cases "map_of (pb_packs pb) key")
  case (Some e)
  then have "unfinished e"
    using buffers_unfinished [OF assms] by (auto simp: all_unfinished_def dest: map_of_SomeD)
  then show ?thesis by (simp add: buffer_progress_def Some gather_unfinished)
qed (simp add: buffer_progress_def)

text \<open>
  Inline tokens are found. In a text made of tokens and of colon-free text before, between
  and after them the scan finds exactly the hash prefixes of the tokens, each once, in the
  order in which they first appear.
\<close>

lemma tokens_found:
  assumes "0x3a \<notin> set pre" "\<forall>(sha, sep) \<in> set xs. length sha = 32 \<and> 0x3a \<notin> set sep"
  shows "extract_tokens (pre @ concat (map (\<lambda>(sha, sep). token_for sha @ sep) xs)) =
    rev (remdups (rev (map (\<lambda>(sha, sep). take 8 sha) xs)))"
proof -
  have "extract_from (concat (map (\<lambda>(sha, sep). token_for sha @ sep) xs)) out =
      foldl (\<lambda>out p. if p \<in> set out then out else out @ [p]) out (map (\<lambda>(sha, sep). take 8 sha) xs)" for out
    using assms(2)
  proof (induction xs arbitrary: out)
    case Nil
    then show ?case by (simp add: extract_from.simps)
  next
    case (Cons x xs)
    obtain sha sep where "x = (sha, sep)" by (cases x)
    with Cons show ?case by (simp add: extract_token extract_skip)
  qed
  then show ?thesis
    using remdups_firsts [of "[]"] by (simp add: extract_tokens_def extract_skip [OF assms(1)])
qed

section \<open>Witnesses\<close>


definition emoji_doc :: sticker_pack_doc where
  "emoji_doc =
     \<lparr>pd_pack_id = replicate 16 1, pd_kind = KIND_EMOJI, pd_visibility = VISIBILITY_PUBLIC,
      pd_title = [72, 105], pd_icon_item_id = 4,
      pd_items = [\<lparr>pdi_item_id = 4, pdi_w = 64, pdi_h = 64, pdi_sha256 = replicate 32 0,
                   pdi_bytes = [1, 2, 3]\<rparr>]\<rparr>"

definition emoji_blob :: bytes where
  "emoji_blob = pack_header emoji_doc @ concat (map item_bytes (pd_items emoji_doc)) @ replicate 64 0"

lemma emoji_decodes:
  "StickerPackDoc_decode_signed (\<lambda>_ _ _. True) (\<lambda>_. replicate 32 0) emoji_blob pk = Ok emoji_doc"
proof -
  let ?body = "pack_header emoji_doc @ concat (map item_bytes (pd_items emoji_doc))"
  have "StickerPackDoc_wf (\<lambda>_. replicate 32 0) emoji_doc" by code_simp
  moreover have "items_ok KIND_EMOJI {} (pd_items emoji_doc)"
    by (simp add: emoji_doc_def item_ok_def aspect_ok_def max_edge_def max_bytes_def valid_kind_def limit_defs)
  then have "StickerPackDoc_body_bytes emoji_doc = Ok ?body"
    unfolding body_bytes_Ok
    by (simp add: emoji_doc_def limit_defs valid_kind_def valid_visibility_def max_items_def)
  moreover have "length ?body = 89"
    by (simp add: emoji_doc_def pack_header_def item_bytes_def PACK_DOC_DOMAIN_def)
  ultimately show ?thesis unfolding decode_signed_Ok by (simp add: emoji_blob_def limit_defs)
qed

definition own_pack_db :: db where
  "own_pack_db = put_pack_key (replicate 16 1) [9]
     (replace_pack (doc_row 0 (emoji_doc\<lparr>pd_title := [79]\<rparr>) [8] None False) empty_db)"

theorem pack_quotas_kept_witness:
  "packs_within own_pack_db \<and>
   packs_within (snd (install_pack_blob (\<lambda>_ _ _. True) (\<lambda>_. replicate 32 0) 7 emoji_blob [6] (Some ''r'') True own_pack_db)) \<and>
   packs_within (snd (remove_pack [1] own_pack_db)) \<and> packs_within (sweep_cache 7 own_pack_db)"
proof -
  have w: "packs_within own_pack_db"
    by (simp add: own_pack_db_def packs_within_def put_pack_key_def replace_pack_def empty_db_def limit_defs)
  show ?thesis using w pack_quotas_kept [OF w] by blast
qed

theorem pack_takeover_witness:
  "pack_key (replicate 16 1) own_pack_db \<noteq> None \<and>
   (\<exists>info. pack_info_of (replicate 16 1) own_pack_db = Some info \<and> pi_ours info \<and> pi_pack_pk info = [8]) \<and>
   (\<exists>db' info. snd (install_pack_blob (\<lambda>_ _ _. True) (\<lambda>_. replicate 32 0) 7 emoji_blob [6] (Some ''r'') True own_pack_db) = db' \<and>
     pack_info_of (replicate 16 1) db' = Some info \<and> pi_ours info \<and> pi_pack_pk info = [6])"
proof -
  have k: "pack_key (replicate 16 1) own_pack_db \<noteq> None"
    by (simp add: own_pack_db_def pack_key_def put_pack_key_def replace_pack_def empty_db_def)
  moreover have "\<exists>info. pack_info_of (replicate 16 1) own_pack_db = Some info \<and> pi_ours info \<and> pi_pack_pk info = [8]"
    by (simp add: own_pack_db_def pack_info_of_def pack_key_def put_pack_key_def replace_pack_def empty_db_def
        row_to_info_def doc_row_def emoji_doc_def)
  moreover have "admit_pack (Some ''r'') True own_pack_db = Ok ()"
    by (simp add: own_pack_db_def admit_pack_def put_pack_key_def replace_pack_def empty_db_def limit_defs
        doc_row_def)
  moreover have "pd_pack_id emoji_doc = replicate 16 1" by (simp add: emoji_doc_def)
  ultimately show ?thesis using pack_takeover [OF emoji_decodes, of "''r''" own_pack_db 7 "[6]"] by (metis snd_conv)
qed

end
