(* ===== verification/Engine.thy ===== *)
theory Engine
  imports Stickers Rate_Limit
begin

text \<open>
  The state of the engine, \<^verbatim>\<open>crates/core/src/engine/mod.rs\<close>, and the outbound pipeline,
  \<^verbatim>\<open>engine/send.rs\<close>. What the engine calls outside the sources is a record of functions
  on an external state: the ratchet library, the random source, the transport to the peers,
  the pack signing keys and the image library. The clock is a field of the state and keeps
  its value during one operation. A method is an action on the engine state; the effects of
  a method before an error remain.
\<close>

section \<open>State\<close>

record 'x world =
  w_sha256 :: "bytes \<Rightarrow> bytes"
  w_nfc :: "bytes \<Rightarrow> bytes"
  w_encrypt :: "'x lib_encrypt"
  w_random_id :: "'x \<Rightarrow> bytes \<times> 'x"
  w_padding :: "'x \<Rightarrow> (nat \<Rightarrow> u8) \<times> 'x"
  w_send_record :: "'x \<Rightarrow> string \<Rightarrow> bytes option \<Rightarrow> bytes \<Rightarrow> bool \<Rightarrow> (transport_error + unit) \<times> 'x"
  w_remove_service :: "'x \<Rightarrow> string \<Rightarrow> (transport_error + unit) \<times> 'x"
  w_host_service :: "'x \<Rightarrow> string \<Rightarrow> string list \<Rightarrow> (transport_error + unit) \<times> 'x"
  w_delete_namespace :: "'x \<Rightarrow> string \<Rightarrow> 'x"
  w_generate_key :: "'x \<Rightarrow> (bytes \<times> bytes) \<times> 'x"
  w_sign :: "'x \<Rightarrow> bytes \<Rightarrow> bytes \<Rightarrow> bytes \<times> 'x"
  w_verify :: "bytes \<Rightarrow> bytes \<Rightarrow> bytes \<Rightarrow> bool"
  w_private_error :: "bytes \<Rightarrow> string option"
  w_public_error :: "bytes \<Rightarrow> string option"
  w_reencode :: "bytes \<Rightarrow> media_error + bytes"
  w_thumbnail :: "bytes \<Rightarrow> media_error + bytes"

record 'x engine =
  e_db :: db
  e_ext :: 'x
  e_now :: u64
  e_presence :: presence_table
  e_typing :: typing_table
  e_pending :: pending_buffers
  e_rate :: rate_tables
  e_counters :: rate_counters
  e_unknown_type_drops :: u64
  e_gated_drops :: u64

definition on_db :: "(db, 'a) action \<Rightarrow> ('x engine, 'a) action" where
  "on_db m s = (let (r, db) = m (e_db s) in (r, s\<lparr>e_db := db\<rparr>))"

definition on_ext :: "('x \<Rightarrow> 'a \<times> 'x) \<Rightarrow> ('x engine, 'a) action" where
  "on_ext f s = (let (r, x) = f (e_ext s) in (Ok r, s\<lparr>e_ext := x\<rparr>))"

definition sync_try :: "(db \<Rightarrow> sync_error + db) \<Rightarrow> (db, unit) action" where
  "sync_try f db = (case f db of Inl e \<Rightarrow> (Err (EngineSync e), db) | Inr db' \<Rightarrow> (Ok (), db'))"

text \<open>The engine asks only for surfaces that have a bucket.\<close>

definition rate_allow :: "surface \<Rightarrow> string \<Rightarrow> ('x engine, bool) action" where
  "rate_allow surface rel_id s =
     (case RateTables_check surface rel_id (e_now s) (e_rate s) (e_counters s) of
        None \<Rightarrow> (Ok False, s)
      | Some (ok, t, c) \<Rightarrow> (Ok ok, s\<lparr>e_rate := t, e_counters := c\<rparr>))"

section \<open>The outbound pipeline\<close>

definition ROLE_INVITER :: string where "ROLE_INVITER = ''inviter''"

definition ROLE_ACCEPTER :: string where "ROLE_ACCEPTER = ''accepter''"

definition STATE_REQUEST :: string where "STATE_REQUEST = ''request''"

definition STATE_ACTIVE :: string where "STATE_ACTIVE = ''active''"

definition policy_denies :: "policy_state \<Rightarrow> envelope_type \<Rightarrow> bool" where
  "policy_denies p t =
     (if t = T_Typing then \<not> typing_enabled p
      else if t = T_Presence then \<not> presence_on p
      else if t = T_Read then \<not> receipts p
      else if t = T_Sticker \<or> t = T_StickerCtrl then \<not> emoji p
      else if t = T_AttachHead \<or> t = T_AttachChunk then \<not> attachments p
      else False)"

definition gate_outbound :: "string \<Rightarrow> rel_row \<Rightarrow> envelope_type \<Rightarrow> db \<Rightarrow> engine_error + unit" where
  "gate_outbound rel_id row t db =
     (if rel_session_state row = ''broken'' then Err SessionBroken
      else if rel_role row = ROLE_INVITER \<and> rel_state row = STATE_REQUEST then Err NotActive
      else if rel_state row \<noteq> ''active'' \<and> rel_state row \<noteq> STATE_REQUEST then Err NotActive
      else if close_state rel_id db \<noteq> None \<and> t \<notin> {T_DeleteAll, T_ContactClose, T_ResyncReq} then Err Closing
      else if \<not> check_outbound (peer_caps rel_id db) t then Err (CapGated t)
      else rbind (map_err EngineStore (db_load_policy rel_id db)) (\<lambda>policy.
           if policy_denies policy t then Err (PolicyDenied t) else Ok ()))"

record sent =
  sent_msg_id :: bytes
  sent_app_seq :: u64

definition session_encrypt :: "'x world \<Rightarrow> string \<Rightarrow> bytes \<Rightarrow> bytes \<Rightarrow> ('x engine, bytes) action" where
  "session_encrypt W rel_id msg_id plaintext s =
     (case encrypt (w_encrypt W) rel_id msg_id plaintext (e_ext s, e_db s) of
        (r, x, db) \<Rightarrow> (map_err EngineSession r, s\<lparr>e_ext := x, e_db := db\<rparr>))"

definition out_message :: "string \<Rightarrow> envelope \<Rightarrow> bytes \<Rightarrow> u64 option \<Rightarrow> new_message" where
  "out_message rel_id env payload expiry =
     \<lparr>n_msg_id = env_msg_id env, n_rel_id = rel_id, n_direction = Out, n_app_seq = env_app_seq env,
      n_sent_at = env_sent_at env, n_received_at = None,
      n_env_type = EnvelopeType_code (Envelope_envelope_type env), n_ref_id = env_ref_id env,
      n_payload = payload, n_state = Queued, n_expires_at = expiry\<rparr>"

text \<open>The immediate attempt: a record that the transport took is settled, any other stays queued.\<close>

definition attempt_send :: "'x world \<Rightarrow> rel_row \<Rightarrow> bytes \<Rightarrow> bytes \<Rightarrow> bool \<Rightarrow> ('x engine, unit) action" where
  "attempt_send W row msg_id rec alert =
     sbind (on_ext (\<lambda>x. w_send_record W x (rel_peer_onion row)
              (if rel_intro_pending row then Some (rel_our_qr_bytes row) else None) rec alert)) (\<lambda>result.
     case result of
       Inl _ \<Rightarrow> sret ()
     | Inr _ \<Rightarrow>
         sbind (on_db (store_do (dequeue msg_id))) (\<lambda>_.
         on_db (sync_try (mark_transmitted msg_id))))"

definition send_envelope ::
    "'x world \<Rightarrow> string \<Rightarrow> payload \<Rightarrow> bytes option \<Rightarrow> bool \<Rightarrow> ('x engine, sent) action" where
  "send_envelope W rel_id payload ref_id alert =
     sbind (sget (\<lambda>s. rel_of rel_id (e_db s))) (\<lambda>found.
     case found of
       None \<Rightarrow> sthrow UnknownRelationship
     | Some row \<Rightarrow>
         sbind (\<lambda>s. (gate_outbound rel_id row (Payload_envelope_type payload) (e_db s), s)) (\<lambda>_.
         sbind (sget e_now) (\<lambda>now.
         sbind (on_db (store_do (next_out_seq rel_id))) (\<lambda>seq.
         sbind (on_ext (w_random_id W)) (\<lambda>msg_id.
         let env = \<lparr>env_msg_id = msg_id, env_app_seq = seq, env_sent_at = now, env_ref_id = ref_id,
                    env_payload = payload\<rparr> in
         sbind (slift (map_err EngineWire (Envelope_encode (w_nfc W) env))) (\<lambda>plaintext.
         sbind (session_encrypt W rel_id msg_id plaintext) (\<lambda>frame.
         sbind (on_ext (w_padding W)) (\<lambda>pad.
         sbind (slift (map_err EngineWire (build_record pad frame))) (\<lambda>rec.
         sbind (on_db (store_get (message_expiry rel_id now))) (\<lambda>expiry.
         sbind (slift (map_err EngineWire (Payload_encode (w_nfc W) payload))) (\<lambda>encoded.
         sbind (on_db (store_try (insert_message now (out_message rel_id env encoded expiry)))) (\<lambda>_.
         sbind (on_db (store_try (enqueue now msg_id rel_id rec MESSAGE_TTL_SECS))) (\<lambda>_.
         sbind (attempt_send W row msg_id rec alert) (\<lambda>_.
         sret \<lparr>sent_msg_id = msg_id, sent_app_seq = seq\<rparr>))))))))))))))"

end
