(* ===== verification/Engine_Features.thy ===== *)
theory Engine_Features
  imports Engine
begin

text \<open>
  The features on top of the outbound pipeline: profiles (\<^verbatim>\<open>profile/mod.rs\<close>,
  \<^verbatim>\<open>store/profiles.rs\<close>), stickers (\<^verbatim>\<open>stickers/packs.rs\<close>, \<^verbatim>\<open>stickers/keys.rs\<close>,
  \<^verbatim>\<open>stickers/send.rs\<close>, \<^verbatim>\<open>stickers/inbound.rs\<close>), attachments (\<^verbatim>\<open>attach/mod.rs\<close>),
  chat rules (\<^verbatim>\<open>policy/engine.rs\<close>), the typed sends of \<^verbatim>\<open>engine/send.rs\<close>, and the
  activation of a relationship (\<^verbatim>\<open>engine/lifecycle.rs\<close>, \<^verbatim>\<open>pairing/requests.rs\<close>).
\<close>

definition send_unit ::
    "'x world \<Rightarrow> string \<Rightarrow> payload \<Rightarrow> bytes option \<Rightarrow> bool \<Rightarrow> ('x engine, unit) action" where
  "send_unit W rel_id payload ref_id alert =
     sbind (send_envelope W rel_id payload ref_id alert) (\<lambda>_. sret ())"

text \<open>The text of a wire error, \<open>e.to_string()\<close>.\<close>

fun comma_list :: "string list \<Rightarrow> string" where
  "comma_list [] = []"
| "comma_list [x] = x"
| "comma_list (x # xs) = x @ '', '' @ comma_list xs"

fun wire_error_text :: "wire_error \<Rightarrow> string" where
  "wire_error_text (Truncated at) = ''truncated '' @ at"
| "wire_error_text (BadLength at len mx) =
     ''bad length for '' @ at @ '': '' @ show_nat len @ '' (max '' @ show_nat mx @ '')''"
| "wire_error_text (BadVersion at v) = ''bad version for '' @ at @ '': '' @ show_nat (unat v)"
| "wire_error_text (BadField at detail) = ''bad field '' @ at @ '': '' @ detail"
| "wire_error_text (Trailing at extra) = ''trailing bytes in '' @ at @ '': '' @ show_nat extra"
| "wire_error_text (TooLarge at len mx) =
     ''oversize '' @ at @ '': '' @ show_nat len @ '' (max '' @ show_nat mx @ '')''"
| "wire_error_text (UnknownType code msg_id seq) =
     ''unknown envelope type '' @ show_nat (unat code) @ '' (msg ['' @
     comma_list (map (\<lambda>b. show_nat (unat b)) msg_id) @ ''] seq '' @ show_nat (unat seq) @ '')''"

section \<open>Profiles\<close>

definition put_profile :: "u64 \<Rightarrow> string \<Rightarrow> bytes \<Rightarrow> bytes \<Rightarrow> db \<Rightarrow> db" where
  "put_profile now rel_id name jpeg db =
     db\<lparr>db_profiles := filter (\<lambda>r. pf_rel_id r \<noteq> rel_id) (db_profiles db) @
          [\<lparr>pf_rel_id = rel_id, pf_name = name, pf_jpeg = jpeg, pf_updated_at = now\<rparr>]\<rparr>"

definition stored_profile :: "string \<Rightarrow> db \<Rightarrow> profile_row option" where
  "stored_profile rel_id db = find (\<lambda>r. pf_rel_id r = rel_id) (db_profiles db)"

definition delete_profile :: "string \<Rightarrow> db \<Rightarrow> bool \<times> db" where
  "delete_profile rel_id db =
     (any_row (\<lambda>r. pf_rel_id r = rel_id) (db_profiles db),
      db\<lparr>db_profiles := filter (\<lambda>r. pf_rel_id r \<noteq> rel_id) (db_profiles db)\<rparr>)"

definition apply_inbound :: "u64 \<Rightarrow> string \<Rightarrow> profile \<Rightarrow> db \<Rightarrow> bool \<times> db" where
  "apply_inbound now rel_id p db =
     (let changed = (case stored_profile rel_id db of
                       None \<Rightarrow> True
                     | Some old \<Rightarrow> pf_name old \<noteq> profile_name p \<or> pf_jpeg old \<noteq> profile_jpeg p)
      in (changed, if changed then put_profile now rel_id (profile_name p) (profile_jpeg p) db else db))"

definition note_peer_prefs :: "string \<Rightarrow> pref \<Rightarrow> (db, unit) action" where
  "note_peer_prefs rel_id p =
     (case Pref_encode_payload p of
        Inl e \<Rightarrow> sthrow (EngineStore (Corrupt (wire_error_text e)))
      | Inr bs \<Rightarrow> smodify (update_rel rel_id (\<lambda>r. r\<lparr>rel_peer_prefs := Some bs\<rparr>)))"

definition peer_prefs :: "string \<Rightarrow> db \<Rightarrow> store_error + pref option" where
  "peer_prefs rel_id db =
     (case rel_of rel_id db of
        None \<Rightarrow> Ok None
      | Some r \<Rightarrow>
          (case rel_peer_prefs r of
             None \<Rightarrow> Ok None
           | Some bs \<Rightarrow>
               (case Pref_decode_payload bs of
                  Inl e \<Rightarrow> Err (Corrupt (wire_error_text e))
                | Inr p \<Rightarrow> Ok (Some p))))"

definition PROFILE_NAME :: string where "PROFILE_NAME = ''profile_name''"

definition PROFILE_AVATAR :: string where "PROFILE_AVATAR = ''profile_avatar''"

definition our_profile :: "db \<Rightarrow> profile" where
  "our_profile db =
     \<lparr>profile_name = (case setting PROFILE_NAME db of None \<Rightarrow> [] | Some v \<Rightarrow> if utf8_valid v then v else []),
      profile_jpeg = (case setting PROFILE_AVATAR db of None \<Rightarrow> [] | Some v \<Rightarrow> v)\<rparr>"

definition normalize_name :: "(bytes \<Rightarrow> bytes) \<Rightarrow> bytes \<Rightarrow> bytes option" where
  "normalize_name nfc raw = (let n = nfc (trim raw) in if name_ok nfc n then Some n else None)"

definition set_our_profile :: "(bytes \<Rightarrow> bytes) \<Rightarrow> bytes \<Rightarrow> bytes \<Rightarrow> (db, unit) action" where
  "set_our_profile nfc name jpeg =
     (case normalize_name nfc name of
        None \<Rightarrow> sthrow (EditDenied ''profile name fails nfc/length/control rules'')
      | Some normalized \<Rightarrow>
          if length jpeg > MAX_JPEG then sthrow (EditDenied ''profile jpeg over 24 KiB'')
          else sbind (smodify (set_setting PROFILE_NAME normalized)) (\<lambda>_.
               smodify (set_setting PROFILE_AVATAR jpeg)))"

definition send_profile :: "'x world \<Rightarrow> string \<Rightarrow> ('x engine, unit) action" where
  "send_profile W rel_id =
     sbind (sget (\<lambda>s. our_profile (e_db s))) (\<lambda>p.
     if profile_name p = [] then sret () else send_unit W rel_id (P_Profile p) None False)"

definition send_profile_req :: "'x world \<Rightarrow> string \<Rightarrow> ('x engine, unit) action" where
  "send_profile_req W rel_id = send_unit W rel_id (P_ProfileReq ProfileReq) None False"

text \<open>The relationships in order of creation; ties, which SQL leaves open, by insertion.\<close>

definition list_relationships :: "db \<Rightarrow> (string \<times> rel_row) list" where
  "list_relationships db = sort_key (\<lambda>(k, r). sint (rel_created_at r)) (db_rels db)"

fun broadcast_to :: "'x world \<Rightarrow> (string \<times> rel_row) list \<Rightarrow> nat \<Rightarrow> ('x engine, nat) action" where
  "broadcast_to W [] n = sret n"
| "broadcast_to W ((rel_id, row) # rels) n =
     (if rel_state row = ''active''
      then sbind (send_profile W rel_id) (\<lambda>_. broadcast_to W rels (n + 1))
      else broadcast_to W rels n)"

definition broadcast_profile :: "'x world \<Rightarrow> ('x engine, nat) action" where
  "broadcast_profile W =
     sbind (sget (\<lambda>s. list_relationships (e_db s))) (\<lambda>rels. broadcast_to W rels 0)"

definition send_prefs :: "'x world \<Rightarrow> string \<Rightarrow> pref \<Rightarrow> ('x engine, unit) action" where
  "send_prefs W rel_id p = send_unit W rel_id (P_Pref p) None False"

section \<open>Pack keys and documents\<close>

definition verify_with :: "'x world \<Rightarrow> bytes \<Rightarrow> bytes \<Rightarrow> bytes \<Rightarrow> bool" where
  "verify_with W pack_pk body sig \<longleftrightarrow> w_public_error W pack_pk = None \<and> w_verify W pack_pk body sig"

definition load_pack_key :: "'x world \<Rightarrow> bytes \<Rightarrow> db \<Rightarrow> store_error + (bytes \<times> bytes) option" where
  "load_pack_key W pack_id db =
     (case pack_key pack_id db of
        None \<Rightarrow> Ok None
      | Some secret \<Rightarrow>
          (case w_private_error W secret of
             Some e \<Rightarrow> Err (Corrupt (''pack key: '' @ e))
           | None \<Rightarrow>
               (case find (\<lambda>p. pk_pack_id p = pack_id) (db_packs db) of
                  None \<Rightarrow> Err (Corrupt ''pack key without pack row'')
                | Some p \<Rightarrow>
                    if length (pk_pack_pk p) \<noteq> 32 then Err (Corrupt ''pack pk not 32 bytes'')
                    else (case w_public_error W (pk_pack_pk p) of
                            Some e \<Rightarrow> Err (Corrupt (''pack pk: '' @ e))
                          | None \<Rightarrow> Ok (Some (pk_pack_pk p, secret))))))"

definition create_pack ::
    "'x world \<Rightarrow> bytes \<Rightarrow> u8 \<Rightarrow> u8 \<Rightarrow> u16 \<Rightarrow> pack_doc_item list \<Rightarrow> ('x engine, bytes \<times> bytes) action" where
  "create_pack W title kind visibility icon_item_id its =
     sbind (on_ext (w_random_id W)) (\<lambda>pack_id.
     sbind (on_ext (w_generate_key W)) (\<lambda>(public, secret).
     let doc = \<lparr>pd_pack_id = pack_id, pd_kind = kind, pd_visibility = visibility, pd_title = title,
                pd_icon_item_id = icon_item_id, pd_items = its\<rparr> in
     sbind (slift (map_err EngineWire (StickerPackDoc_body_bytes doc))) (\<lambda>body.
     sbind (on_ext (\<lambda>x. w_sign W x secret body)) (\<lambda>_.
     sbind (sget e_now) (\<lambda>now.
     sbind (on_db (install_doc now doc public None False)) (\<lambda>_.
     sbind (on_db (smodify (put_pack_key pack_id secret))) (\<lambda>_.
     sret (pack_id, public))))))))"

definition pack_document :: "'x world \<Rightarrow> bytes \<Rightarrow> ('x engine, bytes option) action" where
  "pack_document W pack_id =
     sbind (sget (\<lambda>s. pack_info_of pack_id (e_db s))) (\<lambda>found.
     case found of
       None \<Rightarrow> sret None
     | Some info \<Rightarrow>
         sbind (sget (\<lambda>s. items_for pack_id (e_db s))) (\<lambda>its.
         sbind (slift (map_err EngineWire (StickerPackDoc_body_bytes (stored_doc info its)))) (\<lambda>body.
         sbind (on_db (store_get (load_pack_key W pack_id))) (\<lambda>key.
         case key of
           None \<Rightarrow> sret None
         | Some (public, secret) \<Rightarrow>
             sbind (on_ext (\<lambda>x. w_sign W x secret body)) (\<lambda>sig. sret (Some (body @ sig)))))))"

section \<open>Sending stickers\<close>

definition send_sticker :: "'x world \<Rightarrow> string \<Rightarrow> bytes \<Rightarrow> u16 \<Rightarrow> ('x engine, bytes) action" where
  "send_sticker W rel_id pack_id item_id =
     sbind (sget (\<lambda>s. item pack_id item_id (e_db s))) (\<lambda>found.
     case found of
       None \<Rightarrow> sthrow NotFound
     | Some it \<Rightarrow>
         sbind (sget (\<lambda>s. pack_info_of pack_id (e_db s))) (\<lambda>pack.
         case pack of
           None \<Rightarrow> sthrow NotFound
         | Some info \<Rightarrow>
             sbind (send_envelope W rel_id
               (P_Sticker \<lparr>si_kind = pi_kind info, si_visibility = pi_visibility info,
                  si_pack_id = pack_id, si_pack_pk = pi_pack_pk info, si_item_id = item_id,
                  si_w = sr_w it, si_h = sr_h it, si_content_sha256 = sr_sha256 it,
                  si_bytes = if length (sr_bytes it) \<le> INLINE_BYTES_MAX then Some (sr_bytes it) else None\<rparr>)
               None True) (\<lambda>sent. sret (sent_msg_id sent))))"

text \<open>The loop that sends a blob as numbered chunks of at most the given size.\<close>

definition send_pieces ::
    "'x world \<Rightarrow> string \<Rightarrow> nat \<Rightarrow> (u16 \<Rightarrow> u16 \<Rightarrow> bytes \<Rightarrow> sticker_ctrl) \<Rightarrow> bytes \<Rightarrow> ('x engine, unit) action" where
  "send_pieces W rel_id mx mk blob =
     (let cnt = of_nat (max (div_ceil (length blob) mx) 1) in
      sfor (enumerate 0 (chunks_of mx blob)) (\<lambda>(index, piece).
        send_unit W rel_id (P_StickerCtrl (mk (of_nat index) cnt piece)) None False))"

definition serve_item :: "'x world \<Rightarrow> string \<Rightarrow> item_with_pack \<Rightarrow> ('x engine, unit) action" where
  "serve_item W rel_id found =
     send_pieces W rel_id ITEM_CHUNK_MAX
       (\<lambda>index cnt piece. ItemBody (sr_sha256 (iwp_item found)) index cnt piece (Some (iwp_pack found)))
       (sr_bytes (iwp_item found))"

definition push_inline_emoji :: "'x world \<Rightarrow> string \<Rightarrow> bytes \<Rightarrow> ('x engine, unit) action" where
  "push_inline_emoji W rel_id body =
     sfor (extract_tokens body) (\<lambda>prefix.
       sbind (sget (\<lambda>s. find_item prefix (e_db s))) (\<lambda>found.
       case found of None \<Rightarrow> sret () | Some f \<Rightarrow> serve_item W rel_id f))"

definition answer_want_item :: "'x world \<Rightarrow> string \<Rightarrow> bytes \<Rightarrow> ('x engine, unit) action" where
  "answer_want_item W rel_id sha =
     sbind (rate_allow StickerServe rel_id) (\<lambda>ok.
     if \<not> ok then sret ()
     else
       sbind (sget (\<lambda>s. find_item sha (e_db s))) (\<lambda>found.
       case found of None \<Rightarrow> sret () | Some f \<Rightarrow> serve_item W rel_id f))"

definition refuse_pack :: "'x world \<Rightarrow> string \<Rightarrow> bytes \<Rightarrow> bytes \<Rightarrow> u8 \<Rightarrow> ('x engine, unit) action" where
  "refuse_pack W rel_id pack_id pack_pk reason =
     send_unit W rel_id (P_StickerCtrl (PackRefused pack_id pack_pk reason)) None False"

definition answer_want_pack :: "'x world \<Rightarrow> string \<Rightarrow> bytes \<Rightarrow> bytes \<Rightarrow> ('x engine, unit) action" where
  "answer_want_pack W rel_id pack_id pack_pk =
     sbind (sget (\<lambda>s. pack_info_of pack_id (e_db s))) (\<lambda>found.
     case found of
       None \<Rightarrow> refuse_pack W rel_id pack_id pack_pk REFUSED_UNKNOWN
     | Some info \<Rightarrow>
         if pi_pack_pk info \<noteq> pack_pk then refuse_pack W rel_id pack_id pack_pk REFUSED_UNKNOWN
         else if pi_visibility info = VISIBILITY_PRIVATE
         then refuse_pack W rel_id pack_id pack_pk REFUSED_PRIVATE
         else
           sbind (sget (\<lambda>s. e_now s div 86400)) (\<lambda>day.
           sbind (on_db (store_do (note_pack_serve rel_id day))) (\<lambda>serves.
           if serves > PACK_SERVES_PER_PEER_PER_DAY
           then refuse_pack W rel_id pack_id pack_pk REFUSED_RATE_LIMITED
           else
             sbind (pack_document W pack_id) (\<lambda>doc.
             case doc of
               None \<Rightarrow> refuse_pack W rel_id pack_id pack_pk REFUSED_UNKNOWN
             | Some blob \<Rightarrow> send_pieces W rel_id PACK_CHUNK_MAX (PackBody pack_id pack_pk) blob))))"

definition make_thumbs :: "'x world \<Rightarrow> sticker_item_row list \<Rightarrow> thumb list" where
  "make_thumbs W its =
     List.map_filter (\<lambda>it. case w_thumbnail W (sr_bytes it) of
       Inl _ \<Rightarrow> None
     | Inr t \<Rightarrow> Some \<lparr>th_item_id = sr_item_id it, th_bytes = t\<rparr>) its"

definition answer_want_thumbs :: "'x world \<Rightarrow> string \<Rightarrow> bytes \<Rightarrow> bytes \<Rightarrow> ('x engine, unit) action" where
  "answer_want_thumbs W rel_id pack_id pack_pk =
     sbind (rate_allow StickerServe rel_id) (\<lambda>ok.
     if \<not> ok then sret ()
     else
       sbind (sget (\<lambda>s. pack_info_of pack_id (e_db s))) (\<lambda>found.
       case found of
         None \<Rightarrow> sret ()
       | Some info \<Rightarrow>
           if pi_pack_pk info \<noteq> pack_pk \<or> pi_visibility info = VISIBILITY_PRIVATE then sret ()
           else
             sbind (sget (\<lambda>s. make_thumbs W (items_for pack_id (e_db s)))) (\<lambda>thumbs.
             if thumbs = [] then sret ()
             else
               sbind (slift (map_err EngineWire (StickerThumbsDoc_encode
                 \<lparr>td_title = pi_title info, td_kind = pi_kind info, td_icon_item_id = pi_icon_item_id info,
                  td_thumbs = thumbs\<rparr>))) (\<lambda>blob.
               send_pieces W rel_id PACK_CHUNK_MAX (ThumbsBody pack_id pack_pk) blob))))"

definition fetch_pack :: "'x world \<Rightarrow> string \<Rightarrow> bytes \<Rightarrow> bytes \<Rightarrow> ('x engine, unit) action" where
  "fetch_pack W rel_id pack_id pack_pk =
     send_unit W rel_id (P_StickerCtrl (WantPack pack_id pack_pk)) None False"

definition fetch_thumbs :: "'x world \<Rightarrow> string \<Rightarrow> bytes \<Rightarrow> bytes \<Rightarrow> ('x engine, unit) action" where
  "fetch_thumbs W rel_id pack_id pack_pk =
     send_unit W rel_id (P_StickerCtrl (WantThumbs pack_id pack_pk)) None False"

section \<open>Receiving stickers\<close>

definition ack_sticker :: "'x world \<Rightarrow> string \<Rightarrow> bytes \<Rightarrow> ('x engine, unit) action" where
  "ack_sticker W rel_id sha = send_unit W rel_id (P_StickerCtrl (Ack sha)) None False"

text \<open>An item we do not hold yet is cached and acknowledged.\<close>

definition cache_new_item ::
    "'x world \<Rightarrow> string \<Rightarrow> bytes \<Rightarrow> bytes \<Rightarrow> u16 \<Rightarrow> u16 \<Rightarrow> u8 \<Rightarrow> bytes option \<Rightarrow> ('x engine, unit) action" where
  "cache_new_item W rel_id sha bs w h kind pack_id =
     sbind (sget (\<lambda>s. have_item sha (e_db s))) (\<lambda>have.
     if have then sret ()
     else
       sbind (sget e_now) (\<lambda>now.
       sbind (on_db (smodify (cache_put now
         \<lparr>ci_sha256 = sha, ci_bytes = bs, ci_w = w, ci_h = h, ci_kind = kind, ci_pack_id = pack_id,
          ci_from_rel = Some rel_id, ci_created_at = now\<rparr>))) (\<lambda>_.
       ack_sticker W rel_id sha)))"

definition on_sticker ::
    "'x world \<Rightarrow> string \<Rightarrow> envelope \<Rightarrow> sticker_item \<Rightarrow> ('x engine, engine_event list) action" where
  "on_sticker W rel_id env it =
     (case si_bytes it of
        Some bs \<Rightarrow>
          if w_sha256 W bs \<noteq> si_content_sha256 it then sret []
          else
            sbind (cache_new_item W rel_id (si_content_sha256 it) bs (si_w it) (si_h it) (si_kind it)
              (Some (si_pack_id it))) (\<lambda>_.
            sret [EvSticker rel_id (env_msg_id env) True])
      | None \<Rightarrow>
          sbind (sget (\<lambda>s. have_item (si_content_sha256 it) (e_db s))) (\<lambda>have.
          if have then sret [EvSticker rel_id (env_msg_id env) True]
          else
            sbind (send_unit W rel_id (P_StickerCtrl (WantItem (si_content_sha256 it))) None False) (\<lambda>_.
            sret [EvSticker rel_id (env_msg_id env) False])))"

definition on_pending ::
    "(pending_buffers \<Rightarrow> bytes option \<times> pending_buffers) \<Rightarrow> ('x engine, bytes option) action" where
  "on_pending f s = (let (r, pb) = f (e_pending s) in (Ok r, s\<lparr>e_pending := pb\<rparr>))"

definition on_item_body ::
    "'x world \<Rightarrow> string \<Rightarrow> bytes \<Rightarrow> u16 \<Rightarrow> u16 \<Rightarrow> bytes \<Rightarrow> pack_ref option \<Rightarrow> ('x engine, unit) action" where
  "on_item_body W rel_id sha index cnt data ref =
     sbind (sget e_now) (\<lambda>now.
     sbind (on_pending (feed_item (hex_encode sha) index cnt data now)) (\<lambda>done.
     case done of
       None \<Rightarrow> sret ()
     | Some blob \<Rightarrow>
         if w_sha256 W blob \<noteq> sha then sret ()
         else
           sbind (case ref of
                    Some p \<Rightarrow> cache_new_item W rel_id sha blob (pr_w p) (pr_h p) (pr_kind p) (Some (pr_pack_id p))
                  | None \<Rightarrow> cache_new_item W rel_id sha blob 0 0 KIND_STICKER None) (\<lambda>_.
           case ref of
             None \<Rightarrow> sret ()
           | Some p \<Rightarrow>
               sbind (sget (\<lambda>s. pack_info_of (pr_pack_id p) (e_db s))) (\<lambda>known.
               if pr_visibility p = VISIBILITY_PUBLIC \<and> known = None
               then fetch_pack W rel_id (pr_pack_id p) (pr_pack_pk p) else sret ()))))"

text \<open>A failed installation is logged only; what it wrote before the failure remains.\<close>

definition on_pack_body ::
    "'x world \<Rightarrow> string \<Rightarrow> bytes \<Rightarrow> bytes \<Rightarrow> u16 \<Rightarrow> u16 \<Rightarrow> bytes \<Rightarrow> ('x engine, engine_event list) action" where
  "on_pack_body W rel_id pack_id pack_pk index cnt data =
     sbind (sget e_now) (\<lambda>now.
     sbind (on_pending (feed_pack (hex_encode pack_id) index cnt data now)) (\<lambda>done.
     case done of
       None \<Rightarrow> sret []
     | Some blob \<Rightarrow>
         sbind (sattempt (on_db (install_pack_blob (verify_with W) (w_sha256 W) now blob pack_pk
                  (Some rel_id) True))) (\<lambda>r.
         case r of Inl _ \<Rightarrow> sret [] | Inr i \<Rightarrow> sret [EvStickerPackInstalled i])))"

definition on_thumbs_body ::
    "string \<Rightarrow> bytes \<Rightarrow> u16 \<Rightarrow> u16 \<Rightarrow> bytes \<Rightarrow> ('x engine, engine_event list) action" where
  "on_thumbs_body rel_id pack_id index cnt data =
     sbind (sget e_now) (\<lambda>now.
     sbind (on_pending (feed_thumbs (''thumbs:'' @ hex_encode pack_id) index cnt data now)) (\<lambda>done.
     case done of
       None \<Rightarrow> sret []
     | Some blob \<Rightarrow>
         (case StickerThumbsDoc_decode blob of
            Inl _ \<Rightarrow> sret []
          | Inr doc \<Rightarrow> sret [EvStickerThumbs pack_id doc])))"

fun on_sticker_ctrl :: "'x world \<Rightarrow> string \<Rightarrow> sticker_ctrl \<Rightarrow> ('x engine, engine_event list) action" where
  "on_sticker_ctrl W rel_id (Ack sha) = sret []"
| "on_sticker_ctrl W rel_id (WantItem sha) = sbind (answer_want_item W rel_id sha) (\<lambda>_. sret [])"
| "on_sticker_ctrl W rel_id (ItemBody sha index cnt data ref) =
     sbind (on_item_body W rel_id sha index cnt data ref) (\<lambda>_. sret [])"
| "on_sticker_ctrl W rel_id (WantPack pack_id pack_pk) =
     sbind (answer_want_pack W rel_id pack_id pack_pk) (\<lambda>_. sret [])"
| "on_sticker_ctrl W rel_id (PackBody pack_id pack_pk index cnt data) =
     on_pack_body W rel_id pack_id pack_pk index cnt data"
| "on_sticker_ctrl W rel_id (PackRefused pack_id pack_pk reason) =
     sret [EvStickerPackRefused pack_id reason]"
| "on_sticker_ctrl W rel_id (WantThumbs pack_id pack_pk) =
     sbind (answer_want_thumbs W rel_id pack_id pack_pk) (\<lambda>_. sret [])"
| "on_sticker_ctrl W rel_id (ThumbsBody pack_id pack_pk index cnt data) =
     on_thumbs_body rel_id pack_id index cnt data"

definition fetch_missing_emoji :: "'x world \<Rightarrow> string \<Rightarrow> bytes \<Rightarrow> ('x engine, unit) action" where
  "fetch_missing_emoji W rel_id body =
     sfor (extract_tokens body) (\<lambda>prefix.
       sbind (sget (\<lambda>s. have_item_prefix prefix (e_db s))) (\<lambda>have.
       if have then sret ()
       else
         sbind (rate_allow StickerFetch rel_id) (\<lambda>ok.
         if \<not> ok then sret ()
         else send_unit W rel_id (P_StickerCtrl (WantItem prefix)) None False)))"

section \<open>Sending attachments\<close>

definition outbound_head :: "string \<Rightarrow> bytes \<Rightarrow> attach_head \<Rightarrow> u64 option \<Rightarrow> new_attachment" where
  "outbound_head rel_id head_id head expiry =
     \<lparr>na_head_id = head_id, na_rel_id = rel_id, na_msg_id = head_id, na_direction = Out,
      na_media_class = media_class head, na_mime_hint = mime_hint head,
      na_uncompressed_n = uncompressed_n head, na_chunk_count = chunk_count head,
      na_chunk_bucket = chunk_bucket head, na_content_sha256 = content_sha256 head,
      na_caption = caption head, na_flags = head_flags head, na_orig_ext = orig_ext head,
      na_expires_at = expiry\<rparr>"

fun chunk_payload :: "bytes \<Rightarrow> nat \<Rightarrow> chunk_out \<Rightarrow> attach_chunk" where
  "chunk_payload head_id index (Data d) =
     \<lparr>ac_head_id = head_id, ac_index = of_nat index, ac_pad = False, ac_data = d\<rparr>"
| "chunk_payload head_id index Pad =
     \<lparr>ac_head_id = head_id, ac_index = of_nat index, ac_pad = True, ac_data = []\<rparr>"

definition send_attachment :: "'x world \<Rightarrow> string \<Rightarrow> attachment_spec \<Rightarrow> ('x engine, bytes) action" where
  "send_attachment W rel_id spec =
     sbind (slift (prepare_spec (w_reencode W) spec)) (\<lambda>spec.
     sbind (slift (plan_transfer (w_sha256 W) (spec_media_class spec) (spec_mime_hint spec)
              (spec_orig_ext spec) (spec_bytes spec) (spec_caption spec) (spec_view_once spec))) (\<lambda>plan.
     let inl = (if length (spec_bytes spec) \<le> INLINE_MAX then Some (spec_bytes spec) else None) in
     sbind (send_envelope W rel_id (P_AttachHead \<lparr>ahp_head = plan_head plan, ahp_inline = inl\<rparr>) None True) (\<lambda>sent.
     let head_id = sent_msg_id sent in
     sbind (sget e_now) (\<lambda>now.
     sbind (on_db (store_get (message_expiry rel_id now))) (\<lambda>expiry.
     sbind (on_db (store_try (insert_head now (outbound_head rel_id head_id (plan_head plan) expiry)))) (\<lambda>_.
     sbind (if chunk_count (plan_head plan) = 0 then
              sbind (on_db (store_try (put_chunk head_id 0 (spec_bytes spec) rel_id now))) (\<lambda>_.
              on_db (smodify (update_attachment head_id (\<lambda>a. a\<lparr>at_complete := True\<rparr>))))
            else sret ()) (\<lambda>_.
     sbind (sfor (enumerate 0 (plan_chunks plan)) (\<lambda>(index, c).
              send_unit W rel_id (P_AttachChunk (chunk_payload head_id index c)) None False)) (\<lambda>_.
     sret head_id))))))))"

section \<open>Chat rules\<close>

text \<open>The side effects of a policy transition.\<close>

definition apply_outcome_effects :: "string \<Rightarrow> apply_outcome \<Rightarrow> (db, engine_event list) action" where
  "apply_outcome_effects rel_id oc =
     sbind (case clamp_expiry_to oc of
              None \<Rightarrow> sret ()
            | Some clamp_to \<Rightarrow> sbind (store_do (clamp_message_expiry rel_id clamp_to)) (\<lambda>_. sret ())) (\<lambda>_.
     sbind (if erase_attachments oc
            then sbind (store_do (erase_attach_messages rel_id)) (\<lambda>_. sret ()) else sret ()) (\<lambda>_.
     sret (if changed oc then [EvPolicyChanged rel_id] else [])))"

definition propose_rules :: "'x world \<Rightarrow> string \<Rightarrow> u32 \<Rightarrow> bool \<Rightarrow> bool \<Rightarrow> ('x engine, unit) action" where
  "propose_rules W rel_id ttl_sec screenshot attach_download =
     sbind (on_db (store_get (db_load_policy rel_id))) (\<lambda>st.
     sbind (on_ext (w_random_id W)) (\<lambda>propose_id.
     case build_propose st ttl_sec screenshot attach_download propose_id of
       None \<Rightarrow> sthrow (EditDenied ''disallowed TTL'')
     | Some (nxt, payload) \<Rightarrow>
         sbind (on_db (smodify (db_save_policy rel_id nxt))) (\<lambda>_.
         send_unit W rel_id (P_ChatPolicy payload) None False)))"

definition accept_rules :: "'x world \<Rightarrow> string \<Rightarrow> ('x engine, engine_event list) action" where
  "accept_rules W rel_id =
     sbind (on_db (store_get (db_load_policy rel_id))) (\<lambda>st.
     sbind (sget e_now) (\<lambda>now.
     case build_accept st now of
       None \<Rightarrow> sthrow (EditDenied ''no inbound proposal pending'')
     | Some (nxt, payload, outcome) \<Rightarrow>
         sbind (on_db (smodify (db_save_policy rel_id nxt))) (\<lambda>_.
         sbind (on_db (apply_outcome_effects rel_id outcome)) (\<lambda>events.
         sbind (send_unit W rel_id (P_ChatPolicy payload) None False) (\<lambda>_.
         sret events)))))"

definition decline_rules :: "string \<Rightarrow> ('x engine, unit) action" where
  "decline_rules rel_id =
     sbind (on_db (store_get (db_load_policy rel_id))) (\<lambda>st.
     on_db (smodify (db_save_policy rel_id (st\<lparr>ps_pending := None\<rparr>))))"

definition set_capability :: "'x world \<Rightarrow> string \<Rightarrow> u8 \<Rightarrow> bool \<Rightarrow> ('x engine, engine_event list) action" where
  "set_capability W rel_id cap_id on =
     sbind (on_db (store_get (db_load_policy rel_id))) (\<lambda>st.
     case build_cap_set st cap_id on of
       None \<Rightarrow> sret []
     | Some (nxt, payload, outcome) \<Rightarrow>
         sbind (on_db (smodify (db_save_policy rel_id nxt))) (\<lambda>_.
         sbind (on_db (apply_outcome_effects rel_id outcome)) (\<lambda>events.
         sbind (send_unit W rel_id (P_ChatPolicy payload) None False) (\<lambda>_.
         sret events))))"

section \<open>Typed sends\<close>

definition send_text :: "'x world \<Rightarrow> string \<Rightarrow> bytes \<Rightarrow> bytes option \<Rightarrow> ('x engine, bytes) action" where
  "send_text W rel_id body reply_to =
     (if length body > MAX_BODY_BYTES then sthrow (EditDenied ''body too large'')
      else
        sbind (slift (map_err EngineWire (Msg_new body))) (\<lambda>m.
        sbind (send_envelope W rel_id (P_Msg m) reply_to True) (\<lambda>sent.
        sbind (push_inline_emoji W rel_id body) (\<lambda>_.
        sret (sent_msg_id sent)))))"

definition send_edit :: "'x world \<Rightarrow> string \<Rightarrow> bytes \<Rightarrow> bytes \<Rightarrow> ('x engine, bytes) action" where
  "send_edit W rel_id target new_body =
     sbind (sget (\<lambda>s. message target (e_db s))) (\<lambda>found.
     case found of
       None \<Rightarrow> sthrow NotFound
     | Some row \<Rightarrow>
         if m_rel_id row \<noteq> rel_id then sthrow NotFound
         else
           sbind (sget e_now) (\<lambda>now.
           if \<not> can_offer_edit row now
           then sthrow (EditDenied ''window closed, cap reached, or not our text'')
           else
             sbind (slift (map_err EngineWire (Edit_new new_body))) (\<lambda>e.
             sbind (send_envelope W rel_id (P_Edit e) (Some target) False) (\<lambda>sent.
             sbind (on_db (store_do (mark_edited target new_body (sent_app_seq sent)))) (\<lambda>_.
             sret (sent_msg_id sent))))))"

definition send_delete :: "'x world \<Rightarrow> string \<Rightarrow> bytes \<Rightarrow> ('x engine, bytes) action" where
  "send_delete W rel_id target =
     sbind (send_envelope W rel_id (P_Delete Delete) (Some target) False) (\<lambda>sent.
     sbind (on_db (store_do (mark_tombstoned target))) (\<lambda>_.
     sbind (sget e_now) (\<lambda>now.
     sbind (on_db (smodify (add_tombstone now rel_id target))) (\<lambda>_.
     sret (sent_msg_id sent)))))"

definition send_delete_all :: "'x world \<Rightarrow> string \<Rightarrow> ('x engine, bytes) action" where
  "send_delete_all W rel_id =
     sbind (send_envelope W rel_id (P_DeleteAll DeleteAll) None False) (\<lambda>sent.
     sbind (on_db (smodify (raise_history_cut rel_id (sent_app_seq sent)))) (\<lambda>_.
     sbind (on_db (store_do (erase_history rel_id [sent_msg_id sent]))) (\<lambda>_.
     sret (sent_msg_id sent))))"

text \<open>A typing beat is throttled and noted before it is sent; a stop always goes out.\<close>

definition send_typing :: "'x world \<Rightarrow> string \<Rightarrow> bool \<Rightarrow> ('x engine, unit) action" where
  "send_typing W rel_id on =
     sbind (sget (\<lambda>s. should_send rel_id (e_now s) (e_typing s))) (\<lambda>free.
     if on \<and> \<not> free then sret ()
     else
       sbind (if on then smodify (\<lambda>s. s\<lparr>e_typing := note_sent rel_id (e_now s) (e_typing s)\<rparr>)
              else sret ()) (\<lambda>_.
       send_unit W rel_id (P_Typing \<lparr>typing_on = on\<rparr>) None False))"

definition send_presence :: "'x world \<Rightarrow> string \<Rightarrow> bool \<Rightarrow> bool \<Rightarrow> ('x engine, unit) action" where
  "send_presence W rel_id here dnd =
     send_unit W rel_id (P_Presence \<lparr>in_app = here, do_not_disturb = dnd\<rparr>) None False"

definition send_read :: "'x world \<Rightarrow> string \<Rightarrow> bytes \<Rightarrow> ('x engine, unit) action" where
  "send_read W rel_id target = send_unit W rel_id (P_Read Read) (Some target) False"

section \<open>Activation\<close>

definition pairing_accept_request :: "'x world \<Rightarrow> string \<Rightarrow> ('x engine, unit) action" where
  "pairing_accept_request W rel_id =
     sbind (sget (\<lambda>s. rel_of rel_id (e_db s))) (\<lambda>found.
     case found of
       None \<Rightarrow> sthrow (EnginePairing PairingNotFound)
     | Some row \<Rightarrow>
         if rel_state row \<noteq> STATE_REQUEST then sthrow (EnginePairing NotARequest)
         else
           sbind (on_ext (\<lambda>x. w_host_service W x (rel_service_id row) [rel_peer_client_auth_public row])) (\<lambda>hosted.
           case hosted of
             Inl e \<Rightarrow> sthrow (EnginePairing (PairingTransport e))
           | Inr _ \<Rightarrow> on_db (smodify (update_rel rel_id (\<lambda>r. r\<lparr>rel_state := STATE_ACTIVE\<rparr>)))))"

definition on_relationship_active :: "'x world \<Rightarrow> string \<Rightarrow> ('x engine, unit) action" where
  "on_relationship_active W rel_id =
     sbind (\<lambda>s. (map_err EngineSync (build_request (w_sha256 W) rel_id (e_db s)), s)) (\<lambda>req.
     sbind (send_unit W rel_id (P_ResyncReq req) None False) (\<lambda>_.
     sbind (send_profile W rel_id) (\<lambda>_.
     sbind (on_db (store_get (db_load_policy rel_id))) (\<lambda>st.
     sbind (sget e_now) (\<lambda>now.
     let (nxt, sync) = build_sync st now in
     sbind (sattempt (send_unit W rel_id (P_ChatPolicy sync) None False)) (\<lambda>r.
     case r of
       Inr _ \<Rightarrow> on_db (smodify (db_save_policy rel_id nxt))
     | Inl (CapGated _) \<Rightarrow> sret ()
     | Inl e \<Rightarrow> sthrow e))))))"

definition accept_request :: "'x world \<Rightarrow> string \<Rightarrow> ('x engine, unit) action" where
  "accept_request W rel_id =
     sbind (pairing_accept_request W rel_id) (\<lambda>_. on_relationship_active W rel_id)"

end
