(* ===== verification/Engine_Inbound.thy ===== *)
theory Engine_Inbound
  imports Engine_Features
begin

text \<open>
  The inbound side of the engine and its maintenance: the dispatch of one decrypted envelope
  (\<^verbatim>\<open>engine/inbound.rs\<close>), the erasure of a relationship (\<^verbatim>\<open>engine/burn.rs\<close>), the closing
  of a contact (\<^verbatim>\<open>close/mod.rs\<close>), the outbox drain and the periodic sweep
  (\<^verbatim>\<open>engine/drain.rs\<close>), and the sweep of the sync layer (\<^verbatim>\<open>sync/mod.rs\<close>). A handler
  returns the events it pushes; on an error the events pushed before it are lost, as in the
  source, where the vector is dropped.
\<close>

section \<open>Burn and close\<close>

definition wipe_session :: "'x world \<Rightarrow> string \<Rightarrow> ('x engine, unit) action" where
  "wipe_session W rel_id = on_ext (\<lambda>x. ((), w_delete_namespace W x rel_id))"

definition burn_tables :: "string \<Rightarrow> db \<Rightarrow> db" where
  "burn_tables rel_id db =
     (let heads = map at_head_id (filter (\<lambda>a. at_rel_id a = rel_id) (db_attachments db));
          db = db\<lparr>db_chunks := filter (\<lambda>c. ck_head_id c \<notin> set heads) (db_chunks db)\<rparr>;
          db = db\<lparr>db_messages := filter (\<lambda>m. m_rel_id m \<noteq> rel_id) (db_messages db)\<rparr>;
          db = db\<lparr>db_outbox := filter (\<lambda>r. ob_rel_id r \<noteq> rel_id) (db_outbox db)\<rparr>;
          db = db\<lparr>db_attachments := filter (\<lambda>a. at_rel_id a \<noteq> rel_id) (db_attachments db)\<rparr>;
          db = db\<lparr>db_profiles := filter (\<lambda>p. pf_rel_id p \<noteq> rel_id) (db_profiles db)\<rparr>;
          db = db\<lparr>db_tombstones := filter (\<lambda>t. ts_rel_id t \<noteq> rel_id) (db_tombstones db)\<rparr>;
          db = db\<lparr>db_inbound_seqs := filter (\<lambda>p. fst p \<noteq> rel_id) (db_inbound_seqs db)\<rparr>;
          db = db\<lparr>db_sticker_serves := filter (\<lambda>r. sv_rel_id r \<noteq> rel_id) (db_sticker_serves db)\<rparr>;
          db = db\<lparr>db_rels := filter (\<lambda>p. fst p \<noteq> rel_id) (db_rels db)\<rparr>;
          db = snd (delete_setting (key_close_started_at rel_id) db)
      in snd (delete_setting (key_resync_req_at rel_id) db))"

definition burn_relationship :: "'x world \<Rightarrow> string \<Rightarrow> ('x engine, unit) action" where
  "burn_relationship W rel_id =
     sbind (sget (\<lambda>s. rel_of rel_id (e_db s))) (\<lambda>found.
     case found of
       None \<Rightarrow> sret ()
     | Some row \<Rightarrow>
         sbind (on_ext (\<lambda>x. w_remove_service W x (rel_service_id row))) (\<lambda>_.
         sbind (wipe_session W rel_id) (\<lambda>_.
         sbind (on_db (smodify (burn_tables rel_id))) (\<lambda>_.
         smodify (\<lambda>s. s\<lparr>e_presence := presence_forget rel_id (e_presence s),
                          e_typing := typing_forget rel_id (e_typing s),
                          e_pending := pending_forget rel_id (e_pending s)\<rparr>)))))"

definition enter_closing :: "string \<Rightarrow> ('x engine, unit) action" where
  "enter_closing rel_id =
     sbind (sget (\<lambda>s. close_state rel_id (e_db s))) (\<lambda>closing.
     if closing \<noteq> None then sret ()
     else
       sbind (on_db (smodify (update_rel rel_id (\<lambda>r. r\<lparr>rel_close_state := Some ''closing''\<rparr>)))) (\<lambda>_.
       sbind (sget e_now) (\<lambda>now.
       on_db (smodify (set_setting (key_close_started_at rel_id) (be64 now))))))"

definition close_contact :: "'x world \<Rightarrow> string \<Rightarrow> ('x engine, unit) action" where
  "close_contact W rel_id =
     sbind (sget (\<lambda>s. close_state rel_id (e_db s))) (\<lambda>closing.
     if closing \<noteq> None then sret ()
     else
       sbind (enter_closing rel_id) (\<lambda>_.
       sbind (send_envelope W rel_id (P_DeleteAll DeleteAll) None False) (\<lambda>da.
       sbind (send_envelope W rel_id (P_ContactClose ContactClose) None False) (\<lambda>cc.
       sbind (on_db (smodify (raise_history_cut rel_id (max (sent_app_seq da) (sent_app_seq cc))))) (\<lambda>_.
       sbind (on_db (store_do (erase_history rel_id [sent_msg_id da, sent_msg_id cc]))) (\<lambda>_.
       sret ()))))))"

section \<open>Feature handlers\<close>

definition RESYNC_REQ_MIN_SECS :: u64 where "RESYNC_REQ_MIN_SECS = 10"

definition engine_decode_envelope :: "'x world \<Rightarrow> bytes \<Rightarrow> ('x engine, envelope) action" where
  "engine_decode_envelope W bs =
     (case Envelope_decode (w_nfc W) bs of
        Inr env \<Rightarrow> sret env
      | Inl (UnknownType code msg_id seq) \<Rightarrow>
          sbind (smodify (\<lambda>s. s\<lparr>e_unknown_type_drops := e_unknown_type_drops s + 1\<rparr>)) (\<lambda>_.
          sthrow (EngineWire (UnknownType code msg_id seq)))
      | Inl e \<Rightarrow> sthrow (EngineWire e))"

definition apply_edit :: "u64 \<Rightarrow> string \<Rightarrow> envelope \<Rightarrow> bytes \<Rightarrow> (db, engine_event list) action" where
  "apply_edit now rel_id env body =
     (case env_ref_id env of
        None \<Rightarrow> sret []
      | Some target_id \<Rightarrow>
          sbind (sget (\<lambda>db. edit_decision (message target_id db) now (env_app_seq env) (length body)
                   MAX_BODY_BYTES (is_tombstoned now rel_id (env_msg_id env) db) (history_cut rel_id db))) (\<lambda>decision.
          if decision = Apply then
            sbind (store_do (mark_edited target_id body (env_app_seq env))) (\<lambda>_.
            sret [EvEdited rel_id target_id])
          else sret []))"

definition apply_delete :: "u64 \<Rightarrow> string \<Rightarrow> envelope \<Rightarrow> (db, engine_event list) action" where
  "apply_delete now rel_id env =
     (case env_ref_id env of
        None \<Rightarrow> sret []
      | Some target_id \<Rightarrow>
          sbind (on_delete_target target_id) (\<lambda>_.
          sbind (smodify (add_tombstone now rel_id target_id)) (\<lambda>_.
          sbind (store_do (mark_tombstoned target_id)) (\<lambda>marked.
          sret (if marked then [EvDeleted rel_id target_id] else [])))))"

definition requeue_retransmit :: "'x world \<Rightarrow> u64 \<Rightarrow> string \<Rightarrow> retransmit \<Rightarrow> ('x engine, unit) action" where
  "requeue_retransmit W now rel_id rt =
     sbind (on_ext (w_padding W)) (\<lambda>pad.
     sbind (slift (map_err EngineWire (build_record pad (rt_frame rt)))) (\<lambda>rec.
     on_db (smodify (requeue now (rt_msg_id rt) rel_id rec MESSAGE_TTL_SECS))))"

definition engine_handle_request :: "string \<Rightarrow> u64 \<Rightarrow> resync_req \<Rightarrow> (db, retransmit list) action" where
  "engine_handle_request rel_id now req db =
     (case handle_request rel_id now req db of
        Inl e \<Rightarrow> (Err (EngineSync e), db)
      | Inr (db', rts) \<Rightarrow> (Ok rts, db'))"

text \<open>The throttled policy \<open>SYNC\<close>: the stored state notes the time before the envelope is sent.\<close>

definition send_sync_reply :: "'x world \<Rightarrow> string \<Rightarrow> policy_state \<Rightarrow> u64 \<Rightarrow> ('x engine, unit) action" where
  "send_sync_reply W rel_id st now =
     (if now \<ge> last_sync_at st + SYNC_REPLY_MIN_SEC then
        let (nxt, payload) = build_sync st now in
        sbind (on_db (smodify (db_save_policy rel_id nxt))) (\<lambda>_.
        send_unit W rel_id (P_ChatPolicy payload) None False)
      else sret ())"

definition apply_resync_req :: "'x world \<Rightarrow> string \<Rightarrow> resync_req \<Rightarrow> ('x engine, unit) action" where
  "apply_resync_req W rel_id req =
     sbind (sget e_now) (\<lambda>now.
     sbind (on_db (smodify (note_peer_caps rel_id (req_caps req)))) (\<lambda>_.
     sbind (on_db (engine_handle_request rel_id now req)) (\<lambda>rts.
     sbind (sfor rts (requeue_retransmit W now rel_id)) (\<lambda>_.
     sbind (on_db (store_get (db_load_policy rel_id))) (\<lambda>st.
     send_sync_reply W rel_id st now)))))"

text \<open>The next state, its effects, and whether a \<open>SYNC\<close> may be answered.\<close>

definition chat_policy_step ::
    "policy_state \<Rightarrow> chat_policy \<Rightarrow> bytes \<Rightarrow> u64 \<Rightarrow> (policy_state \<times> apply_outcome \<times> bool) option" where
  "chat_policy_step st cp msg_id now =
     (if cp_op cp = OP_RULE_PROPOSE then
        Some (apply_propose st cp msg_id, ApplyOutcome_default\<lparr>changed := True\<rparr>, False)
      else if cp_op cp = OP_RULE_ACCEPT then
        (case apply_accept st cp now of None \<Rightarrow> None | Some (s, oc) \<Rightarrow> Some (s, oc, False))
      else if cp_op cp = OP_CAP_SET then
        (let (s, oc) = apply_cap_set st (cp_cap_id cp) (cp_cap_on cp) in Some (s, oc, False))
      else if cp_op cp = OP_SYNC then
        (let (s, oc) = apply_sync st cp in Some (s, oc, True))
      else None)"

definition apply_chat_policy ::
    "'x world \<Rightarrow> string \<Rightarrow> envelope \<Rightarrow> chat_policy \<Rightarrow> ('x engine, engine_event list) action" where
  "apply_chat_policy W rel_id env cp =
     sbind (on_db (store_get (db_load_policy rel_id))) (\<lambda>st.
     sbind (sget e_now) (\<lambda>now.
     case chat_policy_step st cp (env_msg_id env) now of
       None \<Rightarrow> sret []
     | Some (nxt, outcome, respond) \<Rightarrow>
         sbind (on_db (smodify (db_save_policy rel_id nxt))) (\<lambda>_.
         sbind (on_db (apply_outcome_effects rel_id outcome)) (\<lambda>events.
         sbind (if respond then send_sync_reply W rel_id nxt now else sret ()) (\<lambda>_.
         sret events)))))"

definition maybe_request_resync :: "'x world \<Rightarrow> string \<Rightarrow> ('x engine, engine_event list) action" where
  "maybe_request_resync W rel_id =
     sbind (sget e_now) (\<lambda>now.
     sbind (sget (\<lambda>s. setting_u64_or 0 (key_resync_req_at rel_id) (e_db s))) (\<lambda>last.
     if now < last + RESYNC_REQ_MIN_SECS then sret []
     else
       sbind (on_db (smodify (set_setting (key_resync_req_at rel_id) (be64 now)))) (\<lambda>_.
       sbind (\<lambda>s. (map_err EngineSync (build_request (w_sha256 W) rel_id (e_db s)), s)) (\<lambda>req.
       sbind (send_unit W rel_id (P_ResyncReq req) None False) (\<lambda>_.
       sret [EvGapDetected rel_id])))))"

section \<open>Dispatch\<close>

definition on_presence :: "u64 \<Rightarrow> string \<Rightarrow> presence \<Rightarrow> ('x engine, engine_event list) action" where
  "on_presence now rel_id p =
     sbind (on_db (store_get (db_load_policy rel_id))) (\<lambda>policy.
     if \<not> presence_on policy then sret []
     else
       sbind (rate_allow Ephemeral rel_id) (\<lambda>ok.
       if \<not> ok then sret []
       else (\<lambda>s.
         let (r, t) = presence_note rel_id p now (e_presence s) in
         (Ok (case r of None \<Rightarrow> [] | Some st \<Rightarrow> [EvPresence rel_id (pp_in_app st) (pp_do_not_disturb st)]),
          s\<lparr>e_presence := t\<rparr>))))"

definition on_typing :: "u64 \<Rightarrow> string \<Rightarrow> typing \<Rightarrow> ('x engine, engine_event list) action" where
  "on_typing now rel_id p =
     sbind (on_db (store_get (db_load_policy rel_id))) (\<lambda>policy.
     if \<not> typing_enabled policy then sret []
     else
       sbind (rate_allow Ephemeral rel_id) (\<lambda>ok.
       if \<not> ok then sret []
       else (\<lambda>s.
         let (r, t) = typing_note rel_id (typing_on p) now (e_typing s) in
         (Ok (case r of None \<Rightarrow> [] | Some lit \<Rightarrow> [EvTyping rel_id lit]), s\<lparr>e_typing := t\<rparr>))))"

definition on_read :: "u64 \<Rightarrow> string \<Rightarrow> envelope \<Rightarrow> (db, engine_event list) action" where
  "on_read now rel_id env =
     sbind (store_get (db_load_policy rel_id)) (\<lambda>policy.
     if \<not> receipts policy then sret []
     else
       case env_ref_id env of
         None \<Rightarrow> sret []
       | Some target \<Rightarrow>
           sbind (store_do (mark_read target now)) (\<lambda>marked.
           sret (if marked then [EvRead rel_id target] else [])))"

fun dispatch :: "'x world \<Rightarrow> u64 \<Rightarrow> string \<Rightarrow> envelope \<Rightarrow> payload \<Rightarrow> ('x engine, engine_event list) action" where
  "dispatch W now rel_id env (P_Msg m) =
     sbind (fetch_missing_emoji W rel_id (msg_body m)) (\<lambda>_. sret [EvMessage rel_id (env_msg_id env)])"
| "dispatch W now rel_id env (P_Edit e) = on_db (apply_edit now rel_id env (edit_body e))"
| "dispatch W now rel_id env (P_Delete _) = on_db (apply_delete now rel_id env)"
| "dispatch W now rel_id env (P_DeleteAll _) =
     sbind (on_db (smodify (raise_history_cut rel_id (env_app_seq env)))) (\<lambda>_.
     sbind (on_db (store_do (erase_history rel_id [env_msg_id env]))) (\<lambda>_.
     sret [EvHistoryCleared rel_id]))"
| "dispatch W now rel_id env (P_ContactClose _) =
     sbind (burn_relationship W rel_id) (\<lambda>_. sret [EvContactClosed rel_id])"
| "dispatch W now rel_id env (P_ResyncReq req) =
     sbind (rate_allow ResyncReqs rel_id) (\<lambda>ok.
     if ok then sbind (apply_resync_req W rel_id req) (\<lambda>_. sret []) else sret [])"
| "dispatch W now rel_id env (P_AttachHead p) = on_db (on_attach_head (w_sha256 W) now rel_id env p)"
| "dispatch W now rel_id env (P_AttachChunk c) = on_db (on_attach_chunk (w_sha256 W) now rel_id c)"
| "dispatch W now rel_id env (P_Profile p) =
     sbind (on_db (store_do (apply_inbound now rel_id p))) (\<lambda>new.
     sret (if new then [EvProfileUpdated rel_id] else []))"
| "dispatch W now rel_id env (P_ProfileReq _) = sret [EvProfileRequested rel_id]"
| "dispatch W now rel_id env (P_Pref p) =
     sbind (on_db (note_peer_prefs rel_id p)) (\<lambda>_. sret [EvPeerPrefs rel_id])"
| "dispatch W now rel_id env (P_Sticker it) = on_sticker W rel_id env it"
| "dispatch W now rel_id env (P_StickerCtrl ctrl) = on_sticker_ctrl W rel_id ctrl"
| "dispatch W now rel_id env (P_Presence p) = on_presence now rel_id p"
| "dispatch W now rel_id env (P_Typing p) = on_typing now rel_id p"
| "dispatch W now rel_id env (P_Read _) = on_db (on_read now rel_id env)"
| "dispatch W now rel_id env (P_ChatPolicy cp) = apply_chat_policy W rel_id env cp"

section \<open>One decrypted envelope\<close>

definition note_implied_cap :: "string \<Rightarrow> envelope_type \<Rightarrow> db \<Rightarrow> db" where
  "note_implied_cap rel_id t db =
     (case required_cap t of
        None \<Rightarrow> db
      | Some b \<Rightarrow>
          let known = peer_caps rel_id db in
          if known AND b = 0 then note_peer_caps rel_id (known OR b) db else db)"

definition activate_once :: "'x world \<Rightarrow> string \<Rightarrow> rel_row \<Rightarrow> ('x engine, unit) action" where
  "activate_once W rel_id row =
     (if rel_role row \<noteq> ROLE_ACCEPTER then sret ()
      else
        sbind (sget (\<lambda>s. setting (key_activation_sent rel_id) (e_db s))) (\<lambda>sent.
        if sent \<noteq> None then sret ()
        else
          sbind (on_db (smodify (set_setting (key_activation_sent rel_id) [1]))) (\<lambda>_.
          on_relationship_active W rel_id)))"

definition resync_after_gap :: "'x world \<Rightarrow> string \<Rightarrow> bool \<Rightarrow> ('x engine, engine_event list) action" where
  "resync_after_gap W rel_id gap = (if gap then maybe_request_resync W rel_id else sret [])"

definition in_message :: "string \<Rightarrow> envelope \<Rightarrow> u64 \<Rightarrow> u64 \<Rightarrow> bytes \<Rightarrow> u64 option \<Rightarrow> new_message" where
  "in_message rel_id env sent_at now payload expiry =
     \<lparr>n_msg_id = env_msg_id env, n_rel_id = rel_id, n_direction = In, n_app_seq = env_app_seq env,
      n_sent_at = sent_at, n_received_at = Some now,
      n_env_type = EnvelopeType_code (Envelope_envelope_type env), n_ref_id = env_ref_id env,
      n_payload = payload, n_state = Received, n_expires_at = expiry\<rparr>"

definition ledger_inbound :: "'x world \<Rightarrow> u64 \<Rightarrow> u64 \<Rightarrow> string \<Rightarrow> envelope \<Rightarrow> ('x engine, unit) action" where
  "ledger_inbound W now sent_at rel_id env =
     (if Envelope_envelope_type env \<in> {T_Typing, T_Presence} then sret ()
      else
        sbind (on_db (store_get (message_expiry rel_id now))) (\<lambda>expiry.
        sbind (slift (map_err EngineWire (Payload_encode (w_nfc W) (env_payload env)))) (\<lambda>payload.
        on_db (store_try (insert_message now (in_message rel_id env sent_at now payload expiry))))))"

text \<open>The steps after the gates: log the sequence number, activate, drop or store, dispatch.\<close>

definition accept_envelope ::
    "'x world \<Rightarrow> string \<Rightarrow> rel_row \<Rightarrow> envelope \<Rightarrow> u64 \<Rightarrow> u64 \<Rightarrow> ('x engine, engine_event list) action" where
  "accept_envelope W rel_id row env now sent_at =
     (let t = Envelope_envelope_type env in
      sbind (sget (\<lambda>s. opens_gap rel_id (env_app_seq env) (e_db s))) (\<lambda>gap.
      sbind (on_db (store_do (note_inbound_seq rel_id (env_app_seq env)))) (\<lambda>_.
      sbind (activate_once W rel_id row) (\<lambda>_.
      sbind (sget (\<lambda>s. should_drop_inbound t (env_app_seq env) (history_cut rel_id (e_db s))
               (is_tombstoned now rel_id (env_msg_id env) (e_db s)))) (\<lambda>drop_it.
      if drop_it then resync_after_gap W rel_id gap
      else
        sbind (ledger_inbound W now sent_at rel_id env) (\<lambda>_.
        sbind (dispatch W now rel_id env (env_payload env)) (\<lambda>events.
        if t = T_ContactClose then sret events
        else
          sbind (resync_after_gap W rel_id gap) (\<lambda>more. sret (events @ more)))))))))"

definition handle_plaintext :: "'x world \<Rightarrow> string \<Rightarrow> bytes \<Rightarrow> ('x engine, engine_event list) action" where
  "handle_plaintext W rel_id plaintext =
     sbind (engine_decode_envelope W plaintext) (\<lambda>env.
     let t = Envelope_envelope_type env in
     sbind (sget (\<lambda>s. rel_of rel_id (e_db s))) (\<lambda>found.
     case found of
       None \<Rightarrow> sthrow UnknownRelationship
     | Some row \<Rightarrow>
         sbind (sget (\<lambda>s. check_inbound rel_id t (e_db s))) (\<lambda>allowed.
         if \<not> allowed then
           sbind (smodify (\<lambda>s. s\<lparr>e_gated_drops := e_gated_drops s + 1\<rparr>)) (\<lambda>_. sret [])
         else
           sbind (on_db (smodify (note_implied_cap rel_id t))) (\<lambda>_.
           sbind (sget (\<lambda>s. close_state rel_id (e_db s))) (\<lambda>closing.
           if closing \<noteq> None \<and> t \<noteq> T_ResyncReq then sret []
           else
             sbind (sget e_now) (\<lambda>now.
             sbind (slift (map_err EngineSync (clamp_sent_at (env_sent_at env) now))) (\<lambda>sent_at.
             sbind (sget (\<lambda>s. message (env_msg_id env) (e_db s) \<noteq> None \<or>
                              has_inbound_seq rel_id (env_app_seq env) (e_db s))) (\<lambda>seen.
             if seen then sret []
             else accept_envelope W rel_id row env now sent_at))))))))"

section \<open>Outbox drain\<close>

definition CLOSE_SETTLE_SECS :: u64 where "CLOSE_SETTLE_SECS = 60"

definition engine_backoff_secs :: "u32 \<Rightarrow> u64" where
  "engine_backoff_secs attempts = min (push_bit (unat (min attempts 6)) 5) 300"

text \<open>The rows of one pass, with the onions that failed in it and the number sent.\<close>

fun drain_each :: "'x world \<Rightarrow> outbox_row list \<Rightarrow> string list \<Rightarrow> u32 \<Rightarrow> ('x engine, u32) action" where
  "drain_each W [] failed n = sret n"
| "drain_each W (row # rows) failed n =
     sbind (sget e_now) (\<lambda>now.
     sbind (sget (\<lambda>s. rel_of (ob_rel_id row) (e_db s))) (\<lambda>found.
     case found of
       None \<Rightarrow> sbind (on_db (store_do (dequeue (ob_msg_id row)))) (\<lambda>_. drain_each W rows failed n)
     | Some rel \<Rightarrow>
         if rel_peer_onion rel \<in> set failed then
           sbind (on_db (smodify (note_attempt now (ob_msg_id row) (engine_backoff_secs (ob_attempts row))))) (\<lambda>_.
           drain_each W rows failed n)
         else
           sbind (on_ext (\<lambda>x. w_send_record W x (rel_peer_onion rel)
                    (if rel_intro_pending rel then Some (rel_our_qr_bytes rel) else None) (ob_record row) False)) (\<lambda>r.
           case r of
             Inr _ \<Rightarrow>
               sbind (on_db (store_do (dequeue (ob_msg_id row)))) (\<lambda>_.
               sbind (on_db (sync_try (mark_transmitted (ob_msg_id row)))) (\<lambda>_.
               drain_each W rows failed (n + 1)))
           | Inl _ \<Rightarrow>
               sbind (on_db (smodify (note_attempt now (ob_msg_id row) (engine_backoff_secs (ob_attempts row))))) (\<lambda>_.
               drain_each W rows (rel_peer_onion rel # failed) n))))"

definition fail_expired_rows :: "u64 \<Rightarrow> db \<Rightarrow> nat \<times> db" where
  "fail_expired_rows now db =
     (let (rows, db) = fail_expired now db
      in (length rows, fold (\<lambda>r db. snd (set_delivery (ob_msg_id r) Failed db)) rows db))"

definition drain_outbox :: "'x world \<Rightarrow> ('x engine, u32) action" where
  "drain_outbox W =
     sbind (sget (\<lambda>s. due (e_now s) DRAIN_BATCH (e_db s))) (\<lambda>rows.
     sbind (drain_each W rows [] 0) (\<lambda>n.
     sbind (sget e_now) (\<lambda>now.
     sbind (on_db (store_do (fail_expired_rows now))) (\<lambda>_.
     sret n))))"

section \<open>Sweeps\<close>

fun burn_settled :: "'x world \<Rightarrow> (string \<times> rel_row) list \<Rightarrow> ('x engine, engine_event list) action" where
  "burn_settled W [] = sret []"
| "burn_settled W ((rel_id, row) # rels) =
     sbind (sget (\<lambda>s.
       let started = setting_u64_or (rel_created_at row) (key_close_started_at rel_id) (e_db s);
           settled = \<not> any_row (\<lambda>r. ob_rel_id r = rel_id) (db_outbox (e_db s))
       in settled \<or> e_now s \<ge> started + CLOSE_SETTLE_SECS)) (\<lambda>over.
     sbind (if over then sbind (burn_relationship W rel_id) (\<lambda>_. sret [EvContactClosed rel_id]) else sret []) (\<lambda>ev.
     sbind (burn_settled W rels) (\<lambda>more. sret (ev @ more))))"

definition engine_sweep :: "'x world \<Rightarrow> ('x engine, engine_event list) action" where
  "engine_sweep W =
     sbind (sget e_now) (\<lambda>now.
     sbind (on_db (store_do (messages_sweep_expired now))) (\<lambda>_.
     sbind (sget (\<lambda>s. filter (\<lambda>(k, r). rel_close_state r \<noteq> None) (db_rels (e_db s)))) (\<lambda>closing.
     sbind (burn_settled W closing) (\<lambda>closed.
     sbind (\<lambda>s. let (gone, t) = presence_sweep now (e_presence s) in (Ok gone, s\<lparr>e_presence := t\<rparr>)) (\<lambda>away.
     sbind (\<lambda>s. let (gone, t) = typing_sweep now (e_typing s) in (Ok gone, s\<lparr>e_typing := t\<rparr>)) (\<lambda>idle.
     sbind (sget (\<lambda>s. list_relationships (e_db s))) (\<lambda>rels.
     sbind (on_db (smodify (fold (\<lambda>(k, r) db. snd (prune_tombstones now k db)) rels))) (\<lambda>_.
     sbind (smodify (\<lambda>s. s\<lparr>e_pending := pending_sweep now (e_pending s)\<rparr>)) (\<lambda>_.
     sbind (on_db (smodify (sweep_cache now))) (\<lambda>_.
     sret (closed @ map (\<lambda>r. EvPresence r False False) away @ map (\<lambda>r. EvTyping r False) idle)))))))))))"

definition fail_outbound :: "string \<Rightarrow> ('x engine, nat) action" where
  "fail_outbound rel_id = on_db (store_do (fail_relationship_outbound rel_id))"

record sweep_report =
  messages_erased :: nat
  attachments_erased :: nat
  outbox_failed :: nat
  orphan_chunks_erased :: nat

definition sync_sweep_expired :: "u64 \<Rightarrow> db \<Rightarrow> sweep_report \<times> db" where
  "sync_sweep_expired now db =
     (let (failed, db) = fail_expired_rows now db;
          (msgs, db) = messages_sweep_expired now db;
          (atts, db) = attachments_sweep_expired now db;
          (orphans, db) = sweep_orphans (now - of_int ORPHAN_TTL_SECS) db
      in (\<lparr>messages_erased = msgs, attachments_erased = atts, outbox_failed = failed,
           orphan_chunks_erased = orphans\<rparr>, db))"

end
