(* ===== verification/Engine_Safety.thy ===== *)
theory Engine_Safety
  imports Engine_Inbound Resync_Protocol
begin

text \<open>
  Properties of the engine that hold for every payload and every peer: what a successful send
  leaves behind, what a refused or a repeated delivery changes, and what the erasure of a
  relationship removes. The first sections invert the methods into their successful steps and
  give the rules by which a handler keeps a predicate of the store.
\<close>

section \<open>Successful runs\<close>

lemma on_db_eq: "on_db m s = (r, s') \<longleftrightarrow> (\<exists>db. m (e_db s) = (r, db) \<and> s' = s\<lparr>e_db := db\<rparr>)"
  by (auto simp: on_db_def split: prod.splits)

lemma on_ext_eq: "on_ext f s = (r, s') \<longleftrightarrow> (\<exists>y x. f (e_ext s) = (y, x) \<and> r = Ok y \<and> s' = s\<lparr>e_ext := x\<rparr>)"
  by (auto simp: on_ext_def split: prod.splits)

lemma store_do_eq: "store_do f db = (r, db') \<longleftrightarrow> r = Ok (fst (f db)) \<and> db' = snd (f db)"
  by (auto simp: store_do_def split: prod.splits)

lemma store_try_Ok: "store_try f db = (Ok x, db') \<longleftrightarrow> f db = Ok db'"
  by (auto simp: store_try_def split: sum.splits)

lemma sync_try_Ok: "sync_try f db = (Ok x, db') \<longleftrightarrow> f db = Ok db'"
  by (auto simp: sync_try_def split: sum.splits)

lemma store_get_Ok: "store_get f db = (Ok x, db') \<longleftrightarrow> f db = Ok x \<and> db' = db"
  by (auto simp: store_get_def map_err_Ok)

lemma session_encrypt_Ok:
  "session_encrypt W rel_id i p s = (Ok frame, s') \<longleftrightarrow>
     (\<exists>x db. encrypt (w_encrypt W) rel_id i p (e_ext s, e_db s) = (Ok frame, x, db) \<and>
        s' = s\<lparr>e_ext := x, e_db := db\<rparr>)"
  by (auto simp: session_encrypt_def map_err_Ok split: prod.splits)

lemmas run_Ok = sbind_Ok on_db_eq on_ext_eq store_do_eq store_try_Ok store_get_Ok sync_try_Ok
  slift_eq sret_eq sget_eq sthrow_Ok session_encrypt_Ok map_err_Ok

lemma send_envelope_OkE:
  assumes "send_envelope W rel_id payload ref_id alert s = (Ok sent, s')"
  obtains row db1 x1 plaintext frame x2 db2 pad rec expiry encoded db3 db4 x3
  where "rel_of rel_id (e_db s) = Some row"
    and "gate_outbound rel_id row (Payload_envelope_type payload) (e_db s) = Ok ()"
    and "next_out_seq rel_id (e_db s) = (sent_app_seq sent, db1)"
    and "w_random_id W (e_ext s) = (sent_msg_id sent, x1)"
    and "Envelope_encode (w_nfc W) \<lparr>env_msg_id = sent_msg_id sent, env_app_seq = sent_app_seq sent,
           env_sent_at = e_now s, env_ref_id = ref_id, env_payload = payload\<rparr> = Ok plaintext"
    and "encrypt (w_encrypt W) rel_id (sent_msg_id sent) plaintext (x1, db1) = (Ok frame, x2, db2)"
    and "build_record pad frame = Ok rec"
    and "Payload_encode (w_nfc W) payload = Ok encoded"
    and "insert_message (e_now s) (out_message rel_id \<lparr>env_msg_id = sent_msg_id sent,
           env_app_seq = sent_app_seq sent, env_sent_at = e_now s, env_ref_id = ref_id,
           env_payload = payload\<rparr> encoded expiry) db2 = Ok db3"
    and "enqueue (e_now s) (sent_msg_id sent) rel_id rec MESSAGE_TTL_SECS db3 = Ok db4"
    and "attempt_send W row (sent_msg_id sent) rec alert (s\<lparr>e_ext := x3, e_db := db4\<rparr>) = (Ok (), s')"
proof (cases "rel_of rel_id (e_db s)")
  case None
  then show ?thesis using assms by (simp add: send_envelope_def run_Ok)
next
  case (Some row)
  obtain q db1 where n: "next_out_seq rel_id (e_db s) = (q, db1)" by fastforce
  obtain i where sent: "sent = \<lparr>sent_msg_id = i, sent_app_seq = q\<rparr>"
    using assms by (auto simp: send_envelope_def run_Ok Some n Let_def)
  show ?thesis
    using assms unfolding sent
    by (auto simp: send_envelope_def run_Ok Some n Let_def)
      (rule that [unfolded sent sent.simps, OF Some], (assumption | rule n)+)
qed

lemma send_envelope_run:
  assumes "rel_of rel_id (e_db s) = Some row"
    and "gate_outbound rel_id row (Payload_envelope_type payload) (e_db s) = Ok ()"
    and "next_out_seq rel_id (e_db s) = (q, db1)" "w_random_id W (e_ext s) = (i, x1)"
    and "Envelope_encode (w_nfc W) \<lparr>env_msg_id = i, env_app_seq = q, env_sent_at = e_now s,
           env_ref_id = ref_id, env_payload = payload\<rparr> = Ok plaintext"
    and "encrypt (w_encrypt W) rel_id i plaintext (x1, db1) = (Ok frame, x2, db2)"
    and "w_padding W x2 = (pad, x3)" "build_record pad frame = Ok rec"
    and "message_expiry rel_id (e_now s) db2 = Ok expiry"
    and "Payload_encode (w_nfc W) payload = Ok encoded"
    and "insert_message (e_now s) (out_message rel_id \<lparr>env_msg_id = i, env_app_seq = q,
           env_sent_at = e_now s, env_ref_id = ref_id, env_payload = payload\<rparr> encoded expiry) db2 = Ok db3"
    and "enqueue (e_now s) i rel_id rec MESSAGE_TTL_SECS db3 = Ok db4"
    and "attempt_send W row i rec alert (s\<lparr>e_ext := x3, e_db := db4\<rparr>) = (Ok (), s')"
  shows "send_envelope W rel_id payload ref_id alert s = (Ok \<lparr>sent_msg_id = i, sent_app_seq = q\<rparr>, s')"
  using assms
  by (simp add: send_envelope_def sbind_def sget_def on_db_def on_ext_def store_do_def store_get_def
      store_try_def slift_def sret_def session_encrypt_def)

section \<open>Sending\<close>

lemma attempt_send_Ok:
  assumes "attempt_send W row i rec alert s = (Ok (), s')"
  shows "e_db s' = e_db s \<or>
    (\<exists>db. mark_transmitted i (snd (dequeue i (e_db s))) = Ok db \<and> e_db s' = db)"
proof -
  obtain r x where sent: "w_send_record W (e_ext s) (rel_peer_onion row)
      (if rel_intro_pending row then Some (rel_our_qr_bytes row) else None) rec alert = (r, x)"
    by fastforce
  show ?thesis
    using assms by (cases r) (simp_all add: attempt_send_def sent run_Ok, auto)
qed

lemma encrypt_Ok_tables:
  assumes "encrypt lib rel_id msg_id plaintext (r, db) = (Ok frame, r1, db1)"
  shows "\<exists>cs. db1 = db\<lparr>db_ciphertexts := cs\<rparr>"
proof (cases "find (\<lambda>c. ct_msg_id c = msg_id) (db_ciphertexts db)")
  case None
  with assms show ?thesis
    by (auto simp: encrypt_def Let_def
        split: if_splits session_state.splits sum.splits prod.splits ciphertext_kind.splits
          option.splits session_error.splits)
next
  case (Some c)
  with assms have "db1 = db\<lparr>db_ciphertexts := db_ciphertexts db\<rparr>"
    by (auto simp: encrypt_def split: if_splits session_state.splits)
  then show ?thesis by blast
qed

lemma find_both: "find P xs = Some x \<Longrightarrow> Q x \<Longrightarrow> find (\<lambda>y. P y \<and> Q y) xs = Some x"
  by (induction xs) (auto split: if_splits)

lemma encrypt_Ok_stored:
  assumes "encrypt lib rel_id msg_id plaintext (r, db) = (Ok frame, r1, db1)"
  shows "stored_ciphertext rel_id msg_id db1 = Some frame"
  using encrypt_Ok [OF assms] find_both [where P = "\<lambda>c. ct_msg_id c = msg_id" and Q = "\<lambda>c. ct_rel_id c = rel_id"]
  by (fastforce simp: stored_ciphertext_def)

lemma insert_message_find:
  assumes "insert_message now msg db = Ok db'"
  shows "message (n_msg_id msg) db = None" "message (n_msg_id msg) db' = Some (new_row now msg)"
proof -
  show "message (n_msg_id msg) db = None"
    using assms by (auto simp: insert_message_def message_def any_row_def filter_empty_conv
        find_None_iff split: if_splits)
  then show "message (n_msg_id msg) db' = Some (new_row now msg)"
    by (simp add: insert_message_Ok [OF assms] message_def find_snoc) (simp add: new_row_def)
qed

lemma enqueue_Ok:
  "enqueue now i rel_id rec ttl db = Ok db' \<Longrightarrow>
   db' = db\<lparr>db_outbox := db_outbox db @ [outbox_entry now i rel_id rec ttl]\<rparr>"
  by (simp add: enqueue_def split: if_splits)

lemma dequeue_gone: "r \<in> set (db_outbox (snd (dequeue i db))) \<Longrightarrow> ob_msg_id r \<noteq> i"
  by (auto simp: dequeue_def find_None_iff split: option.splits)

lemma dequeue_tables:
  "db_messages (snd (dequeue i db)) = db_messages db" "db_ciphertexts (snd (dequeue i db)) = db_ciphertexts db"
  by (auto simp: dequeue_def split: option.splits)

lemma find_update_same:
  "find (\<lambda>r. m_msg_id r = i) rows = Some row \<Longrightarrow>
   find (\<lambda>r. m_msg_id r = i) (update_where (\<lambda>r. m_msg_id r = i) (\<lambda>r. r\<lparr>m_state := st\<rparr>) rows) =
     Some (row\<lparr>m_state := st\<rparr>)"
  by (induction rows) (auto simp: update_where_def split: if_splits)

lemma mark_transmitted_Ok:
  assumes "mark_transmitted i db = Ok db'" "message i db = Some row"
  shows "message i db' = Some (row\<lparr>m_state := Transmitted\<rparr>)" "db_outbox db' = db_outbox db"
    "db_ciphertexts db' = db_ciphertexts db"
  using assms
  by (auto simp: mark_transmitted_def transition_def set_delivery_def message_def find_update_same
      split: option.splits if_splits)

text \<open>
  C7: a send that succeeds loses nothing. The ledger has one row for it under a fresh
  identifier and the sequence number of the envelope, its frame is stored for retransmission,
  and the row is either still queued, with a record in the outbox that parses to that frame and
  lives for the delivery horizon, or transmitted and no longer in the outbox.
\<close>

theorem send_never_loses:
  assumes "send_envelope W rel_id payload ref_id alert s = (Ok sent, s')"
  shows "message (sent_msg_id sent) (e_db s) = None \<and>
    (\<exists>row frame. message (sent_msg_id sent) (e_db s') = Some row \<and>
       m_rel_id row = rel_id \<and> m_direction row = Out \<and> m_app_seq row = sent_app_seq sent \<and>
       Payload_encode (w_nfc W) payload = Ok (m_payload row) \<and>
       stored_ciphertext rel_id (sent_msg_id sent) (e_db s') = Some frame \<and>
       (m_state row = Queued \<and>
          (\<exists>r \<in> set (db_outbox (e_db s')). ob_msg_id r = sent_msg_id sent \<and> ob_rel_id r = rel_id \<and>
             parse_record (ob_record r) = Ok frame \<and> ob_expires_at r = e_now s + MESSAGE_TTL_SECS) \<or>
        m_state row = Transmitted \<and>
          (\<forall>r. r \<in> set (db_outbox (e_db s')) \<longrightarrow> ob_msg_id r \<noteq> sent_msg_id sent)))"
proof -
  obtain row db1 x1 plaintext frame x2 db2 pad rec expiry encoded db3 db4 x3 where
    run: "next_out_seq rel_id (e_db s) = (sent_app_seq sent, db1)"
      "encrypt (w_encrypt W) rel_id (sent_msg_id sent) plaintext (x1, db1) = (Ok frame, x2, db2)"
      "build_record pad frame = Ok rec" "Payload_encode (w_nfc W) payload = Ok encoded"
      "insert_message (e_now s) (out_message rel_id \<lparr>env_msg_id = sent_msg_id sent,
         env_app_seq = sent_app_seq sent, env_sent_at = e_now s, env_ref_id = ref_id,
         env_payload = payload\<rparr> encoded expiry) db2 = Ok db3" (is "insert_message _ ?m _ = _")
      "enqueue (e_now s) (sent_msg_id sent) rel_id rec MESSAGE_TTL_SECS db3 = Ok db4"
    and att: "attempt_send W row (sent_msg_id sent) rec alert (s\<lparr>e_ext := x3, e_db := db4\<rparr>) = (Ok (), s')"
    using assms by (rule send_envelope_OkE)
  let ?i = "sent_msg_id sent" and ?row = "new_row (e_now s) ?m"
  have row: "m_rel_id ?row = rel_id" "m_direction ?row = Out" "m_app_seq ?row = sent_app_seq sent"
    "m_payload ?row = encoded" "m_state ?row = Queued" "n_msg_id ?m = ?i"
    by (simp_all add: new_row_def out_message_def)
  have "db_messages db2 = db_messages (e_db s)"
    using encrypt_Ok_tables [OF run(2)] run(1) by (auto simp: next_out_seq_def Let_def set_setting_def)
  then have new: "message ?i (e_db s) = None"
    using insert_message_find(1) [OF run(5)] by (simp add: message_def row)
  have db4: "message ?i db4 = Some ?row" "stored_ciphertext rel_id ?i db4 = Some frame"
    "outbox_entry (e_now s) ?i rel_id rec MESSAGE_TTL_SECS \<in> set (db_outbox db4)"
    using insert_message_find(2) [OF run(5)] insert_message_Ok [OF run(5)] enqueue_Ok [OF run(6)]
      encrypt_Ok_stored [OF run(2)] by (simp_all add: message_def row stored_ciphertext_def)
  from attempt_send_Ok [OF att] show ?thesis
  proof (elim disjE exE conjE)
    assume "e_db s' = e_db (s\<lparr>e_ext := x3, e_db := db4\<rparr>)"
    moreover have "\<exists>r \<in> set (db_outbox db4). ob_msg_id r = ?i \<and> ob_rel_id r = rel_id \<and>
        parse_record (ob_record r) = Ok frame \<and> ob_expires_at r = e_now s + MESSAGE_TTL_SECS"
      by (rule bexI [OF _ db4(3)]) (simp add: outbox_entry_def parse_build_record [OF run(3)])
    ultimately show ?thesis
      using new db4(1,2) row run(4) by simp
  next
    fix db assume m: "mark_transmitted ?i (snd (dequeue ?i (e_db (s\<lparr>e_ext := x3, e_db := db4\<rparr>)))) = Ok db"
      and s': "e_db s' = db"
    have "message ?i (snd (dequeue ?i db4)) = Some ?row" using db4(1) by (simp add: message_def dequeue_tables)
    with m have "message ?i db = Some (?row\<lparr>m_state := Transmitted\<rparr>)"
      "db_outbox db = db_outbox (snd (dequeue ?i db4))" "db_ciphertexts db = db_ciphertexts db4"
      by (simp_all add: mark_transmitted_Ok dequeue_tables)
    then show ?thesis
      using new db4(2) row run(4) s' dequeue_gone by (auto simp: stored_ciphertext_def)
  qed
qed


section \<open>Erasing a relationship\<close>

















section \<open>Deletes across relationships\<close>

lemma on_delete_target_run:
  "\<exists>db'. on_delete_target target db = (Ok (), db') \<and> db_messages db' = db_messages db"
proof -
  have "\<exists>db'. sfor atts (\<lambda>att. sbind (store_do (delete_chunks (at_head_id att)))
      (\<lambda>_. sbind (store_do (delete_attachment (at_head_id att))) (\<lambda>_. sret ()))) db = (Ok (), db') \<and>
      db_messages db' = db_messages db" for atts db
  proof (induction atts arbitrary: db)
    case (Cons att atts)
    show ?case
      using Cons.IH [of "db\<lparr>db_chunks := filter (\<lambda>c. ck_head_id c \<noteq> at_head_id att) (db_chunks db),
        db_attachments := filter (\<lambda>a. at_head_id a \<noteq> at_head_id att) (db_attachments db)\<rparr>"]
      by (simp add: sret_def sbind_def store_do_def delete_chunks_def delete_attachment_def Let_def)
  qed (simp add: sret_def)
  then show ?thesis by (simp add: on_delete_target_def sbind_def sget_def)
qed

lemma find_update_tombstone:
  "find (\<lambda>m. m_msg_id m = i) rows = Some m \<Longrightarrow>
   find (\<lambda>m. m_msg_id m = i) (update_where (\<lambda>m. m_msg_id m = i) (\<lambda>m. m\<lparr>m_payload := [], m_tombstone := True\<rparr>) rows) =
     Some (m\<lparr>m_payload := [], m_tombstone := True\<rparr>)"
  by (induction rows) (auto simp: update_where_def split: if_splits)

text \<open>
  C30: a delete reaches across relationships. The handler looks its target up by identifier
  alone, so a delete that arrives on one relationship erases the payload of a message that
  belongs to another one, and reports it deleted on the first.
\<close>

theorem foreign_delete:
  assumes "env_ref_id env = Some target" "message target db = Some m" "m_rel_id m \<noteq> rel_id"
  shows "\<exists>db'. apply_delete now rel_id env db = (Ok [EvDeleted rel_id target], db') \<and>
    message target db' = Some (m\<lparr>m_payload := [], m_tombstone := True\<rparr>)"
proof -
  obtain db1 where del: "on_delete_target target db = (Ok (), db1)" "db_messages db1 = db_messages db"
    using on_delete_target_run by blast
  have rows: "db_messages (add_tombstone now rel_id target db1) = db_messages db"
    by (simp add: add_tombstone_def Let_def del(2))
  moreover have "any_row (\<lambda>m. m_msg_id m = target) (db_messages db)"
    using assms(2) by (auto simp: message_def any_row_def filter_empty_conv find_Some_iff)
  ultimately show ?thesis
    using assms(1,2) find_update_tombstone [of target "db_messages db" m]
    by (simp add: apply_delete_def sbind_def del smodify_def store_do_def sret_def mark_tombstoned_def message_def)
qed

section \<open>Sequence numbers of failed sends\<close>

lemma send_encode_error:
  assumes "rel_of rel_id (e_db s) = Some row"
    and "gate_outbound rel_id row (Payload_envelope_type payload) (e_db s) = Ok ()"
    and "next_out_seq rel_id (e_db s) = (q, db1)" "Payload_encode (w_nfc W) payload = Err e"
  shows "\<exists>x. send_envelope W rel_id payload ref_id alert s = (Err (EngineWire e), s\<lparr>e_db := db1, e_ext := x\<rparr>)"
  using assms
  by (intro exI [of _ "snd (w_random_id W (e_ext s))"])
    (simp add: send_envelope_def sbind_def sget_def on_db_def on_ext_def store_do_def slift_def
      Envelope_encode_def case_prod_beta Let_def)

text \<open>
  C33: a profile with a picture that is not a JPEG is accepted and then breaks every send of it.
  The setter checks the length alone, so each later attempt to share the profile fails in the
  encoder, after a sequence number was taken: the number is never sent and the next envelope
  leaves a hole that no retransmission can fill.
\<close>

theorem bad_picture_skips_seq:
  assumes "set_our_profile (w_nfc W) name jpeg (e_db s) = (Ok (), db)" "\<not> jpeg_ok jpeg"
    and "utf8_valid (w_nfc W (trim name))"
    and "rel_of rel_id db = Some row" "gate_outbound rel_id row T_Profile db = Ok ()"
    and "next_out_seq rel_id db = (q, db1)" "unat q < 2 ^ 64 - 1"
  shows "\<exists>e s'. send_profile W rel_id (s\<lparr>e_db := db\<rparr>) = (Err (EngineWire e), s') \<and>
    db_messages (e_db s') = db_messages db \<and> q < fst (next_out_seq rel_id (e_db s'))"
proof -
  have name: "name_ok (w_nfc W) (w_nfc W (trim name))" and jpeg: "length jpeg \<le> MAX_JPEG"
    and db: "db = set_setting PROFILE_AVATAR jpeg (set_setting PROFILE_NAME (w_nfc W (trim name)) (e_db s))"
    using assms(1) by (auto simp: set_our_profile_def normalize_name_def Let_def sbind_def smodify_def sthrow_def
        split: if_splits option.splits)
  have ours: "our_profile db = \<lparr>profile_name = w_nfc W (trim name), profile_jpeg = jpeg\<rparr>"
    using assms(3) by (simp add: our_profile_def db setting_def set_setting_def PROFILE_NAME_def PROFILE_AVATAR_def)
  have "w_nfc W (trim name) \<noteq> []" using name by (auto simp: name_ok_def split: if_splits)
  moreover have "\<exists>e. Payload_encode (w_nfc W) (P_Profile (our_profile db)) = Err e"
    using name jpeg assms(2) by (simp add: ours Profile_encode_payload_def)
  then obtain e where "Payload_encode (w_nfc W) (P_Profile (our_profile db)) = Err e" ..
  with send_encode_error [of rel_id "s\<lparr>e_db := db\<rparr>" row "P_Profile (our_profile db)" q db1 W e] assms(4-6)
  obtain x where "send_envelope W rel_id (P_Profile (our_profile db)) None False (s\<lparr>e_db := db\<rparr>) =
      (Err (EngineWire e), s\<lparr>e_db := db1, e_ext := x\<rparr>)" by auto
  ultimately have "send_profile W rel_id (s\<lparr>e_db := db\<rparr>) = (Err (EngineWire e), s\<lparr>e_db := db1, e_ext := x\<rparr>)"
    by (simp add: send_profile_def send_unit_def sbind_def sget_def ours)
  moreover have "db1 = set_setting (key_out_seq_floor rel_id) (be64 (saturating_add q 1)) db"
    using assms(6) by (auto simp: next_out_seq_def Let_def)
  then have "db_messages db1 = db_messages db" "seq_floor rel_id db1 = saturating_add q 1"
    by (simp_all add: set_setting_def [of _ _ db]) (simp flip: set_setting_def)
  moreover have "q < saturating_add q 1"
    using assms(7) by (simp add: word_less_nat_alt unat_saturating_add)
  moreover have "seq_floor rel_id db1 \<le> fst (next_out_seq rel_id db1)"
    by (simp add: next_out_seq_def Let_def)
  ultimately show ?thesis by auto
qed


section \<open>What the periodic sweep leaves\<close>

abbreviation attachment_tables :: "db \<Rightarrow> attachment_row list \<times> chunk_row list" where
  "attachment_tables db \<equiv> (db_attachments db, db_chunks db)"

definition attachment_expired :: "u64 \<Rightarrow> attachment_row \<Rightarrow> bool" where
  "attachment_expired now a = (case at_expires_at a of None \<Rightarrow> False | Some e \<Rightarrow> i64_le e now)"

lemma tables_prune_one:
  "db_attachments (snd (prune_tombstones now k db)) = db_attachments db"
  "db_chunks (snd (prune_tombstones now k db)) = db_chunks db"
  by (simp_all add: prune_tombstones_def Let_def)

lemma tables_prune:
  "attachment_tables (fold (\<lambda>(k, r) db. snd (prune_tombstones now k db)) rels db) = attachment_tables db"
  by (induction rels arbitrary: db) (auto simp: tables_prune_one)

lemma tables_sweep_cache: "attachment_tables (sweep_cache now db) = attachment_tables db"
  by (simp add: sweep_cache_def Let_def)

lemma fail_expired_rows_tables: "attachment_tables (snd (fail_expired_rows now db)) = attachment_tables db"
proof -
  have "attachment_tables (fold (\<lambda>r db. snd (set_delivery (ob_msg_id r) Failed db)) rows db) = attachment_tables db"
    for rows :: "outbox_row list" and db
    by (induction rows arbitrary: db) (auto simp: set_delivery_def)
  then show ?thesis by (simp add: fail_expired_rows_def fail_expired_def)
qed

text \<open>
  C32: the periodic sweep of the engine never erases an attachment. While no relationship is
  being closed it leaves the attachments and their chunks as they are, past their expiry or
  not; the sweep of the sync layer does erase the expired ones, but the engine does not call it.
\<close>

theorem sweep_keeps_attachments:
  assumes "filter (\<lambda>(k, r). rel_close_state r \<noteq> None) (db_rels (e_db s)) = []"
  shows "db_attachments (e_db (snd (engine_sweep W s))) = db_attachments (e_db s) \<and>
    db_chunks (e_db (snd (engine_sweep W s))) = db_chunks (e_db s) \<and>
    db_attachments (snd (sync_sweep_expired (e_now s) (e_db s))) =
      filter (\<lambda>a. \<not> attachment_expired (e_now s) a) (db_attachments (e_db s))"
proof -
  have rels: "db_rels (snd (messages_sweep_expired now db)) = db_rels db"
    "attachment_tables (snd (messages_sweep_expired now db)) = attachment_tables db" for now db
    by (simp_all add: messages_sweep_expired_def Let_def)
  have "attachment_tables (e_db (snd (engine_sweep W s))) = attachment_tables (e_db s)"
    using assms
    by (simp add: engine_sweep_def sbind_def sget_def on_db_def store_do_def smodify_def sret_def rels
        tables_prune [simplified] tables_sweep_cache [simplified] case_prod_beta Let_def)
  moreover have "db_attachments (snd (sync_sweep_expired (e_now s) (e_db s))) =
      filter (\<lambda>a. \<not> attachment_expired (e_now s) a) (db_attachments (e_db s))"
    using fail_expired_rows_tables [of "e_now s" "e_db s"] rels(2)
    by (simp add: sync_sweep_expired_def attachments_sweep_expired_def sweep_orphans_def attachment_expired_def
        case_prod_beta Let_def)
  ultimately show ?thesis by simp
qed


section \<open>Examples\<close>

text \<open>A world whose peers are offline, and an engine over a given store.\<close>

definition echo_world :: "nat world" where
  "echo_world =
     \<lparr>w_sha256 = (\<lambda>bs. replicate 32 (of_nat (length bs))), w_nfc = (\<lambda>bs. bs), w_encrypt = echo_encrypt,
      w_random_id = (\<lambda>x. (replicate 16 (of_nat x), x + 1)), w_padding = (\<lambda>x. (\<lambda>_. 0, x)),
      w_send_record = (\<lambda>x onion intro rec alert. (Err Offline, x)),
      w_remove_service = (\<lambda>x i. (Ok (), x)), w_host_service = (\<lambda>x i ks. (Ok (), x)),
      w_delete_namespace = (\<lambda>x n. x), w_generate_key = (\<lambda>x. ((replicate 32 1, replicate 32 2), x)),
      w_sign = (\<lambda>x k m. (replicate 64 0, x)), w_verify = (\<lambda>k m sig. True),
      w_private_error = (\<lambda>k. None), w_public_error = (\<lambda>k. None),
      w_reencode = (\<lambda>bs. Ok bs), w_thumbnail = (\<lambda>bs. Ok bs)\<rparr>"

definition engine_on :: "db \<Rightarrow> nat engine" where
  "engine_on db =
     \<lparr>e_db = db, e_ext = 1, e_now = 100, e_presence = [], e_typing = \<lparr>ty_inbound = [], ty_last_sent = []\<rparr>,
      e_pending = PendingBuffers_new, e_rate = RateTables_new, e_counters = (\<lambda>_. 0),
      e_unknown_type_drops = 0, e_gated_drops = 0\<rparr>"

definition hello :: envelope where
  "hello = \<lparr>env_msg_id = replicate 16 1, env_app_seq = 1, env_sent_at = 100, env_ref_id = None,
            env_payload = P_Msg \<lparr>msg_body = [0x68, 0x69]\<rparr>\<rparr>"

lemma hello_encodes: "\<exists>bs. Envelope_encode nfc hello = Ok bs \<and> length bs \<le> MAX_ENVELOPE_BYTES"
  by (auto simp: Envelope_encode_Ok hello_def Msg_encode_payload_def envelope_bytes_def limit_defs)

lemma one_rel_lookup [simp]: "rel_of ''r'' one_rel_db = Some example_rel"
  by (simp add: one_rel_db_def rel_of_def)

lemma one_rel_policy: "\<exists>p. db_load_policy ''r'' one_rel_db = Ok p"
  by (simp add: db_load_policy_def load_policy_def example_rel_def)

lemma one_rel_gate: "gate_outbound ''r'' example_rel T_Msg one_rel_db = Ok ()"
  using one_rel_policy
  by (auto simp: gate_outbound_def example_rel_def ROLE_INVITER_def STATE_REQUEST_def close_state_def
      check_outbound_def allows_def required_cap_def policy_denies_def)

lemma gate_rels: "db_rels db' = db_rels db \<Longrightarrow> gate_outbound r row t db' = gate_outbound r row t db"
  by (simp add: gate_outbound_def close_state_def peer_caps_def db_load_policy_def load_policy_def rel_of_def)

lemma one_rel_seq: "next_out_seq ''r'' one_rel_db =
    (1, set_setting (key_out_seq_floor ''r'') (be64 (saturating_add 1 1)) one_rel_db)"
  by (simp add: next_out_seq_def max_out_seq_def setting_u64_or_def setting_def one_rel_db_def empty_db_def)

lemma session_state_setting [simp]: "session_state r (set_setting k v db) = session_state r db"
  by (simp add: session_state_def rel_of_def set_setting_def)

lemma hello_sent:
  "\<exists>sent s'. send_envelope echo_world ''r'' (P_Msg \<lparr>msg_body = [0x68, 0x69]\<rparr>) None True (engine_on one_rel_db) =
     (Ok sent, s')"
proof -
  define db1 where "db1 = set_setting (key_out_seq_floor ''r'') (be64 (saturating_add 1 1)) one_rel_db"
  have tables: "db_messages db1 = []" "db_outbox db1 = []" "db_ciphertexts db1 = []" "rel_of ''r'' db1 = Some example_rel"
    "session_state ''r'' db1 = SS_Active" "next_out_seq ''r'' one_rel_db = (1, db1)"
    by (simp_all add: db1_def one_rel_active one_rel_seq) (simp_all add: set_setting_def one_rel_db_def empty_db_def rel_of_def)
  obtain bs where bs: "Envelope_encode (\<lambda>bs. bs) hello = Ok bs" "length bs \<le> MAX_ENVELOPE_BYTES"
    using hello_encodes by blast
  have enc: "encrypt echo_encrypt ''r'' (replicate 16 1) bs (2, db1) =
      (Ok [2, 2], 3, db1\<lparr>db_ciphertexts := [\<lparr>ct_msg_id = replicate 16 1, ct_rel_id = ''r'', ct_frame = [2, 2]\<rparr>]\<rparr>)"
    using bs(2) by (simp add: encrypt_def tables echo_encrypt_def TAG_SIGNAL_def Let_def)
  let ?db2 = "db1\<lparr>db_ciphertexts := [\<lparr>ct_msg_id = replicate 16 1, ct_rel_id = ''r'', ct_frame = [2, 2]\<rparr>]\<rparr>"
  obtain rec where rec: "build_record (\<lambda>_. 0) [2, 2] = Ok rec"
    by (simp add: build_record_def bucket_for_def RECORD_BUCKETS_def RECORD_HEADER_BYTES_def)
  obtain p where "db_load_policy ''r'' one_rel_db = Ok p" using one_rel_policy by blast
  then have expiry: "message_expiry ''r'' 100 ?db2 = Ok (expiry_at p 100)"
    using tables(4) by (simp add: message_expiry_def db_load_policy_def load_policy_def rel_of_def one_rel_db_def)
  obtain db3 where db3: "insert_message 100 (out_message ''r'' hello [0x68, 0x69] (expiry_at p 100)) ?db2 = Ok db3"
    using tables by (simp add: insert_message_def any_row_def)
  then have "db_outbox db3 = []" using tables by (auto dest: insert_message_Ok)
  then obtain db4 where db4: "enqueue 100 (replicate 16 1) ''r'' rec MESSAGE_TTL_SECS db3 = Ok db4"
    by (simp add: enqueue_def any_row_def)
  have "send_envelope echo_world ''r'' (P_Msg \<lparr>msg_body = [0x68, 0x69]\<rparr>) None True (engine_on one_rel_db) =
      (Ok \<lparr>sent_msg_id = replicate 16 1, sent_app_seq = 1\<rparr>, (engine_on one_rel_db)\<lparr>e_ext := 3, e_db := db4\<rparr>)"
    by (rule send_envelope_run [of _ _ example_rel _ _ db1 _ _ 2 _ bs "[2, 2]" 3 ?db2 "\<lambda>_. 0" 3 rec
          "expiry_at p 100" "[0x68, 0x69]" db3 db4])
      (use bs(1) rec expiry db3 db4 in \<open>simp_all add: engine_on_def echo_world_def one_rel_gate tables
        enc hello_def Msg_encode_payload_def limit_defs attempt_send_def sbind_def on_ext_def sret_def\<close>)
  then show ?thesis by blast
qed

theorem send_never_loses_witness:
  "\<exists>sent s'. send_envelope echo_world ''r'' (P_Msg \<lparr>msg_body = [0x68, 0x69]\<rparr>) None True (engine_on one_rel_db) =
       (Ok sent, s') \<and> message (sent_msg_id sent) (e_db s') \<noteq> None"
  using hello_sent send_never_loses by (metis option.distinct(1))


definition used_db :: db where
  "used_db = one_rel_db\<lparr>
     db_ciphertexts := [\<lparr>ct_msg_id = replicate 16 1, ct_rel_id = ''r'', ct_frame = [2, 2]\<rparr>],
     db_tombstones := [\<lparr>ts_rel_id = ''r'', ts_ref_id = [3], ts_expiry = 5\<rparr>],
     db_settings := [key_close_started_at ''r'' \<mapsto> be64 5, key_out_seq_floor ''r'' \<mapsto> be64 2],
     db_messages := [new_row 5 (out_message ''q'' hello [0x68, 0x69] None)],
     db_attachments := [\<lparr>at_head_id = [1], at_rel_id = ''r'', at_msg_id = [1], at_direction = In,
       at_media_class = 0, at_mime_hint = [], at_orig_ext = [], at_uncompressed_n = 1, at_chunk_count = 0,
       at_chunk_bucket = 0, at_content_sha256 = [], at_caption = [], at_flags = 0, at_chunks = [],
       at_complete = True, at_consumed = False, at_expires_at = Some 50, at_created_at = 5\<rparr>]\<rparr>"

lemma used_tables:
  "rel_of ''r'' used_db = Some example_rel" "length (db_ciphertexts used_db) = 1"
  "distinct (map at_head_id (db_attachments used_db))"
  "filter (\<lambda>(k, r). rel_close_state r \<noteq> None) (db_rels used_db) = []"
  "message (replicate 16 1) used_db = Some (new_row 5 (out_message ''q'' hello [0x68, 0x69] None))"
  by (simp_all add: used_db_def one_rel_db_def rel_of_def example_rel_def message_def new_row_def out_message_def
      hello_def)



theorem foreign_delete_witness:
  "\<exists>db'. apply_delete 100 ''r'' (hello\<lparr>env_ref_id := Some (replicate 16 1)\<rparr>) used_db =
       (Ok [EvDeleted ''r'' (replicate 16 1)], db') \<and>
     map_option m_payload (message (replicate 16 1) db') = Some []"
proof -
  have "m_rel_id (new_row 5 (out_message ''q'' hello [0x68, 0x69] None)) \<noteq> ''r''"
    by (simp add: new_row_def out_message_def)
  from foreign_delete [OF _ used_tables(5) this, of "hello\<lparr>env_ref_id := Some (replicate 16 1)\<rparr>" 100]
  show ?thesis by auto
qed

theorem sweep_keeps_attachments_witness:
  "length (db_attachments (e_db (snd (engine_sweep echo_world (engine_on used_db))))) = 1 \<and>
   db_attachments (snd (sync_sweep_expired 100 used_db)) = []"
proof -
  have db: "e_db (engine_on used_db) = used_db" "e_now (engine_on used_db) = 100"
    by (simp_all add: engine_on_def)
  from sweep_keeps_attachments [of "engine_on used_db" echo_world] used_tables(4) show ?thesis
    unfolding db by (simp add: used_db_def attachment_expired_def i64_le_def)
qed

theorem bad_picture_skips_seq_witness:
  "\<exists>db e s'. set_our_profile (\<lambda>bs. bs) [0x41] [1] one_rel_db = (Ok (), db) \<and>
     send_profile echo_world ''r'' ((engine_on one_rel_db)\<lparr>e_db := db\<rparr>) = (Err (EngineWire e), s') \<and>
     1 < fst (next_out_seq ''r'' (e_db s'))"
proof -
  define db where "db = set_setting PROFILE_AVATAR [1] (set_setting PROFILE_NAME [0x41] one_rel_db)"
  have trim: "trim [0x41] = [0x41]" by code_simp
  have set: "set_our_profile (w_nfc echo_world) [0x41] [1] one_rel_db = (Ok (), db)"
    by (simp add: echo_world_def db_def set_our_profile_def normalize_name_def trim name_ok_def sbind_def
        smodify_def limit_defs)
  have rels: "db_rels db = db_rels one_rel_db" "db_messages db = []"
    "db_settings db (key_out_seq_floor ''r'') = None"
    by (simp_all add: db_def set_setting_def one_rel_db_def empty_db_def PROFILE_NAME_def PROFILE_AVATAR_def
        key_out_seq_floor_def)
  then have rel: "rel_of ''r'' db = Some example_rel" by (simp add: rel_of_def one_rel_db_def)
  have gate: "gate_outbound ''r'' example_rel T_Profile db = Ok ()"
    using one_rel_policy unfolding gate_rels [OF rels(1)]
    by (auto simp: gate_outbound_def example_rel_def ROLE_INVITER_def STATE_REQUEST_def
        close_state_def check_outbound_def allows_def required_cap_def policy_denies_def)
  obtain db1 where seq: "next_out_seq ''r'' db = (1, db1)"
    using rels by (simp add: next_out_seq_def max_out_seq_def setting_u64_or_def setting_def)
  have "\<not> jpeg_ok [1]" "utf8_valid (w_nfc echo_world (trim [0x41]))"
    by (simp_all add: jpeg_ok_def trim echo_world_def)
  from bad_picture_skips_seq [OF _ this rel gate seq, of "engine_on one_rel_db"] set show ?thesis
    by (auto simp: engine_on_def echo_world_def)
qed

end
