(* ===== verification/Engine_Once.thy ===== *)
theory Engine_Once
  imports Engine_Safety
begin

text \<open>
  Exactly-once processing: an envelope that has passed the gates of \<^verbatim>\<open>engine/inbound.rs\<close> once
  has no effect when it is delivered again. The log of received sequence numbers decides a
  repeated delivery, so the development shows that no handler and no send removes an entry of
  it while the relationship exists.
\<close>

section \<open>Predicates of the store under engine actions\<close>

lemma keeps_on_db [keeps_rules]: "keeps P m \<Longrightarrow> keeps (\<lambda>s. P (e_db s)) (on_db m)"
  by (auto simp: keeps_def on_db_def split: prod.splits)

lemma keeps_on_ext [keeps_rules]: "keeps (\<lambda>s. P (e_db s)) (on_ext f)"
  by (auto simp: keeps_def on_ext_def split: prod.splits)

lemma keeps_rate_allow [keeps_rules]: "keeps (\<lambda>s. P (e_db s)) (rate_allow u rel_id)"
  by (auto simp: keeps_def rate_allow_def split: option.splits)

lemma keeps_on_pending [keeps_rules]: "keeps (\<lambda>s. P (e_db s)) (on_pending f)"
  by (auto simp: keeps_def on_pending_def split: prod.splits)

lemma keeps_sync_try [keeps_rules]:
  "(\<And>db db'. P db \<Longrightarrow> f db = Ok db' \<Longrightarrow> P db') \<Longrightarrow> keeps P (sync_try f)"
  by (auto simp: keeps_def sync_try_def split: sum.splits)

lemma keeps_case_error [keeps_rules]:
  "(\<And>t. keeps P (a t)) \<Longrightarrow> (\<And>e. keeps P (b e)) \<Longrightarrow>
   keeps P (case e of CapGated t \<Rightarrow> a t | _ \<Rightarrow> b e)"
  by (cases e) auto

lemma keeps_pure: "(\<And>s. snd (m s) = s) \<Longrightarrow> keeps P m"
  by (simp add: keeps_def)

section \<open>What a send does to the store\<close>

text \<open>
  The interface of the outbound pipeline towards a predicate of the store: the store operations
  that the pipeline performs. A predicate that each of them keeps is kept by every send and by
  the activation burst.
\<close>

locale outbound_store =
  fixes W :: "'x world" and P :: "db \<Rightarrow> bool"
  assumes seq: "P db \<Longrightarrow> P (snd (next_out_seq r db))"
    and enc: "P db \<Longrightarrow> encrypt (w_encrypt W) r i p (x, db) = (res, x1, db1) \<Longrightarrow> P db1"
    and ins: "P db \<Longrightarrow> insert_message now m db = Ok db1 \<Longrightarrow> n_direction m = Out \<Longrightarrow> P db1"
    and enq: "P db \<Longrightarrow> enqueue now i r rec ttl db = Ok db1 \<Longrightarrow> P db1"
    and deq: "P db \<Longrightarrow> P (snd (dequeue i db))"
    and mark: "P db \<Longrightarrow> mark_transmitted i db = Ok db1 \<Longrightarrow> P db1"
    and policy: "P db \<Longrightarrow> P (db_save_policy r st db)"
begin

lemma session_encrypt_keeps: "keeps (\<lambda>s. P (e_db s)) (session_encrypt W r i p)"
  by (auto simp: keeps_def session_encrypt_def split: prod.splits dest: enc)

lemma attempt_send_keeps: "keeps (\<lambda>s. P (e_db s)) (attempt_send W row i rec alert)"
  unfolding attempt_send_def by (intro keeps_rules) (erule deq | (erule mark, assumption))+

lemma send_envelope_keeps: "keeps (\<lambda>s. P (e_db s)) (send_envelope W r payload ref_id alert)"
  unfolding send_envelope_def
  by (intro keeps_rules session_encrypt_keeps attempt_send_keeps keeps_pure)
    (erule seq | (erule ins, assumption, simp add: out_message_def) | (erule enq, assumption) | simp)+

lemma send_unit_keeps: "keeps (\<lambda>s. P (e_db s)) (send_unit W r payload ref_id alert)"
  unfolding send_unit_def by (intro keeps_rules send_envelope_keeps)

lemma send_profile_keeps: "keeps (\<lambda>s. P (e_db s)) (send_profile W r)"
  unfolding send_profile_def by (intro keeps_rules send_unit_keeps)

lemma on_relationship_active_keeps: "keeps (\<lambda>s. P (e_db s)) (on_relationship_active W r)"
  unfolding on_relationship_active_def
  by (intro keeps_rules send_unit_keeps send_profile_keeps keeps_pure)
    (erule policy | simp add: sthrow_def sret_def split: engine_error.splits)+

end

section \<open>The log of received sequence numbers\<close>

definition settled :: "string \<Rightarrow> u64 \<Rightarrow> db \<Rightarrow> bool" where
  "settled rel_id q db \<longleftrightarrow> has_inbound_seq rel_id q db \<or> rel_of rel_id db = None"

text \<open>The operations that touch neither the log nor the set of relationships.\<close>

definition same_log :: "db \<Rightarrow> db \<Rightarrow> bool" where
  "same_log db db' \<longleftrightarrow>
     db_inbound_seqs db' = db_inbound_seqs db \<and> map fst (db_rels db') = map fst (db_rels db)"

named_theorems log_same

lemma rel_of_None: "rel_of rel_id db = None \<longleftrightarrow> rel_id \<notin> set (map fst (db_rels db))"
  by (simp add: rel_of_def map_of_eq_None_iff)

lemma settled_same: "settled rel_id q db \<Longrightarrow> same_log db db' \<Longrightarrow> settled rel_id q db'"
  by (simp add: settled_def same_log_def rel_of_None has_inbound_seq_def del: set_map)

lemma same_log_trans [trans]: "same_log a b \<Longrightarrow> same_log b c \<Longrightarrow> same_log a c"
  by (simp add: same_log_def)

lemma same_log_refl [log_same]: "same_log db db"
  by (simp add: same_log_def)

lemma same_log_update_rel [log_same]: "same_log db (update_rel rel_id f db)"
  by (auto simp: same_log_def update_rel_def)

lemma same_log_settings [log_same]:
  "same_log db (set_setting k v db)" "same_log db (snd (delete_setting k db))"
  "same_log db (snd (next_out_seq rel_id db))"
  by (simp_all add: same_log_def set_setting_def delete_setting_def next_out_seq_def Let_def)

lemma same_log_messages [log_same]:
  "same_log db (snd (set_delivery i st db))" "same_log db (snd (mark_edited i p q db))"
  "same_log db (snd (mark_tombstoned i db))" "same_log db (snd (mark_read i t db))"
  "same_log db (snd (erase_history rel_id keep db))" "same_log db (snd (fail_relationship_outbound rel_id db))"
  "same_log db (snd (clamp_message_expiry rel_id t db))"
  by (simp_all add: same_log_def set_delivery_def mark_edited_def mark_tombstoned_def mark_read_def
      erase_history_def fail_relationship_outbound_def clamp_message_expiry_def Let_def)

lemma same_log_insert_message [log_same]: "insert_message now m db = Ok db' \<Longrightarrow> same_log db db'"
  by (auto simp: insert_message_def same_log_def split: if_splits)

lemma same_log_outbox [log_same]:
  "enqueue now i rel_id rec ttl db = Ok db' \<Longrightarrow> same_log db db'"
  "same_log db (requeue now i rel_id rec ttl db)" "same_log db (snd (dequeue i db))"
  "same_log db (note_attempt now i b db)"
  by (auto simp: enqueue_def requeue_def dequeue_def note_attempt_def same_log_def
      split: if_splits option.splits)

lemma same_log_transition [log_same]: "transition i st db = Ok db' \<Longrightarrow> same_log db db'"
  by (auto simp: transition_def log_same split: option.splits if_splits)

lemma same_log_mark [log_same]:
  "mark_transmitted i db = Ok db' \<Longrightarrow> same_log db db'" "mark_acknowledged i db = Ok db' \<Longrightarrow> same_log db db'"
  by (auto simp: mark_transmitted_def mark_acknowledged_def intro: log_same)

lemma same_log_rel_columns [log_same]:
  "same_log db (note_peer_caps rel_id c db)" "same_log db (raise_history_cut rel_id q db)"
  "same_log db (db_save_policy rel_id p db)"
  by (auto simp: note_peer_caps_def raise_history_cut_def db_save_policy_def intro: log_same)

lemma same_log_implied_cap [log_same]: "same_log db (note_implied_cap rel_id t db)"
  by (auto simp: note_implied_cap_def Let_def intro: log_same split: option.splits)

lemma same_log_tombstones [log_same]: "same_log db (add_tombstone now rel_id i db)"
  by (simp add: add_tombstone_def same_log_def Let_def)

lemma same_log_attachments [log_same]:
  "same_log db (snd (delete_attachment h db))" "same_log db (snd (delete_chunks h db))"
  "same_log db (update_attachment h f db)" "same_log db (snd (note_chunk h i db))"
  by (auto simp: delete_attachment_def delete_chunks_def update_attachment_def note_chunk_def
      same_log_def Let_def split: option.splits)

lemma same_log_put [log_same]:
  "insert_head now h db = Ok db' \<Longrightarrow> same_log db db'" "put_chunk c i d rel_id now db = Ok db' \<Longrightarrow> same_log db db'"
  by (auto simp: insert_head_def put_chunk_def same_log_def split: if_splits option.splits)

lemma same_log_erase_heads: "same_log db (erase_heads hs db)"
  by (induction hs db rule: erase_heads.induct)
    (simp_all add: same_log_def mark_tombstoned_def delete_attachment_def delete_chunks_def Let_def)

lemma same_log_erase_attach [log_same]: "same_log db (snd (erase_attach_messages rel_id db))"
  using same_log_erase_heads by (auto simp: erase_attach_messages_def same_log_def Let_def)

lemma same_log_stickers [log_same]:
  "same_log db (cache_put now c db)" "same_log db (snd (note_pack_serve rel_id day db))"
  "same_log db (snd (apply_inbound now rel_id p db))"
  by (auto simp: cache_put_def note_pack_serve_def apply_inbound_def put_profile_def same_log_def
      Let_def split: option.splits if_splits)


section \<open>Handlers keep the log\<close>

abbreviation logs :: "string \<Rightarrow> u64 \<Rightarrow> ('x engine, 'a) action \<Rightarrow> bool" where
  "logs rel_id q m \<equiv> keeps (\<lambda>s. settled rel_id q (e_db s)) m"

lemma settled_fields [simp]:
  "settled rel_id q (db\<lparr>db_packs := a\<rparr>) = settled rel_id q db"
  "settled rel_id q (db\<lparr>db_sticker_items := b\<rparr>) = settled rel_id q db"
  by (simp_all add: settled_def has_inbound_seq_def rel_of_def)

lemma same_log_mark_broken: "same_log db (mark_broken rel_id db)"
  unfolding mark_broken_def by (rule same_log_trans [OF same_log_update_rel same_log_messages(6)])

lemma same_log_encrypt:
  assumes "encrypt lib rel_id i p (r, db) = (res, r1, db1)"
  shows "same_log db db1"
  using assms same_log_mark_broken [of db rel_id]
  by (auto simp: encrypt_def Let_def same_log_def
      split: if_splits session_state.splits sum.splits prod.splits ciphertext_kind.splits
        option.splits session_error.splits)

interpretation log_store: outbound_store W "settled rel_id q" for W rel_id q
  by unfold_locales (auto intro: settled_same log_same same_log_encrypt)

lemmas logs_sends [keeps_rules] = log_store.send_envelope_keeps log_store.send_unit_keeps
  log_store.send_profile_keeps log_store.on_relationship_active_keeps

lemma logs_send_pieces [keeps_rules]: "logs rel_id q (send_pieces W r n mk blob)"
  unfolding send_pieces_def by (intro keeps_rules)

lemma logs_serve_item [keeps_rules]: "logs rel_id q (serve_item W r found)"
  unfolding serve_item_def by (intro keeps_rules)

lemma logs_answer_want_item [keeps_rules]: "logs rel_id q (answer_want_item W r sha)"
  unfolding answer_want_item_def by (intro keeps_rules)

lemma logs_refuse_pack [keeps_rules]: "logs rel_id q (refuse_pack W r pack_id pk reason)"
  unfolding refuse_pack_def by (intro keeps_rules)

lemma logs_pack_document [keeps_rules]: "logs rel_id q (pack_document W pack_id)"
  unfolding pack_document_def by (intro keeps_rules)

lemma logs_answer_want_pack [keeps_rules]: "logs rel_id q (answer_want_pack W r pack_id pk)"
  unfolding answer_want_pack_def by (intro keeps_rules) (auto intro: settled_same log_same)

lemma logs_answer_want_thumbs [keeps_rules]: "logs rel_id q (answer_want_thumbs W r pack_id pk)"
  unfolding answer_want_thumbs_def by (intro keeps_rules)

lemma logs_fetch [keeps_rules]:
  "logs rel_id q (fetch_pack W r pack_id pk)" "logs rel_id q (ack_sticker W r sha)"
  unfolding fetch_pack_def ack_sticker_def by (intro keeps_rules)+

lemma logs_cache_new_item [keeps_rules]: "logs rel_id q (cache_new_item W r sha bs w h k p)"
  unfolding cache_new_item_def by (intro keeps_rules) (auto intro: settled_same log_same)

lemma logs_on_sticker [keeps_rules]: "logs rel_id q (on_sticker W r env it)"
  unfolding on_sticker_def by (intro keeps_rules)

lemma settled_install_doc [keeps_rules]: "keeps (settled rel_id q) (install_doc now doc pk from cached)"
  unfolding install_doc_def
  by (intro keeps_rules keeps_pure)
    (auto simp: replace_pack_def delete_items_def put_item_def split: option.splits if_splits)

lemma settled_install_blob [keeps_rules]:
  "keeps (settled rel_id q) (install_pack_blob verify sha256 now blob pk from cached)"
  unfolding install_pack_blob_def by (intro keeps_rules)

lemma logs_bodies [keeps_rules]:
  "logs rel_id q (on_item_body W r sha index cnt data ref)" "logs rel_id q (on_pack_body W r i pk index cnt data)"
  "logs rel_id q (on_thumbs_body r i index cnt data)"
  unfolding on_item_body_def on_pack_body_def on_thumbs_body_def by (intro keeps_rules)+

lemma logs_on_sticker_ctrl [keeps_rules]: "logs rel_id q (on_sticker_ctrl W r ctrl)"
  by (cases ctrl) (simp_all, (intro keeps_rules)+)

lemma logs_fetch_missing_emoji [keeps_rules]: "logs rel_id q (fetch_missing_emoji W r body)"
  unfolding fetch_missing_emoji_def by (intro keeps_rules)

lemma logs_activate_once [keeps_rules]: "logs rel_id q (activate_once W r row)"
  unfolding activate_once_def by (intro keeps_rules) (auto intro: settled_same log_same)

lemma logs_sync_reply [keeps_rules]: "logs rel_id q (send_sync_reply W r st now)"
  unfolding send_sync_reply_def by (intro keeps_rules) (auto intro: settled_same log_same)

lemma logs_requeue_retransmit [keeps_rules]: "logs rel_id q (requeue_retransmit W now r rt)"
  unfolding requeue_retransmit_def by (intro keeps_rules) (auto intro: settled_same log_same)

lemma same_log_handle_rows:
  "handle_rows r now req rows (db, out) = Ok (db', out') \<Longrightarrow> same_log db db'"
proof (induction rows arbitrary: db out)
  case (Cons row rows)
  then show ?case
    by (auto simp: rbind_Inr_iff intro: same_log_trans log_same split: if_splits option.splits)
qed (simp add: log_same)

lemma settled_handle_request [keeps_rules]: "keeps (settled rel_id q) (engine_handle_request r now req)"
  by (auto simp: keeps_def engine_handle_request_def handle_request_def rbind_Inr_iff Let_def
      split: sum.splits prod.splits elim!: settled_same same_log_handle_rows)

lemma logs_apply_resync_req [keeps_rules]: "logs rel_id q (apply_resync_req W r req)"
  unfolding apply_resync_req_def by (intro keeps_rules) (auto intro: settled_same log_same)

lemma settled_outcome_effects [keeps_rules]: "keeps (settled rel_id q) (apply_outcome_effects r oc)"
  unfolding apply_outcome_effects_def by (intro keeps_rules) (auto intro: settled_same log_same)

lemma logs_apply_chat_policy [keeps_rules]: "logs rel_id q (apply_chat_policy W r env cp)"
  unfolding apply_chat_policy_def by (intro keeps_rules) (auto intro: settled_same log_same)

lemma logs_maybe_request_resync [keeps_rules]: "logs rel_id q (maybe_request_resync W r)"
  unfolding maybe_request_resync_def
  by (intro keeps_rules keeps_pure) (auto intro: settled_same log_same)


lemma settled_apply_edit [keeps_rules]: "keeps (settled rel_id q) (apply_edit now r env body)"
  unfolding apply_edit_def by (intro keeps_rules) (auto intro: settled_same log_same)

lemma settled_on_delete_target [keeps_rules]: "keeps (settled rel_id q) (on_delete_target target)"
  unfolding on_delete_target_def by (intro keeps_rules) (auto intro: settled_same log_same)

lemma settled_apply_delete [keeps_rules]: "keeps (settled rel_id q) (apply_delete now r env)"
  unfolding apply_delete_def by (intro keeps_rules) (auto intro: settled_same log_same)

lemma settled_try_complete [keeps_rules]: "keeps (settled rel_id q) (try_complete sha256 r h)"
  by (auto simp: keeps_def try_complete_def Let_def split: option.splits if_splits
      intro: settled_same log_same)

lemma settled_on_attach [keeps_rules]:
  "keeps (settled rel_id q) (on_attach_head sha256 now r env p)"
  "keeps (settled rel_id q) (on_attach_chunk sha256 now r c)"
  unfolding on_attach_head_def on_attach_chunk_def
  by (intro keeps_rules; auto intro: settled_same log_same split: bool.splits)+

lemma settled_note_peer_prefs [keeps_rules]: "keeps (settled rel_id q) (note_peer_prefs r p)"
  unfolding note_peer_prefs_def by (intro keeps_rules) (auto intro: settled_same log_same)

lemma settled_on_read [keeps_rules]: "keeps (settled rel_id q) (on_read now r env)"
  unfolding on_read_def by (intro keeps_rules) (auto intro: settled_same log_same)

lemma logs_indicators [keeps_rules]:
  "logs rel_id q (on_presence now r p)" "logs rel_id q (on_typing now r t)"
  unfolding on_presence_def on_typing_def
  by (intro keeps_rules; simp add: keeps_def split: prod.splits)+

lemma settled_burn_tables: "settled rel_id q db \<Longrightarrow> settled rel_id q (burn_tables r db)"
  by (auto simp: settled_def has_inbound_seq_def rel_of_None burn_tables_def delete_setting_def Let_def)

lemma logs_burn_relationship [keeps_rules]: "logs rel_id q (burn_relationship W r)"
  unfolding burn_relationship_def wipe_session_def
  by (intro keeps_rules) (auto intro: settled_burn_tables)

lemma logs_dispatch [keeps_rules]: "logs rel_id q (dispatch W now r env p)"
  by (cases p) (simp_all, (intro keeps_rules; auto intro: settled_same log_same)+)

lemma logs_ledger_inbound [keeps_rules]: "logs rel_id q (ledger_inbound W now sent_at r env)"
  unfolding ledger_inbound_def by (intro keeps_rules) (auto intro: settled_same log_same)

lemma logs_resync_after_gap [keeps_rules]: "logs rel_id q (resync_after_gap W r gap)"
  unfolding resync_after_gap_def by (intro keeps_rules)

lemma settled_noted: "settled rel_id q (snd (note_inbound_seq rel_id q db))"
  by (simp add: settled_def has_inbound_seq_def note_inbound_seq_def)

lemma after_sget: "(\<And>x. P (snd (f x s))) \<Longrightarrow> P (snd (sbind (sget g) f s))"
  by (simp add: sbind_def sget_def)

lemma keeps_after:
  assumes "\<And>s. P (snd (m s))" "\<And>x. keeps P (f x)"
  shows "P (snd (sbind m f s))"
  using assms(1) [of s] assms(2) by (auto simp: sbind_def keeps_def split: prod.splits sum.splits)

lemma accept_envelope_settles:
  "settled rel_id (env_app_seq env) (e_db (snd (accept_envelope W rel_id row env now sent_at (s :: 'x engine))))"
  unfolding accept_envelope_def Let_def
proof (intro after_sget [where P = "\<lambda>s. settled rel_id (env_app_seq env) (e_db s)"]
    keeps_after [where P = "\<lambda>s. settled rel_id (env_app_seq env) (e_db s)"] keeps_rules)
  show "settled rel_id (env_app_seq env)
      (e_db (snd (on_db (store_do (note_inbound_seq rel_id (env_app_seq env))) s)))" for s :: "'x engine"
    using settled_noted [of rel_id "env_app_seq env" "e_db s"]
    by (simp add: on_db_def store_do_def case_prod_beta Let_def)
qed

section \<open>Gates\<close>

definition passes_gates :: "string \<Rightarrow> envelope \<Rightarrow> 'x engine \<Rightarrow> bool" where
  "passes_gates rel_id env s \<longleftrightarrow>
     rel_of rel_id (e_db s) \<noteq> None \<and>
     check_inbound rel_id (Envelope_envelope_type env) (e_db s) \<and>
     (close_state rel_id (e_db s) = None \<or> Envelope_envelope_type env = T_ResyncReq) \<and>
     (case clamp_sent_at (env_sent_at env) (e_now s) of Inl _ \<Rightarrow> False | Inr _ \<Rightarrow> True) \<and>
     message (env_msg_id env) (e_db s) = None \<and>
     \<not> has_inbound_seq rel_id (env_app_seq env) (e_db s)"

lemma note_implied_cap_dead: "check_inbound rel_id t db \<Longrightarrow> note_implied_cap rel_id t db = db"
  by (auto simp: check_inbound_def allows_def note_implied_cap_def has_cap_def split: option.splits)

lemma engine_update_id [simp]: "s\<lparr>e_db := e_db s\<rparr> = s"
  by simp

lemma decode_Ok: "Envelope_decode (w_nfc W) bs = Ok env \<Longrightarrow> engine_decode_envelope W bs = sret env"
  by (simp add: engine_decode_envelope_def)

lemma handle_refused:
  assumes "Envelope_decode (w_nfc W) bs = Ok env" "\<not> passes_gates rel_id env s"
    and "handle_plaintext W rel_id bs s = (r, s')"
  shows "s' = s\<lparr>e_gated_drops := e_gated_drops s'\<rparr> \<and> (case r of Inl _ \<Rightarrow> True | Inr ev \<Rightarrow> ev = [])"
proof (cases "rel_of rel_id (e_db s)")
  case None
  then show ?thesis
    using assms(3) by (auto simp: handle_plaintext_def decode_Ok [OF assms(1)] Let_def sbind_def sret_def sget_def sthrow_def)
next
  case (Some row)
  then show ?thesis
    using assms(2,3)
    by (auto simp: handle_plaintext_def decode_Ok [OF assms(1)] Let_def sbind_def sret_def sget_def smodify_def
        slift_def on_db_def note_implied_cap_dead passes_gates_def
        split: if_splits sum.splits)
qed

lemma handle_accepted:
  assumes "Envelope_decode (w_nfc W) bs = Ok env" "passes_gates rel_id env s"
  shows "\<exists>row sent_at. rel_of rel_id (e_db s) = Some row \<and>
    clamp_sent_at (env_sent_at env) (e_now s) = Ok sent_at \<and>
    handle_plaintext W rel_id bs s = accept_envelope W rel_id row env (e_now s) sent_at s"
  using assms(2)
  by (auto simp: handle_plaintext_def decode_Ok [OF assms(1)] Let_def sbind_def sret_def sget_def smodify_def
      slift_def on_db_def note_implied_cap_dead passes_gates_def
      split: if_splits sum.splits)

text \<open>
  C6: an envelope takes effect once. After a delivery that passed the gates, whatever its
  result, a second delivery of the same bytes on that relationship, at any later time and with
  nothing else delivered in between, changes nothing but the counter of gated drops and reports
  no event.
\<close>

theorem delivered_once:
  assumes "Envelope_decode (w_nfc W) bs = Ok env" "passes_gates rel_id env s"
    and "handle_plaintext W rel_id bs s = (r, s1)"
    and "handle_plaintext W rel_id bs (s1\<lparr>e_now := later\<rparr>) = (r2, s2)"
  shows "s2 = s1\<lparr>e_now := later, e_gated_drops := e_gated_drops s2\<rparr> \<and>
    (case r2 of Inl _ \<Rightarrow> True | Inr ev \<Rightarrow> ev = [])"
proof -
  obtain row sent_at where "handle_plaintext W rel_id bs s = accept_envelope W rel_id row env (e_now s) sent_at s"
    using handle_accepted [OF assms(1,2)] by blast
  then have "settled rel_id (env_app_seq env) (e_db s1)"
    using assms(3) accept_envelope_settles [of rel_id env W row "e_now s" sent_at s] by (metis snd_conv)
  then have "\<not> passes_gates rel_id env (s1\<lparr>e_now := later\<rparr>)"
    by (auto simp: settled_def passes_gates_def)
  from handle_refused [OF assms(1) this assms(4)] show ?thesis by simp
qed


section \<open>A failed activation\<close>

definition not_received :: "bytes \<Rightarrow> db \<Rightarrow> bool" where
  "not_received i db \<longleftrightarrow> list_all (\<lambda>m. m_msg_id m = i \<longrightarrow> m_direction m = Out) (db_messages db)"

lemma not_received_messages:
  "db_messages db' = db_messages db \<Longrightarrow> not_received i db \<Longrightarrow> not_received i db'"
  by (simp add: not_received_def)

lemma not_received_update:
  assumes "\<And>m. m_msg_id (f m) = m_msg_id m" "\<And>m. m_direction (f m) = m_direction m"
  shows "list_all (\<lambda>m. m_msg_id m = i \<longrightarrow> m_direction m = Out) (update_where Q f rows) =
    list_all (\<lambda>m. m_msg_id m = i \<longrightarrow> m_direction m = Out) rows"
  by (induction rows) (auto simp: update_where_def assms)

lemma not_received_mark_broken: "not_received i db \<Longrightarrow> not_received i (mark_broken r db)"
  by (simp add: mark_broken_def fail_relationship_outbound_def Let_def not_received_def not_received_update)

lemma not_received_encrypt:
  assumes "encrypt lib r i p (x, db) = (res, x1, db1)" "not_received j db"
  shows "not_received j db1"
  using assms not_received_mark_broken [OF assms(2), of r]
  by (auto simp: encrypt_def Let_def not_received_def
      split: if_splits session_state.splits sum.splits prod.splits ciphertext_kind.splits
        option.splits session_error.splits)

interpretation ledger_store: outbound_store W "not_received i" for W i
proof unfold_locales
  fix db db1 :: db and m :: new_message and r :: string and j p rec :: bytes and now ttl :: u64
    and res :: "session_error + bytes" and x x1 :: 'a and st :: policy_state
  show "not_received i (snd (next_out_seq r db))" if "not_received i db"
    using that by (simp add: next_out_seq_def set_setting_def not_received_def Let_def)
  show "not_received i db1" if "not_received i db" "encrypt (w_encrypt W) r j p (x, db) = (res, x1, db1)"
    using not_received_encrypt [OF that(2,1)] .
  show "not_received i db1" if "not_received i db" "insert_message now m db = Ok db1" "n_direction m = Out"
    using that by (auto simp: insert_message_def new_row_def not_received_def split: if_splits)
  show "not_received i db1" if "not_received i db" "enqueue now j r rec ttl db = Ok db1"
    using that by (auto simp: enqueue_def not_received_def split: if_splits)
  show "not_received i (snd (dequeue j db))" if "not_received i db"
    using that by (auto simp: dequeue_def not_received_def split: option.splits)
  show "not_received i db1" if "not_received i db" "mark_transmitted j db = Ok db1"
    using that by (auto simp: mark_transmitted_def transition_def set_delivery_def not_received_def not_received_update
        split: option.splits if_splits)
  show "not_received i (db_save_policy r st db)" if "not_received i db"
    using that by (simp add: db_save_policy_def not_received_def)
qed

text \<open>
  C29: the first envelope of a peer is lost when the activation burst fails. The accepter logs
  its sequence number before the burst and stores it after, so with a burst that fails, for
  example because the own profile does not encode, the call fails, the envelope is not in the
  ledger, and the next delivery of the same bytes, whenever it comes, does not store it.
\<close>

theorem activation_failure_loses:
  assumes "Envelope_decode (w_nfc W) bs = Ok env" "passes_gates rel_id env s"
    and "rel_of rel_id (e_db s) = Some row" "rel_role row = ROLE_ACCEPTER"
    and "setting (key_activation_sent rel_id) (e_db s) = None"
    and "on_relationship_active W rel_id (s\<lparr>e_db := set_setting (key_activation_sent rel_id) [1]
           (snd (note_inbound_seq rel_id (env_app_seq env) (e_db s)))\<rparr>) = (Err e, s1)"
    and "handle_plaintext W rel_id bs (s1\<lparr>e_now := later\<rparr>) = (r2, s2)"
  shows "handle_plaintext W rel_id bs s = (Err e, s1) \<and> not_received (env_msg_id env) (e_db s2)"
proof -
  let ?db = "set_setting (key_activation_sent rel_id) [1] (snd (note_inbound_seq rel_id (env_app_seq env) (e_db s)))"
  have tables: "setting (key_activation_sent rel_id) (snd (note_inbound_seq rel_id (env_app_seq env) (e_db s))) = None"
    "db_messages ?db = db_messages (e_db s)"
    using assms(5) by (simp_all add: note_inbound_seq_def setting_def set_setting_def)
  obtain sent_at where acc: "handle_plaintext W rel_id bs s = accept_envelope W rel_id row env (e_now s) sent_at s"
    using handle_accepted [OF assms(1,2)] assms(3) by auto
  also have "\<dots> = (Err e, s1)"
    using assms(4,6) tables(1)
    by (simp add: accept_envelope_def activate_once_def sbind_def sget_def on_db_def store_do_def
        smodify_def case_prod_beta Let_def)
  finally have run: "handle_plaintext W rel_id bs s = (Err e, s1)" .
  have "not_received (env_msg_id env) (e_db s)"
    using assms(2) by (auto simp: passes_gates_def message_def not_received_def list_all_iff find_None_iff)
  then have "not_received (env_msg_id env) ?db" by (rule not_received_messages [OF tables(2)])
  then have "not_received (env_msg_id env) (e_db s1)"
    using keepsD [OF ledger_store.on_relationship_active_keeps _ assms(6)] by simp
  moreover have "e_db s2 = e_db s1"
  proof -
    have "settled rel_id (env_app_seq env) (e_db s1)"
      using accept_envelope_settles [of rel_id env W row "e_now s" sent_at s] acc run by (metis snd_conv)
    then have "\<not> passes_gates rel_id env (s1\<lparr>e_now := later\<rparr>)"
      by (auto simp: settled_def passes_gates_def)
    from arg_cong [where f = e_db, OF conjunct1 [OF handle_refused [OF assms(1) this assms(7)]]]
    show ?thesis by simp
  qed
  ultimately show ?thesis using run by simp
qed


section \<open>Examples\<close>

lemma hello_wf: "Envelope_wf hello"
  by (simp add: Envelope_wf_def hello_def Msg_wf_def MSG_ID_BYTES_def)

lemma hello_decodes: "\<exists>bs. Envelope_decode nfc bs = Ok hello"
  using hello_encodes envelope.decode_encode [OF hello_wf] by blast

lemma hello_passes:
  "rel_of ''r'' (e_db s) \<noteq> None \<Longrightarrow> close_state ''r'' (e_db s) = None \<Longrightarrow> e_now s = 100 \<Longrightarrow>
   db_messages (e_db s) = [] \<Longrightarrow> db_inbound_seqs (e_db s) = [] \<Longrightarrow> passes_gates ''r'' hello s"
  by (simp add: passes_gates_def check_inbound_def allows_def required_cap_def hello_def
      Envelope_envelope_type_def clamp_sent_at_def MAX_FUTURE_SKEW_SECS_def message_def has_inbound_seq_def)

theorem delivered_once_witness:
  "\<exists>bs r s1 r2 s2. Envelope_decode (w_nfc echo_world) bs = Ok hello \<and>
     handle_plaintext echo_world ''r'' bs (engine_on one_rel_db) = (r, s1) \<and>
     handle_plaintext echo_world ''r'' bs (s1\<lparr>e_now := 500\<rparr>) = (r2, s2) \<and> e_db s2 = e_db s1"
proof -
  obtain bs where bs: "Envelope_decode (w_nfc echo_world) bs = Ok hello" using hello_decodes by blast
  have gates: "passes_gates ''r'' hello (engine_on one_rel_db)"
    by (rule hello_passes) (simp_all add: engine_on_def close_state_def, simp_all add: one_rel_db_def empty_db_def example_rel_def)
  obtain r s1 where r: "handle_plaintext echo_world ''r'' bs (engine_on one_rel_db) = (r, s1)" by fastforce
  obtain r2 s2 where r2: "handle_plaintext echo_world ''r'' bs (s1\<lparr>e_now := 500\<rparr>) = (r2, s2)" by fastforce
  from arg_cong [where f = e_db, OF conjunct1 [OF delivered_once [OF bs gates r r2]]] bs r r2
  show ?thesis by auto
qed

text \<open>An accepter whose library refuses to encrypt, so that the activation burst fails.\<close>

definition mute_world :: "nat world" where
  "mute_world = echo_world\<lparr>w_encrypt := (\<lambda>x rel_id p. (Err DuplicatedMessage, x))\<rparr>"

definition accepter_db :: db where
  "accepter_db = empty_db\<lparr>db_rels := [(''r'', example_rel\<lparr>rel_role := ROLE_ACCEPTER\<rparr>)]\<rparr>"


lemma mute_send:
  assumes "db_ciphertexts (e_db s) = []"
  shows "send_envelope mute_world r payload ref_id alert s \<noteq> (Ok sent, s')"
proof
  assume "send_envelope mute_world r payload ref_id alert s = (Ok sent, s')"
  then obtain db1 x1 p frame x2 db2 where seq: "next_out_seq r (e_db s) = (sent_app_seq sent, db1)"
    and "encrypt (w_encrypt mute_world) r (sent_msg_id sent) p (x1, db1) = (Ok frame, x2, db2)"
    by (rule send_envelope_OkE)
  moreover from seq assms have "db_ciphertexts db1 = []"
    by (auto simp: next_out_seq_def set_setting_def Let_def)
  ultimately show False
    by (auto simp: encrypt_def mute_world_def split: if_splits session_state.splits)
qed

lemma mute_activation:
  assumes "db_ciphertexts (e_db s) = []"
  shows "\<exists>e s1. on_relationship_active mute_world r s = (Err e, s1)"
proof (cases "on_relationship_active mute_world r s")
  case (Pair res s1)
  then show ?thesis
    using mute_send [OF assms] by (cases res) (auto simp: on_relationship_active_def send_unit_def run_Ok)
qed

theorem activation_failure_loses_witness:
  "\<exists>bs e s1 r2 s2. Envelope_decode (w_nfc mute_world) bs = Ok hello \<and>
     handle_plaintext mute_world ''r'' bs (engine_on accepter_db) = (Err e, s1) \<and>
     handle_plaintext mute_world ''r'' bs (s1\<lparr>e_now := 500\<rparr>) = (r2, s2) \<and>
     not_received (env_msg_id hello) (e_db s2)"
proof -
  let ?s = "engine_on accepter_db"
  let ?noted = "?s\<lparr>e_db := set_setting (key_activation_sent ''r'') [1]
    (snd (note_inbound_seq ''r'' (env_app_seq hello) (e_db ?s)))\<rparr>"
  have row: "rel_of ''r'' (e_db ?s) = Some (example_rel\<lparr>rel_role := ROLE_ACCEPTER\<rparr>)"
    "rel_role (example_rel\<lparr>rel_role := ROLE_ACCEPTER\<rparr>) = ROLE_ACCEPTER"
    "setting (key_activation_sent ''r'') (e_db ?s) = None"
    by (simp_all add: engine_on_def accepter_db_def rel_of_def setting_def empty_db_def)
  obtain bs where bs: "Envelope_decode (w_nfc mute_world) bs = Ok hello" using hello_decodes by blast
  have gates: "passes_gates ''r'' hello ?s"
    using row(1) by (intro hello_passes) (simp_all add: close_state_def,
        simp_all add: engine_on_def accepter_db_def empty_db_def example_rel_def)
  have "db_ciphertexts (e_db ?noted) = []"
    by (simp add: engine_on_def accepter_db_def empty_db_def set_setting_def note_inbound_seq_def has_inbound_seq_def)
  then obtain e s1 where burst: "on_relationship_active mute_world ''r'' ?noted = (Err e, s1)"
    using mute_activation by blast
  obtain r2 s2 where r2: "handle_plaintext mute_world ''r'' bs (s1\<lparr>e_now := 500\<rparr>) = (r2, s2)" by fastforce
  from activation_failure_loses [OF bs gates row burst r2] bs r2 show ?thesis by blast
qed

end
