(* ===== verification/Seen_Ring.thy ===== *)
theory Seen_Ring
  imports Prelude
begin

text \<open>
  The ring of recent frame fingerprints, \<^verbatim>\<open>crates/core/src/transport/seen.rs\<close>, and its
  refinement of a specification over the whole history of frames. The digest is a parameter.
\<close>

section \<open>The ring\<close>

definition FP_BYTES :: nat where "FP_BYTES = 16"

definition DEFAULT_CAPACITY :: nat where "DEFAULT_CAPACITY = 8192"

definition fingerprint :: "(bytes \<Rightarrow> bytes) \<Rightarrow> bytes \<Rightarrow> bytes" where
  "fingerprint sha3_256 frame = take FP_BYTES (sha3_256 frame)"

record seen_ring =
  ring_capacity :: nat
  ring_order :: "bytes list"
  ring_set :: "bytes set"

definition SeenRing_new :: "nat \<Rightarrow> seen_ring" where
  "SeenRing_new cap = \<lparr>ring_capacity = cap, ring_order = [], ring_set = {}\<rparr>"

text \<open>The eviction loop pops the oldest entry while the ring is over its capacity.\<close>

function evict :: "seen_ring \<Rightarrow> seen_ring" where
  "evict ring =
     (if length (ring_order ring) > ring_capacity ring then
        case ring_order ring of
          [] \<Rightarrow> ring
        | old # rest \<Rightarrow> evict (ring\<lparr>ring_order := rest, ring_set := ring_set ring - {old}\<rparr>)
      else ring)"
  by pat_completeness auto
termination by (relation "measure (\<lambda>ring. length (ring_order ring))") auto

declare evict.simps [simp del]

definition seen_or_mark :: "(bytes \<Rightarrow> bytes) \<Rightarrow> bytes \<Rightarrow> seen_ring \<Rightarrow> bool \<times> seen_ring" where
  "seen_or_mark sha3_256 frame ring =
     (let fp = fingerprint sha3_256 frame in
      if fp \<in> ring_set ring
      then (True, ring\<lparr>ring_order := filter (\<lambda>f. f \<noteq> fp) (ring_order ring) @ [fp]\<rparr>)
      else (False, evict (ring\<lparr>ring_set := insert fp (ring_set ring), ring_order := ring_order ring @ [fp]\<rparr>)))"

definition ring_len :: "seen_ring \<Rightarrow> nat" where
  "ring_len ring = length (ring_order ring)"

definition ring_is_empty :: "seen_ring \<Rightarrow> bool" where
  "ring_is_empty ring \<longleftrightarrow> ring_order ring = []"

fun mark_all :: "(bytes \<Rightarrow> bytes) \<Rightarrow> bytes list \<Rightarrow> seen_ring \<Rightarrow> seen_ring" where
  "mark_all sha3_256 [] ring = ring"
| "mark_all sha3_256 (f # fs) ring = mark_all sha3_256 fs (snd (seen_or_mark sha3_256 f ring))"

section \<open>Specification\<close>

text \<open>
  The fingerprints of a history in the order of their last occurrence, of which the most recent
  ones, as many as the capacity, are remembered.
\<close>

definition recent :: "(bytes \<Rightarrow> bytes) \<Rightarrow> nat \<Rightarrow> bytes list \<Rightarrow> bytes list" where
  "recent sha3_256 cap history =
     (let fps = remdups (map (fingerprint sha3_256) history) in drop (length fps - cap) fps)"

lemma remdups_snoc: "remdups (xs @ [x]) = removeAll x (remdups xs) @ [x]"
  by (induction xs) auto

lemma evict_eq:
  assumes "distinct (ring_order ring)" "ring_set ring = set (ring_order ring)"
  shows "evict ring =
    (let order = drop (length (ring_order ring) - ring_capacity ring) (ring_order ring)
     in ring\<lparr>ring_order := order, ring_set := set order\<rparr>)"
  using assms
proof (induction ring rule: evict.induct)
  case (1 ring)
  show ?case
  proof (cases "length (ring_order ring) > ring_capacity ring")
    case True
    then obtain old rest where order: "ring_order ring = old # rest" by (cases "ring_order ring") auto
    then have "Suc (length rest) - ring_capacity ring = Suc (length rest - ring_capacity ring)"
      using True by simp
    then show ?thesis
      using 1 True order by (subst evict.simps) (auto simp: Let_def)
  next
    case False
    then show ?thesis using 1 by (subst evict.simps) (simp add: Let_def)
  qed
qed

lemma drop_removeAll_end:
  assumes "distinct xs" "x \<in> set (drop k xs)"
  shows "drop k (removeAll x xs) = removeAll x (drop k xs)"
proof -
  have "x \<notin> set (take k xs)"
    using assms by (metis IntI append_take_drop_id distinct_append empty_iff)
  then have "removeAll x xs = take k xs @ removeAll x (drop k xs)"
    by (metis append_take_drop_id removeAll_append removeAll_id)
  moreover have "length (take k xs) = k"
    using assms(2) by (cases "k \<le> length xs") auto
  ultimately show ?thesis by (metis append_eq_conv_conj)
qed


lemma drop_snoc_absent:
  assumes "distinct xs" "x \<notin> set (drop (length xs - cap) xs)"
  shows "drop (Suc (length (removeAll x xs)) - cap) (removeAll x xs @ [x]) =
    (let order = drop (length xs - cap) xs in drop (Suc (length order) - cap) (order @ [x]))"
proof (cases "x \<in> set xs")
  case False
  then show ?thesis by (cases "cap \<le> length xs") (auto simp: Let_def Suc_diff_le)
next
  case True
  let ?k = "length xs - cap"
  have early: "x \<in> set (take ?k xs)" using True assms(2) by (metis Un_iff append_take_drop_id set_append)
  then have k: "0 < ?k" by (cases ?k) auto
  define A B where "A = removeAll x (take ?k xs)" and "B = drop ?k xs"
  have split: "removeAll x xs = A @ B"
    using assms(2) unfolding A_def B_def by (metis append_take_drop_id removeAll_append removeAll_id)
  have B: "length B = cap" using k by (simp add: B_def)
  have "drop (Suc (length (A @ B)) - cap) ((A @ B) @ [x]) = drop 1 (B @ [x])"
    by (simp add: B)
  then show ?thesis by (simp add: split Let_def B_def [symmetric] B)
qed

lemma filter_removeAll: "filter (\<lambda>y. y \<noteq> x) xs = removeAll x xs"
  by (induction xs) auto

text \<open>A ring that holds the recent fingerprints of a history holds them after the next frame.\<close>

definition holds :: "(bytes \<Rightarrow> bytes) \<Rightarrow> nat \<Rightarrow> bytes list \<Rightarrow> seen_ring \<Rightarrow> bool" where
  "holds sha3_256 cap h ring \<longleftrightarrow>
     ring = \<lparr>ring_capacity = cap, ring_order = recent sha3_256 cap h, ring_set = set (recent sha3_256 cap h)\<rparr>"

lemma seen_or_mark_holds:
  assumes "holds sha3_256 cap h ring" "seen_or_mark sha3_256 f ring = (seen, ring')"
  shows "(seen \<longleftrightarrow> fingerprint sha3_256 f \<in> set (recent sha3_256 cap h)) \<and>
    holds sha3_256 cap (h @ [f]) ring'"
proof -
  let ?D = "remdups (map (fingerprint sha3_256) h)" and ?fp = "fingerprint sha3_256 f"
  let ?k = "length ?D - cap"
  have step: "recent sha3_256 cap (h @ [f]) =
      drop (Suc (length (removeAll ?fp ?D)) - cap) (removeAll ?fp ?D @ [?fp])"
    by (simp add: recent_def Let_def remdups_snoc)
  show ?thesis
  proof (cases "?fp \<in> set (drop ?k ?D)")
    case True
    then have "?fp \<in> set ?D" by (meson in_set_dropD)
    then have len: "Suc (length (removeAll ?fp ?D)) = length ?D"
      by (simp add: distinct_remove1_removeAll [symmetric] length_remove1)
        (metis Suc_pred length_pos_if_in_set set_remdups set_map image_eqI)
    moreover from True have "?k < length ?D" by (metis drop_all empty_iff list.set(1) not_le)
    ultimately have "recent sha3_256 cap (h @ [f]) = removeAll ?fp (recent sha3_256 cap h) @ [?fp]"
      using drop_removeAll_end [OF distinct_remdups True]
      by (subst step) (simp add: recent_def Let_def)
    with True assms show ?thesis
      by (auto simp: holds_def seen_or_mark_def Let_def recent_def filter_removeAll)
  next
    case False
    from drop_snoc_absent [OF distinct_remdups this]
    have "recent sha3_256 cap (h @ [f]) =
        (let order = recent sha3_256 cap h @ [?fp] in drop (length order - cap) order)"
      by (subst step) (simp add: recent_def Let_def)
    moreover have "distinct (recent sha3_256 cap h @ [?fp])"
      using False by (simp add: recent_def Let_def distinct_drop)
    ultimately show ?thesis
      using False assms by (auto simp: holds_def seen_or_mark_def recent_def Let_def evict_eq)
  qed
qed

lemma holds_new: "holds sha3_256 cap [] (SeenRing_new cap)"
  by (simp add: holds_def SeenRing_new_def recent_def)

lemma holds_mark_all:
  "holds sha3_256 cap h ring \<Longrightarrow> holds sha3_256 cap (h @ fs) (mark_all sha3_256 fs ring)"
proof (induction fs arbitrary: h ring)
  case (Cons f fs)
  obtain seen ring' where "seen_or_mark sha3_256 f ring = (seen, ring')" by fastforce
  then show ?case using Cons.IH [of "h @ [f]" ring'] seen_or_mark_holds [OF Cons.prems] by simp
qed simp

text \<open>
  C10: the ring refines its specification. After any history of frames, a ring that started
  empty holds exactly the most recent distinct fingerprints of the history, in the order of
  their last occurrence, and the next frame is reported as seen exactly when its fingerprint is
  one of them; the lookup set never disagrees with the queue and the capacity is never exceeded.
\<close>

theorem seen_ring_refines:
  "let ring = mark_all sha3_256 h (SeenRing_new cap) in
   ring_order ring = recent sha3_256 cap h \<and> ring_set ring = set (ring_order ring) \<and>
   ring_len ring \<le> cap \<and>
   fst (seen_or_mark sha3_256 f ring) = (fingerprint sha3_256 f \<in> set (recent sha3_256 cap h))"
proof -
  let ?ring = "mark_all sha3_256 h (SeenRing_new cap)"
  have h: "holds sha3_256 cap h ?ring"
    using holds_mark_all [OF holds_new, of sha3_256 cap h] by simp
  obtain seen ring' where "seen_or_mark sha3_256 f ?ring = (seen, ring')" by fastforce
  with seen_or_mark_holds [OF h this] h show ?thesis
    by (simp add: Let_def holds_def ring_len_def recent_def)
qed

end
