(* ===== verification/Signal_Store.thy ===== *)
theory Signal_Store
  imports Engine_Types
begin

text \<open>
  The tables behind the ratchet library's store traits, \<^verbatim>\<open>crates/core/src/session/stores\<close>:
  the local persona, the pinned identities, the sessions and the three kinds of pre-keys, all
  keyed by a namespace, which is a relationship id or \<open>pending\<close> for the open invitation.
  What the library serialises is a byte string; reading it back is a parameter.
\<close>

section \<open>Tables\<close>

text \<open>
  The failures of the library that these stores raise. The sources wrap a database error and a
  row that does not parse into the same library error with a different text.
\<close>

datatype key_error =
    InvalidPreKeyId
  | InvalidSignedPreKeyId
  | InvalidKyberPreKeyId
  | SqliteState string sqlite_error
  | InvalidState string string
  | LibraryFailure string

definition PENDING_NAMESPACE :: string where "PENDING_NAMESPACE = ''pending''"

record local_row =
  lo_registration_id :: u32
  lo_keypair :: bytes

record kyber_row =
  ky_record :: bytes
  ky_used_with :: "bytes option"

text \<open>A table is a list of rows with their primary keys; the key of \<open>signal_locals\<close> is the namespace alone.\<close>

type_synonym ('k, 'v) key_table = "((string \<times> 'k) \<times> 'v) list"

record signal_tables =
  sg_locals :: "(unit, local_row) key_table"
  sg_identities :: "(string, bytes) key_table"
  sg_sessions :: "(string, bytes) key_table"
  sg_prekeys :: "(u32, bytes) key_table"
  sg_signed_prekeys :: "(u32, bytes) key_table"
  sg_kyber_prekeys :: "(u32, kyber_row) key_table"

definition no_signal_tables :: signal_tables where
  "no_signal_tables = \<lparr>sg_locals = [], sg_identities = [], sg_sessions = [], sg_prekeys = [],
     sg_signed_prekeys = [], sg_kyber_prekeys = []\<rparr>"

text \<open>\<open>INSERT OR REPLACE\<close> deletes the row with the same key and inserts a new one.\<close>

definition put_row :: "string \<times> 'k \<Rightarrow> 'v \<Rightarrow> ('k, 'v) key_table \<Rightarrow> ('k, 'v) key_table" where
  "put_row k v rows = filter (\<lambda>r. fst r \<noteq> k) rows @ [(k, v)]"

definition map_row :: "string \<times> 'k \<Rightarrow> ('v \<Rightarrow> 'v) \<Rightarrow> ('k, 'v) key_table \<Rightarrow> ('k, 'v) key_table" where
  "map_row k f rows = map (\<lambda>(k', v). (k', if k' = k then f v else v)) rows"

definition parsed :: "string \<Rightarrow> (bytes \<Rightarrow> string + 'a) \<Rightarrow> bytes \<Rightarrow> key_error + 'a" where
  "parsed context parse blob = map_err (\<lambda>d. InvalidState context (''corrupt row: '' @ d)) (parse blob)"

section \<open>Persona\<close>

definition create_local :: "string \<Rightarrow> u32 \<Rightarrow> bytes \<Rightarrow> signal_tables \<Rightarrow> key_error + signal_tables" where
  "create_local namespace registration_id keypair t =
     (if map_of (sg_locals t) (namespace, ()) \<noteq> None
      then Err (SqliteState ''create_local'' UniqueViolation)
      else Ok (t\<lparr>sg_locals := sg_locals t @
             [((namespace, ()), \<lparr>lo_registration_id = registration_id, lo_keypair = keypair\<rparr>)]\<rparr>))"

definition get_identity_key_pair ::
    "(bytes \<Rightarrow> string + 'a) \<Rightarrow> string \<Rightarrow> signal_tables \<Rightarrow> key_error + 'a" where
  "get_identity_key_pair parse namespace t =
     (case map_of (sg_locals t) (namespace, ()) of
        None \<Rightarrow> Err (SqliteState ''get_identity_key_pair'' NoRows)
      | Some row \<Rightarrow> parsed ''get_identity_key_pair'' parse (lo_keypair row))"

definition get_local_registration_id :: "string \<Rightarrow> signal_tables \<Rightarrow> key_error + u32" where
  "get_local_registration_id namespace t =
     (case map_of (sg_locals t) (namespace, ()) of
        None \<Rightarrow> Err (SqliteState ''get_local_registration_id'' NoRows)
      | Some row \<Rightarrow> Ok (lo_registration_id row))"

section \<open>Peer identities\<close>

definition get_identity ::
    "(bytes \<Rightarrow> string + bytes) \<Rightarrow> string \<Rightarrow> string \<Rightarrow> signal_tables \<Rightarrow> key_error + bytes option" where
  "get_identity parse namespace address t =
     (case map_of (sg_identities t) (namespace, address) of
        None \<Rightarrow> Ok None
      | Some blob \<Rightarrow> rbind (parsed ''get_identity'' parse blob) (\<lambda>key. Ok (Some key)))"

text \<open>The result says whether a different identity was replaced.\<close>

definition save_identity ::
    "(bytes \<Rightarrow> string + bytes) \<Rightarrow> string \<Rightarrow> string \<Rightarrow> bytes \<Rightarrow> signal_tables \<Rightarrow>
     key_error + (bool \<times> signal_tables)" where
  "save_identity parse namespace address key t =
     rbind (get_identity parse namespace address t) (\<lambda>existing.
     Ok (existing \<noteq> None \<and> existing \<noteq> Some key,
         t\<lparr>sg_identities := put_row (namespace, address) key (sg_identities t)\<rparr>))"

definition is_trusted_identity ::
    "(bytes \<Rightarrow> string + bytes) \<Rightarrow> string \<Rightarrow> string \<Rightarrow> bytes \<Rightarrow> signal_tables \<Rightarrow> key_error + bool" where
  "is_trusted_identity parse namespace address key t =
     rbind (get_identity parse namespace address t) (\<lambda>stored.
     Ok (case stored of None \<Rightarrow> True | Some k \<Rightarrow> k = key))"

section \<open>Sessions\<close>

definition load_session ::
    "(bytes \<Rightarrow> string + 'a) \<Rightarrow> string \<Rightarrow> string \<Rightarrow> signal_tables \<Rightarrow> key_error + 'a option" where
  "load_session parse namespace address t =
     (case map_of (sg_sessions t) (namespace, address) of
        None \<Rightarrow> Ok None
      | Some blob \<Rightarrow> rbind (parsed ''load_session'' parse blob) (\<lambda>rec. Ok (Some rec)))"

definition store_session ::
    "string \<Rightarrow> string \<Rightarrow> key_error + bytes \<Rightarrow> signal_tables \<Rightarrow> key_error + signal_tables" where
  "store_session namespace address serialized t =
     rbind serialized (\<lambda>blob.
     Ok (t\<lparr>sg_sessions := put_row (namespace, address) blob (sg_sessions t)\<rparr>))"

section \<open>Pre-keys\<close>

definition get_pre_key ::
    "(bytes \<Rightarrow> string + 'a) \<Rightarrow> string \<Rightarrow> u32 \<Rightarrow> signal_tables \<Rightarrow> key_error + 'a" where
  "get_pre_key parse namespace i t =
     (case map_of (sg_prekeys t) (namespace, i) of
        None \<Rightarrow> Err InvalidPreKeyId
      | Some blob \<Rightarrow> parsed ''get_pre_key'' parse blob)"

definition save_pre_key ::
    "string \<Rightarrow> u32 \<Rightarrow> key_error + bytes \<Rightarrow> signal_tables \<Rightarrow> key_error + signal_tables" where
  "save_pre_key namespace i serialized t =
     rbind serialized (\<lambda>blob. Ok (t\<lparr>sg_prekeys := put_row (namespace, i) blob (sg_prekeys t)\<rparr>))"

definition remove_pre_key :: "string \<Rightarrow> u32 \<Rightarrow> signal_tables \<Rightarrow> signal_tables" where
  "remove_pre_key namespace i t =
     t\<lparr>sg_prekeys := filter (\<lambda>r. fst r \<noteq> (namespace, i)) (sg_prekeys t)\<rparr>"

definition get_signed_pre_key ::
    "(bytes \<Rightarrow> string + 'a) \<Rightarrow> string \<Rightarrow> u32 \<Rightarrow> signal_tables \<Rightarrow> key_error + 'a" where
  "get_signed_pre_key parse namespace i t =
     (case map_of (sg_signed_prekeys t) (namespace, i) of
        None \<Rightarrow> Err InvalidSignedPreKeyId
      | Some blob \<Rightarrow> parsed ''get_signed_pre_key'' parse blob)"

definition save_signed_pre_key ::
    "string \<Rightarrow> u32 \<Rightarrow> key_error + bytes \<Rightarrow> signal_tables \<Rightarrow> key_error + signal_tables" where
  "save_signed_pre_key namespace i serialized t =
     rbind serialized (\<lambda>blob.
     Ok (t\<lparr>sg_signed_prekeys := put_row (namespace, i) blob (sg_signed_prekeys t)\<rparr>))"

definition get_kyber_pre_key ::
    "(bytes \<Rightarrow> string + 'a) \<Rightarrow> string \<Rightarrow> u32 \<Rightarrow> signal_tables \<Rightarrow> key_error + 'a" where
  "get_kyber_pre_key parse namespace i t =
     (case map_of (sg_kyber_prekeys t) (namespace, i) of
        None \<Rightarrow> Err InvalidKyberPreKeyId
      | Some row \<Rightarrow> parsed ''get_kyber_pre_key'' parse (ky_record row))"

text \<open>Saving again replaces the record of the row and keeps its consumer.\<close>

definition save_kyber_pre_key ::
    "string \<Rightarrow> u32 \<Rightarrow> key_error + bytes \<Rightarrow> signal_tables \<Rightarrow> key_error + signal_tables" where
  "save_kyber_pre_key namespace i serialized t =
     rbind serialized (\<lambda>blob.
     Ok (t\<lparr>sg_kyber_prekeys :=
       (if map_of (sg_kyber_prekeys t) (namespace, i) = None
        then sg_kyber_prekeys t @ [((namespace, i), \<lparr>ky_record = blob, ky_used_with = None\<rparr>)]
        else map_row (namespace, i) (\<lambda>row. row\<lparr>ky_record := blob\<rparr>) (sg_kyber_prekeys t))\<rparr>))"

text \<open>
  The first consumer pins the signed pre-key and the base key of its message; the same pair
  again is a redelivery and another pair is refused.
\<close>

definition mark_kyber_pre_key_used ::
    "string \<Rightarrow> u32 \<Rightarrow> u32 \<Rightarrow> bytes \<Rightarrow> signal_tables \<Rightarrow> key_error + signal_tables" where
  "mark_kyber_pre_key_used namespace i spk base_key t =
     (let tup = be32 spk @ base_key in
      case map_of (sg_kyber_prekeys t) (namespace, i) of
        None \<Rightarrow> Err InvalidKyberPreKeyId
      | Some row \<Rightarrow>
          (case ky_used_with row of
             None \<Rightarrow>
               Ok (t\<lparr>sg_kyber_prekeys :=
                 map_row (namespace, i) (\<lambda>row. row\<lparr>ky_used_with := Some tup\<rparr>) (sg_kyber_prekeys t)\<rparr>)
           | Some existing \<Rightarrow>
               if existing = tup then Ok t
               else Err (InvalidState ''mark_kyber_pre_key_used''
                 (''kyber pre-key '' @ show_nat (unat i) @ '' reused with a different base key''))))"

section \<open>Whole namespaces\<close>

text \<open>
  The rows of one namespace move to another, table by table; a row that is already there under
  the new key makes the statement for its table fail and leaves that table as it was.
\<close>

definition rename_rows :: "string \<Rightarrow> string \<Rightarrow> ('k, 'v) key_table \<Rightarrow> ('k, 'v) key_table" where
  "rename_rows from to rows = map (\<lambda>((ns, k), v). ((if ns = from then to else ns, k), v)) rows"

definition migrate_rows ::
    "string \<Rightarrow> string \<Rightarrow> ('k, 'v) key_table \<Rightarrow> key_error + ('k, 'v) key_table" where
  "migrate_rows from to rows =
     (if from \<noteq> to \<and> list_ex (\<lambda>r. fst (fst r) = from \<and> map_of rows (to, snd (fst r)) \<noteq> None) rows
      then Err (SqliteState ''migrate_namespace'' UniqueViolation)
      else Ok (rename_rows from to rows))"

definition migrate_namespace :: "string \<Rightarrow> string \<Rightarrow> (key_error, signal_tables, unit) fallible" where
  "migrate_namespace from to =
     sbind (\<lambda>t. (migrate_rows from to (sg_locals t), t)) (\<lambda>rows.
     sbind (smodify (\<lambda>t. t\<lparr>sg_locals := rows\<rparr>)) (\<lambda>_.
     sbind (\<lambda>t. (migrate_rows from to (sg_identities t), t)) (\<lambda>rows.
     sbind (smodify (\<lambda>t. t\<lparr>sg_identities := rows\<rparr>)) (\<lambda>_.
     sbind (\<lambda>t. (migrate_rows from to (sg_sessions t), t)) (\<lambda>rows.
     sbind (smodify (\<lambda>t. t\<lparr>sg_sessions := rows\<rparr>)) (\<lambda>_.
     sbind (\<lambda>t. (migrate_rows from to (sg_prekeys t), t)) (\<lambda>rows.
     sbind (smodify (\<lambda>t. t\<lparr>sg_prekeys := rows\<rparr>)) (\<lambda>_.
     sbind (\<lambda>t. (migrate_rows from to (sg_signed_prekeys t), t)) (\<lambda>rows.
     sbind (smodify (\<lambda>t. t\<lparr>sg_signed_prekeys := rows\<rparr>)) (\<lambda>_.
     sbind (\<lambda>t. (migrate_rows from to (sg_kyber_prekeys t), t)) (\<lambda>rows.
     smodify (\<lambda>t. t\<lparr>sg_kyber_prekeys := rows\<rparr>))))))))))))"

definition delete_rows :: "string \<Rightarrow> ('k, 'v) key_table \<Rightarrow> ('k, 'v) key_table" where
  "delete_rows namespace rows = filter (\<lambda>r. fst (fst r) \<noteq> namespace) rows"

definition delete_namespace :: "string \<Rightarrow> signal_tables \<Rightarrow> signal_tables" where
  "delete_namespace namespace t =
     \<lparr>sg_locals = delete_rows namespace (sg_locals t),
      sg_identities = delete_rows namespace (sg_identities t),
      sg_sessions = delete_rows namespace (sg_sessions t),
      sg_prekeys = delete_rows namespace (sg_prekeys t),
      sg_signed_prekeys = delete_rows namespace (sg_signed_prekeys t),
      sg_kyber_prekeys = delete_rows namespace (sg_kyber_prekeys t)\<rparr>"

section \<open>Namespaces\<close>

definition fresh_rows :: "string \<Rightarrow> ('k, 'v) key_table \<Rightarrow> bool" where
  "fresh_rows namespace rows \<longleftrightarrow> list_all (\<lambda>r. fst (fst r) \<noteq> namespace) rows"

text \<open>No row of any table is in the namespace.\<close>

definition fresh_namespace :: "string \<Rightarrow> signal_tables \<Rightarrow> bool" where
  "fresh_namespace namespace t \<longleftrightarrow>
     fresh_rows namespace (sg_locals t) \<and> fresh_rows namespace (sg_identities t) \<and>
     fresh_rows namespace (sg_sessions t) \<and> fresh_rows namespace (sg_prekeys t) \<and>
     fresh_rows namespace (sg_signed_prekeys t) \<and> fresh_rows namespace (sg_kyber_prekeys t)"

definition rename_namespace :: "string \<Rightarrow> string \<Rightarrow> signal_tables \<Rightarrow> signal_tables" where
  "rename_namespace from to t =
     \<lparr>sg_locals = rename_rows from to (sg_locals t),
      sg_identities = rename_rows from to (sg_identities t),
      sg_sessions = rename_rows from to (sg_sessions t),
      sg_prekeys = rename_rows from to (sg_prekeys t),
      sg_signed_prekeys = rename_rows from to (sg_signed_prekeys t),
      sg_kyber_prekeys = rename_rows from to (sg_kyber_prekeys t)\<rparr>"

lemma fresh_rows_None: "fresh_rows ns rows \<Longrightarrow> map_of rows (ns, k) = None"
  by (auto simp: fresh_rows_def list_all_iff map_of_eq_None_iff)

lemma fresh_rows_rename: "fresh_rows to rows \<Longrightarrow> rename_rows to from (rename_rows from to rows) = rows"
  unfolding fresh_rows_def rename_rows_def by (induction rows) auto

lemma fresh_rows_renamed: "from \<noteq> to \<Longrightarrow> fresh_rows from (rename_rows from to rows)"
  by (auto simp: fresh_rows_def rename_rows_def list_all_iff split: if_splits)

lemma fresh_rows_delete: "fresh_rows ns rows \<Longrightarrow> delete_rows ns rows = rows"
  unfolding fresh_rows_def delete_rows_def by (simp add: list_all_iff filter_id_conv)

lemma migrate_rows_fresh: "fresh_rows to rows \<Longrightarrow> migrate_rows from to rows = Ok (rename_rows from to rows)"
  by (simp add: migrate_rows_def fresh_rows_None list_ex_iff)

lemma migrate_namespace_fresh:
  "fresh_namespace to t \<Longrightarrow> migrate_namespace from to t = (Ok (), rename_namespace from to t)"
  by (simp add: migrate_namespace_def sbind_def smodify_def fresh_namespace_def migrate_rows_fresh
      rename_namespace_def)

lemma rename_namespace_back:
  "fresh_namespace to t \<Longrightarrow> rename_namespace to from (rename_namespace from to t) = t"
  by (simp add: rename_namespace_def fresh_namespace_def fresh_rows_rename)

lemma fresh_renamed: "from \<noteq> to \<Longrightarrow> fresh_namespace from (rename_namespace from to t)"
  by (simp add: rename_namespace_def fresh_namespace_def fresh_rows_renamed)

lemma delete_fresh: "fresh_namespace ns t \<Longrightarrow> delete_namespace ns t = t"
  by (simp add: delete_namespace_def fresh_namespace_def fresh_rows_delete)

lemma fresh_deleted: "fresh_namespace ns (delete_namespace ns t)"
  by (simp add: delete_namespace_def fresh_namespace_def fresh_rows_def delete_rows_def list_all_iff)

lemma map_of_rename:
  assumes "fresh_rows to rows" "from \<noteq> to"
  shows "map_of (rename_rows from to rows) (ns, k) =
    (if ns = to then map_of rows (from, k) else if ns = from then None else map_of rows (ns, k))"
  using assms unfolding fresh_rows_def rename_rows_def by (induction rows) (auto split: if_splits)

section \<open>Pinned pre-keys\<close>

lemma map_of_map_row:
  "map_of (map_row k f rows) k' = (if k' = k then map_option f (map_of rows k) else map_of rows k')"
  unfolding map_row_def by (induction rows) auto

lemma map_of_rename_other:
  "ns \<noteq> from \<Longrightarrow> ns \<noteq> to \<Longrightarrow> map_of (rename_rows from to rows) (ns, k) = map_of rows (ns, k)"
  unfolding rename_rows_def by (induction rows) auto

lemma map_of_delete_other: "ns \<noteq> ns' \<Longrightarrow> map_of (delete_rows ns' rows) (ns, k) = map_of rows (ns, k)"
  unfolding delete_rows_def by (induction rows) auto

text \<open>
  The operations of the stores, on any namespace; a namespace that is deleted or moved is
  another one than \<open>ns\<close>.
\<close>

inductive key_op :: "string \<Rightarrow> signal_tables \<Rightarrow> signal_tables \<Rightarrow> bool" for ns where
  op_create: "create_local ns' reg kp t = Ok t' \<Longrightarrow> key_op ns t t'"
| op_identity: "save_identity parse ns' addr key t = Ok (b, t') \<Longrightarrow> key_op ns t t'"
| op_session: "store_session ns' addr ser t = Ok t' \<Longrightarrow> key_op ns t t'"
| op_pre_key: "save_pre_key ns' i ser t = Ok t' \<Longrightarrow> key_op ns t t'"
| op_remove: "key_op ns t (remove_pre_key ns' i t)"
| op_signed: "save_signed_pre_key ns' i ser t = Ok t' \<Longrightarrow> key_op ns t t'"
| op_kyber: "save_kyber_pre_key ns' i ser t = Ok t' \<Longrightarrow> key_op ns t t'"
| op_used: "mark_kyber_pre_key_used ns' i spk base t = Ok t' \<Longrightarrow> key_op ns t t'"
| op_migrate: "from \<noteq> ns \<Longrightarrow> to \<noteq> ns \<Longrightarrow> migrate_namespace from to t = (r, t') \<Longrightarrow> key_op ns t t'"
| op_delete: "ns' \<noteq> ns \<Longrightarrow> key_op ns t (delete_namespace ns' t)"

definition consumer :: "string \<Rightarrow> u32 \<Rightarrow> signal_tables \<Rightarrow> bytes option" where
  "consumer ns i t = Option.bind (map_of (sg_kyber_prekeys t) (ns, i)) ky_used_with"

lemmas key_store_defs = create_local_def store_session_def save_pre_key_def remove_pre_key_def
  save_signed_pre_key_def

lemma migrate_rows_other:
  "migrate_rows from to rows = Ok rows' \<Longrightarrow> ns \<noteq> from \<Longrightarrow> ns \<noteq> to \<Longrightarrow>
   map_of rows' (ns, k) = map_of rows (ns, k)"
  by (auto simp: migrate_rows_def map_of_rename_other split: if_splits)

lemma migrate_kyber_other:
  assumes "migrate_namespace from to t = (r, t')" "ns \<noteq> from" "ns \<noteq> to"
  shows "map_of (sg_kyber_prekeys t') (ns, i) = map_of (sg_kyber_prekeys t) (ns, i)"
  using assms(1) migrate_rows_other [OF _ assms(2,3)]
  by (auto simp: migrate_namespace_def sbind_def smodify_def split: sum.splits)

lemma key_op_consumer:
  assumes "key_op ns t t'" "consumer ns i t = Some c"
  shows "consumer ns i t' = Some c"
  using assms
proof cases
  case (op_kyber ns' j ser)
  then show ?thesis using assms(2)
    by (auto simp: save_kyber_pre_key_def consumer_def rbind_Inr_iff map_of_map_row map_add_def
        split: if_splits option.splits bind_splits)
next
  case (op_used ns' j spk base)
  then show ?thesis using assms(2)
    by (auto simp: mark_kyber_pre_key_used_def consumer_def Let_def map_of_map_row
        split: if_splits option.splits bind_splits)
next
  case (op_migrate a b r)
  then show ?thesis using assms(2) migrate_kyber_other [OF op_migrate(3), of ns i]
    by (auto simp: consumer_def)
next
  case (op_delete ns')
  then show ?thesis using assms(2) by (simp add: consumer_def delete_namespace_def map_of_delete_other)
next
  case (op_identity parse ns' addr key b)
  then show ?thesis using assms(2) by (auto simp: save_identity_def consumer_def rbind_Inr_iff)
qed (auto simp: key_store_defs consumer_def rbind_Inr_iff split: if_splits)

lemma key_ops_consumer:
  "(key_op ns)\<^sup>*\<^sup>* t t' \<Longrightarrow> consumer ns i t = Some c \<Longrightarrow> consumer ns i t' = Some c"
  by (induction rule: rtranclp_induct) (auto dest: key_op_consumer)

lemma mark_used_consumer:
  "mark_kyber_pre_key_used ns i spk base t = Ok t' \<Longrightarrow> consumer ns i t' = Some (be32 spk @ base)"
  by (auto simp: mark_kyber_pre_key_used_def consumer_def Let_def map_of_map_row
      split: if_splits option.splits)

lemma mark_used_pinned:
  "consumer ns i t = Some c \<Longrightarrow> mark_kyber_pre_key_used ns i spk base t = Ok t' \<Longrightarrow>
   c = be32 spk @ base \<and> t' = t"
  by (auto simp: mark_kyber_pre_key_used_def consumer_def Let_def split: if_splits option.splits bind_splits)

text \<open>
  C22: a post-quantum pre-key serves one handshake. After it was marked used with a signed
  pre-key and a base key, and after any further operations of the key stores short of
  removing its namespace, also saving the pre-key again, marking it used succeeds only with
  the same signed pre-key and base key, and then changes nothing.
\<close>

theorem kyber_pinned:
  assumes "mark_kyber_pre_key_used ns i spk base t = Ok t1" "(key_op ns)\<^sup>*\<^sup>* t1 t2"
    and "mark_kyber_pre_key_used ns i spk' base' t2 = Ok t3"
  shows "spk' = spk \<and> base' = base \<and> t3 = t2"
  using mark_used_pinned [OF key_ops_consumer [OF assms(2) mark_used_consumer [OF assms(1)]] assms(3)]
  by simp

theorem kyber_pinned_witness:
  "let t = no_signal_tables\<lparr>sg_kyber_prekeys := [((''r'', 1), \<lparr>ky_record = [1], ky_used_with = None\<rparr>)]\<rparr>;
       t1 = no_signal_tables\<lparr>sg_kyber_prekeys := [((''r'', 1), \<lparr>ky_record = [1], ky_used_with = Some (be32 1 @ [7])\<rparr>)]\<rparr>;
       t2 = no_signal_tables\<lparr>sg_kyber_prekeys := [((''r'', 1), \<lparr>ky_record = [2], ky_used_with = Some (be32 1 @ [7])\<rparr>)]\<rparr>
   in mark_kyber_pre_key_used ''r'' 1 1 [7] t = Ok t1 \<and> save_kyber_pre_key ''r'' 1 (Ok [2]) t1 = Ok t2 \<and>
      mark_kyber_pre_key_used ''r'' 1 1 [7] t2 = Ok t2 \<and>
      (\<forall>spk base t3. mark_kyber_pre_key_used ''r'' 1 spk base t2 = Ok t3 \<longrightarrow> spk = 1 \<and> base = [7])"
proof -
  let ?t = "no_signal_tables\<lparr>sg_kyber_prekeys := [((''r'', 1), \<lparr>ky_record = [1], ky_used_with = None\<rparr>)]\<rparr>"
  let ?u = "no_signal_tables\<lparr>sg_kyber_prekeys := [((''r'', 1), \<lparr>ky_record = [1], ky_used_with = Some (be32 1 @ [7])\<rparr>)]\<rparr>"
  let ?v = "no_signal_tables\<lparr>sg_kyber_prekeys := [((''r'', 1), \<lparr>ky_record = [2], ky_used_with = Some (be32 1 @ [7])\<rparr>)]\<rparr>"
  have u: "mark_kyber_pre_key_used ''r'' 1 1 [7] ?t = Ok ?u"
    by (simp add: mark_kyber_pre_key_used_def map_row_def)
  have v: "save_kyber_pre_key ''r'' 1 (Ok [2]) ?u = Ok ?v"
    by (simp add: save_kyber_pre_key_def map_row_def rbind_def)
  have w: "mark_kyber_pre_key_used ''r'' 1 1 [7] ?v = Ok ?v"
    by (simp add: mark_kyber_pre_key_used_def)
  from v have "(key_op ''r'')\<^sup>*\<^sup>* ?u ?v" by (intro r_into_rtranclp op_kyber)
  from u v w kyber_pinned [OF u this] show ?thesis unfolding Let_def by blast
qed

end
