(* ===== verification/Pairing_Code.thy ===== *)
theory Pairing_Code
  imports Engine_Types
begin

text \<open>
  What the two devices of a pairing show each other: the onion addresses of
  \<^verbatim>\<open>crates/core/src/transport/onion/address.rs\<close>, the signed invitation of \<^verbatim>\<open>pairing/qr.rs\<close> and
  the safety code of \<^verbatim>\<open>pairing/sas.rs\<close>. SHA-256, SHA3-256, the base32 and base58 codecs and
  the signature check are parameters.
\<close>

section \<open>Onion addresses\<close>

definition ONION_RAW_BYTES :: nat where [limit_defs]: "ONION_RAW_BYTES = 35"

definition ONION_VERSION :: u8 where "ONION_VERSION = 3"

definition ONION_HOSTNAME_LEN :: nat where [limit_defs]: "ONION_HOSTNAME_LEN = 56"

definition ascii_lower :: "char \<Rightarrow> char" where
  "ascii_lower c = (if of_char c \<in> {65 :: nat..90} then char_of (of_char c + 32 :: nat) else c)"

definition ascii_upper :: "char \<Rightarrow> char" where
  "ascii_upper c = (if of_char c \<in> {97 :: nat..122} then char_of (of_char c - 32 :: nat) else c)"

definition base32_lower :: "(bytes \<Rightarrow> string) \<Rightarrow> bytes \<Rightarrow> string" where
  "base32_lower b32 bs = map ascii_lower (b32 bs)"

definition base32_decode :: "(string \<Rightarrow> string + bytes) \<Rightarrow> string \<Rightarrow> transport_error + bytes" where
  "base32_decode unb32 s = map_err (\<lambda>e. InvalidOnion (''base32: '' @ e)) (unb32 (map ascii_upper s))"

definition onion_checksum :: "(bytes \<Rightarrow> bytes) \<Rightarrow> bytes \<Rightarrow> bytes" where
  "onion_checksum sha3 pubkey =
     take 2 (sha3 (byte_str ''.onion checksum'' @ pubkey @ [ONION_VERSION]))"

definition hostname_from_pubkey :: "(bytes \<Rightarrow> bytes) \<Rightarrow> (bytes \<Rightarrow> string) \<Rightarrow> bytes \<Rightarrow> string" where
  "hostname_from_pubkey sha3 b32 pubkey =
     base32_lower b32 (pubkey @ onion_checksum sha3 pubkey @ [ONION_VERSION])"

text \<open>\<open>trim_end_matches\<close> removes the suffix as often as it is there.\<close>

function trim_onion :: "string \<Rightarrow> string" where
  "trim_onion s =
     (if drop (length s - 6) s = ''.onion'' then trim_onion (take (length s - 6) s) else s)"
  by pat_completeness auto
termination
proof (relation "measure length")
  fix s :: string
  assume "drop (length s - 6) s = ''.onion''"
  then have "s \<noteq> []" by auto
  then show "(take (length s - 6) s, s) \<in> measure length" by simp
qed simp

declare trim_onion.simps [simp del]

definition bare_hostname :: "string \<Rightarrow> string" where
  "bare_hostname hostname = trim_onion (map ascii_lower (text_of (trim (byte_str hostname))))"

definition pubkey_from_hostname ::
    "(bytes \<Rightarrow> bytes) \<Rightarrow> (string \<Rightarrow> string + bytes) \<Rightarrow> string \<Rightarrow> transport_error + bytes" where
  "pubkey_from_hostname sha3 unb32 hostname =
     (let host = bare_hostname hostname in
      if length host \<noteq> ONION_HOSTNAME_LEN
      then Err (InvalidOnion (''hostname length '' @ show_nat (length host) @ '' != '' @ show_nat ONION_HOSTNAME_LEN))
      else
        rbind (base32_decode unb32 host) (\<lambda>raw.
        if length raw \<noteq> ONION_RAW_BYTES
        then Err (InvalidOnion (''decoded length '' @ show_nat (length raw) @ '' != '' @ show_nat ONION_RAW_BYTES))
        else if raw ! 34 \<noteq> ONION_VERSION then Err (InvalidOnion ''bad version byte'')
        else if onion_checksum sha3 (take 32 raw) \<noteq> take 2 (drop 32 raw)
        then Err (InvalidOnion ''checksum mismatch'')
        else Ok (take 32 raw)))"

definition normalize_hostname ::
    "(bytes \<Rightarrow> bytes) \<Rightarrow> (string \<Rightarrow> string + bytes) \<Rightarrow> string \<Rightarrow> transport_error + string" where
  "normalize_hostname sha3 unb32 hostname =
     (let bare = bare_hostname hostname in
      rbind (pubkey_from_hostname sha3 unb32 bare) (\<lambda>_. Ok (bare @ ''.onion'')))"

definition raw_from_hostname ::
    "(bytes \<Rightarrow> bytes) \<Rightarrow> (string \<Rightarrow> string + bytes) \<Rightarrow> string \<Rightarrow> transport_error + bytes" where
  "raw_from_hostname sha3 unb32 hostname =
     rbind (pubkey_from_hostname sha3 unb32 hostname) (\<lambda>pubkey.
     Ok (pubkey @ onion_checksum sha3 pubkey @ [ONION_VERSION]))"

definition hostname_from_raw ::
    "(bytes \<Rightarrow> bytes) \<Rightarrow> (bytes \<Rightarrow> string) \<Rightarrow> bytes \<Rightarrow> transport_error + string" where
  "hostname_from_raw sha3 b32 raw =
     (if raw ! 34 \<noteq> ONION_VERSION then Err (InvalidOnion ''raw address: bad version'')
      else if onion_checksum sha3 (take 32 raw) \<noteq> take 2 (drop 32 raw)
      then Err (InvalidOnion ''raw address: checksum mismatch'')
      else Ok (hostname_from_pubkey sha3 b32 (take 32 raw)))"

section \<open>Invitations\<close>

definition QR_LABEL :: bytes where "QR_LABEL = byte_str ''SPAIR7''"

definition QR_VERSION :: u8 where "QR_VERSION = 1"

definition OFFER_TTL_SECONDS :: u64 where "OFFER_TTL_SECONDS = 300"

definition MAX_FIELD :: nat where [limit_defs]: "MAX_FIELD = 4096"

record pairing_payload =
  pp_identity_key :: bytes
  pp_registration_id :: u32
  pp_pre_key :: "(u32 \<times> bytes) option"
  pp_signed_pre_key_id :: u32
  pp_signed_pre_key_public :: bytes
  pp_signed_pre_key_signature :: bytes
  pp_kyber_pre_key_id :: u32
  pp_kyber_pre_key_public :: bytes
  pp_kyber_pre_key_signature :: bytes
  pp_onion :: bytes
  pp_client_auth_public :: bytes
  pp_nonce :: bytes
  pp_expires_at :: u64
  pp_signature :: bytes

text \<open>The writer is the bytes written; the length prefix is the length cut to 16 bits.\<close>

definition qr_lp :: "bytes \<Rightarrow> bytes" where
  "qr_lp v = be16 (of_nat (length v)) @ v"

definition signed_body :: "pairing_payload \<Rightarrow> bytes" where
  "signed_body p =
     QR_LABEL @ [QR_VERSION] @ qr_lp (pp_identity_key p) @ be32 (pp_registration_id p) @
     (case pp_pre_key p of
        Some (i, pk) \<Rightarrow> [1] @ be32 i @ qr_lp pk
      | None \<Rightarrow> [0]) @
     be32 (pp_signed_pre_key_id p) @ qr_lp (pp_signed_pre_key_public p) @
     qr_lp (pp_signed_pre_key_signature p) @ be32 (pp_kyber_pre_key_id p) @
     qr_lp (pp_kyber_pre_key_public p) @ qr_lp (pp_kyber_pre_key_signature p) @
     qr_lp (pp_onion p) @ qr_lp (pp_client_auth_public p) @ qr_lp (pp_nonce p) @
     be64 (pp_expires_at p)"

definition PairingPayload_encode :: "pairing_payload \<Rightarrow> bytes" where
  "PairingPayload_encode p =
     signed_body p @ be16 (of_nat (length (pp_signature p))) @ pp_signature p"

text \<open>The reader is the bytes from its position on.\<close>

definition qr_take :: "nat \<Rightarrow> bytes \<Rightarrow> pairing_error + (bytes \<times> bytes)" where
  "qr_take n r = (if n > length r then Err (Invalid ''truncated'') else Ok (take n r, drop n r))"

definition qr_u8 :: "bytes \<Rightarrow> pairing_error + (u8 \<times> bytes)" where
  "qr_u8 r = rbind (qr_take 1 r) (\<lambda>(b, r). Ok (b ! 0, r))"

definition qr_u32 :: "bytes \<Rightarrow> pairing_error + (u32 \<times> bytes)" where
  "qr_u32 r = rbind (qr_take 4 r) (\<lambda>(b, r). Ok (of_nat (of_be b), r))"

definition qr_u64 :: "bytes \<Rightarrow> pairing_error + (u64 \<times> bytes)" where
  "qr_u64 r = rbind (qr_take 8 r) (\<lambda>(b, r). Ok (of_nat (of_be b), r))"

definition qr_field :: "nat \<Rightarrow> bytes \<Rightarrow> pairing_error + (bytes \<times> bytes)" where
  "qr_field mx r =
     rbind (qr_take 2 r) (\<lambda>(b, r).
     let len = of_be b in
     if len = 0 \<or> len > mx then Err (Invalid (''lp length '' @ show_nat len @ '' out of range''))
     else qr_take len r)"

definition qr_exact :: "nat \<Rightarrow> string \<Rightarrow> bytes \<Rightarrow> pairing_error + (bytes \<times> bytes)" where
  "qr_exact n what r =
     rbind (qr_field n r) (\<lambda>(b, r).
     if length b \<noteq> n then Err (Invalid (what @ '' length'')) else Ok (b, r))"

definition qr_pre_key :: "bytes \<Rightarrow> pairing_error + ((u32 \<times> bytes) option \<times> bytes)" where
  "qr_pre_key r =
     rbind (qr_u8 r) (\<lambda>(has, r).
     if has = 0 then Ok (None, r)
     else if has = 1 then
       rbind (qr_u32 r) (\<lambda>(i, r).
       rbind (qr_field 64 r) (\<lambda>(pk, r). Ok (Some (i, pk), r)))
     else Err (Invalid (''has_prekey '' @ show_nat (unat has))))"

definition PairingPayload_decode :: "bytes \<Rightarrow> pairing_error + pairing_payload" where
  "PairingPayload_decode bs =
     (if length bs > MAX_QR_PAYLOAD_BYTES
      then Err (Invalid (''payload too large: '' @ show_nat (length bs) @ '' > '' @ show_nat MAX_QR_PAYLOAD_BYTES))
      else
        rbind (qr_take (length QR_LABEL) bs) (\<lambda>(label, r).
        if label \<noteq> QR_LABEL then Err (Invalid ''label mismatch'') else
        rbind (qr_u8 r) (\<lambda>(version, r).
        if version \<noteq> QR_VERSION then Err (Invalid ''unsupported version'') else
        rbind (qr_field 64 r) (\<lambda>(identity_key, r).
        rbind (qr_u32 r) (\<lambda>(registration_id, r).
        rbind (qr_pre_key r) (\<lambda>(pre_key, r).
        rbind (qr_u32 r) (\<lambda>(spk_id, r).
        rbind (qr_field 64 r) (\<lambda>(spk_public, r).
        rbind (qr_field 64 r) (\<lambda>(spk_signature, r).
        rbind (qr_u32 r) (\<lambda>(kyber_id, r).
        rbind (qr_field MAX_FIELD r) (\<lambda>(kyber_public, r).
        rbind (qr_field 64 r) (\<lambda>(kyber_signature, r).
        rbind (qr_exact ONION_RAW_BYTES ''onion'' r) (\<lambda>(onion, r).
        rbind (qr_exact 32 ''client auth'' r) (\<lambda>(client_auth, r).
        rbind (qr_exact 32 ''nonce'' r) (\<lambda>(nonce, r).
        rbind (qr_u64 r) (\<lambda>(expires_at, r).
        rbind (qr_field 64 r) (\<lambda>(signature, r).
        if r \<noteq> [] then Err (Invalid ''trailing bytes'')
        else Ok \<lparr>pp_identity_key = identity_key, pp_registration_id = registration_id,
                 pp_pre_key = pre_key, pp_signed_pre_key_id = spk_id,
                 pp_signed_pre_key_public = spk_public, pp_signed_pre_key_signature = spk_signature,
                 pp_kyber_pre_key_id = kyber_id, pp_kyber_pre_key_public = kyber_public,
                 pp_kyber_pre_key_signature = kyber_signature, pp_onion = onion,
                 pp_client_auth_public = client_auth, pp_nonce = nonce, pp_expires_at = expires_at,
                 pp_signature = signature\<rparr>)))))))))))))))))"

text \<open>
  The conversion of the onion fails only with an invalid address. The identity key parser gives the text of its error, if it refuses the key.
\<close>

definition PairingPayload_verify ::
    "(bytes \<Rightarrow> bytes) \<Rightarrow> (bytes \<Rightarrow> string) \<Rightarrow> (bytes \<Rightarrow> string option) \<Rightarrow>
     (bytes \<Rightarrow> bytes \<Rightarrow> bytes \<Rightarrow> bool) \<Rightarrow> u64 \<Rightarrow> bool \<Rightarrow> pairing_payload \<Rightarrow> pairing_error + unit" where
  "PairingPayload_verify sha3 b32 identity_error verify now enforce_expiry p =
     (if enforce_expiry \<and> pp_expires_at p < now then Err Expired
      else case identity_error (pp_identity_key p) of
        Some e \<Rightarrow> Err (Invalid (''identity key: '' @ e))
      | None \<Rightarrow>
          if \<not> verify (pp_identity_key p) (signed_body p) (pp_signature p) then Err BadSignature
          else if \<not> verify (pp_identity_key p) (pp_signed_pre_key_public p) (pp_signed_pre_key_signature p)
          then Err BadSignature
          else if \<not> verify (pp_identity_key p) (pp_kyber_pre_key_public p) (pp_kyber_pre_key_signature p)
          then Err BadSignature
          else case hostname_from_raw sha3 b32 (pp_onion p) of
            Inl (InvalidOnion d) \<Rightarrow> Err (Invalid (''onion: invalid onion address: '' @ d))
          | Inl _ \<Rightarrow> Err (Invalid ''onion'')
          | Inr _ \<Rightarrow> Ok ())"

definition encode_code :: "(bytes \<Rightarrow> string) \<Rightarrow> bytes \<Rightarrow> string" where
  "encode_code b58 qr_bytes = b58 qr_bytes"

definition decode_code :: "(string \<Rightarrow> string + bytes) \<Rightarrow> string \<Rightarrow> pairing_error + bytes" where
  "decode_code unb58 code =
     map_err (\<lambda>e. Invalid (''base58: '' @ e)) (unb58 (text_of (trim (byte_str code))))"

section \<open>Safety codes\<close>

text \<open>The order of byte slices.\<close>

fun bytes_le :: "bytes \<Rightarrow> bytes \<Rightarrow> bool" where
  "bytes_le [] b = True"
| "bytes_le (x # a) [] = False"
| "bytes_le (x # a) (y # b) = (x < y \<or> x = y \<and> bytes_le a b)"

definition SAS_LABEL :: bytes where "SAS_LABEL = byte_str ''s//chat6-v7 SAS''"

definition RELATIONSHIP_LABEL :: bytes where "RELATIONSHIP_LABEL = byte_str ''s//chat6-v7 REL''"

definition ordered :: "bytes \<Rightarrow> bytes \<Rightarrow> bytes \<times> bytes" where
  "ordered a b = (if bytes_le a b then (a, b) else (b, a))"

definition relationship_id :: "(bytes \<Rightarrow> bytes) \<Rightarrow> bytes \<Rightarrow> bytes \<Rightarrow> bytes" where
  "relationship_id sha256 identity_a identity_b =
     (let (mn, mx) = ordered identity_a identity_b in sha256 (RELATIONSHIP_LABEL @ mn @ mx))"

definition sas :: "(bytes \<Rightarrow> bytes) \<Rightarrow> bytes \<Rightarrow> bytes \<Rightarrow> bytes \<Rightarrow> bytes \<Rightarrow> string" where
  "sas sha256 identity_a nonce_a identity_b nonce_b =
     (let (min_ik, max_ik, min_nonce, max_nonce) =
            (if bytes_le identity_a identity_b then (identity_a, identity_b, nonce_a, nonce_b)
             else (identity_b, identity_a, nonce_b, nonce_a));
          digest = sha256 (SAS_LABEL @ min_ik @ max_ik @ min_nonce @ max_nonce);
          digits = show_nat (of_be (take 8 digest) mod 100000000)
      in replicate (8 - length digits) CHR ''0'' @ digits)"

section \<open>Reading and writing invitations\<close>

named_theorems qr_eval

lemma qr_take_eval [qr_eval]: "length x = n \<Longrightarrow> qr_take n (x @ r) = Ok (x, r)"
  by (auto simp: qr_take_def)

lemma qr_take_Ok: "qr_take n r = Ok (x, r') \<longleftrightarrow> r = x @ r' \<and> length x = n"
  by (auto simp: qr_take_def)

lemma qr_u8_eval [qr_eval]: "qr_u8 (b # r) = Ok (b, r)"
  by (simp add: qr_u8_def qr_take_def rbind_def)

lemma qr_u8_Ok: "qr_u8 r = Ok (b, r') \<longleftrightarrow> r = b # r'"
  by (auto simp: qr_u8_def rbind_Inr_iff qr_take_Ok length_Suc_conv intro!: exI [of _ "[b]"])

lemma qr_u32_eval [qr_eval]: "qr_u32 (be32 v @ r) = Ok (v, r)"
  by (simp add: qr_u32_def qr_eval rbind_def)

lemma qr_u32_Ok: "qr_u32 r = Ok (v, r') \<longleftrightarrow> r = be32 v @ r'"
  by (auto simp: qr_u32_def rbind_Inr_iff qr_take_Ok be32_of_bytes intro!: exI [of _ "be32 v"])

lemma qr_u64_eval [qr_eval]: "qr_u64 (be64 v @ r) = Ok (v, r)"
  by (simp add: qr_u64_def qr_eval rbind_def)

lemma qr_u64_Ok: "qr_u64 r = Ok (v, r') \<longleftrightarrow> r = be64 v @ r'"
  by (auto simp: qr_u64_def rbind_Inr_iff qr_take_Ok be64_of_bytes intro!: exI [of _ "be64 v"])

lemma of_be_be16: "n < 65536 \<Longrightarrow> of_be (be16 (of_nat n)) = n"
  by (simp add: be16_def of_be_be_bytes unat_of_nat)

lemma qr_field_eval [qr_eval]:
  "0 < length x \<Longrightarrow> length x \<le> mx \<Longrightarrow> mx < 65536 \<Longrightarrow> qr_field mx (qr_lp x @ r) = Ok (x, r)"
  by (simp add: qr_field_def qr_lp_def qr_eval of_be_be16 rbind_def)

lemma qr_field_Ok:
  assumes "mx < 65536"
  shows "qr_field mx r = Ok (x, r') \<longleftrightarrow> r = qr_lp x @ r' \<and> 0 < length x \<and> length x \<le> mx"
proof
  assume "qr_field mx r = Ok (x, r')"
  then obtain b where "r = b @ x @ r'" "length b = 2" "length x = of_be b" "0 < of_be b" "of_be b \<le> mx"
    by (auto simp: qr_field_def rbind_Inr_iff qr_take_Ok Let_def split: if_splits)
  then show "r = qr_lp x @ r' \<and> 0 < length x \<and> length x \<le> mx"
    using be16_of_bytes [of b] by (simp add: qr_lp_def)
qed (use assms in \<open>simp add: qr_eval\<close>)

lemma qr_exact_eval [qr_eval]:
  "0 < n \<Longrightarrow> n < 65536 \<Longrightarrow> length x = n \<Longrightarrow> qr_exact n what (qr_lp x @ r) = Ok (x, r)"
  by (simp add: qr_exact_def qr_eval rbind_def)

lemma qr_exact_Ok:
  "0 < n \<Longrightarrow> n < 65536 \<Longrightarrow> qr_exact n what r = Ok (x, r') \<longleftrightarrow> r = qr_lp x @ r' \<and> length x = n"
  by (auto simp: qr_exact_def rbind_Inr_iff qr_field_Ok)

text \<open>The optional one-time pre-key: a flag, and the key behind it.\<close>

definition pre_key_bytes :: "(u32 \<times> bytes) option \<Rightarrow> bytes" where
  "pre_key_bytes pk = (case pk of Some (i, k) \<Rightarrow> [1] @ be32 i @ qr_lp k | None \<Rightarrow> [0])"

definition field_ok :: "nat \<Rightarrow> bytes \<Rightarrow> bool" where
  "field_ok mx x \<longleftrightarrow> 0 < length x \<and> length x \<le> mx"

definition pre_key_ok :: "(u32 \<times> bytes) option \<Rightarrow> bool" where
  "pre_key_ok pk = (case pk of Some (i, k) \<Rightarrow> field_ok 64 k | None \<Rightarrow> True)"

lemma qr_pre_key_eval [qr_eval]: "pre_key_ok pk \<Longrightarrow> qr_pre_key (pre_key_bytes pk @ r) = Ok (pk, r)"
  by (auto simp: pre_key_ok_def field_ok_def pre_key_bytes_def qr_pre_key_def qr_eval rbind_def split: option.splits)

lemma qr_pre_key_Ok: "qr_pre_key r = Ok (pk, r') \<longleftrightarrow> r = pre_key_bytes pk @ r' \<and> pre_key_ok pk"
proof
  assume "qr_pre_key r = Ok (pk, r')"
  then show "r = pre_key_bytes pk @ r' \<and> pre_key_ok pk"
    by (auto simp: qr_pre_key_def rbind_Inr_iff qr_u8_Ok qr_u32_Ok qr_field_Ok pre_key_bytes_def
        pre_key_ok_def field_ok_def split: if_splits)
qed (simp add: qr_eval)

definition PairingPayload_wf :: "pairing_payload \<Rightarrow> bool" where
  "PairingPayload_wf p \<longleftrightarrow>
     field_ok 64 (pp_identity_key p) \<and> pre_key_ok (pp_pre_key p) \<and>
     field_ok 64 (pp_signed_pre_key_public p) \<and> field_ok 64 (pp_signed_pre_key_signature p) \<and>
     field_ok MAX_FIELD (pp_kyber_pre_key_public p) \<and> field_ok 64 (pp_kyber_pre_key_signature p) \<and>
     length (pp_onion p) = ONION_RAW_BYTES \<and> length (pp_client_auth_public p) = 32 \<and>
     length (pp_nonce p) = 32 \<and> field_ok 64 (pp_signature p)"

lemma signed_body_eq:
  "PairingPayload_encode p =
     QR_LABEL @ QR_VERSION # qr_lp (pp_identity_key p) @ be32 (pp_registration_id p) @
     pre_key_bytes (pp_pre_key p) @ be32 (pp_signed_pre_key_id p) @ qr_lp (pp_signed_pre_key_public p) @
     qr_lp (pp_signed_pre_key_signature p) @ be32 (pp_kyber_pre_key_id p) @
     qr_lp (pp_kyber_pre_key_public p) @ qr_lp (pp_kyber_pre_key_signature p) @
     qr_lp (pp_onion p) @ qr_lp (pp_client_auth_public p) @ qr_lp (pp_nonce p) @
     be64 (pp_expires_at p) @ qr_lp (pp_signature p)"
  by (simp add: PairingPayload_encode_def signed_body_def pre_key_bytes_def qr_lp_def)

lemma encode_length:
  assumes "PairingPayload_wf p"
  shows "length (PairingPayload_encode p) \<le> MAX_QR_PAYLOAD_BYTES"
  using assms
  by (auto simp: PairingPayload_wf_def signed_body_eq field_ok_def pre_key_ok_def pre_key_bytes_def
      qr_lp_def QR_LABEL_def byte_str_def limit_defs split: option.splits)

lemma decode_encode_payload:
  assumes "PairingPayload_wf p"
  shows "PairingPayload_decode (PairingPayload_encode p) = Ok p"
proof -
  have "\<not> MAX_QR_PAYLOAD_BYTES < length (PairingPayload_encode p)"
    using encode_length [OF assms] by simp
  then show ?thesis
    using assms qr_field_eval [where mx = 64 and r = "[]"]
    unfolding PairingPayload_decode_def
    by (simp add: signed_body_eq PairingPayload_wf_def field_ok_def qr_eval rbind_def limit_defs)
qed

lemma decode_payload_inv:
  assumes "PairingPayload_decode bs = Ok p"
  shows "PairingPayload_wf p \<and> PairingPayload_encode p = bs"
  using assms
  by (auto simp: PairingPayload_decode_def rbind_Inr_iff qr_take_Ok qr_u8_Ok qr_u32_Ok qr_u64_Ok
      qr_field_Ok qr_exact_Ok qr_pre_key_Ok limit_defs signed_body_eq PairingPayload_wf_def field_ok_def
      split: if_splits)

interpretation pairing_code:
  canonical_payload "\<lambda>p. Ok (PairingPayload_encode p)" PairingPayload_decode PairingPayload_wf
  using decode_encode_payload decode_payload_inv by unfold_locales blast

section \<open>Symmetry of the safety code\<close>

lemma bytes_le_total: "\<not> bytes_le a b \<Longrightarrow> bytes_le b a"
  by (induction a b rule: bytes_le.induct) auto

lemma bytes_le_antisym: "bytes_le a b \<Longrightarrow> bytes_le b a \<Longrightarrow> a = b"
proof (induction a b rule: bytes_le.induct)
  case (1 b)
  then show ?case by (cases b) auto
qed auto

lemma relationship_id_sym: "relationship_id sha256 a b = relationship_id sha256 b a"
  using bytes_le_total [of a b] bytes_le_antisym [of a b]
  by (auto simp: relationship_id_def ordered_def)

lemma sas_sym: "a \<noteq> b \<Longrightarrow> sas sha256 a na b nb = sas sha256 b nb a na"
  using bytes_le_total [of a b] bytes_le_antisym [of a b] by (auto simp: sas_def)

lemma raw_hostname:
  assumes "\<And>x. 2 \<le> length (sha3 x)" "raw_from_hostname sha3 unb32 host = Ok raw"
  shows "hostname_from_raw sha3 b32 raw = Ok (hostname_from_pubkey sha3 b32 (take 32 raw)) \<and>
    length raw = ONION_RAW_BYTES"
proof -
  from assms(2) obtain pk where pk: "pubkey_from_hostname sha3 unb32 host = Ok pk"
      "raw = pk @ onion_checksum sha3 pk @ [ONION_VERSION]"
    by (auto simp: raw_from_hostname_def rbind_Inr_iff)
  then have "length pk = 32"
    by (auto simp: pubkey_from_hostname_def Let_def rbind_Inr_iff limit_defs split: if_splits)
  moreover have "length (onion_checksum sha3 pk) = 2" using assms(1) by (simp add: onion_checksum_def)
  ultimately show ?thesis by (simp add: pk(2) hostname_from_raw_def nth_append limit_defs)
qed

text \<open>
  C16: the invitation codec is exact. The bytes that decode are the encodings of the payloads
  whose fields keep the limits of the decoder, each payload has one encoding, and no such
  payload exceeds the limit on the whole.
\<close>

theorem invitation_exact:
  "PairingPayload_decode bs = Ok p \<longleftrightarrow> PairingPayload_wf p \<and> PairingPayload_encode p = bs"
  using pairing_code.decode_iff [of bs p] by simp

end
