(* ===== verification/Pairing.thy ===== *)
theory Pairing
  imports Signal_Store Pairing_Code Engine_Features
begin

text \<open>
  The invitation ceremony of \<^verbatim>\<open>crates/core/src/pairing\<close>: offering, accepting, the intro that
  reaches the inviter, the request bucket, and the services after a restart; with the personas
  of \<^verbatim>\<open>session/persona.rs\<close>. The state is the database with the tables of the key stores and the
  one pending invitation. The ratchet library, key generation, signatures, hashes, the text
  codecs and the transport are a record of functions; the library's calls that read and write
  the key stores take them as an argument.
\<close>

section \<open>State\<close>

record key_pair =
  kp_public :: bytes
  kp_private :: bytes

text \<open>A signed pre-key record of either kind, and the public bundle of a persona.\<close>

record signed_pre_key =
  sk_id :: u32
  sk_pair :: key_pair
  sk_signature :: bytes

record pre_key_bundle =
  bu_registration_id :: u32
  bu_device_id :: u32
  bu_pre_key :: "(u32 \<times> bytes) option"
  bu_signed_pre_key_id :: u32
  bu_signed_pre_key_public :: bytes
  bu_signed_pre_key_signature :: bytes
  bu_kyber_pre_key_id :: u32
  bu_kyber_pre_key_public :: bytes
  bu_kyber_pre_key_signature :: bytes
  bu_identity_key :: bytes

record persona =
  pe_identity :: key_pair
  pe_registration_id :: u32
  pe_signed_pre_key :: signed_pre_key
  pe_kyber_pre_key :: signed_pre_key
  pe_one_time_pre_key :: "u32 \<times> key_pair"

text \<open>
  The functions outside the sources. A parser that only checks its input gives the text of its
  error. \<open>pw_process_bundle\<close>, \<open>pw_decrypt_prekey\<close>, \<open>pw_decrypt\<close> and \<open>pw_encrypt\<close> are the calls of
  the ratchet library that work on the key stores; \<open>pw_prekey_identity\<close> parses a pre-key message
  and gives the identity key inside it.
\<close>

record 'x pairing_world =
  pw_sha256 :: "bytes \<Rightarrow> bytes"
  pw_sha3 :: "bytes \<Rightarrow> bytes"
  pw_b32 :: "bytes \<Rightarrow> string"
  pw_unb32 :: "string \<Rightarrow> string + bytes"
  pw_b58 :: "bytes \<Rightarrow> string"
  pw_unb58 :: "string \<Rightarrow> string + bytes"
  pw_random :: "'x \<Rightarrow> bytes \<times> 'x"
  pw_x25519 :: "bytes \<Rightarrow> bytes"
  pw_key_pair :: "'x \<Rightarrow> key_pair \<times> 'x"
  pw_registration_id :: "'x \<Rightarrow> u32 \<times> 'x"
  pw_sign :: "'x \<Rightarrow> bytes \<Rightarrow> bytes \<Rightarrow> (string + bytes) \<times> 'x"
  pw_kyber_pre_key :: "'x \<Rightarrow> u32 \<Rightarrow> bytes \<Rightarrow> (string + signed_pre_key) \<times> 'x"
  pw_verify :: "bytes \<Rightarrow> bytes \<Rightarrow> bytes \<Rightarrow> bool"
  pw_identity_error :: "bytes \<Rightarrow> string option"
  pw_public_error :: "bytes \<Rightarrow> string option"
  pw_kem_error :: "bytes \<Rightarrow> string option"
  pw_bundle_error :: "pre_key_bundle \<Rightarrow> string option"
  pw_keypair_blob :: "key_pair \<Rightarrow> bytes"
  pw_keypair_parse :: "bytes \<Rightarrow> string + key_pair"
  pw_pre_key_blob :: "u32 \<times> key_pair \<Rightarrow> key_error + bytes"
  pw_signed_pre_key_blob :: "signed_pre_key \<Rightarrow> key_error + bytes"
  pw_kyber_blob :: "signed_pre_key \<Rightarrow> key_error + bytes"
  pw_key_error_text :: "key_error \<Rightarrow> string"
  pw_process_bundle :: "signal_tables \<times> 'x \<Rightarrow> string \<Rightarrow> pre_key_bundle \<Rightarrow> (signal_error + unit) \<times> (signal_tables \<times> 'x)"
  pw_prekey_identity :: "bytes \<Rightarrow> string + bytes"
  pw_decrypt_prekey :: "signal_tables \<times> 'x \<Rightarrow> string \<Rightarrow> bytes \<Rightarrow> (signal_error + bytes) \<times> (signal_tables \<times> 'x)"
  pw_decrypt :: "(signal_tables \<times> 'x) lib_decrypt"
  pw_encrypt :: "(signal_tables \<times> 'x) lib_encrypt"
  pw_padding :: "'x \<Rightarrow> (nat \<Rightarrow> u8) \<times> 'x"
  pw_host_service :: "'x \<Rightarrow> string \<Rightarrow> bool \<Rightarrow> (transport_error + string) \<times> 'x"
  pw_host_service_with_auth :: "'x \<Rightarrow> string \<Rightarrow> string list \<Rightarrow> (transport_error + string) \<times> 'x"
  pw_remove_service :: "'x \<Rightarrow> string \<Rightarrow> (transport_error + unit) \<times> 'x"
  pw_install_client_auth :: "'x \<Rightarrow> string \<Rightarrow> string \<Rightarrow> (transport_error + unit) \<times> 'x"
  pw_send_record :: "'x \<Rightarrow> string \<Rightarrow> bytes option \<Rightarrow> bytes \<Rightarrow> bool \<Rightarrow> (transport_error + unit) \<times> 'x"

record pending_row =
  pn_service_id :: string
  pn_onion :: string
  pn_qr_bytes :: bytes
  pn_client_auth_private :: string
  pn_expires_at :: u64

record 'x pairing_state =
  ps_db :: db
  ps_signal :: signal_tables
  ps_offer :: "pending_row option"
  ps_counters :: rate_counters
  ps_ext :: 'x

type_synonym ('x, 'a) pairing = "(pairing_failure, 'x pairing_state, 'a) fallible"

definition p_ext :: "('x \<Rightarrow> 'a \<times> 'x) \<Rightarrow> ('x, 'a) pairing" where
  "p_ext f s = (let (r, x) = f (ps_ext s) in (Ok r, s\<lparr>ps_ext := x\<rparr>))"

text \<open>A call of the transport whose error is passed up.\<close>

definition p_transport :: "('x \<Rightarrow> (transport_error + 'a) \<times> 'x) \<Rightarrow> ('x, 'a) pairing" where
  "p_transport f s = (let (r, x) = f (ps_ext s) in (map_err PairingTransport r, s\<lparr>ps_ext := x\<rparr>))"

definition p_db :: "(db \<Rightarrow> db) \<Rightarrow> ('x, unit) pairing" where
  "p_db f = smodify (\<lambda>s. s\<lparr>ps_db := f (ps_db s)\<rparr>)"

definition p_library ::
    "(signal_tables \<times> 'x \<Rightarrow> 'a \<times> (signal_tables \<times> 'x)) \<Rightarrow> ('x, 'a) pairing" where
  "p_library f s =
     (case f (ps_signal s, ps_ext s) of (r, t, x) \<Rightarrow> (Ok r, s\<lparr>ps_signal := t, ps_ext := x\<rparr>))"

section \<open>Personas\<close>

definition SIGNED_PREKEY_ID :: u32 where "SIGNED_PREKEY_ID = 1"

definition KYBER_PREKEY_ID :: u32 where "KYBER_PREKEY_ID = 1"

definition ONE_TIME_PREKEY_ID :: u32 where "ONE_TIME_PREKEY_ID = 1"

definition p_malformed :: "string \<Rightarrow> string + 'a \<Rightarrow> ('x, 'a) pairing" where
  "p_malformed what r = slift (map_err (\<lambda>e. PairingSession (Malformed (what @ e))) r)"

definition generate_persona :: "'x pairing_world \<Rightarrow> ('x, persona) pairing" where
  "generate_persona W =
     sbind (p_ext (pw_key_pair W)) (\<lambda>identity.
     sbind (p_ext (pw_registration_id W)) (\<lambda>registration_id.
     sbind (p_ext (pw_key_pair W)) (\<lambda>signed_pair.
     sbind (p_ext (\<lambda>x. pw_sign W x (kp_private identity) (kp_public signed_pair))) (\<lambda>sig.
     sbind (p_malformed ''spk sign: '' sig) (\<lambda>signed_sig.
     sbind (p_ext (\<lambda>x. pw_kyber_pre_key W x KYBER_PREKEY_ID (kp_private identity))) (\<lambda>kyber.
     sbind (p_malformed ''kyber keygen: '' kyber) (\<lambda>kyber_pre_key.
     sbind (p_ext (pw_key_pair W)) (\<lambda>one_time.
     sret \<lparr>pe_identity = identity, pe_registration_id = registration_id,
           pe_signed_pre_key =
             \<lparr>sk_id = SIGNED_PREKEY_ID, sk_pair = signed_pair, sk_signature = signed_sig\<rparr>,
           pe_kyber_pre_key = kyber_pre_key,
           pe_one_time_pre_key = (ONE_TIME_PREKEY_ID, one_time)\<rparr>))))))))"

text \<open>The error of a key store becomes a corrupt-store error with the library's text.\<close>

definition p_keys :: "'x pairing_world \<Rightarrow> (signal_tables \<Rightarrow> key_error + signal_tables) \<Rightarrow> ('x, unit) pairing" where
  "p_keys W f s =
     (case f (ps_signal s) of
        Inl e \<Rightarrow> (Err (PairingSession (SessionStore (Corrupt (pw_key_error_text W e)))), s)
      | Inr t \<Rightarrow> (Ok (), s\<lparr>ps_signal := t\<rparr>))"

definition store_persona :: "'x pairing_world \<Rightarrow> string \<Rightarrow> persona \<Rightarrow> ('x, unit) pairing" where
  "store_persona W namespace p =
     sbind (p_keys W (create_local namespace (pe_registration_id p) (pw_keypair_blob W (pe_identity p)))) (\<lambda>_.
     sbind (p_keys W (save_pre_key namespace ONE_TIME_PREKEY_ID (pw_pre_key_blob W (pe_one_time_pre_key p)))) (\<lambda>_.
     sbind (p_keys W (save_signed_pre_key namespace SIGNED_PREKEY_ID
              (pw_signed_pre_key_blob W (pe_signed_pre_key p)))) (\<lambda>_.
     p_keys W (save_kyber_pre_key namespace KYBER_PREKEY_ID (pw_kyber_blob W (pe_kyber_pre_key p))))))"

text \<open>The library may refuse the parts; a bundle it has built gives them back unchanged.\<close>

definition bundle_of :: "persona \<Rightarrow> pre_key_bundle" where
  "bundle_of p =
     \<lparr>bu_registration_id = pe_registration_id p, bu_device_id = 1,
      bu_pre_key = Some (ONE_TIME_PREKEY_ID, kp_public (snd (pe_one_time_pre_key p))),
      bu_signed_pre_key_id = SIGNED_PREKEY_ID,
      bu_signed_pre_key_public = kp_public (sk_pair (pe_signed_pre_key p)),
      bu_signed_pre_key_signature = sk_signature (pe_signed_pre_key p),
      bu_kyber_pre_key_id = KYBER_PREKEY_ID,
      bu_kyber_pre_key_public = kp_public (sk_pair (pe_kyber_pre_key p)),
      bu_kyber_pre_key_signature = sk_signature (pe_kyber_pre_key p),
      bu_identity_key = kp_public (pe_identity p)\<rparr>"

definition persona_bundle :: "'x pairing_world \<Rightarrow> persona \<Rightarrow> ('x, pre_key_bundle) pairing" where
  "persona_bundle W p =
     (case pw_bundle_error W (bundle_of p) of
        Some e \<Rightarrow> sthrow (PairingSession (Malformed (''bundle: '' @ e)))
      | None \<Rightarrow> sret (bundle_of p))"

definition from_bundle :: "pre_key_bundle \<Rightarrow> bytes \<Rightarrow> bytes \<Rightarrow> bytes \<Rightarrow> u64 \<Rightarrow> pairing_payload" where
  "from_bundle b onion client_auth_public nonce expires_at =
     \<lparr>pp_identity_key = bu_identity_key b, pp_registration_id = bu_registration_id b,
      pp_pre_key = bu_pre_key b, pp_signed_pre_key_id = bu_signed_pre_key_id b,
      pp_signed_pre_key_public = bu_signed_pre_key_public b,
      pp_signed_pre_key_signature = bu_signed_pre_key_signature b,
      pp_kyber_pre_key_id = bu_kyber_pre_key_id b,
      pp_kyber_pre_key_public = bu_kyber_pre_key_public b,
      pp_kyber_pre_key_signature = bu_kyber_pre_key_signature b, pp_onion = onion,
      pp_client_auth_public = client_auth_public, pp_nonce = nonce, pp_expires_at = expires_at,
      pp_signature = []\<rparr>"

definition sign_payload :: "'x pairing_world \<Rightarrow> bytes \<Rightarrow> pairing_payload \<Rightarrow> ('x, pairing_payload) pairing" where
  "sign_payload W identity p =
     sbind (p_ext (\<lambda>x. pw_sign W x identity (signed_body p))) (\<lambda>sig.
     case sig of
       Inl e \<Rightarrow> sthrow (PairingPayload (Invalid (''sign: '' @ e)))
     | Inr sg \<Rightarrow> sret (p\<lparr>pp_signature := sg\<rparr>))"

definition to_bundle :: "'x pairing_world \<Rightarrow> pairing_payload \<Rightarrow> pairing_error + pre_key_bundle" where
  "to_bundle W p =
     (let bad = (\<lambda>e. case e of Some d \<Rightarrow> Err (Invalid d) | None \<Rightarrow> Ok ());
          b = \<lparr>bu_registration_id = pp_registration_id p, bu_device_id = 1, bu_pre_key = pp_pre_key p,
               bu_signed_pre_key_id = pp_signed_pre_key_id p,
               bu_signed_pre_key_public = pp_signed_pre_key_public p,
               bu_signed_pre_key_signature = pp_signed_pre_key_signature p,
               bu_kyber_pre_key_id = pp_kyber_pre_key_id p,
               bu_kyber_pre_key_public = pp_kyber_pre_key_public p,
               bu_kyber_pre_key_signature = pp_kyber_pre_key_signature p,
               bu_identity_key = pp_identity_key p\<rparr>
      in rbind (case pp_pre_key p of Some (_, pk) \<Rightarrow> bad (pw_public_error W pk) | None \<Rightarrow> Ok ()) (\<lambda>_.
         rbind (bad (pw_public_error W (pp_signed_pre_key_public p))) (\<lambda>_.
         rbind (bad (pw_kem_error W (pp_kyber_pre_key_public p))) (\<lambda>_.
         rbind (bad (map_option (\<lambda>e. ''identity key: '' @ e) (pw_identity_error W (pp_identity_key p)))) (\<lambda>_.
         rbind (bad (pw_bundle_error W b)) (\<lambda>_. Ok b))))))"

section \<open>Relationship rows\<close>

text \<open>The columns the insert does not name have the defaults of the schema.\<close>

definition new_relationship ::
    "string \<Rightarrow> string \<Rightarrow> string \<Rightarrow> string \<Rightarrow> string \<Rightarrow> bytes \<Rightarrow> string \<Rightarrow> string \<Rightarrow> bytes \<Rightarrow> bytes \<Rightarrow>
     bytes \<Rightarrow> bool \<Rightarrow> u64 \<Rightarrow> rel_row" where
  "new_relationship role state service_id onion peer_onion peer_identity_key peer_client_auth_public
       our_client_auth_private our_nonce peer_nonce our_qr_bytes intro_pending now =
     \<lparr>policy_ttl_sec = 86400, policy_flags = 3, policy_wants = 31868, policy_pending = None,
      policy_last_sync_at = 0, rel_role = role, rel_state = state, rel_service_id = service_id,
      rel_onion = onion, rel_peer_onion = peer_onion, rel_peer_identity_key = peer_identity_key,
      rel_peer_client_auth_public = peer_client_auth_public,
      rel_our_client_auth_private = our_client_auth_private, rel_our_nonce = our_nonce,
      rel_peer_nonce = peer_nonce, rel_our_qr_bytes = our_qr_bytes,
      rel_intro_pending = intro_pending, rel_session_state = ''active'', rel_created_at = now,
      rel_peer_caps = 0, rel_close_state = None, rel_history_cut_seq = 0, rel_peer_prefs = None\<rparr>"

definition insert_relationship :: "string \<Rightarrow> rel_row \<Rightarrow> ('x, unit) pairing" where
  "insert_relationship rel_id row s =
     (if length (db_rels (ps_db s)) \<ge> MAX_RELATIONSHIPS
      then (Err (CapReached (''relationships ('' @ show_nat MAX_RELATIONSHIPS @ '')'')), s)
      else if rel_of rel_id (ps_db s) \<noteq> None then (Err (PairingSqlite UniqueViolation), s)
      else (Ok (), s\<lparr>ps_db := (ps_db s)\<lparr>db_rels := db_rels (ps_db s) @ [(rel_id, row)]\<rparr>\<rparr>))"

definition load_relationship_by_service :: "string \<Rightarrow> db \<Rightarrow> (string \<times> rel_row) option" where
  "load_relationship_by_service service_id db = find (\<lambda>(_, r). rel_service_id r = service_id) (db_rels db)"

definition clear_intro_pending :: "string \<Rightarrow> db \<Rightarrow> db" where
  "clear_intro_pending rel_id db = update_rel rel_id (\<lambda>r. r\<lparr>rel_intro_pending := False\<rparr>) db"

definition our_identity_key :: "'x pairing_world \<Rightarrow> string \<Rightarrow> ('x, bytes) pairing" where
  "our_identity_key W namespace s =
     (case map_of (sg_locals (ps_signal s)) (namespace, ()) of
        None \<Rightarrow> (Err (PairingSqlite NoRows), s)
      | Some row \<Rightarrow>
          (case pw_keypair_parse W (lo_keypair row) of
             Inl e \<Rightarrow> (Err (PairingStore (Corrupt (''identity keypair: '' @ e))), s)
           | Inr k \<Rightarrow> (Ok (kp_public k), s)))"

definition service_id_for :: "bytes \<Rightarrow> string" where
  "service_id_for identity = hex_encode identity"

section \<open>Client authorization keys\<close>

record client_auth_keys =
  ca_public_b32 :: string
  ca_private_b32 :: string

definition ClientAuthKeys_generate :: "'x pairing_world \<Rightarrow> ('x, client_auth_keys) pairing" where
  "ClientAuthKeys_generate W =
     sbind (p_ext (pw_random W)) (\<lambda>secret.
     sret \<lparr>ca_public_b32 = base32_lower (pw_b32 W) (pw_x25519 W secret),
           ca_private_b32 = base32_lower (pw_b32 W) secret\<rparr>)"

definition decode_client_auth_key :: "'x pairing_world \<Rightarrow> string \<Rightarrow> transport_error + bytes" where
  "decode_client_auth_key W b32 =
     rbind (base32_decode (pw_unb32 W) b32) (\<lambda>raw.
     if length raw \<noteq> 32 then Err (KeyStore ''client-auth key must be 32 bytes'') else Ok raw)"

section \<open>Offer\<close>

record offer =
  of_qr_bytes :: bytes
  of_code :: string
  of_onion :: string
  of_expires_at :: u64
  of_service_id :: string

definition clear_pending :: "'x pairing_world \<Rightarrow> ('x, unit) pairing" where
  "clear_pending W =
     sbind (sget ps_offer) (\<lambda>found.
     case found of
       None \<Rightarrow> sret ()
     | Some pending \<Rightarrow>
         sbind (p_ext (\<lambda>x. pw_remove_service W x (pn_service_id pending))) (\<lambda>_.
         sbind (smodify (\<lambda>s. s\<lparr>ps_offer := None\<rparr>)) (\<lambda>_.
         smodify (\<lambda>s. s\<lparr>ps_signal := delete_namespace PENDING_NAMESPACE (ps_signal s)\<rparr>))))"

definition sweep_offer :: "'x pairing_world \<Rightarrow> u64 \<Rightarrow> ('x, unit) pairing" where
  "sweep_offer W now =
     sbind (sget ps_offer) (\<lambda>found.
     case found of
       None \<Rightarrow> sret ()
     | Some pending \<Rightarrow> if pn_expires_at pending \<le> now then clear_pending W else sret ())"

definition abort_offer :: "'x pairing_world \<Rightarrow> ('x, unit) pairing" where
  "abort_offer W = clear_pending W"

definition insert_pending :: "pending_row \<Rightarrow> ('x, unit) pairing" where
  "insert_pending row s =
     (if ps_offer s \<noteq> None then (Err (PairingSqlite UniqueViolation), s)
      else (Ok (), s\<lparr>ps_offer := Some row\<rparr>))"

text \<open>The signed invitation of a persona at an onion address.\<close>

definition make_payload ::
    "'x pairing_world \<Rightarrow> persona \<Rightarrow> string \<Rightarrow> client_auth_keys \<Rightarrow> bytes \<Rightarrow> u64 \<Rightarrow> ('x, pairing_payload) pairing" where
  "make_payload W persona onion client_auth nonce expires_at =
     sbind (persona_bundle W persona) (\<lambda>bundle.
     sbind (slift (map_err PairingTransport (raw_from_hostname (pw_sha3 W) (pw_unb32 W) onion))) (\<lambda>onion_raw.
     sbind (slift (map_err PairingTransport (decode_client_auth_key W (ca_public_b32 client_auth)))) (\<lambda>auth.
     sign_payload W (kp_private (pe_identity persona)) (from_bundle bundle onion_raw auth nonce expires_at))))"

definition offer_pairing :: "'x pairing_world \<Rightarrow> u64 \<Rightarrow> ('x, offer) pairing" where
  "offer_pairing W now =
     sbind (sweep_offer W now) (\<lambda>_.
     sbind (clear_pending W) (\<lambda>_.
     sbind (generate_persona W) (\<lambda>persona.
     sbind (ClientAuthKeys_generate W) (\<lambda>client_auth.
     sbind (p_ext (pw_random W)) (\<lambda>nonce.
     let service_id = service_id_for (kp_public (pe_identity persona)) in
     sbind (p_transport (\<lambda>x. pw_host_service W x service_id False)) (\<lambda>onion.
     sbind (slift (map_err PairingTransport (raw_from_hostname (pw_sha3 W) (pw_unb32 W) onion))) (\<lambda>_.
     let expires_at = now + OFFER_TTL_SECONDS in
     sbind (make_payload W persona onion client_auth nonce expires_at) (\<lambda>payload.
     let qr_bytes = PairingPayload_encode payload in
     sbind (store_persona W PENDING_NAMESPACE persona) (\<lambda>_.
     sbind (insert_pending
              \<lparr>pn_service_id = service_id, pn_onion = onion, pn_qr_bytes = qr_bytes,
               pn_client_auth_private = ca_private_b32 client_auth, pn_expires_at = expires_at\<rparr>) (\<lambda>_.
     sret \<lparr>of_qr_bytes = qr_bytes, of_code = encode_code (pw_b58 W) qr_bytes, of_onion = onion,
           of_expires_at = expires_at, of_service_id = service_id\<rparr>))))))))))"

section \<open>Accept\<close>

record accepted =
  ac_rel_id :: string
  ac_sas :: string
  ac_peer_onion :: string
  ac_onion :: string

definition verify_payload :: "'x pairing_world \<Rightarrow> u64 \<Rightarrow> bool \<Rightarrow> pairing_payload \<Rightarrow> pairing_error + unit" where
  "verify_payload W now enforce_expiry p =
     PairingPayload_verify (pw_sha3 W) (pw_b32 W) (pw_identity_error W) (pw_verify W) now enforce_expiry p"

definition onion_of_payload :: "'x pairing_world \<Rightarrow> pairing_payload \<Rightarrow> pairing_failure + string" where
  "onion_of_payload W p =
     (case hostname_from_raw (pw_sha3 W) (pw_b32 W) (pp_onion p) of
        Inl (InvalidOnion d) \<Rightarrow> Err (PairingPayload (Invalid (''onion: invalid onion address: '' @ d)))
      | Inl _ \<Rightarrow> Err (PairingPayload (Invalid ''onion''))
      | Inr host \<Rightarrow> Ok (host @ ''.onion''))"

definition process_bundle :: "'x pairing_world \<Rightarrow> string \<Rightarrow> pre_key_bundle \<Rightarrow> ('x, unit) pairing" where
  "process_bundle W rel_id bundle =
     sbind (p_library (\<lambda>st. pw_process_bundle W st rel_id bundle)) (\<lambda>r.
     case r of
       Inl e \<Rightarrow> sthrow (PairingSession (case classify_signal_error e of Some e \<Rightarrow> e | None \<Rightarrow> Malformed ''unclassified''))
     | Inr _ \<Rightarrow> sret ())"

definition accept_inner ::
    "'x pairing_world \<Rightarrow> pairing_payload \<Rightarrow> persona \<Rightarrow> string \<Rightarrow> string \<Rightarrow> string \<Rightarrow> client_auth_keys \<Rightarrow>
     bytes \<Rightarrow> u64 \<Rightarrow> ('x, accepted) pairing" where
  "accept_inner W payload persona rel_id service_id peer_onion our_client_auth our_nonce now =
     sbind (p_transport (\<lambda>x. pw_host_service_with_auth W x service_id
              [base32_lower (pw_b32 W) (pp_client_auth_public payload)])) (\<lambda>our_onion.
     sbind (p_transport (\<lambda>x. pw_install_client_auth W x peer_onion (ca_private_b32 our_client_auth))) (\<lambda>_.
     sbind (store_persona W rel_id persona) (\<lambda>_.
     sbind (slift (map_err PairingPayload (to_bundle W payload))) (\<lambda>bundle.
     sbind (process_bundle W rel_id bundle) (\<lambda>_.
     sbind (make_payload W persona our_onion our_client_auth our_nonce (now + OFFER_TTL_SECONDS)) (\<lambda>our_payload.
     sbind (insert_relationship rel_id
              (new_relationship ROLE_ACCEPTER STATE_ACTIVE service_id our_onion peer_onion
                 (pp_identity_key payload) (base32_lower (pw_b32 W) (pp_client_auth_public payload))
                 (ca_private_b32 our_client_auth) our_nonce (pp_nonce payload)
                 (PairingPayload_encode our_payload) True now)) (\<lambda>_.
     sret \<lparr>ac_rel_id = rel_id,
           ac_sas = sas (pw_sha256 W) (kp_public (pe_identity persona)) our_nonce
                      (pp_identity_key payload) (pp_nonce payload),
           ac_peer_onion = peer_onion, ac_onion = our_onion\<rparr>)))))))"

definition own_offer :: "pairing_payload \<Rightarrow> pending_row option \<Rightarrow> bool" where
  "own_offer payload pending =
     (case pending of
        None \<Rightarrow> False
      | Some p \<Rightarrow>
          (case PairingPayload_decode (pn_qr_bytes p) of
             Inl _ \<Rightarrow> False
           | Inr ours \<Rightarrow> pp_identity_key ours = pp_identity_key payload))"

definition accept :: "'x pairing_world \<Rightarrow> bytes \<Rightarrow> u64 \<Rightarrow> ('x, accepted) pairing" where
  "accept W qr_bytes now =
     sbind (slift (map_err PairingPayload (PairingPayload_decode qr_bytes))) (\<lambda>payload.
     sbind (slift (map_err PairingPayload (verify_payload W now True payload))) (\<lambda>_.
     sbind (sget ps_offer) (\<lambda>pending.
     if own_offer payload pending then sthrow SelfPairing
     else
       sbind (generate_persona W) (\<lambda>persona.
       let our_ik = kp_public (pe_identity persona);
           rel_id = hex_encode (relationship_id (pw_sha256 W) our_ik (pp_identity_key payload)) in
       sbind (sget (\<lambda>s. rel_of rel_id (ps_db s))) (\<lambda>found.
       if found \<noteq> None then sthrow ContactExists
       else
         sbind (ClientAuthKeys_generate W) (\<lambda>our_client_auth.
         sbind (p_ext (pw_random W)) (\<lambda>our_nonce.
         let service_id = service_id_for our_ik in
         sbind (slift (onion_of_payload W payload)) (\<lambda>peer_onion.
         sbind (sattempt (accept_inner W payload persona rel_id service_id peer_onion our_client_auth our_nonce now)) (\<lambda>result.
         case result of
           Inr a \<Rightarrow> sret a
         | Inl e \<Rightarrow>
             sbind (p_ext (\<lambda>x. pw_remove_service W x service_id)) (\<lambda>_.
             sbind (smodify (\<lambda>s. s\<lparr>ps_signal := delete_namespace rel_id (ps_signal s)\<rparr>)) (\<lambda>_.
             sthrow e)))))))))))"

definition accept_code :: "'x pairing_world \<Rightarrow> string \<Rightarrow> u64 \<Rightarrow> ('x, accepted) pairing" where
  "accept_code W code now =
     sbind (slift (map_err PairingPayload (decode_code (pw_unb58 W) code))) (\<lambda>qr_bytes. accept W qr_bytes now)"

section \<open>Inbound frames\<close>

datatype ingest =
    RequestReceived string string bytes
  | IngestMessage string bytes
  | IngestDuplicateFrame
  | IngestSessionBroken string string
  | IngestDropped

definition key_intro_at :: "string \<Rightarrow> string" where
  "key_intro_at service_id = ''intro_at:'' @ service_id"

definition intro_throttled :: "string \<Rightarrow> u64 \<Rightarrow> ('x, bool) pairing" where
  "intro_throttled service_id now s =
     (let key = key_intro_at service_id;
          last = (case setting key (ps_db s) of
                    Some v \<Rightarrow> if length v = 8 then of_nat (of_be v) else 0
                  | None \<Rightarrow> 0)
      in if saturating_sub now last < INTRO_MIN_INTERVAL_SECS then (Ok True, s)
         else (Ok False, s\<lparr>ps_db := set_setting key (be64 now) (ps_db s)\<rparr>))"

definition request_bucket_full :: "string \<Rightarrow> db \<Rightarrow> bool" where
  "request_bucket_full rel_id db \<longleftrightarrow>
     length (filter (\<lambda>(_, r). rel_state r = STATE_REQUEST \<and> rel_role r = ROLE_INVITER) (db_rels db))
       \<ge> MAX_PENDING_REQUESTS \<and> rel_of rel_id db = None"

definition parse_prekey_frame :: "'x pairing_world \<Rightarrow> bytes \<Rightarrow> session_error + (bytes \<times> bytes)" where
  "parse_prekey_frame W frame =
     rbind (parse_frame frame) (\<lambda>(tag, rest).
     if tag \<noteq> TAG_PREKEY then Err (Malformed ''not a pre-key frame'')
     else map_err Malformed (rbind (pw_prekey_identity W rest) (\<lambda>ik. Ok (rest, ik))))"

text \<open>
  The checks of an intro that need no state: the payload and the pre-key message, when the
  intro is well-formed, its signatures hold and both name the same identity.
\<close>

definition read_intro ::
    "'x pairing_world \<Rightarrow> u64 \<Rightarrow> bytes option \<Rightarrow> bytes \<Rightarrow> (pairing_payload \<times> bytes) option" where
  "read_intro W now intro rec =
     (case intro of
        None \<Rightarrow> None
      | Some intro_bytes \<Rightarrow>
          (case rbind (PairingPayload_decode intro_bytes) (\<lambda>p. rbind (verify_payload W now False p) (\<lambda>_. Ok p)) of
             Inl _ \<Rightarrow> None
           | Inr payload \<Rightarrow>
               (case parse_record rec of
                  Inl _ \<Rightarrow> None
                | Inr frame \<Rightarrow>
                    (case parse_prekey_frame W frame of
                       Inl _ \<Rightarrow> None
                     | Inr (body, their_ik) \<Rightarrow>
                         if their_ik \<noteq> pp_identity_key payload then None else Some (payload, body)))))"

definition p_migrate :: "string \<Rightarrow> string \<Rightarrow> ('x, key_error + unit) pairing" where
  "p_migrate from to s =
     (let (r, t) = migrate_namespace from to (ps_signal s) in (Ok r, s\<lparr>ps_signal := t\<rparr>))"

text \<open>The request of a decrypted intro: the row, the end of the offer, the client key.\<close>

definition open_request ::
    "'x pairing_world \<Rightarrow> pending_row \<Rightarrow> u64 \<Rightarrow> string \<Rightarrow> bytes \<Rightarrow> pairing_payload \<Rightarrow> bytes \<Rightarrow> ('x, ingest) pairing" where
  "open_request W pending now rel_id our_ik payload plaintext =
     sbind (slift (onion_of_payload W payload)) (\<lambda>peer_onion.
     sbind (slift (map_err PairingPayload (PairingPayload_decode (pn_qr_bytes pending)))) (\<lambda>our_offer.
     sbind (insert_relationship rel_id
              (new_relationship ROLE_INVITER STATE_REQUEST (pn_service_id pending) (pn_onion pending)
                 peer_onion (pp_identity_key payload)
                 (base32_lower (pw_b32 W) (pp_client_auth_public payload))
                 (pn_client_auth_private pending) (pp_nonce our_offer) (pp_nonce payload)
                 (pn_qr_bytes pending) False now)) (\<lambda>_.
     sbind (smodify (\<lambda>s. s\<lparr>ps_offer := None\<rparr>)) (\<lambda>_.
     sbind (p_transport (\<lambda>x. pw_install_client_auth W x peer_onion (pn_client_auth_private pending))) (\<lambda>_.
     sret (RequestReceived rel_id
             (sas (pw_sha256 W) our_ik (pp_nonce our_offer) (pp_identity_key payload) (pp_nonce payload))
             plaintext))))))"

text \<open>
  The persona of the offer becomes that of the relationship and decrypts the first message; when
  that fails it becomes the persona of the offer again.
\<close>

definition decrypt_intro ::
    "'x pairing_world \<Rightarrow> pending_row \<Rightarrow> u64 \<Rightarrow> string \<Rightarrow> bytes \<Rightarrow> pairing_payload \<Rightarrow> bytes \<Rightarrow> ('x, ingest) pairing" where
  "decrypt_intro W pending now rel_id our_ik payload body =
     sbind (p_migrate PENDING_NAMESPACE rel_id) (\<lambda>moved.
     case moved of
       Inl e \<Rightarrow> sthrow (PairingStore (Corrupt (pw_key_error_text W e)))
     | Inr _ \<Rightarrow>
         sbind (p_library (\<lambda>st. pw_decrypt_prekey W st rel_id body)) (\<lambda>decrypted.
         case decrypted of
           Inl _ \<Rightarrow>
             sbind (p_migrate rel_id PENDING_NAMESPACE) (\<lambda>_.
             sbind (smodify (\<lambda>s. s\<lparr>ps_signal := delete_namespace rel_id (ps_signal s)\<rparr>)) (\<lambda>_.
             sret IngestDropped))
         | Inr plaintext \<Rightarrow> open_request W pending now rel_id our_ik payload plaintext))"

definition ingest_intro ::
    "'x pairing_world \<Rightarrow> pending_row \<Rightarrow> bytes option \<Rightarrow> bytes \<Rightarrow> u64 \<Rightarrow> ('x, ingest) pairing" where
  "ingest_intro W pending intro rec now =
     (case read_intro W now intro rec of
        None \<Rightarrow> sret IngestDropped
      | Some (payload, body) \<Rightarrow>
          (let their_ik = pp_identity_key payload in
           sbind (our_identity_key W PENDING_NAMESPACE) (\<lambda>our_ik.
           if their_ik = our_ik then sret IngestDropped
           else
             sbind (intro_throttled (pn_service_id pending) now) (\<lambda>throttled.
             if throttled then
               sbind (smodify (\<lambda>s. s\<lparr>ps_counters := note_limited Intro (ps_counters s)\<rparr>)) (\<lambda>_. sret IngestDropped)
             else
               let rel_id = hex_encode (relationship_id (pw_sha256 W) our_ik their_ik) in
               sbind (sget (\<lambda>s. request_bucket_full rel_id (ps_db s))) (\<lambda>full.
               if full then sret IngestDropped
               else
                 decrypt_intro W pending now rel_id our_ik payload body)))))"

definition session_decrypt :: "'x pairing_world \<Rightarrow> u64 \<Rightarrow> string \<Rightarrow> bytes \<Rightarrow> ('x, session_error + bytes) pairing" where
  "session_decrypt W now rel_id frame s =
     (case decrypt (pw_decrypt W) (pw_sha256 W) now rel_id frame ((ps_signal s, ps_ext s), ps_db s) of
        (r, (t, x), db) \<Rightarrow> (Ok r, s\<lparr>ps_db := db, ps_signal := t, ps_ext := x\<rparr>))"

definition ingest_established :: "'x pairing_world \<Rightarrow> string \<Rightarrow> bytes \<Rightarrow> u64 \<Rightarrow> ('x, ingest) pairing" where
  "ingest_established W service_id rec now =
     sbind (sget (\<lambda>s. load_relationship_by_service service_id (ps_db s))) (\<lambda>found.
     case found of
       None \<Rightarrow> sret IngestDropped
     | Some (rel_id, row) \<Rightarrow>
         (case parse_record rec of
            Inl _ \<Rightarrow> sret IngestDropped
          | Inr frame \<Rightarrow>
              sbind (session_decrypt W now rel_id frame) (\<lambda>r.
              sret (case r of
                      Inr plaintext \<Rightarrow> IngestMessage rel_id plaintext
                    | Inl Duplicate \<Rightarrow> IngestDuplicateFrame
                    | Inl (Broken reason) \<Rightarrow> IngestSessionBroken rel_id reason
                    | Inl _ \<Rightarrow> IngestDropped))))"

definition ingest_frame ::
    "'x pairing_world \<Rightarrow> string \<Rightarrow> bytes option \<Rightarrow> bytes \<Rightarrow> u64 \<Rightarrow> ('x, ingest) pairing" where
  "ingest_frame W service_id intro rec now =
     sbind (sget ps_offer) (\<lambda>pending.
     case pending of
       Some p \<Rightarrow>
         if pn_service_id p = service_id then ingest_intro W p intro rec now
         else ingest_established W service_id rec now
     | None \<Rightarrow> ingest_established W service_id rec now)"

section \<open>Requests\<close>

definition sas_for :: "'x pairing_world \<Rightarrow> string \<Rightarrow> ('x, string) pairing" where
  "sas_for W rel_id =
     sbind (sget (\<lambda>s. rel_of rel_id (ps_db s))) (\<lambda>found.
     case found of
       None \<Rightarrow> sthrow PairingNotFound
     | Some row \<Rightarrow>
         sbind (our_identity_key W rel_id) (\<lambda>our_ik.
         sret (sas (pw_sha256 W) our_ik (rel_our_nonce row) (rel_peer_identity_key row) (rel_peer_nonce row))))"

record request_info =
  ri_rel_id :: string
  ri_sas :: string
  ri_peer_onion :: string
  ri_created_at :: u64

fun request_infos :: "'x pairing_world \<Rightarrow> (string \<times> rel_row) list \<Rightarrow> ('x, request_info list) pairing" where
  "request_infos W [] = sret []"
| "request_infos W ((rel_id, row) # rows) =
     sbind (sas_for W rel_id) (\<lambda>code.
     sbind (request_infos W rows) (\<lambda>out.
     sret (\<lparr>ri_rel_id = rel_id, ri_sas = code, ri_peer_onion = rel_peer_onion row,
            ri_created_at = rel_created_at row\<rparr> # out)))"

definition pending_requests :: "'x pairing_world \<Rightarrow> ('x, request_info list) pairing" where
  "pending_requests W =
     sbind (sget (\<lambda>s. sort_key (\<lambda>(_, r). sint (rel_created_at r))
              (filter (\<lambda>(_, r). rel_state r = STATE_REQUEST) (db_rels (ps_db s))))) (\<lambda>rows.
     request_infos W rows)"

section \<open>Messaging\<close>

definition send_message :: "'x pairing_world \<Rightarrow> string \<Rightarrow> bytes \<Rightarrow> bytes \<Rightarrow> bool \<Rightarrow> ('x, unit) pairing" where
  "send_message W rel_id msg_id plaintext alert =
     sbind (sget (\<lambda>s. rel_of rel_id (ps_db s))) (\<lambda>found.
     case found of
       None \<Rightarrow> sthrow PairingNotFound
     | Some row \<Rightarrow>
         if rel_session_state row = ''broken''
         then sthrow (PairingSession (Broken ''relationship is broken''))
         else if rel_role row = ROLE_INVITER \<and> rel_state row = STATE_REQUEST then sthrow NotARequest
         else
           sbind (\<lambda>s. case encrypt (pw_encrypt W) rel_id msg_id plaintext ((ps_signal s, ps_ext s), ps_db s) of
                    (r, (t, x), db) \<Rightarrow>
                      (map_err PairingSession r, s\<lparr>ps_db := db, ps_signal := t, ps_ext := x\<rparr>)) (\<lambda>frame.
           sbind (p_ext (pw_padding W)) (\<lambda>pad.
           sbind (slift (map_err PairingWire (build_record pad frame))) (\<lambda>rec.
           p_transport (\<lambda>x. pw_send_record W x (rel_peer_onion row)
             (if rel_intro_pending row then Some (rel_our_qr_bytes row) else None) rec alert)))))"

definition service_auth :: "rel_row \<Rightarrow> string list" where
  "service_auth row =
     (if rel_state row = STATE_REQUEST \<and> rel_role row = ROLE_INVITER then []
      else [rel_peer_client_auth_public row])"

definition restore_services :: "'x pairing_world \<Rightarrow> ('x, unit) pairing" where
  "restore_services W =
     sbind (sget (\<lambda>s. db_rels (ps_db s))) (\<lambda>rows.
     sbind (sfor rows (\<lambda>(_, row).
       sbind (p_transport (\<lambda>x. pw_host_service_with_auth W x (rel_service_id row) (service_auth row))) (\<lambda>_.
       p_transport (\<lambda>x. pw_install_client_auth W x (rel_peer_onion row) (rel_our_client_auth_private row))))) (\<lambda>_.
     sbind (sget ps_offer) (\<lambda>pending.
     case pending of
       None \<Rightarrow> sret ()
     | Some p \<Rightarrow>
         sbind (p_transport (\<lambda>x. pw_host_service W x (pn_service_id p) False)) (\<lambda>_. sret ()))))"

end
