(* ===== verification/Pairing_Ceremony.thy ===== *)
theory Pairing_Ceremony
  imports Pairing
begin

text \<open>
  Properties of the pairing ceremony: an intro that is dropped leaves the open offer as it was,
  a failed accept leaves no trace in the store, the two sides of a completed ceremony hold
  the same relationship id, the same safety code and matching rows, and a full contact list
  spoils the open offer for as long as it stays open.
\<close>

section \<open>Steps\<close>

lemma p_ext_eq: "p_ext f s = (r, s') \<longleftrightarrow> (\<exists>y x. f (ps_ext s) = (y, x) \<and> r = Ok y \<and> s' = s\<lparr>ps_ext := x\<rparr>)"
  by (auto simp: p_ext_def split: prod.splits)

lemma p_transport_Ok:
  "p_transport f s = (Ok y, s') \<longleftrightarrow> (\<exists>x. f (ps_ext s) = (Ok y, x) \<and> s' = s\<lparr>ps_ext := x\<rparr>)"
  by (auto simp: p_transport_def map_err_Ok split: prod.splits)

lemma p_keys_Ok: "p_keys W f s = (Ok y, s') \<longleftrightarrow> (\<exists>t. f (ps_signal s) = Ok t \<and> s' = s\<lparr>ps_signal := t\<rparr>)"
  by (auto simp: p_keys_def split: sum.splits)

lemma p_malformed_Ok: "p_malformed what r s = (Ok y, s') \<longleftrightarrow> r = Ok y \<and> s' = s"
  by (auto simp: p_malformed_def slift_eq map_err_Ok)

lemmas pairing_Ok = sbind_Ok slift_eq sret_eq sget_eq sthrow_Ok smodify_eq map_err_Ok p_ext_eq
  p_transport_Ok p_keys_Ok p_malformed_Ok

text \<open>A run that starts in \<open>P\<close> and fails ends in \<open>R\<close>.\<close>

definition fails_to :: "('s \<Rightarrow> bool) \<Rightarrow> ('s \<Rightarrow> bool) \<Rightarrow> ('e, 's, 'a) fallible \<Rightarrow> bool" where
  "fails_to P R m \<longleftrightarrow> (\<forall>s e s'. P s \<longrightarrow> m s = (Err e, s') \<longrightarrow> R s')"

lemma fails_toD: "fails_to P R m \<Longrightarrow> P s \<Longrightarrow> m s = (Err e, s') \<Longrightarrow> R s'"
  by (auto simp: fails_to_def)

lemma sbind_Err:
  "sbind m f s = (Err e, s') \<longleftrightarrow>
     m s = (Err e, s') \<or> (\<exists>x s1. m s = (Ok x, s1) \<and> f x s1 = (Err e, s'))"
  by (auto simp: sbind_def split: prod.splits sum.splits)

lemma fails_sbind:
  assumes "keeps P m" "\<And>s. P s \<Longrightarrow> R s" "\<And>x. fails_to P R (f x)"
  shows "fails_to P R (sbind m f)"
  using assms keepsD [OF assms(1)] by (auto simp: fails_to_def sbind_Err) blast+

lemma fails_sget:
  "(\<And>x. fails_to (\<lambda>s. P s \<and> g s = x) R (f x)) \<Longrightarrow> fails_to P R (sbind (sget g) f)"
  by (auto simp: fails_to_def sbind_def sget_def)

lemma fails_sthrow: "(\<And>s. P s \<Longrightarrow> R s) \<Longrightarrow> fails_to P R (sthrow e)"
  by (auto simp: fails_to_def sthrow_def)

lemma fails_last: "fails_to P R m \<Longrightarrow> fails_to P R (sbind m (\<lambda>x. sret (g x)))"
  by (auto simp: fails_to_def sbind_Err sret_def)

lemma fails_insert: "fails_to P P (insert_relationship rel_id row)"
  by (auto simp: fails_to_def insert_relationship_def split: if_splits)

lemma keeps_p_ext [keeps_rules]: "(\<And>s x. P s \<Longrightarrow> P (s\<lparr>ps_ext := x\<rparr>)) \<Longrightarrow> keeps P (p_ext f)"
  by (auto simp: keeps_def p_ext_def split: prod.splits)

lemma keeps_p_transport [keeps_rules]: "(\<And>s x. P s \<Longrightarrow> P (s\<lparr>ps_ext := x\<rparr>)) \<Longrightarrow> keeps P (p_transport f)"
  by (auto simp: keeps_def p_transport_def split: prod.splits)

lemma keeps_p_malformed [keeps_rules]: "keeps P (p_malformed what r)"
  by (auto simp: p_malformed_def intro: keeps_rules)

lemma keeps_p_keys [keeps_rules]:
  "(\<And>s t. P s \<Longrightarrow> f (ps_signal s) = Ok t \<Longrightarrow> P (s\<lparr>ps_signal := t\<rparr>)) \<Longrightarrow> keeps P (p_keys W f)"
  by (auto simp: keeps_def p_keys_def split: sum.splits)

section \<open>Failed accepts\<close>

text \<open>
  What a failed accept may have changed: the external state, and rows of the key stores in the
  namespace of the relationship that was to be.
\<close>

definition outside :: "string \<Rightarrow> 'x pairing_state \<Rightarrow> 'x pairing_state \<Rightarrow> bool" where
  "outside rel_id s0 s \<longleftrightarrow>
     ps_db s = ps_db s0 \<and> ps_offer s = ps_offer s0 \<and>
     delete_namespace rel_id (ps_signal s) = delete_namespace rel_id (ps_signal s0)"

lemma outside_ext: "outside rel_id s0 s \<Longrightarrow> outside rel_id s0 (s\<lparr>ps_ext := x\<rparr>)"
  by (simp add: outside_def)

lemma delete_rows_append [simp]: "delete_rows ns (rows @ rows') = delete_rows ns rows @ delete_rows ns rows'"
  by (simp add: delete_rows_def)

lemma delete_rows_put [simp]: "delete_rows ns (put_row (ns, k) v rows) = delete_rows ns rows"
  by (auto simp: delete_rows_def put_row_def intro: filter_cong)

lemma delete_rows_map [simp]: "delete_rows ns (map_row (ns, k) f rows) = delete_rows ns rows"
  unfolding delete_rows_def map_row_def by (induction rows) auto

lemma delete_rows_new [simp]: "delete_rows ns [((ns, k), v)] = []"
  by (simp add: delete_rows_def)

lemma delete_persona_rows:
  "create_local ns r k t = Ok t' \<Longrightarrow> delete_namespace ns t' = delete_namespace ns t"
  "save_pre_key ns i b t = Ok t' \<Longrightarrow> delete_namespace ns t' = delete_namespace ns t"
  "save_signed_pre_key ns i b t = Ok t' \<Longrightarrow> delete_namespace ns t' = delete_namespace ns t"
  "save_kyber_pre_key ns i b t = Ok t' \<Longrightarrow> delete_namespace ns t' = delete_namespace ns t"
  by (auto simp: create_local_def save_pre_key_def save_signed_pre_key_def save_kyber_pre_key_def
      delete_namespace_def rbind_Inr_iff split: if_splits)

lemma keeps_store_persona: "keeps (outside rel_id s0) (store_persona W rel_id p)"
  unfolding store_persona_def
  by (intro keeps_rules) (auto simp: outside_def dest: delete_persona_rows)

lemma keeps_generate_persona:
  "(\<And>s x. P s \<Longrightarrow> P (s\<lparr>ps_ext := x\<rparr>)) \<Longrightarrow> keeps P (generate_persona W)"
  unfolding generate_persona_def by (intro keeps_rules)

lemma keeps_client_auth: "(\<And>s x. P s \<Longrightarrow> P (s\<lparr>ps_ext := x\<rparr>)) \<Longrightarrow> keeps P (ClientAuthKeys_generate W)"
  unfolding ClientAuthKeys_generate_def by (intro keeps_rules)

lemma keeps_make_payload:
  "(\<And>s x. P s \<Longrightarrow> P (s\<lparr>ps_ext := x\<rparr>)) \<Longrightarrow> keeps P (make_payload W p onion ca nonce e)"
  unfolding make_payload_def persona_bundle_def sign_payload_def by (intro keeps_rules)

text \<open>The library's handles on the key stores are bound to one namespace.\<close>

definition library_confined :: "'x pairing_world \<Rightarrow> bool" where
  "library_confined W \<longleftrightarrow>
     (\<forall>t x ns b r t' x'. pw_process_bundle W (t, x) ns b = (r, t', x') \<longrightarrow>
        delete_namespace ns t' = delete_namespace ns t)"

lemma keeps_process_bundle:
  assumes "library_confined W"
  shows "keeps (outside rel_id s0) (process_bundle W rel_id b)"
proof -
  have "outside rel_id s0 (snd (p_library (\<lambda>st. pw_process_bundle W st rel_id b) s))"
    if "outside rel_id s0 s" for s
    using that assms
    by (auto simp: p_library_def outside_def library_confined_def split: prod.splits)
  then show ?thesis unfolding process_bundle_def by (intro keeps_rules) (simp add: keeps_def)
qed

lemma fails_accept_inner:
  assumes "library_confined W"
  shows "fails_to (outside rel_id s0) (outside rel_id s0)
    (accept_inner W payload persona rel_id service_id peer_onion ca nonce now)"
  unfolding accept_inner_def
  apply (rule fails_sbind, rule keeps_p_transport, erule outside_ext, assumption)+
  apply (rule fails_sbind, rule keeps_store_persona, assumption)
  apply (rule fails_sbind, rule keeps_slift, assumption)
  apply (rule fails_sbind, rule keeps_process_bundle, rule assms, assumption)
  apply (rule fails_sbind, rule keeps_make_payload, erule outside_ext, assumption)
  apply (rule fails_last, rule fails_insert)
  done

text \<open>The state before the accept, but for the external state; and the state a failure leaves.\<close>

definition untouched :: "'x pairing_state \<Rightarrow> 'x pairing_state \<Rightarrow> bool" where
  "untouched s0 s \<longleftrightarrow>
     ps_db s = ps_db s0 \<and> ps_offer s = ps_offer s0 \<and> ps_signal s = ps_signal s0"

definition cleaned_up :: "'x pairing_state \<Rightarrow> 'x pairing_state \<Rightarrow> bool" where
  "cleaned_up s0 s \<longleftrightarrow>
     ps_db s = ps_db s0 \<and> ps_offer s = ps_offer s0 \<and>
     (ps_signal s = ps_signal s0 \<or>
      (\<exists>ns. rel_of ns (ps_db s0) = None \<and> ps_signal s = delete_namespace ns (ps_signal s0)))"

lemma untouched_ext: "untouched s0 s \<Longrightarrow> untouched s0 (s\<lparr>ps_ext := x\<rparr>)"
  by (simp add: untouched_def)

lemma untouched_cleaned: "untouched s0 s \<Longrightarrow> cleaned_up s0 s"
  by (simp add: untouched_def cleaned_up_def)

lemma fails_cleanup:
  assumes "library_confined W" "rel_of rel_id (ps_db s0) = None"
  shows "fails_to (untouched s0) (cleaned_up s0)
    (sbind (sattempt (accept_inner W payload persona rel_id service_id peer_onion ca nonce now)) (\<lambda>result.
     case result of
       Inr a \<Rightarrow> sret a
     | Inl e \<Rightarrow>
         sbind (p_ext (\<lambda>x. pw_remove_service W x service_id)) (\<lambda>_.
         sbind (smodify (\<lambda>s. s\<lparr>ps_signal := delete_namespace rel_id (ps_signal s)\<rparr>)) (\<lambda>_.
         sthrow e))))"
  unfolding fails_to_def
proof (intro allI impI)
  fix s e s'
  let ?inner = "accept_inner W payload persona rel_id service_id peer_onion ca nonce now"
  assume u: "untouched s0 s" and run: "sbind (sattempt ?inner) (\<lambda>result.
     case result of
       Inr a \<Rightarrow> sret a
     | Inl e \<Rightarrow>
         sbind (p_ext (\<lambda>x. pw_remove_service W x service_id)) (\<lambda>_.
         sbind (smodify (\<lambda>s. s\<lparr>ps_signal := delete_namespace rel_id (ps_signal s)\<rparr>)) (\<lambda>_.
         sthrow e))) s = (Err e, s')"
  obtain r s1 where i: "?inner s = (r, s1)" by fastforce
  show "cleaned_up s0 s'"
  proof (cases r)
    case (Inl e1)
    from u have "outside rel_id s0 s" by (simp add: untouched_def outside_def)
    with fails_toD [OF fails_accept_inner [OF assms(1)] this i [unfolded Inl]]
    have o: "outside rel_id s0 s1" by simp
    from run i Inl obtain x where
      "s' = s1\<lparr>ps_ext := x, ps_signal := delete_namespace rel_id (ps_signal s1)\<rparr>"
      by (auto simp: sbind_def sattempt_def p_ext_def smodify_def sthrow_def split: prod.splits)
    with o assms(2) show ?thesis by (auto simp: outside_def cleaned_up_def)
  next
    case (Inr a)
    with run i show ?thesis by (simp add: sbind_def sattempt_def sret_def)
  qed
qed

lemma fails_accept:
  assumes "library_confined W"
  shows "fails_to (untouched s0) (cleaned_up s0) (accept W qr_bytes now)"
proof -
  have conj: "fails_to (\<lambda>s. untouched s0 s \<and> rel_of rel_id (ps_db s) = v) (cleaned_up s0) m"
    if "rel_of rel_id (ps_db s0) = v \<Longrightarrow> fails_to (untouched s0) (cleaned_up s0) m"
    for rel_id v and m :: "('a, 'b) pairing"
    using that by (auto simp: fails_to_def untouched_def)
  have pend: "fails_to (\<lambda>s. untouched s0 s \<and> ps_offer s = v) (cleaned_up s0) m"
    if "fails_to (untouched s0) (cleaned_up s0) m" for v and m :: "('a, 'b) pairing"
    using that by (auto simp: fails_to_def)
  show ?thesis
    unfolding accept_def Let_def
    apply (rule fails_sbind, rule keeps_slift, erule untouched_cleaned)+
    apply (rule fails_sget, rule pend)
    apply (split if_split, intro conjI impI)
     apply (rule fails_sthrow, erule untouched_cleaned)
    apply (rule fails_sbind, rule keeps_generate_persona, erule untouched_ext, erule untouched_cleaned)
    apply (rule fails_sget, rule conj)
    apply (split if_split, intro conjI impI)
     apply (rule fails_sthrow, erule untouched_cleaned)
    apply (rule fails_sbind, rule keeps_client_auth, erule untouched_ext, erule untouched_cleaned)
    apply (rule fails_sbind, rule keeps_p_ext, erule untouched_ext, erule untouched_cleaned)
    apply (rule fails_sbind, rule keeps_slift, erule untouched_cleaned)
    apply (rule fails_cleanup [OF assms])
    apply simp
    done
qed

text \<open>
  C18: a failed accept leaves no trace in the store. Whatever step of accepting an invitation
  fails, from a malformed code to a failing transport or a full contact list, the database and
  the open offer are as before, and the key stores hold no new row: either they are as before,
  or the namespace of the relationship that was to be, which no relationship has, is empty.
\<close>

theorem accept_fails_closed:
  assumes "library_confined W" "accept W qr_bytes now s = (Err e, s')"
  shows "ps_db s' = ps_db s \<and> ps_offer s' = ps_offer s \<and>
    (ps_signal s' = ps_signal s \<or>
     (\<exists>ns. rel_of ns (ps_db s) = None \<and> ps_signal s' = delete_namespace ns (ps_signal s)))"
  using fails_toD [OF fails_accept [OF assms(1), of s] _ assms(2)]
  by (simp add: untouched_def cleaned_up_def)

section \<open>Dropped intros\<close>

text \<open>
  The key stores hold a namespace for every relationship, at least its persona, and besides
  only that of the open offer.
\<close>

definition namespaces_ok :: "'x pairing_state \<Rightarrow> bool" where
  "namespaces_ok s \<longleftrightarrow>
     (\<forall>ns. ns \<noteq> PENDING_NAMESPACE \<longrightarrow>
        (if rel_of ns (ps_db s) = None then fresh_namespace ns (ps_signal s)
         else map_of (sg_locals (ps_signal s)) (ns, ()) \<noteq> None))"

text \<open>A message that the library refuses to decrypt does not change the key stores.\<close>

definition failed_decrypt_keeps :: "'x pairing_world \<Rightarrow> bool" where
  "failed_decrypt_keeps W \<longleftrightarrow>
     (\<forall>t x ns m e t' x'. pw_decrypt_prekey W (t, x) ns m = (Err e, t', x') \<longrightarrow> t' = t)"

lemma hex_not_pending: "hex_encode bs \<noteq> PENDING_NAMESPACE"
proof
  assume "hex_encode bs = PENDING_NAMESPACE"
  then have "2 * length bs = 7" using length_hex_encode [of bs] by (simp add: PENDING_NAMESPACE_def)
  then show False by presburger
qed

lemma open_request_not_dropped: "open_request W p now r ik pl pt s \<noteq> (Ok IngestDropped, s')"
  by (auto simp: open_request_def pairing_Ok)

lemma our_identity_key_Ok:
  "our_identity_key W ns s = (Ok ik, s') \<longleftrightarrow>
     s' = s \<and> (\<exists>row k. map_of (sg_locals (ps_signal s)) (ns, ()) = Some row \<and>
       pw_keypair_parse W (lo_keypair row) = Ok k \<and> ik = kp_public k)"
  by (auto simp: our_identity_key_def split: option.splits sum.splits)

lemma intro_throttled_cases:
  assumes "intro_throttled svc now s = (r, s')"
  shows "s' = s \<and> r = Ok True \<or> s' = s\<lparr>ps_db := set_setting (key_intro_at svc) (be64 now) (ps_db s)\<rparr> \<and> r = Ok False"
  using assms by (auto simp: intro_throttled_def Let_def split: if_splits)

lemma set_setting_rels [simp]: "rel_of ns (set_setting k v db) = rel_of ns db"
  by (simp add: rel_of_def set_setting_def)

text \<open>The persona moves to the relationship only when the relationship is new.\<close>

lemma migrate_persona:
  assumes "namespaces_ok s" "rel_id \<noteq> PENDING_NAMESPACE"
    and "map_of (sg_locals (ps_signal s)) (PENDING_NAMESPACE, ()) = Some row"
  shows "(if rel_of rel_id (ps_db s) = None
      then migrate_namespace PENDING_NAMESPACE rel_id (ps_signal s) =
        (Ok (), rename_namespace PENDING_NAMESPACE rel_id (ps_signal s)) \<and> fresh_namespace rel_id (ps_signal s)
      else \<exists>e. fst (migrate_namespace PENDING_NAMESPACE rel_id (ps_signal s)) = Err e)"
proof (cases "rel_of rel_id (ps_db s)")
  case None
  with assms show ?thesis using migrate_namespace_fresh by (simp add: namespaces_ok_def)
next
  case (Some r)
  with assms have "map_of (sg_locals (ps_signal s)) (rel_id, ()) \<noteq> None" by (simp add: namespaces_ok_def)
  moreover have "((PENDING_NAMESPACE, ()), row) \<in> set (sg_locals (ps_signal s))"
    using assms(3) by (rule map_of_SomeD)
  ultimately have "migrate_rows PENDING_NAMESPACE rel_id (sg_locals (ps_signal s)) =
      Err (SqliteState ''migrate_namespace'' UniqueViolation)"
    using assms(2) by (force simp: migrate_rows_def list_ex_iff)
  with Some show ?thesis by (simp add: migrate_namespace_def sbind_def)
qed

lemma p_migrate_eq:
  "p_migrate a b s = (r, s') \<longleftrightarrow>
     (\<exists>q t. migrate_namespace a b (ps_signal s) = (q, t) \<and> r = Ok q \<and> s' = s\<lparr>ps_signal := t\<rparr>)"
  by (auto simp: p_migrate_def split: prod.splits)

lemma p_library_eq:
  "p_library f s = (r, s') \<longleftrightarrow>
     (\<exists>q t x. f (ps_signal s, ps_ext s) = (q, t, x) \<and> r = Ok q \<and> s' = s\<lparr>ps_signal := t, ps_ext := x\<rparr>)"
  by (auto simp: p_library_def split: prod.splits)

lemma failed_intro_restores:
  assumes "failed_decrypt_keeps W" "namespaces_ok s" "rel_id \<noteq> PENDING_NAMESPACE"
    and "map_of (sg_locals (ps_signal s)) (PENDING_NAMESPACE, ()) = Some row"
    and "decrypt_intro W pending now rel_id our_ik payload body s = (Ok IngestDropped, s')"
  shows "ps_db s' = ps_db s \<and> ps_offer s' = ps_offer s \<and> ps_signal s' = ps_signal s"
proof -
  let ?t = "rename_namespace PENDING_NAMESPACE rel_id (ps_signal s)"
  have fresh: "migrate_namespace PENDING_NAMESPACE rel_id (ps_signal s) = (Ok (), ?t)"
      "fresh_namespace rel_id (ps_signal s)"
    using migrate_persona [OF assms(2-4)] assms(5)
    by (auto simp: decrypt_intro_def sbind_Ok p_migrate_eq sthrow_Ok split: if_splits)
  have ret: "migrate_namespace rel_id PENDING_NAMESPACE ?t = (Ok (), ps_signal s)"
    using migrate_namespace_fresh [OF fresh_renamed, of PENDING_NAMESPACE rel_id] assms(3)
      rename_namespace_back [OF fresh(2)] by auto
  obtain r t x where d: "pw_decrypt_prekey W (?t, ps_ext s) rel_id body = (r, t, x)"
    by (metis prod_cases3)
  show ?thesis
  proof (cases r)
    case (Inl e)
    with d assms(1) have "t = ?t" unfolding failed_decrypt_keeps_def by blast
    with d Inl assms(5) fresh ret delete_fresh [OF fresh(2)] show ?thesis
      by (auto simp: decrypt_intro_def sbind_Ok p_migrate_eq p_library_eq smodify_eq sret_eq)
  next
    case (Inr pt)
    with d assms(5) fresh show ?thesis
      by (auto simp: decrypt_intro_def sbind_Ok p_migrate_eq p_library_eq open_request_not_dropped)
  qed
qed

text \<open>
  C19: an intro that is dropped leaves the open offer as it was. Let every relationship have its
  persona in the key stores, let these have no other namespace but that of the offer, and let
  the library change no key when it refuses a message. Then the pending invitation, every
  row of the key stores, the persona of the offer among them, and the whole database are
  unchanged, but for the time of the last intro that was worth an attempt at decryption. So a
  crafted intro cannot spoil the offer for the peer it was made for.
\<close>

theorem dropped_intro_harmless:
  assumes "failed_decrypt_keeps W" "namespaces_ok s" "ps_offer s = Some p"
    and "ingest_frame W (pn_service_id p) intro rec now s = (Ok IngestDropped, s')"
  shows "ps_signal s' = ps_signal s \<and> ps_offer s' = Some p \<and>
    (ps_db s' = ps_db s \<or>
     ps_db s' = set_setting (key_intro_at (pn_service_id p)) (be64 now) (ps_db s))"
proof -
  have run: "ingest_intro W p intro rec now s = (Ok IngestDropped, s')"
    using assms(3,4) by (simp add: ingest_frame_def sbind_def sget_def)
  show ?thesis
  proof (cases "read_intro W now intro rec")
    case None
    with run assms(3) show ?thesis by (simp add: ingest_intro_def sret_def)
  next
    case (Some pb)
    obtain payload body where pb: "pb = (payload, body)" by force
    from run Some pb obtain our_ik where ik: "our_identity_key W PENDING_NAMESPACE s = (Ok our_ik, s)"
      by (auto simp: ingest_intro_def Let_def sbind_Ok our_identity_key_Ok)
    then obtain row where row: "map_of (sg_locals (ps_signal s)) (PENDING_NAMESPACE, ()) = Some row"
      by (auto simp: our_identity_key_Ok)
    obtain r s1 where th: "intro_throttled (pn_service_id p) now s = (r, s1)" by fastforce
    consider "s1 = s" "r = Ok True"
      | "s1 = s\<lparr>ps_db := set_setting (key_intro_at (pn_service_id p)) (be64 now) (ps_db s)\<rparr>" "r = Ok False"
      using intro_throttled_cases [OF th] by blast
    then show ?thesis
    proof cases
      case 1
      with run Some pb ik th assms(3) show ?thesis
        by (auto simp: ingest_intro_def Let_def sbind_def smodify_def sret_def split: if_splits)
    next
      case 2
      have "namespaces_ok s1" using assms(2) 2(1) by (simp add: namespaces_ok_def)
      moreover have "map_of (sg_locals (ps_signal s1)) (PENDING_NAMESPACE, ()) = Some row"
        using row 2(1) by simp
      ultimately have "ps_db s' = ps_db s1 \<and> ps_offer s' = ps_offer s1 \<and> ps_signal s' = ps_signal s1"
        if "decrypt_intro W p now (hex_encode bs) our_ik payload body s1 = (Ok IngestDropped, s')" for bs
        using that failed_intro_restores [OF assms(1) _ hex_not_pending] by blast
      moreover have "s' = s \<or> s' = s1 \<or> (\<exists>bs. decrypt_intro W p now (hex_encode bs) our_ik payload body s1 =
          (Ok IngestDropped, s'))"
        using run by (auto simp: ingest_intro_def Some pb Let_def sbind_def ik th 2(2) sret_def sget_def
            split: if_splits)
      ultimately have "s' = s \<or> s' = s1 \<or>
          ps_db s' = ps_db s1 \<and> ps_offer s' = ps_offer s1 \<and> ps_signal s' = ps_signal s1"
        by blast
      then show ?thesis using 2(1) assms(3) by auto
    qed
  qed
qed

section \<open>Requests that cannot be stored\<close>

lemma ingest_intro_step:
  assumes "read_intro W now intro rec = Some (payload, body)"
    and "our_identity_key W PENDING_NAMESPACE s = (Ok our_ik, s)" "pp_identity_key payload \<noteq> our_ik"
    and "intro_throttled (pn_service_id p) now s = (Ok False, s1)"
    and "rel_id = hex_encode (relationship_id (pw_sha256 W) our_ik (pp_identity_key payload))"
    and "\<not> request_bucket_full rel_id (ps_db s1)"
  shows "ingest_intro W p intro rec now s = decrypt_intro W p now rel_id our_ik payload body s1"
  using assms by (simp add: ingest_intro_def Let_def sbind_def sget_def)

lemma decrypt_intro_step:
  assumes "fresh_namespace rel_id (ps_signal s)"
    and "pw_decrypt_prekey W (rename_namespace PENDING_NAMESPACE rel_id (ps_signal s), ps_ext s) rel_id body =
      (Ok plaintext, t, x)"
  shows "decrypt_intro W p now rel_id our_ik payload body s =
    open_request W p now rel_id our_ik payload plaintext (s\<lparr>ps_signal := t, ps_ext := x\<rparr>)"
  using assms migrate_namespace_fresh [OF assms(1)]
  by (simp add: decrypt_intro_def sbind_def p_migrate_def p_library_def)

lemma verified_onion: "verify_payload W now e p = Ok () \<Longrightarrow> \<exists>host. onion_of_payload W p = Ok host"
  by (auto simp: verify_payload_def PairingPayload_verify_def onion_of_payload_def
      split: if_splits option.splits sum.splits transport_error.splits)

lemma read_intro_verified:
  assumes "read_intro W now intro rec = Some (payload, body)"
  shows "verify_payload W now False payload = Ok ()"
  using assms
  by (auto simp: read_intro_def rbind_Inr_iff split: option.splits sum.splits if_splits prod.splits)

text \<open>The offer is open, but the key stores hold no persona for it.\<close>

definition spoiled :: "pending_row \<Rightarrow> 'x pairing_state \<Rightarrow> bool" where
  "spoiled p s \<longleftrightarrow> ps_offer s = Some p \<and> fresh_namespace PENDING_NAMESPACE (ps_signal s)"

lemma no_persona:
  assumes "spoiled p s"
  shows "ingest_frame W (pn_service_id p) intro rec now s =
    (if read_intro W now intro rec = None then Ok IngestDropped else Err (PairingSqlite NoRows), s)"
  using assms fresh_rows_None [of PENDING_NAMESPACE "sg_locals (ps_signal s)"]
  by (cases "read_intro W now intro rec")
    (auto simp: spoiled_def ingest_frame_def sbind_def sget_def ingest_intro_def Let_def our_identity_key_def
      fresh_namespace_def sret_def)

text \<open>The library decrypts a first message with the rows of one namespace.\<close>

definition decrypt_confined :: "'x pairing_world \<Rightarrow> bool" where
  "decrypt_confined W \<longleftrightarrow>
     (\<forall>t x ns m r t' x'. pw_decrypt_prekey W (t, x) ns m = (r, t', x') \<longrightarrow>
        delete_namespace ns t' = delete_namespace ns t)"

lemma fresh_rows_other: "ns \<noteq> ns' \<Longrightarrow> fresh_rows ns (delete_rows ns' rows) \<longleftrightarrow> fresh_rows ns rows"
  unfolding fresh_rows_def delete_rows_def by (induction rows) auto

lemma fresh_other: "ns \<noteq> ns' \<Longrightarrow> fresh_namespace ns (delete_namespace ns' t) \<longleftrightarrow> fresh_namespace ns t"
  by (simp add: fresh_namespace_def delete_namespace_def fresh_rows_other)

lemma fresh_elsewhere:
  "delete_namespace ns' t' = delete_namespace ns' t \<Longrightarrow> ns \<noteq> ns' \<Longrightarrow> fresh_namespace ns t' \<longleftrightarrow> fresh_namespace ns t"
  by (metis fresh_other)

text \<open>
  What may happen while an offer is open: intros arrive at its service, other invitations are
  accepted, and a relationship changes the database and the rows of its own namespace, by its
  traffic or by its removal.
\<close>

inductive meanwhile :: "'x pairing_world \<Rightarrow> pending_row \<Rightarrow> 'x pairing_state \<Rightarrow> 'x pairing_state \<Rightarrow> bool"
  for W p where
  mw_intro: "ingest_frame W (pn_service_id p) intro rec now s = (r, s') \<Longrightarrow> meanwhile W p s s'"
| mw_accept: "accept W qr_bytes now s = (r, s') \<Longrightarrow> meanwhile W p s s'"
| mw_relationship: "ns \<noteq> PENDING_NAMESPACE \<Longrightarrow> delete_namespace ns t = delete_namespace ns (ps_signal s) \<Longrightarrow>
    meanwhile W p s (s\<lparr>ps_db := db, ps_signal := t, ps_ext := x\<rparr>)"

lemma spoiled_outside:
  assumes "spoiled p s" "outside rel_id s s'" "rel_id \<noteq> PENDING_NAMESPACE"
  shows "spoiled p s'"
  using assms fresh_elsewhere [of rel_id "ps_signal s'" "ps_signal s" PENDING_NAMESPACE]
  by (simp add: spoiled_def outside_def)

lemma keeps_spoiled_outside:
  assumes "\<And>s0. keeps (outside rel_id s0) m" "rel_id \<noteq> PENDING_NAMESPACE"
  shows "keeps (spoiled p) m"
proof -
  have "outside rel_id s (snd (m s))" for s
    using assms(1) [of s] unfolding keeps_def by (simp add: outside_def)
  then show ?thesis using spoiled_outside [OF _ _ assms(2)] unfolding keeps_def by blast
qed

lemma spoiled_ext: "spoiled p s \<Longrightarrow> spoiled p (s\<lparr>ps_ext := x\<rparr>)"
  by (simp add: spoiled_def)

lemma keeps_insert_relationship: "keeps (spoiled p) (insert_relationship rel_id row)"
  by (auto simp: keeps_def insert_relationship_def spoiled_def)

lemma spoiled_accept_inner:
  assumes "library_confined W" "rel_id \<noteq> PENDING_NAMESPACE"
  shows "keeps (spoiled p) (accept_inner W payload persona rel_id service_id peer_onion ca nonce now)"
  unfolding accept_inner_def
  by (intro keeps_rules keeps_insert_relationship keeps_make_payload
      keeps_spoiled_outside [OF keeps_store_persona assms(2)]
      keeps_spoiled_outside [OF keeps_process_bundle [OF assms(1)] assms(2)]) (auto intro: spoiled_ext)

lemma spoiled_accept:
  assumes "library_confined W"
  shows "keeps (spoiled p) (accept W qr_bytes now)"
proof -
  have del: "spoiled p (s\<lparr>ps_signal := delete_namespace (hex_encode b) (ps_signal s)\<rparr>)" if "spoiled p s" for s b
    using that fresh_other [OF hex_not_pending [symmetric]] by (simp add: spoiled_def)
  show ?thesis
    unfolding accept_def Let_def
    by (intro keeps_rules spoiled_accept_inner [OF assms hex_not_pending]
        keeps_generate_persona keeps_client_auth) (auto intro: spoiled_ext del)
qed

lemma spoiled_meanwhile:
  assumes "library_confined W" "(meanwhile W p)\<^sup>*\<^sup>* s s'" "spoiled p s"
  shows "spoiled p s'"
  using assms(2,3)
proof (induction rule: rtranclp_induct)
  case (step s1 s2)
  from step(2) show ?case
  proof cases
    case (mw_intro intro rec now r)
    with step show ?thesis using no_persona [of p s1] by auto
  next
    case (mw_accept qr now r)
    with step show ?thesis using keepsD [OF spoiled_accept [OF assms(1)]] by fastforce
  next
    case (mw_relationship ns t db x)
    with step show ?thesis using fresh_elsewhere [of ns t "ps_signal s1" PENDING_NAMESPACE]
      by (simp add: spoiled_def)
  qed
qed

text \<open>
  C35: a full contact list spoils the open offer. With 1024 relationships stored, a valid intro is
  decrypted and then refused for the number of relationships, but the persona of the offer has
  already moved to the relationship that could not be stored. The offer stays open without a
  persona. Whatever then happens while it stays open, further intros, other invitations being
  accepted, traffic of the relationships and their removal, an intro that passes the checks
  that need no state ends with a database error, and every other one is dropped: the offer cannot
  be answered any more, also not when there is room again.
\<close>

theorem full_list_spoils_offer:
  assumes "library_confined W" "decrypt_confined W"
    and "ps_offer s = Some p" "MAX_RELATIONSHIPS \<le> length (db_rels (ps_db s))"
    and "read_intro W now intro rec = Some (payload, body)"
    and "our_identity_key W PENDING_NAMESPACE s = (Ok our_ik, s)" "pp_identity_key payload \<noteq> our_ik"
    and "intro_throttled (pn_service_id p) now s = (Ok False, s1)"
    and "rel_id = hex_encode (relationship_id (pw_sha256 W) our_ik (pp_identity_key payload))"
    and "\<not> request_bucket_full rel_id (ps_db s)" "fresh_namespace rel_id (ps_signal s)"
    and "pw_decrypt_prekey W (rename_namespace PENDING_NAMESPACE rel_id (ps_signal s), ps_ext s) rel_id body =
      (Ok plaintext, t, x)"
    and "PairingPayload_decode (pn_qr_bytes p) = Ok ours"
  shows "\<exists>msg s'. ingest_frame W (pn_service_id p) intro rec now s = (Err (CapReached msg), s') \<and>
    (\<forall>s2 now2 intro2 rec2. (meanwhile W p)\<^sup>*\<^sup>* s' s2 \<longrightarrow>
       ps_offer s2 = Some p \<and>
       ingest_frame W (pn_service_id p) intro2 rec2 now2 s2 =
         (if read_intro W now2 intro2 rec2 = None then Ok IngestDropped else Err (PairingSqlite NoRows), s2))"
proof -
  have s1: "s1 = s\<lparr>ps_db := set_setting (key_intro_at (pn_service_id p)) (be64 now) (ps_db s)\<rparr>"
    using intro_throttled_cases [OF assms(8)] by auto
  then have full: "\<not> request_bucket_full rel_id (ps_db s1)" "MAX_RELATIONSHIPS \<le> length (db_rels (ps_db s1))"
    using assms(4,10) by (simp_all add: request_bucket_full_def) (simp_all add: set_setting_def)
  obtain host where host: "onion_of_payload W payload = Ok host"
    using verified_onion [OF read_intro_verified [OF assms(5)]] by blast
  have "ingest_frame W (pn_service_id p) intro rec now s = ingest_intro W p intro rec now s"
    using assms(3) by (simp add: ingest_frame_def sbind_def sget_def)
  also have "\<dots> = decrypt_intro W p now rel_id our_ik payload body s1"
    by (rule ingest_intro_step [OF assms(5-9) full(1)])
  also have "\<dots> = open_request W p now rel_id our_ik payload plaintext (s1\<lparr>ps_signal := t, ps_ext := x\<rparr>)"
    using decrypt_intro_step [of rel_id s1] assms(11,12) by (simp add: s1)
  finally have run: "ingest_frame W (pn_service_id p) intro rec now s =
      (Err (CapReached (''relationships ('' @ show_nat MAX_RELATIONSHIPS @ '')'')),
       s1\<lparr>ps_signal := t, ps_ext := x\<rparr>)"
    using full(2) by (simp add: open_request_def sbind_def slift_def host assms(13) insert_relationship_def)
  have ne: "PENDING_NAMESPACE \<noteq> rel_id" using assms(9) hex_not_pending by metis
  have "delete_namespace rel_id t = delete_namespace rel_id (rename_namespace PENDING_NAMESPACE rel_id (ps_signal s))"
    using assms(2,12) unfolding decrypt_confined_def by blast
  then have "fresh_namespace PENDING_NAMESPACE t" using fresh_elsewhere [OF _ ne] fresh_renamed [OF ne] by metis
  then have "spoiled p (s1\<lparr>ps_signal := t, ps_ext := x\<rparr>)" using assms(3) by (simp add: spoiled_def s1)
  from spoiled_meanwhile [OF assms(1) _ this] have later: "spoiled p s2"
    if "(meanwhile W p)\<^sup>*\<^sup>* (s1\<lparr>ps_signal := t, ps_ext := x\<rparr>) s2" for s2
    using that by blast
  then have "ps_offer s2 = Some p" if "(meanwhile W p)\<^sup>*\<^sup>* (s1\<lparr>ps_signal := t, ps_ext := x\<rparr>) s2" for s2
    using that by (simp add: spoiled_def)
  with run no_persona [OF later] show ?thesis by blast
qed

section \<open>A whole ceremony\<close>

text \<open>
  What the ceremony relies on: key pairs survive their serialisation, a signature made with the
  private half verifies with the public half, keys, signatures and random values have sizes
  within the limits of the invitation, and digests have at least two bytes.
\<close>

definition keys_ok :: "'x pairing_world \<Rightarrow> key_pair \<Rightarrow> bool" where
  "keys_ok W k \<longleftrightarrow>
     field_ok 64 (kp_public k) \<and> pw_identity_error W (kp_public k) = None \<and>
     pw_keypair_parse W (pw_keypair_blob W k) = Ok k \<and>
     (\<forall>x m sg x'. pw_sign W x (kp_private k) m = (Ok sg, x') \<longrightarrow>
        field_ok 64 sg \<and> pw_verify W (kp_public k) m sg) \<and>
     (\<forall>x i r x'. pw_kyber_pre_key W x i (kp_private k) = (Ok r, x') \<longrightarrow>
        field_ok MAX_FIELD (kp_public (sk_pair r)) \<and> field_ok 64 (sk_signature r) \<and>
        pw_verify W (kp_public k) (kp_public (sk_pair r)) (sk_signature r))"

definition world_ok :: "'x pairing_world \<Rightarrow> bool" where
  "world_ok W \<longleftrightarrow>
     (\<forall>m. 2 \<le> length (pw_sha3 W m)) \<and>
     (\<forall>x. length (fst (pw_random W x)) = 32) \<and>
     (\<forall>x. keys_ok W (fst (pw_key_pair W x)))"

text \<open>A persona that the ceremony has generated.\<close>

definition persona_ok :: "'x pairing_world \<Rightarrow> persona \<Rightarrow> bool" where
  "persona_ok W p \<longleftrightarrow>
     keys_ok W (pe_identity p) \<and>
     field_ok 64 (kp_public (sk_pair (pe_signed_pre_key p))) \<and> field_ok 64 (sk_signature (pe_signed_pre_key p)) \<and>
     pw_verify W (kp_public (pe_identity p)) (kp_public (sk_pair (pe_signed_pre_key p)))
       (sk_signature (pe_signed_pre_key p)) \<and>
     field_ok MAX_FIELD (kp_public (sk_pair (pe_kyber_pre_key p))) \<and> field_ok 64 (sk_signature (pe_kyber_pre_key p)) \<and>
     pw_verify W (kp_public (pe_identity p)) (kp_public (sk_pair (pe_kyber_pre_key p)))
       (sk_signature (pe_kyber_pre_key p)) \<and>
     field_ok 64 (kp_public (snd (pe_one_time_pre_key p)))"

lemma keys_public: "keys_ok W k \<Longrightarrow> field_ok 64 (kp_public k)"
  by (simp add: keys_ok_def)

lemma keys_sign:
  "keys_ok W k \<Longrightarrow> pw_sign W x (kp_private k) m = (Ok sg, x') \<Longrightarrow> field_ok 64 sg \<and> pw_verify W (kp_public k) m sg"
  unfolding keys_ok_def by blast

lemma keys_kyber:
  "keys_ok W k \<Longrightarrow> pw_kyber_pre_key W x i (kp_private k) = (Ok r, x') \<Longrightarrow>
   field_ok MAX_FIELD (kp_public (sk_pair r)) \<and> field_ok 64 (sk_signature r) \<and>
   pw_verify W (kp_public k) (kp_public (sk_pair r)) (sk_signature r)"
  unfolding keys_ok_def by blast

lemma generate_persona_ok:
  assumes "world_ok W" "generate_persona W s = (Ok p, s')"
  shows "persona_ok W p \<and> (\<exists>x. s' = s\<lparr>ps_ext := x\<rparr>)"
proof -
  have k: "keys_ok W k" if "pw_key_pair W x = (k, x')" for k x x'
    using assms(1) that unfolding world_ok_def by (metis fst_conv)
  from assms(2) obtain identity xa reg signed xb xc sg xd ky xe ot xf xg where
    run: "pw_key_pair W (ps_ext s) = (identity, xa)" "pw_key_pair W xb = (signed, xc)"
      "pw_sign W xc (kp_private identity) (kp_public signed) = (Ok sg, xd)"
      "pw_kyber_pre_key W xd KYBER_PREKEY_ID (kp_private identity) = (Ok ky, xe)"
      "pw_key_pair W xe = (ot, xf)" "s' = s\<lparr>ps_ext := xf\<rparr>"
      "p = \<lparr>pe_identity = identity, pe_registration_id = reg,
           pe_signed_pre_key = \<lparr>sk_id = SIGNED_PREKEY_ID, sk_pair = signed, sk_signature = sg\<rparr>,
           pe_kyber_pre_key = ky, pe_one_time_pre_key = (ONE_TIME_PREKEY_ID, ot)\<rparr>"
    by (auto simp: generate_persona_def pairing_Ok)
  note keys = k [OF run(1)] k [OF run(2)] k [OF run(5)]
  show ?thesis
    using keys keys_public [OF keys(2)] keys_public [OF keys(3)] keys_sign [OF keys(1) run(3)]
      keys_kyber [OF keys(1) run(4)]
    by (auto simp: run(6,7) persona_ok_def)
qed

lemma persona_bundle_Ok:
  "persona_bundle W p s = (Ok b, s') \<longleftrightarrow> pw_bundle_error W (bundle_of p) = None \<and> b = bundle_of p \<and> s' = s"
  by (auto simp: persona_bundle_def pairing_Ok split: option.splits)

lemma sign_payload_Ok:
  "sign_payload W k pl s = (Ok pl', s') \<longleftrightarrow>
     (\<exists>sg x. pw_sign W (ps_ext s) k (signed_body pl) = (Ok sg, x) \<and>
        pl' = pl\<lparr>pp_signature := sg\<rparr> \<and> s' = s\<lparr>ps_ext := x\<rparr>)"
  by (cases "pw_sign W (ps_ext s) k (signed_body pl)"; cases "fst (pw_sign W (ps_ext s) k (signed_body pl))")
    (auto simp: sign_payload_def sbind_def p_ext_def sret_def sthrow_def)

lemma make_payload_ok:
  assumes "world_ok W" "persona_ok W p" "length nonce = 32" "make_payload W p onion ca nonce e s = (Ok pl, s')"
  shows "PairingPayload_wf pl \<and> verify_payload W now False pl = Ok () \<and>
    pp_identity_key pl = kp_public (pe_identity p) \<and> pp_nonce pl = nonce \<and> (\<exists>x. s' = s\<lparr>ps_ext := x\<rparr>) \<and>
    (\<exists>raw auth sg. pl = (from_bundle (bundle_of p) raw auth nonce e)\<lparr>pp_signature := sg\<rparr>)"
proof -
  from assms(4) obtain raw auth sg x where
    raw: "raw_from_hostname (pw_sha3 W) (pw_unb32 W) onion = Ok raw" and
    auth: "decode_client_auth_key W (ca_public_b32 ca) = Ok auth" and
    sg: "pw_sign W (ps_ext s) (kp_private (pe_identity p)) (signed_body (from_bundle (bundle_of p) raw auth nonce e)) = (Ok sg, x)" and
    pl: "pl = (from_bundle (bundle_of p) raw auth nonce e)\<lparr>pp_signature := sg\<rparr>" "s' = s\<lparr>ps_ext := x\<rparr>"
    by (auto simp: make_payload_def pairing_Ok persona_bundle_Ok sign_payload_Ok)
  have body: "signed_body pl = signed_body (from_bundle (bundle_of p) raw auth nonce e)"
    by (simp add: pl signed_body_def)
  have sig: "field_ok 64 sg" "pw_verify W (kp_public (pe_identity p)) (signed_body pl) sg"
    using assms(2) sg unfolding persona_ok_def keys_ok_def body by blast+
  have raw: "length raw = ONION_RAW_BYTES"
      "hostname_from_raw (pw_sha3 W) (pw_b32 W) raw = Ok (hostname_from_pubkey (pw_sha3 W) (pw_b32 W) (take 32 raw))"
    using raw_hostname [OF _ raw] assms(1) by (auto simp: world_ok_def)
  have auth: "length auth = 32"
    using auth by (auto simp: decode_client_auth_key_def rbind_Inr_iff split: if_splits)
  have id: "pw_identity_error W (kp_public (pe_identity p)) = None" "field_ok 64 (kp_public (pe_identity p))"
    using assms(2) by (simp_all add: persona_ok_def keys_ok_def)
  have "PairingPayload_wf pl"
    using assms(2,3) raw(1) auth id sig(1)
    by (simp add: pl bundle_of_def from_bundle_def PairingPayload_wf_def pre_key_ok_def persona_ok_def)
  moreover have "verify_payload W now False pl = Ok ()"
    using assms(2) raw(2) id sig(2)
    by (simp add: verify_payload_def PairingPayload_verify_def persona_ok_def)
      (simp add: pl bundle_of_def from_bundle_def)
  ultimately show ?thesis using pl by (auto simp: bundle_of_def from_bundle_def)
qed

text \<open>
  The records of a persona under a namespace, unused, with no session and no peer identity; and
  the invitations that a generated persona stands behind.
\<close>

definition holds_persona :: "'x pairing_world \<Rightarrow> string \<Rightarrow> persona \<Rightarrow> signal_tables \<Rightarrow> bool" where
  "holds_persona W ns p t \<longleftrightarrow>
     map_of (sg_locals t) (ns, ()) =
       Some \<lparr>lo_registration_id = pe_registration_id p, lo_keypair = pw_keypair_blob W (pe_identity p)\<rparr> \<and>
     (\<exists>b. pw_pre_key_blob W (pe_one_time_pre_key p) = Ok b \<and> map_of (sg_prekeys t) (ns, ONE_TIME_PREKEY_ID) = Some b) \<and>
     (\<exists>b. pw_signed_pre_key_blob W (pe_signed_pre_key p) = Ok b \<and>
        map_of (sg_signed_prekeys t) (ns, SIGNED_PREKEY_ID) = Some b) \<and>
     (\<exists>b. pw_kyber_blob W (pe_kyber_pre_key p) = Ok b \<and>
        map_of (sg_kyber_prekeys t) (ns, KYBER_PREKEY_ID) = Some \<lparr>ky_record = b, ky_used_with = None\<rparr>) \<and>
     fresh_rows ns (sg_identities t) \<and> fresh_rows ns (sg_sessions t)"

definition invites :: "'x pairing_world \<Rightarrow> persona \<Rightarrow> pairing_payload \<Rightarrow> bool" where
  "invites W p pl \<longleftrightarrow>
     (\<exists>s s'. generate_persona W s = (Ok p, s')) \<and>
     (\<exists>onion auth nonce e sg. pl = (from_bundle (bundle_of p) onion auth nonce e)\<lparr>pp_signature := sg\<rparr>)"

lemma holds_persona_moved:
  assumes "holds_persona W from p t" "fresh_namespace to t" "from \<noteq> to"
  shows "holds_persona W to p (rename_namespace from to t)"
proof -
  have "fresh_rows to (rename_rows from to rows)" if "fresh_rows to rows" "fresh_rows from rows"
    for rows :: "(string, bytes) key_table"
    using that by (auto simp: fresh_rows_def rename_rows_def list_all_iff split: prod.splits)
  then show ?thesis
    using assms by (auto simp: holds_persona_def fresh_namespace_def rename_namespace_def map_of_rename)
qed

lemma map_of_put_row: "map_of (put_row k v rows) k = Some v"
proof -
  have "map_of (filter (\<lambda>r. fst r \<noteq> k) rows) k = None" by (auto simp: map_of_eq_None_iff)
  then show ?thesis by (simp add: put_row_def map_add_def)
qed

text \<open>What a successful offer leaves: the pending row and the persona behind its invitation.\<close>

lemma store_persona_Ok:
  assumes "store_persona W ns p s = (Ok u, s')" "fresh_namespace ns (ps_signal s)"
  shows "ps_db s' = ps_db s \<and> ps_offer s' = ps_offer s \<and> holds_persona W ns p (ps_signal s')"
proof -
  have "map_of (sg_locals (ps_signal s)) (ns, ()) = None" "map_of (sg_kyber_prekeys (ps_signal s)) (ns, KYBER_PREKEY_ID) = None"
    using assms(2) by (simp_all add: fresh_namespace_def fresh_rows_None)
  then show ?thesis
    using assms
    by (auto simp: store_persona_def pairing_Ok create_local_def save_pre_key_def save_signed_pre_key_def
        save_kyber_pre_key_def rbind_Inr_iff map_add_def holds_persona_def map_of_put_row fresh_namespace_def)
qed

text \<open>Without an open offer there is no persona for one.\<close>

definition no_stray_persona :: "'x pairing_state \<Rightarrow> bool" where
  "no_stray_persona s \<longleftrightarrow> (ps_offer s = None \<longrightarrow> fresh_namespace PENDING_NAMESPACE (ps_signal s))"

lemma clear_pending_Ok:
  "clear_pending W s = (Ok u, s') \<Longrightarrow> ps_db s' = ps_db s \<and> ps_offer s' = None \<and>
   (no_stray_persona s \<longrightarrow> fresh_namespace PENDING_NAMESPACE (ps_signal s'))"
  by (auto simp: clear_pending_def pairing_Ok no_stray_persona_def fresh_deleted split: option.splits)

lemma sweep_offer_Ok:
  "sweep_offer W now s = (Ok u, s') \<Longrightarrow> ps_db s' = ps_db s \<and> (no_stray_persona s \<longrightarrow> no_stray_persona s')"
  by (auto simp: sweep_offer_def pairing_Ok no_stray_persona_def split: option.splits if_splits
      dest: clear_pending_Ok)

lemma client_auth_Ok: "ClientAuthKeys_generate W s = (Ok ca, s') \<Longrightarrow> \<exists>x. s' = s\<lparr>ps_ext := x\<rparr>"
  by (auto simp: ClientAuthKeys_generate_def pairing_Ok)

lemma offer_Ok:
  assumes "world_ok W" "offer_pairing W now s = (Ok off, s')" "no_stray_persona s"
  shows "\<exists>pr pl p. ps_offer s' = Some pr \<and> pn_service_id pr = of_service_id off \<and>
    pn_qr_bytes pr = of_qr_bytes off \<and> ps_db s' = ps_db s \<and>
    of_qr_bytes off = PairingPayload_encode pl \<and> PairingPayload_wf pl \<and>
    pp_identity_key pl = kp_public (pe_identity p) \<and> keys_ok W (pe_identity p) \<and>
    invites W p pl \<and> holds_persona W PENDING_NAMESPACE p (ps_signal s')"
proof -
  from assms(2) obtain s1 s2 s3 s4 s5 s6 s7 s8 s9 p ca nonce onion pl raw where
    1: "sweep_offer W now s = (Ok (), s1)" "clear_pending W s1 = (Ok (), s2)"
      "generate_persona W s2 = (Ok p, s3)" "ClientAuthKeys_generate W s3 = (Ok ca, s4)"
      "p_ext (pw_random W) s4 = (Ok nonce, s5)"
      "p_transport (\<lambda>x. pw_host_service W x (service_id_for (kp_public (pe_identity p))) False) s5 = (Ok onion, s6)"
      "raw_from_hostname (pw_sha3 W) (pw_unb32 W) onion = Ok raw"
      "make_payload W p onion ca nonce (now + OFFER_TTL_SECONDS) s6 = (Ok pl, s7)"
      "store_persona W PENDING_NAMESPACE p s7 = (Ok (), s8)"
      "insert_pending \<lparr>pn_service_id = service_id_for (kp_public (pe_identity p)), pn_onion = onion,
         pn_qr_bytes = PairingPayload_encode pl, pn_client_auth_private = ca_private_b32 ca,
         pn_expires_at = now + OFFER_TTL_SECONDS\<rparr> s8 = (Ok (), s')"
      "off = \<lparr>of_qr_bytes = PairingPayload_encode pl, of_code = encode_code (pw_b58 W) (PairingPayload_encode pl),
         of_onion = onion, of_expires_at = now + OFFER_TTL_SECONDS,
         of_service_id = service_id_for (kp_public (pe_identity p))\<rparr>"
    unfolding offer_pairing_def Let_def sbind_Ok slift_eq sret_eq map_err_Ok by auto
  have nonce: "length nonce = 32" "\<exists>x. s5 = s4\<lparr>ps_ext := x\<rparr>"
    using 1(5) assms(1) unfolding world_ok_def p_ext_eq by (auto, metis fst_conv)
  have p: "persona_ok W p" "\<exists>x. s3 = s2\<lparr>ps_ext := x\<rparr>" using generate_persona_ok [OF assms(1) 1(3)] by auto
  have pl: "PairingPayload_wf pl" "pp_identity_key pl = kp_public (pe_identity p)" "\<exists>x. s7 = s6\<lparr>ps_ext := x\<rparr>"
      "invites W p pl"
    using make_payload_ok [OF assms(1) p(1) nonce(1) 1(8)] 1(3) unfolding invites_def by blast+
  have s6: "\<exists>x. s6 = s5\<lparr>ps_ext := x\<rparr>" using 1(6) by (auto simp: p_transport_Ok)
  have "fresh_namespace PENDING_NAMESPACE (ps_signal s7)"
    using sweep_offer_Ok [OF 1(1)] clear_pending_Ok [OF 1(2)] assms(3) p(2) client_auth_Ok [OF 1(4)] nonce(2) s6 pl(3)
    by auto
  from store_persona_Ok [OF 1(9) this]
  have s8: "holds_persona W PENDING_NAMESPACE p (ps_signal s8)" "ps_db s8 = ps_db s7" by blast+
  have s': "ps_signal s' = ps_signal s8" "ps_db s' = ps_db s8"
      "ps_offer s' = Some \<lparr>pn_service_id = service_id_for (kp_public (pe_identity p)), pn_onion = onion,
         pn_qr_bytes = PairingPayload_encode pl, pn_client_auth_private = ca_private_b32 ca,
         pn_expires_at = now + OFFER_TTL_SECONDS\<rparr>"
    using 1(10) by (auto simp: insert_pending_def split: if_splits)
  have "ps_db s8 = ps_db s"
    using sweep_offer_Ok [OF 1(1)] clear_pending_Ok [OF 1(2)] p(2) client_auth_Ok [OF 1(4)] nonce(2) s6 pl(3) s8(2)
    by auto
  moreover have "keys_ok W (pe_identity p)" using p(1) by (simp add: persona_ok_def)
  ultimately show ?thesis using s' s8(1) pl 1(11) by auto
qed

text \<open>What a successful accept leaves: the row of the relationship and its own invitation.\<close>

lemma insert_relationship_Ok:
  "insert_relationship rel_id row s = (Ok u, s') \<longleftrightarrow>
     length (db_rels (ps_db s)) < MAX_RELATIONSHIPS \<and> rel_of rel_id (ps_db s) = None \<and>
     s' = s\<lparr>ps_db := (ps_db s)\<lparr>db_rels := db_rels (ps_db s) @ [(rel_id, row)]\<rparr>\<rparr>"
  by (auto simp: insert_relationship_def split: if_splits)

lemma rel_of_inserted:
  "rel_of rel_id db = None \<Longrightarrow> rel_of rel_id (db\<lparr>db_rels := db_rels db @ [(rel_id, row)]\<rparr>) = Some row"
  by (simp add: rel_of_def map_add_def)

lemma accept_inner_Ok:
  assumes "world_ok W" "persona_ok W p" "length nonce = 32"
    and "accept_inner W pl p rel_id svc peer ca nonce now s = (Ok acc, s')"
  shows "\<exists>row ours. rel_of rel_id (ps_db s') = Some row \<and> rel_our_qr_bytes row = PairingPayload_encode ours \<and>
    PairingPayload_wf ours \<and> (\<forall>t. verify_payload W t False ours = Ok ()) \<and>
    pp_identity_key ours = kp_public (pe_identity p) \<and> pp_nonce ours = nonce \<and>
    rel_our_nonce row = nonce \<and> rel_peer_nonce row = pp_nonce pl \<and>
    rel_peer_identity_key row = pp_identity_key pl \<and> ac_rel_id acc = rel_id \<and>
    ac_sas acc = sas (pw_sha256 W) (kp_public (pe_identity p)) nonce (pp_identity_key pl) (pp_nonce pl)"
proof -
  from assms(4) obtain onion s1 ours s2 s3 where
    mp: "make_payload W p onion ca nonce (now + OFFER_TTL_SECONDS) s1 = (Ok ours, s2)" and
    ins: "insert_relationship rel_id
              (new_relationship ROLE_ACCEPTER STATE_ACTIVE svc onion peer
                 (pp_identity_key pl) (base32_lower (pw_b32 W) (pp_client_auth_public pl))
                 (ca_private_b32 ca) nonce (pp_nonce pl)
                 (PairingPayload_encode ours) True now) s2 = (Ok (), s')" and
    acc: "ac_rel_id acc = rel_id"
      "ac_sas acc = sas (pw_sha256 W) (kp_public (pe_identity p)) nonce (pp_identity_key pl) (pp_nonce pl)"
    unfolding accept_inner_def sbind_Ok slift_eq sret_eq map_err_Ok by auto
  from ins have row: "rel_of rel_id (ps_db s') = Some (new_relationship ROLE_ACCEPTER STATE_ACTIVE svc onion peer
                 (pp_identity_key pl) (base32_lower (pw_b32 W) (pp_client_auth_public pl))
                 (ca_private_b32 ca) nonce (pp_nonce pl)
                 (PairingPayload_encode ours) True now)"
    by (auto simp: insert_relationship_Ok rel_of_inserted)
  show ?thesis
    using make_payload_ok [OF assms(1-3) mp] acc by (auto simp: row new_relationship_def)
qed

lemma sattempt_Ok: "sattempt m s = (Ok r, s') \<longleftrightarrow> m s = (r, s')"
  by (auto simp: sattempt_def split: prod.splits)

lemma rethrow_Ok:
  "(case r of Inl e \<Rightarrow> sbind (f e) (\<lambda>_. sbind (g e) (\<lambda>_. sthrow e)) | Inr a \<Rightarrow> sret a) s = (Ok y, s') \<longleftrightarrow>
   r = Ok y \<and> s' = s"
  by (cases r) (auto simp: sbind_Ok sthrow_Ok sret_eq)

lemma accept_Ok:
  assumes "world_ok W" "accept W qr now s = (Ok acc, s')"
  shows "\<exists>pl row ours. PairingPayload_decode qr = Ok pl \<and> rel_of (ac_rel_id acc) (ps_db s') = Some row \<and>
    rel_our_qr_bytes row = PairingPayload_encode ours \<and> PairingPayload_wf ours \<and>
    (\<forall>t. verify_payload W t False ours = Ok ()) \<and> pp_nonce ours = rel_our_nonce row \<and>
    rel_peer_nonce row = pp_nonce pl \<and> rel_peer_identity_key row = pp_identity_key pl \<and>
    ac_rel_id acc = hex_encode (relationship_id (pw_sha256 W) (pp_identity_key ours) (pp_identity_key pl)) \<and>
    ac_sas acc = sas (pw_sha256 W) (pp_identity_key ours) (pp_nonce ours) (pp_identity_key pl) (pp_nonce pl)"
proof -
  from assms(2) obtain pl p s1 s2 ca nonce s3 s4 peer where
    pl: "PairingPayload_decode qr = Ok pl" and
    p: "generate_persona W s1 = (Ok p, s2)" and
    nonce: "p_ext (pw_random W) s3 = (Ok nonce, s4)" and
    inner: "accept_inner W pl p (hex_encode (relationship_id (pw_sha256 W) (kp_public (pe_identity p)) (pp_identity_key pl)))
       (service_id_for (kp_public (pe_identity p))) peer ca nonce now s4 = (Ok acc, s')"
    unfolding accept_def Let_def
    by (auto simp: sattempt_Ok rethrow_Ok sbind_Ok slift_eq sget_eq map_err_Ok sthrow_Ok split: if_splits)
  have "length nonce = 32"
    using nonce assms(1) unfolding world_ok_def p_ext_eq by (auto, metis fst_conv)
  moreover have "persona_ok W p" using generate_persona_ok [OF assms(1) p] by blast
  ultimately show ?thesis using accept_inner_Ok [OF assms(1) _ _ inner] pl by metis
qed

lemma first_intro:
  assumes "setting (key_intro_at svc) (ps_db s) = None" "1 \<le> now"
  shows "intro_throttled svc now s =
    (Ok False, s\<lparr>ps_db := set_setting (key_intro_at svc) (be64 now) (ps_db s)\<rparr>)"
proof -
  from assms(2) have "now \<noteq> 0" by auto
  with assms(1) show ?thesis
    by (simp add: intro_throttled_def Let_def saturating_sub_def limit_defs)
qed

lemma open_request_run:
  assumes "onion_of_payload W payload = Ok peer" "PairingPayload_decode (pn_qr_bytes p) = Ok ours"
    and "length (db_rels (ps_db s)) < MAX_RELATIONSHIPS" "rel_of rel_id (ps_db s) = None"
  shows "\<exists>r s' row. open_request W p now rel_id our_ik payload plaintext s = (r, s') \<and>
    r = (case fst (pw_install_client_auth W (ps_ext s) peer (pn_client_auth_private p)) of
           Inl e \<Rightarrow> Err (PairingTransport e)
         | Inr _ \<Rightarrow> Ok (RequestReceived rel_id
             (sas (pw_sha256 W) our_ik (pp_nonce ours) (pp_identity_key payload) (pp_nonce payload)) plaintext)) \<and>
    ps_offer s' = None \<and> rel_of rel_id (ps_db s') = Some row \<and> rel_role row = ROLE_INVITER \<and>
    rel_state row = STATE_REQUEST \<and> rel_our_nonce row = pp_nonce ours \<and> rel_peer_nonce row = pp_nonce payload \<and>
    rel_peer_identity_key row = pp_identity_key payload"
  using assms(1-4) rel_of_inserted [OF assms(4)]
  by (cases "pw_install_client_auth W (ps_ext s) peer (pn_client_auth_private p)")
    (auto simp: open_request_def sbind_def slift_def sret_def smodify_def p_transport_def insert_relationship_def
      new_relationship_def split: sum.splits)

text \<open>
  The library's promise for a pre-key message that was made for an invitation: it decrypts in a
  namespace that holds the records of the persona behind the invitation and no session yet.
\<close>

definition answers :: "'x pairing_world \<Rightarrow> string \<Rightarrow> pairing_payload \<Rightarrow> bytes \<Rightarrow> bytes \<Rightarrow> bool" where
  "answers W rel_id pl body plaintext \<longleftrightarrow>
     (\<forall>p t x. invites W p pl \<and> holds_persona W rel_id p t \<longrightarrow>
        fst (pw_decrypt_prekey W (t, x) rel_id body) = Ok plaintext)"

text \<open>
  C4: the two sides of a pairing agree. When one side has made an offer, the other has accepted
  its invitation and the first frame of the accepter, a pre-key message for the invitation, reaches
  the inviter with the accepter's own invitation as intro, the persona of the offer decrypts it
  as the persona of the relationship. When it is the first intro of the offer, the inviter does not
  know the relationship yet and has room for it, it then stores a row that is waiting for
  acceptance, names the accepter's identity key, and has the two nonces of the accepter's row
  exchanged; the offer is closed. The result is the request with the relationship id and
  the safety code that the accepter computed, or the error of the transport when that could not
  install the client key.
\<close>

theorem pairing_agrees:
  assumes "world_ok W" "no_stray_persona sA0" "offer_pairing W t0 sA0 = (Ok off, sA)"
    and "accept W (of_qr_bytes off) t1 sB0 = (Ok acc, sB)"
    and "rel_of (ac_rel_id acc) (ps_db sB) = Some row" "PairingPayload_decode (rel_our_qr_bytes row) = Ok intro"
    and "parse_record rec = Ok frame" "parse_prekey_frame W frame = Ok (body, pp_identity_key intro)"
    and "pp_identity_key intro \<noteq> rel_peer_identity_key row"
    and "PairingPayload_decode (of_qr_bytes off) = Ok invitation" "answers W (ac_rel_id acc) invitation body plaintext"
    and "setting (key_intro_at (of_service_id off)) (ps_db sA) = None" "1 \<le> t2"
    and "length (db_rels (ps_db sA)) < MAX_RELATIONSHIPS" "\<not> request_bucket_full (ac_rel_id acc) (ps_db sA)"
    and "rel_of (ac_rel_id acc) (ps_db sA) = None" "fresh_namespace (ac_rel_id acc) (ps_signal sA)"
  shows "\<exists>r sA' rowA. ingest_frame W (of_service_id off) (Some (rel_our_qr_bytes row)) rec t2 sA = (r, sA') \<and>
    (r = Ok (RequestReceived (ac_rel_id acc) (ac_sas acc) plaintext) \<or>
     (\<exists>x onion key e. fst (pw_install_client_auth W x onion key) = Err e \<and> r = Err (PairingTransport e))) \<and>
    rel_of (ac_rel_id acc) (ps_db sA') = Some rowA \<and> rel_role rowA = ROLE_INVITER \<and>
    rel_state rowA = STATE_REQUEST \<and> rel_our_nonce rowA = rel_peer_nonce row \<and>
    rel_peer_nonce rowA = rel_our_nonce row \<and> rel_peer_identity_key rowA = pp_identity_key intro \<and>
    ps_offer sA' = None"
proof -
  let ?rel = "ac_rel_id acc"
  obtain pr pl p where A: "ps_offer sA = Some pr" "pn_service_id pr = of_service_id off"
      "pn_qr_bytes pr = of_qr_bytes off" "of_qr_bytes off = PairingPayload_encode pl" "PairingPayload_wf pl"
      "pp_identity_key pl = kp_public (pe_identity p)" "keys_ok W (pe_identity p)" "invites W p pl"
      "holds_persona W PENDING_NAMESPACE p (ps_signal sA)"
    using offer_Ok [OF assms(1,3,2)] by blast
  have dA: "PairingPayload_decode (pn_qr_bytes pr) = Ok pl" using A(3-5) decode_encode_payload by simp
  then have dec: "PairingPayload_decode (of_qr_bytes off) = Ok pl" using A(3) by simp
  obtain ours where B: "rel_our_qr_bytes row = PairingPayload_encode ours" "PairingPayload_wf ours"
      "\<forall>t. verify_payload W t False ours = Ok ()" "pp_nonce ours = rel_our_nonce row"
      "rel_peer_nonce row = pp_nonce pl" "rel_peer_identity_key row = pp_identity_key pl"
      "?rel = hex_encode (relationship_id (pw_sha256 W) (pp_identity_key ours) (pp_identity_key pl))"
      "ac_sas acc = sas (pw_sha256 W) (pp_identity_key ours) (pp_nonce ours) (pp_identity_key pl) (pp_nonce pl)"
    using accept_Ok [OF assms(1,4)] assms(5) dec by auto
  have inv: "invitation = pl" using assms(10) dec by simp
  have ours: "ours = intro" using assms(6) decode_encode_payload [OF B(2)] B(1) by simp
  have ne: "pp_identity_key intro \<noteq> pp_identity_key pl" using assms(9) B(6) by simp
  have rd: "read_intro W t2 (Some (rel_our_qr_bytes row)) rec = Some (intro, body)"
    using assms(6-8) B(3) by (simp add: read_intro_def ours rbind_def)
  have ik: "our_identity_key W PENDING_NAMESPACE sA = (Ok (pp_identity_key pl), sA)"
    using A(6,7,9) by (auto simp: our_identity_key_Ok keys_ok_def holds_persona_def)
  define s1 where "s1 = sA\<lparr>ps_db := set_setting (key_intro_at (pn_service_id pr)) (be64 t2) (ps_db sA)\<rparr>"
  have th: "intro_throttled (pn_service_id pr) t2 sA = (Ok False, s1)"
    using first_intro [of "pn_service_id pr" sA t2] assms(12,13) A(2) by (simp add: s1_def)
  have rel: "?rel = hex_encode (relationship_id (pw_sha256 W) (pp_identity_key pl) (pp_identity_key intro))"
    using B(7) relationship_id_sym by (simp add: ours)
  have s1: "\<not> request_bucket_full ?rel (ps_db s1)" "length (db_rels (ps_db s1)) < MAX_RELATIONSHIPS"
      "rel_of ?rel (ps_db s1) = None" "fresh_namespace ?rel (ps_signal s1)"
    using assms(14-17) by (simp_all add: s1_def request_bucket_full_def) (simp_all add: set_setting_def)
  obtain t x where d: "pw_decrypt_prekey W (rename_namespace PENDING_NAMESPACE ?rel (ps_signal s1), ps_ext s1) ?rel body =
      (Ok plaintext, t, x)"
  proof -
    have "PENDING_NAMESPACE \<noteq> ?rel" using B(7) hex_not_pending by metis
    then have "holds_persona W ?rel p (rename_namespace PENDING_NAMESPACE ?rel (ps_signal s1))"
      using holds_persona_moved [OF A(9), of ?rel] s1(4) by (simp add: s1_def)
    then have "fst (pw_decrypt_prekey W (rename_namespace PENDING_NAMESPACE ?rel (ps_signal s1), ps_ext s1) ?rel body) =
        Ok plaintext"
      using assms(11) A(8) unfolding answers_def inv by blast
    then show thesis using that by (metis prod.collapse)
  qed
  have "ingest_frame W (of_service_id off) (Some (rel_our_qr_bytes row)) rec t2 sA =
      ingest_intro W pr (Some (rel_our_qr_bytes row)) rec t2 sA"
    using A(1,2) by (simp add: ingest_frame_def sbind_def sget_def)
  also have "\<dots> = decrypt_intro W pr t2 ?rel (pp_identity_key pl) intro body s1"
    by (rule ingest_intro_step [OF rd ik ne th rel s1(1)])
  also have "\<dots> = open_request W pr t2 ?rel (pp_identity_key pl) intro plaintext (s1\<lparr>ps_signal := t, ps_ext := x\<rparr>)"
    by (rule decrypt_intro_step [OF s1(4) d])
  finally have run: "ingest_frame W (of_service_id off) (Some (rel_our_qr_bytes row)) rec t2 sA =
      open_request W pr t2 ?rel (pp_identity_key pl) intro plaintext (s1\<lparr>ps_signal := t, ps_ext := x\<rparr>)" .
  obtain peer where "onion_of_payload W intro = Ok peer" using verified_onion B(3) ours by blast
  from open_request_run [OF this dA, of "s1\<lparr>ps_signal := t, ps_ext := x\<rparr>" ?rel t2 "pp_identity_key pl" plaintext]
  show ?thesis
    unfolding run using s1(2,3) B(4,5,8) sas_sym [OF ne]
    by (cases "fst (pw_install_client_auth W x peer (pn_client_auth_private pr))") (simp_all add: ours, blast+)
qed

section \<open>An example ceremony\<close>

text \<open>
  A world in which keys are numbered, every signature is accepted, all hosts have one address
  and a pre-key message is the sender's identity key followed by the plaintext. It decrypts
  once, in a namespace with a persona and its one-time key; a message without plaintext does not.
\<close>

definition plain_decrypt :: "signal_tables \<times> nat \<Rightarrow> string \<Rightarrow> bytes \<Rightarrow> (signal_error + bytes) \<times> signal_tables \<times> nat" where
  "plain_decrypt st r m =
     (if length m \<le> 33 \<or> map_of (sg_locals (fst st)) (r, ()) = None \<or>
         map_of (sg_prekeys (fst st)) (r, ONE_TIME_PREKEY_ID) = None
      then (Err (OtherSignalError ''pre-key message''), st)
      else (Ok (drop 33 m), remove_pre_key r ONE_TIME_PREKEY_ID (fst st), snd st))"

definition plain_world :: "nat pairing_world" where
  "plain_world =
     \<lparr>pw_sha256 = (\<lambda>_. replicate 32 0), pw_sha3 = (\<lambda>_. [0, 0]),
      pw_b32 = (\<lambda>b. replicate (if length b = 35 then 56 else 52) CHR ''A''),
      pw_unb32 = (\<lambda>s. Ok (if length s = 56 then replicate 34 0 @ [3] else replicate 32 0)),
      pw_b58 = text_of, pw_unb58 = (\<lambda>s. Ok (byte_str s)),
      pw_random = (\<lambda>n. (replicate 32 (of_nat n), n + 1)), pw_x25519 = (\<lambda>b. b),
      pw_key_pair = (\<lambda>n. (\<lparr>kp_public = replicate 33 (of_nat n), kp_private = replicate 33 (of_nat n)\<rparr>, n + 1)),
      pw_registration_id = (\<lambda>n. (1, n)), pw_sign = (\<lambda>n k m. (Ok [1], n)),
      pw_kyber_pre_key = (\<lambda>n i k. (Ok \<lparr>sk_id = i, sk_pair = \<lparr>kp_public = [9], kp_private = [9]\<rparr>, sk_signature = [1]\<rparr>, n)),
      pw_verify = (\<lambda>k m sg. True), pw_identity_error = (\<lambda>_. None), pw_public_error = (\<lambda>_. None),
      pw_kem_error = (\<lambda>_. None), pw_bundle_error = (\<lambda>_. None), pw_keypair_blob = kp_public,
      pw_keypair_parse = (\<lambda>b. Ok \<lparr>kp_public = b, kp_private = b\<rparr>),
      pw_pre_key_blob = (\<lambda>_. Ok [1]), pw_signed_pre_key_blob = (\<lambda>_. Ok [2]), pw_kyber_blob = (\<lambda>_. Ok [3]),
      pw_key_error_text = (\<lambda>_. ''key store''), pw_process_bundle = (\<lambda>st r b. (Ok (), st)),
      pw_prekey_identity = (\<lambda>m. Ok (take 33 m)),
      pw_decrypt_prekey = plain_decrypt,
      pw_decrypt = (\<lambda>st r tag m. Ok (Ok m, st)), pw_encrypt = (\<lambda>st r p. (Ok (SignalMessage, p), st)),
      pw_padding = (\<lambda>n. ((\<lambda>_. 0), n)),
      pw_host_service = (\<lambda>n svc restricted. (Ok (replicate 56 CHR ''a''), n)),
      pw_host_service_with_auth = (\<lambda>n svc auth. (Ok (replicate 56 CHR ''a''), n)),
      pw_remove_service = (\<lambda>n svc. (Ok (), n)), pw_install_client_auth = (\<lambda>n onion key. (Ok (), n)),
      pw_send_record = (\<lambda>n onion intro rec alert. (Ok (), n))\<rparr>"

definition new_device :: "nat \<Rightarrow> nat pairing_state" where
  "new_device n = \<lparr>ps_db = empty_db, ps_signal = no_signal_tables, ps_offer = None, ps_counters = (\<lambda>_. 0), ps_ext = n\<rparr>"

lemma plain_fields [simp]:
  "pw_random plain_world = (\<lambda>n. (replicate 32 (of_nat n), n + 1))"
  "pw_x25519 plain_world = (\<lambda>b. b)"
  "pw_key_pair plain_world = (\<lambda>n. (\<lparr>kp_public = replicate 33 (of_nat n), kp_private = replicate 33 (of_nat n)\<rparr>, n + 1))"
  "pw_registration_id plain_world = (\<lambda>n. (1, n))"
  "pw_sign plain_world = (\<lambda>n k m. (Ok [1], n))"
  "pw_kyber_pre_key plain_world = (\<lambda>n i k. (Ok \<lparr>sk_id = i, sk_pair = \<lparr>kp_public = [9], kp_private = [9]\<rparr>, sk_signature = [1]\<rparr>, n))"
  "pw_bundle_error plain_world = (\<lambda>_. None)"
  "pw_identity_error plain_world = (\<lambda>_. None)"
  "pw_public_error plain_world = (\<lambda>_. None)"
  "pw_kem_error plain_world = (\<lambda>_. None)"
  "pw_keypair_blob plain_world = kp_public"
  "pw_keypair_parse plain_world = (\<lambda>b. Ok \<lparr>kp_public = b, kp_private = b\<rparr>)"
  "pw_pre_key_blob plain_world = (\<lambda>_. Ok [1])"
  "pw_signed_pre_key_blob plain_world = (\<lambda>_. Ok [2])"
  "pw_kyber_blob plain_world = (\<lambda>_. Ok [3])"
  "pw_process_bundle plain_world = (\<lambda>st r b. (Ok (), st))"
  "pw_prekey_identity plain_world = (\<lambda>m. Ok (take 33 m))"
  "pw_decrypt_prekey plain_world = plain_decrypt"
  "pw_host_service plain_world = (\<lambda>n svc restricted. (Ok (replicate 56 CHR ''a''), n))"
  "pw_host_service_with_auth plain_world = (\<lambda>n svc auth. (Ok (replicate 56 CHR ''a''), n))"
  "pw_remove_service plain_world = (\<lambda>n svc. (Ok (), n))"
  "pw_install_client_auth plain_world = (\<lambda>n onion key. (Ok (), n))"
  "pw_verify plain_world = (\<lambda>k m sg. True)"
  "pw_sha256 plain_world = (\<lambda>_. replicate 32 0)"
  by (simp_all add: plain_world_def)

lemma delete_rows_remove: "delete_rows ns (filter (\<lambda>r. fst r \<noteq> (ns, k)) rows) = delete_rows ns rows"
  unfolding delete_rows_def by (induction rows) auto

lemma plain_world_ok: "world_ok plain_world" "library_confined plain_world" "failed_decrypt_keeps plain_world"
  "decrypt_confined plain_world"
  by (auto simp: world_ok_def keys_ok_def library_confined_def failed_decrypt_keeps_def decrypt_confined_def
      plain_decrypt_def remove_pre_key_def delete_namespace_def delete_rows_remove plain_world_def
      field_ok_def limit_defs split: if_splits)

lemma plain_answers: "plaintext \<noteq> [] \<Longrightarrow> answers plain_world r pl (replicate 33 n @ plaintext) plaintext"
  by (auto simp: answers_def holds_persona_def plain_decrypt_def)

lemma trim_start_none: "find (\<lambda>w. take (length w) bs = w) ws = None \<Longrightarrow> trim_start n ws bs = bs"
  by (cases n) simp_all

lemma trim_letters: "trim (replicate (Suc n) 0x61) = replicate (Suc n) 0x61"
proof -
  have "find (\<lambda>w. take (length w) (replicate (Suc n) 0x61) = w) white_space = None"
    unfolding find_None_iff white_space_def by auto
  moreover have "find (\<lambda>w. take (length w) (replicate (Suc n) 0x61) = w) (map rev white_space) = None"
    unfolding find_None_iff white_space_def by (cases n) auto
  ultimately show ?thesis
    unfolding trim_def Let_def by (simp only: trim_start_none rev_replicate)
qed

lemma plain_host: "raw_from_hostname (pw_sha3 plain_world) (pw_unb32 plain_world) (replicate 56 CHR ''a'') =
    Ok (replicate 34 0 @ [3])"
proof -
  have letter: "char_of (97 :: nat) = CHR ''a''" by code_simp
  have "text_of (trim (byte_str (replicate 56 CHR ''a''))) = replicate 56 CHR ''a''"
    using trim_letters [of 55] letter by (simp add: byte_str_def text_of_def)
  then have "bare_hostname (replicate 56 CHR ''a'') = replicate 56 CHR ''a''"
    unfolding bare_hostname_def by (simp add: ascii_lower_def trim_onion.simps) (simp add: numeral_eq_Suc)
  then show ?thesis
    by (simp add: raw_from_hostname_def pubkey_from_hostname_def rbind_def base32_decode_def limit_defs
        plain_world_def ONION_VERSION_def onion_checksum_def nth_append) (simp add: numeral_eq_Suc)
qed

lemma plain_auth: "decode_client_auth_key plain_world (base32_lower (pw_b32 plain_world) (replicate 32 n)) = Ok (replicate 32 0)"
  by (simp add: decode_client_auth_key_def base32_lower_def base32_decode_def plain_world_def rbind_def)

definition plain_persona :: "nat \<Rightarrow> persona" where
  "plain_persona n =
     \<lparr>pe_identity = \<lparr>kp_public = replicate 33 (of_nat n), kp_private = replicate 33 (of_nat n)\<rparr>,
      pe_registration_id = 1,
      pe_signed_pre_key = \<lparr>sk_id = SIGNED_PREKEY_ID,
        sk_pair = \<lparr>kp_public = replicate 33 (of_nat (n + 1)), kp_private = replicate 33 (of_nat (n + 1))\<rparr>,
        sk_signature = [1]\<rparr>,
      pe_kyber_pre_key = \<lparr>sk_id = KYBER_PREKEY_ID, sk_pair = \<lparr>kp_public = [9], kp_private = [9]\<rparr>, sk_signature = [1]\<rparr>,
      pe_one_time_pre_key = (ONE_TIME_PREKEY_ID,
        \<lparr>kp_public = replicate 33 (of_nat (n + 2)), kp_private = replicate 33 (of_nat (n + 2))\<rparr>)\<rparr>"

definition plain_payload :: "nat \<Rightarrow> bytes \<Rightarrow> u64 \<Rightarrow> pairing_payload" where
  "plain_payload n nonce e =
     (from_bundle (bundle_of (plain_persona n)) (replicate 34 0 @ [3]) (replicate 32 0) nonce e)\<lparr>pp_signature := [1]\<rparr>"

definition plain_auth_keys :: "nat \<Rightarrow> client_auth_keys" where
  "plain_auth_keys n = \<lparr>ca_public_b32 = base32_lower (pw_b32 plain_world) (replicate 32 (of_nat n)),
     ca_private_b32 = base32_lower (pw_b32 plain_world) (replicate 32 (of_nat n))\<rparr>"

lemma plain_parts [simp]:
  "kp_public (pe_identity (plain_persona n)) = replicate 33 (of_nat n)"
  "ca_private_b32 (plain_auth_keys n) = base32_lower (pw_b32 plain_world) (replicate 32 (of_nat n))"
  "pp_identity_key (plain_payload n nonce e) = replicate 33 (of_nat n)"
  "pp_nonce (plain_payload n nonce e) = nonce"
  "pp_client_auth_public (plain_payload n nonce e) = replicate 32 0"
  by (simp_all add: plain_persona_def plain_auth_keys_def plain_payload_def from_bundle_def bundle_of_def)

lemmas action_eval = sbind_def sret_def slift_def sget_def smodify_def sthrow_def p_ext_def p_transport_def
  p_malformed_def p_keys_def p_library_def sattempt_def

lemma plain_generate:
  "generate_persona plain_world s = (Ok (plain_persona (ps_ext s)), s\<lparr>ps_ext := ps_ext s + 3\<rparr>)"
  by (simp add: generate_persona_def action_eval plain_world_def plain_persona_def numeral_3_eq_3)

lemma plain_client_auth:
  "ClientAuthKeys_generate plain_world s = (Ok (plain_auth_keys (ps_ext s)), s\<lparr>ps_ext := ps_ext s + 1\<rparr>)"
  by (simp add: ClientAuthKeys_generate_def action_eval plain_auth_keys_def)

lemma plain_make:
  "make_payload plain_world (plain_persona n) (replicate 56 CHR ''a'') (plain_auth_keys k) nonce e s =
     (Ok (plain_payload n nonce e), s)"
  using plain_host plain_auth [of "of_nat k"]
  by (simp add: make_payload_def persona_bundle_def sign_payload_def action_eval plain_auth_keys_def
      plain_payload_def)

lemma plain_payload_wf: "length nonce = 32 \<Longrightarrow> PairingPayload_wf (plain_payload n nonce e)"
  by (simp add: plain_payload_def from_bundle_def bundle_of_def plain_persona_def PairingPayload_wf_def
      pre_key_ok_def field_ok_def limit_defs)

definition plain_tables :: "string \<Rightarrow> nat \<Rightarrow> signal_tables" where
  "plain_tables ns n =
     \<lparr>sg_locals = [((ns, ()), \<lparr>lo_registration_id = 1, lo_keypair = replicate 33 (of_nat n)\<rparr>)],
      sg_identities = [], sg_sessions = [], sg_prekeys = [((ns, ONE_TIME_PREKEY_ID), [1])],
      sg_signed_prekeys = [((ns, SIGNED_PREKEY_ID), [2])],
      sg_kyber_prekeys = [((ns, KYBER_PREKEY_ID), \<lparr>ky_record = [3], ky_used_with = None\<rparr>)]\<rparr>"

lemma plain_store:
  "ps_signal s = no_signal_tables \<Longrightarrow>
   store_persona plain_world ns (plain_persona n) s = (Ok (), s\<lparr>ps_signal := plain_tables ns n\<rparr>)"
  by (simp add: store_persona_def action_eval create_local_def save_pre_key_def save_signed_pre_key_def
      save_kyber_pre_key_def put_row_def rbind_def no_signal_tables_def plain_tables_def plain_persona_def)

text \<open>The offer of a new device, and another new device that accepts it.\<close>

definition plain_offer :: offer where
  "plain_offer =
     (let qr = PairingPayload_encode (plain_payload 0 (replicate 32 4) 1300) in
      \<lparr>of_qr_bytes = qr, of_code = encode_code (pw_b58 plain_world) qr, of_onion = replicate 56 CHR ''a'',
       of_expires_at = 1300, of_service_id = hex_encode (replicate 33 0)\<rparr>)"

definition plain_pending :: pending_row where
  "plain_pending = \<lparr>pn_service_id = of_service_id plain_offer, pn_onion = of_onion plain_offer,
     pn_qr_bytes = of_qr_bytes plain_offer,
     pn_client_auth_private = base32_lower (pw_b32 plain_world) (replicate 32 3), pn_expires_at = 1300\<rparr>"

definition offering :: "nat pairing_state" where
  "offering = (new_device 0)\<lparr>ps_signal := plain_tables PENDING_NAMESPACE 0, ps_offer := Some plain_pending, ps_ext := 5\<rparr>"

lemma plain_offering: "offer_pairing plain_world 1000 (new_device 0) = (Ok plain_offer, offering)"
  by (simp add: offer_pairing_def sweep_offer_def clear_pending_def Let_def action_eval plain_generate
      plain_client_auth plain_make plain_store plain_host insert_pending_def new_device_def OFFER_TTL_SECONDS_def
      plain_offer_def plain_pending_def offering_def service_id_for_def)

definition plain_rel_id :: string where
  "plain_rel_id = hex_encode (replicate 32 0)"

definition plain_accepted :: accepted where
  "plain_accepted =
     \<lparr>ac_rel_id = plain_rel_id,
      ac_sas = sas (\<lambda>_. replicate 32 0) (replicate 33 10) (replicate 32 14) (replicate 33 0) (replicate 32 4),
      ac_peer_onion = hostname_from_pubkey (pw_sha3 plain_world) (pw_b32 plain_world) (replicate 32 0) @ ''.onion'',
      ac_onion = replicate 56 CHR ''a''\<rparr>"

definition plain_row :: rel_row where
  "plain_row =
     new_relationship ROLE_ACCEPTER STATE_ACTIVE (hex_encode (replicate 33 10)) (replicate 56 CHR ''a'')
       (ac_peer_onion plain_accepted) (replicate 33 0) (base32_lower (pw_b32 plain_world) (replicate 32 0))
       (base32_lower (pw_b32 plain_world) (replicate 32 13)) (replicate 32 14) (replicate 32 4)
       (PairingPayload_encode (plain_payload 10 (replicate 32 14) 1310)) True 1010"

definition accepting :: "nat pairing_state" where
  "accepting = (new_device 10)\<lparr>ps_db := empty_db\<lparr>db_rels := [(plain_rel_id, plain_row)]\<rparr>,
     ps_signal := plain_tables plain_rel_id 10, ps_ext := 15\<rparr>"

lemma plain_verify: "e \<longrightarrow> now \<le> x \<Longrightarrow> verify_payload plain_world now e (plain_payload n nonce x) = Ok ()"
  "onion_of_payload plain_world (plain_payload n nonce x) =
     Ok (hostname_from_pubkey (pw_sha3 plain_world) (pw_b32 plain_world) (replicate 32 0) @ ''.onion'')"
proof -
  have h: "hostname_from_raw (pw_sha3 plain_world) (pw_b32 plain_world) (replicate 34 0 @ [3]) =
      Ok (hostname_from_pubkey (pw_sha3 plain_world) (pw_b32 plain_world) (replicate 32 0))"
    by (simp add: hostname_from_raw_def nth_append ONION_VERSION_def onion_checksum_def plain_world_def)
      (simp add: numeral_eq_Suc)
  have o: "pp_onion (plain_payload n nonce x) = replicate 34 0 @ [3]" "pp_expires_at (plain_payload n nonce x) = x"
    by (simp_all add: plain_payload_def from_bundle_def)
  show "verify_payload plain_world now e (plain_payload n nonce x) = Ok ()" if "e \<longrightarrow> now \<le> x"
    using that by (auto simp: verify_payload_def PairingPayload_verify_def h o)
  show "onion_of_payload plain_world (plain_payload n nonce x) =
     Ok (hostname_from_pubkey (pw_sha3 plain_world) (pw_b32 plain_world) (replicate 32 0) @ ''.onion'')"
    by (simp add: onion_of_payload_def h o)
qed

lemma plain_decode: "length nonce = 32 \<Longrightarrow>
    PairingPayload_decode (PairingPayload_encode (plain_payload n nonce e)) = Ok (plain_payload n nonce e)"
  by (intro decode_encode_payload plain_payload_wf)

lemma plain_bundle: "\<exists>b. to_bundle plain_world p = Ok b"
  by (auto simp: to_bundle_def rbind_def Let_def split: option.splits)

lemma plain_accepting: "accept plain_world (of_qr_bytes plain_offer) 1010 (new_device 10) = (Ok plain_accepted, accepting)"
proof -
  obtain b where "to_bundle plain_world (plain_payload 0 (replicate 32 4) 1300) = Ok b"
    using plain_bundle by blast
  then show ?thesis
    by (simp add: accept_def accept_inner_def Let_def action_eval plain_offer_def plain_decode plain_verify own_offer_def
        new_device_def plain_generate plain_client_auth rel_of_def empty_db_def process_bundle_def plain_make plain_store
        insert_relationship_def limit_defs OFFER_TTL_SECONDS_def relationship_id_def split_def
        plain_accepted_def accepting_def plain_rel_id_def plain_row_def service_id_for_def)
qed

lemma plain_fresh: "ns' \<noteq> ns \<Longrightarrow> fresh_namespace ns' (plain_tables ns n)"
  by (simp add: fresh_namespace_def fresh_rows_def plain_tables_def)

lemma plain_rel_fresh: "fresh_namespace plain_rel_id (plain_tables PENDING_NAMESPACE n)"
  by (intro plain_fresh) (simp add: plain_rel_id_def hex_not_pending)

lemma plain_identity:
  "ps_signal s = plain_tables PENDING_NAMESPACE 0 \<Longrightarrow>
   our_identity_key plain_world PENDING_NAMESPACE s = (Ok (replicate 33 0), s)"
  by (simp add: our_identity_key_def plain_tables_def)

text \<open>The record with the accepter's first message.\<close>

definition intro_frame :: "bytes \<Rightarrow> bytes" where
  "intro_frame plaintext = TAG_PREKEY # replicate 33 10 @ plaintext"

lemma intro_record:
  assumes "length plaintext \<le> 100"
  obtains rec where "parse_record rec = Ok (intro_frame plaintext)"
proof -
  have "bucket_for (length (intro_frame plaintext)) \<noteq> None"
    using assms by (simp add: bucket_for_None intro_frame_def)
  then obtain rec where "build_record (\<lambda>_. 0) (intro_frame plaintext) = Ok rec"
    by (auto simp: build_record_Ok)
  with parse_build_record that show ?thesis by blast
qed

lemma plain_prekey: "parse_prekey_frame plain_world (intro_frame plaintext) =
    Ok (replicate 33 10 @ plaintext, replicate 33 10)"
  by (simp add: parse_prekey_frame_def parse_frame_def intro_frame_def rbind_def)

definition plain_intro :: bytes where
  "plain_intro = PairingPayload_encode (plain_payload 10 (replicate 32 14) 1310)"

lemma plain_read_intro:
  "parse_record rec = Ok (intro_frame plaintext) \<Longrightarrow>
   read_intro plain_world now (Some plain_intro) rec =
     Some (plain_payload 10 (replicate 32 14) 1310, replicate 33 10 @ plaintext)"
  by (simp add: read_intro_def plain_intro_def plain_decode plain_verify plain_prekey rbind_def)

theorem pairing_agrees_witness:
  "offer_pairing plain_world 1000 (new_device 0) = (Ok plain_offer, offering) \<and>
   accept plain_world (of_qr_bytes plain_offer) 1010 (new_device 10) = (Ok plain_accepted, accepting) \<and>
   (\<exists>rec s'. ingest_frame plain_world (of_service_id plain_offer) (Some plain_intro) rec 1020 offering =
      (Ok (RequestReceived plain_rel_id (ac_sas plain_accepted) [7]), s') \<and> ps_offer s' = None)"
proof -
  obtain rec where rec: "parse_record rec = Ok (intro_frame [7])" by (rule intro_record [of "[7]"]) simp_all
  have row: "rel_of (ac_rel_id plain_accepted) (ps_db accepting) = Some plain_row"
    by (simp add: accepting_def plain_accepted_def rel_of_def)
  have qr: "rel_our_qr_bytes plain_row = plain_intro" by (simp add: plain_row_def new_relationship_def plain_intro_def)
  have none: "no_stray_persona (new_device 0)"
    by (simp add: no_stray_persona_def new_device_def no_signal_tables_def fresh_namespace_def fresh_rows_def)
  have intro: "PairingPayload_decode (rel_our_qr_bytes plain_row) = Ok (plain_payload 10 (replicate 32 14) 1310)"
    by (simp add: qr plain_intro_def plain_decode)
  have prekey: "parse_prekey_frame plain_world (intro_frame [7]) =
      Ok (replicate 33 10 @ [7], pp_identity_key (plain_payload 10 (replicate 32 14) 1310))"
    by (simp add: plain_prekey)
  have ne: "pp_identity_key (plain_payload 10 (replicate 32 14) 1310) \<noteq> rel_peer_identity_key plain_row"
    by (simp add: plain_row_def new_relationship_def)
  have inv: "PairingPayload_decode (of_qr_bytes plain_offer) = Ok (plain_payload 0 (replicate 32 4) 1300)"
    by (simp add: plain_offer_def Let_def plain_decode)
  have fresh: "fresh_namespace (ac_rel_id plain_accepted) (ps_signal offering)"
    by (simp add: offering_def plain_accepted_def plain_rel_fresh)
  have db: "setting (key_intro_at (of_service_id plain_offer)) (ps_db offering) = None" "(1::u64) \<le> 1020"
      "length (db_rels (ps_db offering)) < MAX_RELATIONSHIPS"
      "\<not> request_bucket_full (ac_rel_id plain_accepted) (ps_db offering)"
      "rel_of (ac_rel_id plain_accepted) (ps_db offering) = None"
    by (simp_all add: offering_def new_device_def empty_db_def setting_def rel_of_def request_bucket_full_def limit_defs)
  have "[7 :: u8] \<noteq> []" by simp
  from pairing_agrees [OF plain_world_ok(1) none plain_offering plain_accepting row intro rec prekey ne inv
      plain_answers [OF this] db fresh]
  show ?thesis using plain_offering plain_accepting by (auto simp: qr plain_accepted_def)
qed

text \<open>A device with 1024 contacts, and the offering device with as many, each with its persona.\<close>

definition contacts :: "(string \<times> rel_row) list" where
  "contacts = map (\<lambda>n. (replicate n CHR ''x'', plain_row)) [0..<1024]"

definition personas :: "(unit, local_row) key_table" where
  "personas = map (\<lambda>n. ((replicate n CHR ''x'', ()), \<lparr>lo_registration_id = 1, lo_keypair = [of_nat n]\<rparr>)) [0..<1024]"

definition full_device :: "nat pairing_state" where
  "full_device = (new_device 10)\<lparr>ps_db := empty_db\<lparr>db_rels := contacts\<rparr>,
     ps_signal := no_signal_tables\<lparr>sg_locals := personas\<rparr>\<rparr>"

definition crowded :: "nat pairing_state" where
  "crowded = offering\<lparr>ps_db := empty_db\<lparr>db_rels := contacts\<rparr>,
     ps_signal := (plain_tables PENDING_NAMESPACE 0)\<lparr>sg_locals := sg_locals (plain_tables PENDING_NAMESPACE 0) @ personas\<rparr>\<rparr>"

lemma not_contact: "plain_rel_id \<noteq> replicate n CHR ''x''"
proof
  assume "plain_rel_id = replicate n CHR ''x''"
  moreover have "CHR ''0'' \<in> set plain_rel_id" by code_simp
  ultimately have "CHR ''0'' \<in> set (replicate n CHR ''x'')" by metis
  then show False by simp
qed

lemma contacts_tables:
  "length contacts = 1024" "map_of contacts plain_rel_id = None" "map_of personas (plain_rel_id, ()) = None"
  "fresh_rows plain_rel_id personas"
  using not_contact not_contact [symmetric] by (auto simp: contacts_def personas_def map_of_eq_None_iff fresh_rows_def list_all_iff)

lemma full_device_fails:
  "\<exists>s'. accept plain_world (of_qr_bytes plain_offer) 1010 full_device =
     (Err (CapReached (''relationships ('' @ show_nat MAX_RELATIONSHIPS @ '')'')), s')"
proof -
  obtain b where "to_bundle plain_world (plain_payload 0 (replicate 32 4) 1300) = Ok b"
    using plain_bundle by blast
  moreover have "store_persona plain_world plain_rel_id (plain_persona 10) s =
      (Ok (), s\<lparr>ps_signal := (plain_tables plain_rel_id 10)\<lparr>sg_locals := personas @ sg_locals (plain_tables plain_rel_id 10)\<rparr>\<rparr>)"
    if "ps_signal s = no_signal_tables\<lparr>sg_locals := personas\<rparr>" for s
    using that contacts_tables(3)
    by (simp add: store_persona_def action_eval create_local_def save_pre_key_def save_signed_pre_key_def
        save_kyber_pre_key_def put_row_def rbind_def no_signal_tables_def plain_tables_def plain_persona_def)
  ultimately show ?thesis
    using contacts_tables(1,2)
    by (simp add: accept_def accept_inner_def Let_def action_eval plain_offer_def plain_decode plain_verify own_offer_def
        full_device_def new_device_def plain_generate plain_client_auth rel_of_def empty_db_def process_bundle_def
        plain_make insert_relationship_def limit_defs OFFER_TTL_SECONDS_def relationship_id_def split_def
        plain_rel_id_def [symmetric])
qed

theorem accept_fails_closed_witness:
  "\<exists>msg s'. accept plain_world (of_qr_bytes plain_offer) 1010 full_device = (Err (CapReached msg), s') \<and>
     ps_db s' = ps_db full_device \<and> ps_offer s' = None \<and> sg_prekeys (ps_signal s') = []"
proof -
  obtain msg s' where run: "accept plain_world (of_qr_bytes plain_offer) 1010 full_device = (Err (CapReached msg), s')"
    using full_device_fails by blast
  have "sg_prekeys (ps_signal full_device) = []" "ps_offer full_device = None"
    by (simp_all add: full_device_def no_signal_tables_def new_device_def)
  then show ?thesis
    using accept_fails_closed [OF plain_world_ok(2) run] run by (auto simp: delete_namespace_def delete_rows_def)
qed

theorem dropped_intro_harmless_witness:
  "\<exists>rec s'. ingest_frame plain_world (of_service_id plain_offer) (Some plain_intro) rec 1020 offering =
      (Ok IngestDropped, s') \<and> ps_signal s' = plain_tables PENDING_NAMESPACE 0 \<and> ps_offer s' = Some plain_pending"
proof -
  obtain rec where rec: "parse_record rec = Ok (intro_frame [])" by (rule intro_record [of "[]"]) simp_all
  have o: "ps_offer offering = Some plain_pending" "ps_signal offering = plain_tables PENDING_NAMESPACE 0"
    by (simp_all add: offering_def)
  have svc: "pn_service_id plain_pending = of_service_id plain_offer" by (simp add: plain_pending_def)
  define s1 where "s1 = offering\<lparr>ps_db := set_setting (key_intro_at (of_service_id plain_offer)) (be64 1020) (ps_db offering)\<rparr>"
  have th: "intro_throttled (pn_service_id plain_pending) 1020 offering = (Ok False, s1)"
    using first_intro [of "of_service_id plain_offer" offering 1020]
    by (simp add: s1_def svc offering_def new_device_def empty_db_def setting_def)
  have s1: "ps_signal s1 = plain_tables PENDING_NAMESPACE 0" by (simp add: s1_def o)
  obtain r t where ret: "migrate_namespace plain_rel_id PENDING_NAMESPACE
      (rename_namespace PENDING_NAMESPACE plain_rel_id (plain_tables PENDING_NAMESPACE 0)) = (r, t)"
    by fastforce
  have "ingest_intro plain_world plain_pending (Some plain_intro) rec 1020 offering =
      decrypt_intro plain_world plain_pending 1020 plain_rel_id (replicate 33 0)
        (plain_payload 10 (replicate 32 14) 1310) (replicate 33 10 @ []) s1"
    by (rule ingest_intro_step [OF plain_read_intro [OF rec] plain_identity [OF o(2)] _ th])
      (simp_all add: plain_rel_id_def relationship_id_def split_def request_bucket_full_def s1_def
        offering_def new_device_def empty_db_def set_setting_def limit_defs)
  also obtain s' where "\<dots> = (Ok IngestDropped, s')"
    using migrate_namespace_fresh [OF plain_rel_fresh, of PENDING_NAMESPACE 0]
    by (simp add: decrypt_intro_def action_eval p_migrate_def s1 ret plain_decrypt_def)
  finally have run: "ingest_frame plain_world (pn_service_id plain_pending) (Some plain_intro) rec 1020 offering =
      (Ok IngestDropped, s')"
    by (simp add: ingest_frame_def action_eval o)
  have "namespaces_ok offering"
    by (simp add: namespaces_ok_def o plain_fresh) (simp add: offering_def new_device_def empty_db_def rel_of_def)
  from dropped_intro_harmless [OF plain_world_ok(3) this o(1) run] run show ?thesis by (auto simp: o svc)
qed

theorem full_list_spoils_offer_witness:
  "\<exists>rec msg s' s2. ingest_frame plain_world (of_service_id plain_offer) (Some plain_intro) rec 1020 crowded =
      (Err (CapReached msg), s') \<and>
      s2 = s'\<lparr>ps_db := empty_db, ps_signal := delete_namespace ''x'' (ps_signal s'), ps_ext := ps_ext s'\<rparr> \<and>
      ingest_frame plain_world (of_service_id plain_offer) (Some plain_intro) rec 2000 s2 = (Err (PairingSqlite NoRows), s2)"
proof -
  obtain rec where rec: "parse_record rec = Ok (intro_frame [7])" by (rule intro_record [of "[7]"]) simp_all
  let ?pl = "plain_payload 10 (replicate 32 14) 1310" and ?body = "replicate 33 10 @ [7 :: u8]"
  have o: "ps_offer crowded = Some plain_pending" "MAX_RELATIONSHIPS \<le> length (db_rels (ps_db crowded))"
    using contacts_tables(1) by (simp_all add: offering_def crowded_def limit_defs)
  have svc: "pn_service_id plain_pending = of_service_id plain_offer" by (simp add: plain_pending_def)
  have ik: "our_identity_key plain_world PENDING_NAMESPACE crowded = (Ok (replicate 33 0), crowded)"
    by (simp add: our_identity_key_def crowded_def plain_tables_def)
  define s1 where "s1 = crowded\<lparr>ps_db := set_setting (key_intro_at (of_service_id plain_offer)) (be64 1020) (ps_db crowded)\<rparr>"
  have th: "intro_throttled (pn_service_id plain_pending) 1020 crowded = (Ok False, s1)"
    using first_intro [of "of_service_id plain_offer" crowded 1020]
    by (simp add: s1_def svc crowded_def offering_def new_device_def empty_db_def setting_def)
  have "rel_state plain_row \<noteq> STATE_REQUEST"
    by (simp add: plain_row_def new_relationship_def STATE_ACTIVE_def STATE_REQUEST_def)
  then have room: "\<not> request_bucket_full plain_rel_id (ps_db crowded)"
    by (simp add: request_bucket_full_def crowded_def contacts_def filter_map o_def limit_defs)
  have ours: "PairingPayload_decode (pn_qr_bytes plain_pending) = Ok (plain_payload 0 (replicate 32 4) 1300)"
    by (simp add: plain_pending_def plain_offer_def Let_def plain_decode)
  have id: "pp_identity_key ?pl \<noteq> replicate 33 0"
    "plain_rel_id = hex_encode (relationship_id (pw_sha256 plain_world) (replicate 33 0) (pp_identity_key ?pl))"
    by (simp_all add: plain_rel_id_def relationship_id_def split_def)
  have fresh: "fresh_namespace plain_rel_id (ps_signal crowded)"
    using contacts_tables(4) plain_rel_fresh [of 0]
    by (simp add: crowded_def fresh_namespace_def) (simp add: fresh_rows_def)
  have pending: "plain_rel_id \<noteq> PENDING_NAMESPACE" by (simp add: plain_rel_id_def hex_not_pending)
  let ?t = "rename_namespace PENDING_NAMESPACE plain_rel_id (ps_signal crowded)"
  have rows: "map_of (sg_locals ?t) (plain_rel_id, ()) \<noteq> None" "map_of (sg_prekeys ?t) (plain_rel_id, ONE_TIME_PREKEY_ID) \<noteq> None"
    using fresh pending
    by (simp_all add: rename_namespace_def fresh_namespace_def map_of_rename) (simp_all add: crowded_def plain_tables_def)
  obtain t x where dec: "pw_decrypt_prekey plain_world (?t, ps_ext crowded) plain_rel_id ?body = (Ok [7], t, x)"
    using rows by (simp add: plain_decrypt_def)
  from full_list_spoils_offer [OF plain_world_ok(2,4) o plain_read_intro [OF rec] ik id(1) th id(2) room fresh dec ours]
  obtain msg s' where run: "ingest_frame plain_world (pn_service_id plain_pending) (Some plain_intro) rec 1020 crowded =
      (Err (CapReached msg), s')"
    and later: "\<And>s2 now2 intro2 rec2. (meanwhile plain_world plain_pending)\<^sup>*\<^sup>* s' s2 \<Longrightarrow>
       ingest_frame plain_world (pn_service_id plain_pending) intro2 rec2 now2 s2 =
         (if read_intro plain_world now2 intro2 rec2 = None then Ok IngestDropped else Err (PairingSqlite NoRows), s2)"
    by blast
  let ?s2 = "s'\<lparr>ps_db := empty_db, ps_signal := delete_namespace ''x'' (ps_signal s'), ps_ext := ps_ext s'\<rparr>"
  have "meanwhile plain_world plain_pending s' ?s2"
    by (rule mw_relationship [of "''x''"]) (simp_all add: PENDING_NAMESPACE_def delete_namespace_def delete_rows_def)
  from later [OF r_into_rtranclp, OF this, of "Some plain_intro" rec 2000]
  have "ingest_frame plain_world (of_service_id plain_offer) (Some plain_intro) rec 2000 ?s2 = (Err (PairingSqlite NoRows), ?s2)"
    using plain_read_intro [OF rec] by (simp add: svc)
  with run show ?thesis unfolding svc by blast
qed

end
