(* ===== verification/Spec2Isabelle.thy ===== *)
theory Spec2Isabelle
  imports Frame Rate_Limit Policy_Protocol Resync_Protocol Attach_Transfer Sticker_Exchange Engine_Once Seen_Ring Pairing_Ceremony
begin

text \<open>
  A verification library of the core of the messenger: the crates \<^verbatim>\<open>crates/wire-types\<close>
  and \<^verbatim>\<open>crates/core\<close>.

  \<^bold>\<open>The program.\<close> Two devices exchange typed envelopes. A send gates the envelope, takes the
  next outbound sequence number, encodes and encrypts it, writes it to the message ledger and
  to the outbox and tries the transport once; a drain loop retries what stayed queued. The
  receiving side decrypts, decodes and gates, notes the sequence number in its log of received
  numbers, stores the row and calls the handler of the type. A hole in the received numbers
  makes the receiver ask for a resync: it sends its horizon and a bitmap, and the sender
  acknowledges what they cover and retransmits the rest. On these envelopes run chat rules that
  both sides negotiate, chunked attachments, sticker packs, profiles, presence, typing, read
  receipts, edits, deletes and the closing of a contact. A contact begins with a pairing: one side
  shows a signed invitation, the other accepts it and sends its first message with an invitation
  of its own, and both compare a safety code.

  \<^bold>\<open>How it is modelled.\<close> Structs are records, enums datatypes, machine integers words of their
  width, byte strings lists of 8-bit words and text its UTF-8 bytes. A fallible function returns
  a sum whose left side is the error of the source. Every SQL table is a list of rows in
  insertion order inside the record \<open>db\<close>, and a statement is the list function it computes. A
  method that changes state is an action, a function from the state to a result and the new
  state; the writes done before an error stay, as in the code, which opens no transaction. The
  code outside the sources (libsignal, SHA-256, SHA3-256, signatures, Unicode normalisation, the
  random source, the Tor transport, the image library) is a parameter, collected for the
  engine in the record \<open>world\<close>. The clock is a field that stands still during one operation.

  \<^bold>\<open>The wire types\<close> (\<^verbatim>\<open>crates/wire-types/src\<close>).
  \<^item> \<open>Prelude\<close>: words, big-endian numbers, UTF-8, results; the lemma collections.
  \<^item> \<open>Wire_Bin\<close>: the cursors of \<^verbatim>\<open>bin.rs\<close>, with evaluation rules for reading and writing.
  \<^item> \<open>Wire_Limits\<close>, \<open>Wire_Text\<close>: the limits, and what the standard library prints.
  \<^item> \<open>Wire_Payload\<close>: the contract of a payload codec as the locales \<open>wire_payload\<close> (what is
    encoded is read back, what is read is well-formed) and \<open>canonical_payload\<close> (what is read
    encodes to the bytes it came from). Every payload type below interprets one of them.
  \<^item> \<open>Wire_Basic\<close>: the small payloads, capabilities, resync requests and the history hash.
  \<^item> \<open>Wire_Attach\<close>, \<open>Wire_Sticker\<close>, \<open>Wire_Pack\<close>: attachment heads and chunks, sticker items and
    control messages, signed pack and thumbnail documents with the partial scan.
  \<^item> \<open>Wire_Envelope\<close>: the typed envelope; the round trip and its converse.

  \<^bold>\<open>The components\<close> (\<^verbatim>\<open>crates/core/src\<close>).
  \<^item> \<open>Core_Limits\<close>, \<open>Frame\<close>: records padded to buckets (\<^verbatim>\<open>wire/frame.rs\<close>) and the framing of a
    byte stream (\<^verbatim>\<open>transport/framing.rs\<close>), each inverse to its reader.
  \<^item> \<open>Rate_Limit\<close>: the token buckets of \<^verbatim>\<open>ratelimit.rs\<close>; peers do not share a bucket.
  \<^item> \<open>Seen_Ring\<close>: \<^verbatim>\<open>transport/seen.rs\<close>; the queue and hash set refine a list of the most
    recent fingerprints.
  \<^item> \<open>Policy\<close>, \<open>Policy_Protocol\<close>: the rule negotiation of \<^verbatim>\<open>policy/\<close>, its database columns, and
    two parties with messages in flight as a step relation with its invariant.
  \<^item> \<open>Store\<close>: the tables and repositories of \<^verbatim>\<open>store/\<close>; sequence numbers, the receive view.
  \<^item> \<open>Session\<close>: encryption and decryption around the ratchet, \<^verbatim>\<open>session/mod.rs\<close>: one ciphertext
    per message and one decryption per frame over every run of the session's operations, and
    refusal of both once the session is broken.
  \<^item> \<open>Sync\<close>, \<open>Receive_View\<close>, \<open>Resync_Protocol\<close>: delivery states, the outbox drain, resync
    requests and their handling (\<^verbatim>\<open>sync/\<close>); what the receive view reports, and the link of a
    sender and a receiver: what is acknowledged was received, and a resync closes the holes.
  \<^item> \<open>Messages\<close>: capability gates, edit and delete rules, presence and typing tables.
  \<^item> \<open>Engine_Types\<close>: events, errors and the actions with their rules.
  \<^item> \<open>Attach\<close>, \<open>Attach_Transfer\<close>: transfer plans and reassembly of \<^verbatim>\<open>attach/mod.rs\<close>; a whole
    transfer in any order of its chunks.
  \<^item> \<open>Stickers\<close>, \<open>Sticker_Exchange\<close>: reassembly buffers, caches, quotas, packs and inline tokens
    of \<^verbatim>\<open>stickers/\<close>, with their properties.

  \<^bold>\<open>The engine\<close> (\<^verbatim>\<open>crates/core/src/engine\<close>), which composes the components.
  \<^item> \<open>Engine\<close>: the state, the outbound gate and \<open>send_envelope\<close>.
  \<^item> \<open>Engine_Features\<close>: profiles, pack keys and documents, serving and fetching stickers,
    sending attachments, chat rules and every typed send, the activation burst.
  \<^item> \<open>Engine_Inbound\<close>: \<open>handle_plaintext\<close> with every handler, the drain, the sweep, burning and
    closing.
  \<^item> \<open>Engine_Safety\<close>, \<open>Engine_Once\<close>: a send that returns is delivered or queued; what a burn
    erases and what it leaves; an envelope is stored and handled once. The locale \<open>outbound_store\<close> lists what a
    property of the store needs so that no outbound operation breaks it, and is interpreted
    for the two properties that delivery rests on.

  \<^bold>\<open>Pairing\<close> (\<^verbatim>\<open>crates/core/src/pairing\<close>, \<^verbatim>\<open>crates/core/src/session/stores\<close>).
  \<^item> \<open>Signal_Store\<close>: the key stores that the ratchet library calls, with namespaces that are
    moved and deleted as a whole; a post-quantum pre-key serves one handshake.
  \<^item> \<open>Pairing_Code\<close>: the signed invitation, its code, onion addresses, the relationship id and the
    safety code; the codec is exact and the two derived values do not depend on the side.
  \<^item> \<open>Pairing\<close>: personas, offers, accepting, the first inbound frame, requests and the messages of
    a relationship. What the ceremony needs from outside is the record \<open>pairing_world\<close>.
  \<^item> \<open>Pairing_Ceremony\<close>: the two sides of a ceremony agree; a failed accept and a dropped intro
    leave the stores as they were; a full contact list spoils the open offer.

  \<^bold>\<open>Hypotheses on code outside the sources.\<close> They are named definitions and each is shown to hold
  of a concrete world in the witness of the theorem that uses it: signatures made with a key verify
  with it, digests and random values have their sizes (\<open>world_ok\<close>), the library's handles change
  one namespace (\<open>library_confined\<close>, \<open>decrypt_confined\<close>) and nothing when a message is refused
  (\<open>failed_decrypt_keeps\<close>), and a pre-key message decrypts where the persona it was made for has its
  records (\<open>answers\<close>).

  \<^bold>\<open>Termination and bounds.\<close> Every function is total. The loops of the sources run over lists of rows or over
  bytes that remain; trimming white space has the number of bytes as fuel, which is enough because
  each round removes one or more. The one loop over numbers, \<open>contiguous_feed\<close>, has a termination
  proof; for the largest horizon the counter overflows, which is the result \<open>None\<close>, and for every
  other it returns. Arithmetic on words wraps as in a release build, and saturating
  or checked operations are written out.

  \<^bold>\<open>Theorems that show a defect.\<close> Where the code does not do what it means to, the theorem states
  what it does: proposals that cross, a chunk before its head, the saturated receive view, a
  delete across relationships, a pack replaced by a stranger's, attachments that no sweep erases, a
  sequence number skipped by a picture, an envelope lost with the activation burst, an offer
  spoiled by a full contact list, and the rows a burn leaves.

  \<^bold>\<open>Not modelled.\<close> The sockets, files and supervision of the Tor daemon, the vault (files, key
  derivation, secure deletion), the image pipeline, the foreign function interface, the command line
  client and the test harness: they are input and output around third-party code. SQLite itself,
  its migrations and its input and output errors are not modelled either; a statement fails in the
  model only on a violated key or a missing row.
\<close>

end
